(* ===== verification/Prelude.thy ===== *)
theory Prelude
  imports Main "HOL-Library.Word"
begin

unbundle bit_operations_syntax

text \<open>
  Shared vocabulary of the development.  Machine integers keep the width the C++ sources give
  them: \<open>std::uint8_t\<close> is \<open>u8\<close>, \<open>std::uint32_t\<close> is \<open>u32\<close>, \<open>std::uint64_t\<close> is \<open>u64\<close>, and
  \<open>std::int64_t\<close> is \<open>i64\<close>, the same 64 bits read through \<^const>\<open>sint\<close>.  A \<open>float\<close> or \<open>double\<close> that
  is only stored or copied is its IEEE bit pattern (\<open>f32\<close>, \<open>f64\<close>), exactly what the \<open>memcpy\<close> in
  \<open>wire::Writer::f32\<close> sees.  A \<open>std::string\<close> is a list of 8-bit characters.

  The theory also holds the model of the two ordered containers the store is built from:
  \<open>std::map\<close> is an association list in strictly increasing key order and \<open>std::set\<close> a strictly
  increasing list, so that iterating the model visits the entries in the order the C++ loops do.
  The interface the store relies on is the locale \<open>ordered_map\<close>, interpreted on these lists.
\<close>

type_synonym u8 = "8 word"
type_synonym u16 = "16 word"
type_synonym u32 = "32 word"
type_synonym u64 = "64 word"
type_synonym i64 = "64 word"
type_synonym f32 = "32 word"
type_synonym f64 = "64 word"
type_synonym bytes = "8 word list"

named_theorems reads_intros \<open>composition rules for the decoding judgement\<close>
named_theorems good_intros \<open>composition rules for well-behaved decoders\<close>
named_theorems write_simps \<open>inversion of writer sequences\<close>
named_theorems store_simps \<open>definitions of the elementary store operations\<close>

section \<open>Ordered maps\<close>

type_synonym ('k, 'v) stdmap = "('k \<times> 'v) list"

definition smap_wf :: "('k::linorder, 'v) stdmap \<Rightarrow> bool" where
  "smap_wf m \<longleftrightarrow> sorted_wrt (<) (map fst m)"

definition smap_find :: "'k \<Rightarrow> ('k, 'v) stdmap \<Rightarrow> 'v option" where
  "smap_find k m = map_of m k"

fun smap_put :: "'k::linorder \<Rightarrow> 'v \<Rightarrow> ('k, 'v) stdmap \<Rightarrow> ('k, 'v) stdmap" where
  "smap_put k v [] = [(k, v)]"
| "smap_put k v ((k', v') # m) =
     (if k < k' then (k, v) # (k', v') # m
      else if k = k' then (k, v) # m
      else (k', v') # smap_put k v m)"

definition smap_erase :: "'k \<Rightarrow> ('k, 'v) stdmap \<Rightarrow> ('k, 'v) stdmap" where
  "smap_erase k m = filter (\<lambda>(k', _). k' \<noteq> k) m"

definition smap_keys :: "('k, 'v) stdmap \<Rightarrow> 'k list" where
  "smap_keys m = map fst m"

definition smap_values :: "('k, 'v) stdmap \<Rightarrow> 'v list" where
  "smap_values m = map snd m"

text \<open>
  What a client of \<open>std::map\<close> may rely on: lookups see exactly the last value stored under a key,
  the other keys are left alone, and iteration lists every key once in increasing order.
\<close>

locale ordered_map =
  fixes find :: "'k::linorder \<Rightarrow> 'm \<Rightarrow> 'v option"
    and put :: "'k \<Rightarrow> 'v \<Rightarrow> 'm \<Rightarrow> 'm"
    and erase :: "'k \<Rightarrow> 'm \<Rightarrow> 'm"
    and keys :: "'m \<Rightarrow> 'k list"
    and wf_map :: "'m \<Rightarrow> bool"
  assumes find_put: "find k (put k' v m) = (if k = k' then Some v else find k m)"
    and find_erase: "find k (erase k' m) = (if k = k' then None else find k m)"
    and wf_put: "wf_map m \<Longrightarrow> wf_map (put k v m)"
    and wf_erase: "wf_map m \<Longrightarrow> wf_map (erase k m)"
    and find_keys: "k \<in> set (keys m) \<longleftrightarrow> find k m \<noteq> None"
    and keys_sorted: "wf_map m \<Longrightarrow> sorted_wrt (<) (keys m)"
begin

lemma keys_put: "set (keys (put k v m)) = insert k (set (keys m))"
  by (auto simp: find_keys find_put split: if_splits)

lemma keys_erase: "set (keys (erase k m)) = set (keys m) - {k}"
  by (auto simp: find_keys find_erase split: if_splits)

lemma keys_distinct: "wf_map m \<Longrightarrow> distinct (keys m)"
  using keys_sorted strict_sorted_iff by blast

lemma keys_unique:
  assumes "wf_map m" "wf_map m'" "\<And>k. find k m = None \<longleftrightarrow> find k m' = None"
  shows "keys m = keys m'"
proof (rule strict_sorted_equal)
  show "set (keys m) = set (keys m')"
    using assms(3) by (metis find_keys subsetI subset_antisym)
qed (use assms keys_sorted in auto)

lemma keys_put_present:
  assumes "wf_map m" "find k m \<noteq> None"
  shows "keys (put k v m) = keys m"
  by (rule keys_unique) (use assms in \<open>auto simp: wf_put find_put\<close>)

end

lemma smap_find_put: "smap_find k (smap_put k' v m) = (if k = k' then Some v else smap_find k m)"
  by (induction k' v m rule: smap_put.induct) (auto simp: smap_find_def)

lemma smap_find_erase: "smap_find k (smap_erase k' m) = (if k = k' then None else smap_find k m)"
  by (induction m) (auto simp: smap_find_def smap_erase_def)

lemma smap_put_keys: "set (map fst (smap_put k v m)) = insert k (set (map fst m))"
  by (induction k v m rule: smap_put.induct) auto

lemma smap_wf_put: "smap_wf m \<Longrightarrow> smap_wf (smap_put k v m)"
proof (induction k v m rule: smap_put.induct)
  case (2 k v k' v' m)
  then show ?case
    using smap_put_keys [of k v m] by (auto simp: smap_wf_def)
qed (simp add: smap_wf_def)

lemma smap_wf_erase: "smap_wf m \<Longrightarrow> smap_wf (smap_erase k m)"
  by (induction m) (auto simp: smap_wf_def smap_erase_def)

lemma smap_find_keys: "k \<in> set (smap_keys m) \<longleftrightarrow> smap_find k m \<noteq> None"
  by (simp add: smap_keys_def smap_find_def map_of_eq_None_iff)

interpretation smap: ordered_map smap_find smap_put smap_erase smap_keys smap_wf
  by unfold_locales
    (auto simp: smap_find_put smap_find_erase smap_wf_put smap_wf_erase smap_find_keys,
     simp add: smap_wf_def smap_keys_def)

lemma smap_wf_Nil [simp]: "smap_wf []"
  by (simp add: smap_wf_def)

lemma smap_find_Nil [simp]: "smap_find k [] = None"
  by (simp add: smap_find_def)

lemma smap_find_in_set: "smap_find k m = Some v \<Longrightarrow> (k, v) \<in> set m"
  by (simp add: smap_find_def map_of_SomeD)

lemma smap_in_set_find: "smap_wf m \<Longrightarrow> (k, v) \<in> set m \<Longrightarrow> smap_find k m = Some v"
  using smap.keys_distinct [of m] by (simp add: smap_find_def smap_keys_def)

lemma smap_ext:
  assumes "smap_wf m" "smap_wf m'" "\<And>k. smap_find k m = smap_find k m'"
  shows "m = m'"
proof -
  have "smap_keys m = smap_keys m'"
    by (rule smap.keys_unique) (use assms in auto)
  then have keys: "map fst m = map fst m'" and dist: "distinct (map fst m)"
    using smap.keys_distinct assms by (auto simp: smap_keys_def)
  have "map snd m = map (\<lambda>k. the (map_of m k)) (map fst m)"
    using dist by (auto simp: map_eq_conv)
  also have "\<dots> = map (\<lambda>k. the (map_of m' k)) (map fst m')"
    using assms(3) keys by (simp add: smap_find_def)
  also have "\<dots> = map snd m'"
    using dist keys by (auto simp: map_eq_conv)
  finally show ?thesis
    using keys by (metis zip_map_fst_snd)
qed

section \<open>Ordered sets\<close>

fun sset_insert :: "'a::linorder \<Rightarrow> 'a list \<Rightarrow> 'a list" where
  "sset_insert x [] = [x]"
| "sset_insert x (y # ys) = (if x < y then x # y # ys else if x = y then y # ys else y # sset_insert x ys)"

definition sset_erase :: "'a \<Rightarrow> 'a list \<Rightarrow> 'a list" where
  "sset_erase x xs = filter (\<lambda>y. y \<noteq> x) xs"

lemma set_sset_insert [simp]: "set (sset_insert x xs) = insert x (set xs)"
  by (induction x xs rule: sset_insert.induct) auto

lemma set_sset_erase [simp]: "set (sset_erase x xs) = set xs - {x}"
  by (auto simp: sset_erase_def)

lemma sorted_sset_insert: "sorted_wrt (<) xs \<Longrightarrow> sorted_wrt (<) (sset_insert x xs)"
  by (induction x xs rule: sset_insert.induct) auto

lemma sorted_sset_erase: "sorted_wrt (<) xs \<Longrightarrow> sorted_wrt (<) (sset_erase x xs)"
  by (simp add: sset_erase_def sorted_wrt_filter)

text \<open>
  An index is a map from a key to a set (\<open>std::map<K, std::set<T>>\<close>).  \<open>idx_insert\<close> is
  \<open>idx[k].insert(x)\<close>, where \<open>operator[]\<close> creates the missing set; \<open>idx_erase_first\<close> is the loop that
  erases \<open>x\<close> from the first set that holds it and stops there.
\<close>

type_synonym ('k, 'a) index = "('k, 'a list) stdmap"

definition idx_get :: "'k \<Rightarrow> ('k, 'a) index \<Rightarrow> 'a list" where
  "idx_get k idx = (case smap_find k idx of None \<Rightarrow> [] | Some xs \<Rightarrow> xs)"

definition idx_insert :: "'k::linorder \<Rightarrow> 'a::linorder \<Rightarrow> ('k, 'a) index \<Rightarrow> ('k, 'a) index" where
  "idx_insert k x idx = smap_put k (sset_insert x (idx_get k idx)) idx"

fun idx_erase_first :: "'a \<Rightarrow> ('k, 'a) index \<Rightarrow> ('k, 'a) index" where
  "idx_erase_first x [] = []"
| "idx_erase_first x ((k, xs) # idx) =
     (if x \<in> set xs then (k, sset_erase x xs) # idx else (k, xs) # idx_erase_first x idx)"

text \<open>Where a value is filed.\<close>

definition filed :: "('k, 'a) index \<Rightarrow> 'a \<Rightarrow> 'k set" where
  "filed idx x = {k. x \<in> set (idx_get k idx)}"

lemma idx_get_insert: "set (idx_get k (idx_insert k' x idx)) =
    (if k = k' then insert x (set (idx_get k idx)) else set (idx_get k idx))"
  by (cases "k = k'") (auto simp: idx_insert_def idx_get_def smap_find_put)

lemma filed_insert: "filed (idx_insert k x idx) y = (if y = x then insert k (filed idx y) else filed idx y)"
  by (auto simp: filed_def idx_get_insert)

lemma idx_wf_insert: "smap_wf idx \<Longrightarrow> smap_wf (idx_insert k x idx)"
  by (simp add: idx_insert_def smap_wf_put)

lemma idx_erase_first_keys: "map fst (idx_erase_first x idx) = map fst idx"
  by (induction idx rule: idx_erase_first.induct) auto

lemma idx_wf_erase_first: "smap_wf idx \<Longrightarrow> smap_wf (idx_erase_first x idx)"
  by (simp add: smap_wf_def idx_erase_first_keys)

lemma idx_get_above: "smap_wf ((k, xs) # idx) \<Longrightarrow> idx_get k idx = []"
proof -
  assume "smap_wf ((k, xs) # idx)"
  then have "k \<notin> fst ` set idx"
    by (auto simp: smap_wf_def)
  then show ?thesis
    by (simp add: idx_get_def smap_find_def flip: map_of_eq_None_iff)
qed

lemma idx_get_Cons: "idx_get k' ((k, xs) # idx) = (if k' = k then xs else idx_get k' idx)"
  by (simp add: idx_get_def smap_find_def)

lemma filed_Cons: "smap_wf ((k, xs) # idx) \<Longrightarrow>
    filed ((k, xs) # idx) x = (if x \<in> set xs then {k} else {}) \<union> filed idx x"
  using idx_get_above [of k xs idx] by (auto simp: filed_def idx_get_Cons)

lemma filed_erase_first_other: "smap_wf idx \<Longrightarrow> y \<noteq> x \<Longrightarrow> filed (idx_erase_first x idx) y = filed idx y"
proof (induction x idx rule: idx_erase_first.induct)
  case (2 x k xs idx)
  then have wf: "smap_wf idx" "smap_wf ((k, zs) # idx)" "smap_wf ((k, zs) # idx_erase_first x idx)" for zs
    by (auto simp: smap_wf_def idx_erase_first_keys simp flip: set_map)
  show ?case
    using 2 wf by (simp add: filed_Cons)
qed simp

lemma filed_erase_first:
  "smap_wf idx \<Longrightarrow> filed idx x \<subseteq> {k} \<Longrightarrow> filed (idx_erase_first x idx) x = {}"
proof (induction x idx rule: idx_erase_first.induct)
  case (2 x k' xs idx)
  then have wf: "smap_wf idx" "smap_wf ((k', zs) # idx)" "smap_wf ((k', zs) # idx_erase_first x idx)" for zs
    by (auto simp: smap_wf_def idx_erase_first_keys simp flip: set_map)
  have "k' \<notin> filed idx x"
    using idx_get_above [OF 2(2)] by (simp add: filed_def)
  then show ?case
    using 2 wf by (auto simp: filed_Cons split: if_splits)
qed (simp add: filed_def idx_get_def)

section \<open>Decimal printing\<close>

text \<open>\<open>std::to_string\<close> on integers.\<close>

fun nat_to_string :: "nat \<Rightarrow> string" where
  "nat_to_string n =
     (if n < 10 then [char_of (48 + n)] else nat_to_string (n div 10) @ [char_of (48 + n mod 10)])"

declare nat_to_string.simps [simp del]

definition int_to_string :: "int \<Rightarrow> string" where
  "int_to_string i = (if i < 0 then ''-'' @ nat_to_string (nat (- i)) else nat_to_string (nat i))"

end
