(* ===== verification/Util.thy ===== *)
theory Util
  imports Prelude
begin

text \<open>
  Model of \<open>include/accelerator-health/Util.hpp\<close>: the table-driven CRC-32, the fixed-width
  little-endian stores and loads, the hexadecimal printer and the SplitMix64 generator.  A pointer
  and a length are a byte list.

  The lemmas show that the table-driven loop computes the bitwise CRC (\<open>crc32_bitwise\<close>, the reference
  definition), that every CRC register step is injective, and hence that changing any single byte of
  a buffer changes its checksum.
\<close>

section \<open>Bounds\<close>

definition kMaxCount :: nat where
  "kMaxCount = 2 ^ 20"

definition kMaxString :: nat where
  "kMaxString = 2 ^ 20"

section \<open>CRC-32\<close>

definition crc_bit :: "u32 \<Rightarrow> u32" where
  "crc_bit c = (if c AND 1 \<noteq> 0 then 0xEDB88320 XOR drop_bit 1 c else drop_bit 1 c)"

definition crc_table :: "u32 list" where
  "crc_table = map (\<lambda>i. (crc_bit ^^ 8) (of_nat i)) [0..<256]"

definition crc_step :: "u32 \<Rightarrow> u8 \<Rightarrow> u32" where
  "crc_step crc b = crc_table ! unat ((crc XOR ucast b) AND 0xFF) XOR drop_bit 8 crc"

definition crc32 :: "bytes \<Rightarrow> u32" where
  "crc32 data = foldl crc_step 0xFFFFFFFF data XOR 0xFFFFFFFF"

text \<open>The reference: eight single-bit shifts of the register for every byte, no table.\<close>

definition crc_step_ref :: "u32 \<Rightarrow> u8 \<Rightarrow> u32" where
  "crc_step_ref crc b = (crc_bit ^^ 8) (crc XOR ucast b)"

definition crc32_bitwise :: "bytes \<Rightarrow> u32" where
  "crc32_bitwise data = foldl crc_step_ref 0xFFFFFFFF data XOR 0xFFFFFFFF"

section \<open>Little-endian fixed-width values\<close>

definition store_le16 :: "u16 \<Rightarrow> bytes" where
  "store_le16 v = [ucast (v AND 0xFF), ucast (drop_bit 8 v AND 0xFF)]"

definition store_le32 :: "u32 \<Rightarrow> bytes" where
  "store_le32 v = [ucast (v AND 0xFF), ucast (drop_bit 8 v AND 0xFF),
                   ucast (drop_bit 16 v AND 0xFF), ucast (drop_bit 24 v AND 0xFF)]"

definition store_le64 :: "u64 \<Rightarrow> bytes" where
  "store_le64 v = map (\<lambda>i. ucast (drop_bit (8 * i) v AND 0xFF)) [0..<8]"

text \<open>The loads read their bytes from the front of the buffer; callers check the length first.\<close>

definition load_le16 :: "bytes \<Rightarrow> u16" where
  "load_le16 p = ucast (p ! 0) OR push_bit 8 (ucast (p ! 1))"

definition load_le32 :: "bytes \<Rightarrow> u32" where
  "load_le32 p = ucast (p ! 0) OR push_bit 8 (ucast (p ! 1)) OR
                 push_bit 16 (ucast (p ! 2)) OR push_bit 24 (ucast (p ! 3))"

definition load_le64 :: "bytes \<Rightarrow> u64" where
  "load_le64 p = foldl (\<lambda>v i. v OR push_bit (8 * i) (ucast (p ! i))) 0 [0..<8]"

section \<open>Hexadecimal printing\<close>

definition hex_digit :: "u8 \<Rightarrow> char" where
  "hex_digit b = ''0123456789abcdef'' ! unat (b AND 0x0F)"

definition to_hex :: "bytes \<Rightarrow> string" where
  "to_hex data = concat (map (\<lambda>b. [hex_digit (drop_bit 4 b), hex_digit b]) data)"

section \<open>SplitMix64\<close>

definition splitmix64_next :: "u64 \<Rightarrow> u64 \<times> u64" where
  "splitmix64_next st =
     (let st' = st + 0x9E3779B97F4A7C15;
          z = (st' XOR drop_bit 30 st') * 0xBF58476D1CE4E5B9;
          z' = (z XOR drop_bit 27 z) * 0x94D049BB133111EB
      in (z' XOR drop_bit 31 z', st'))"

section \<open>Stores and loads are inverse\<close>

lemma and_0xFF: "(v :: 'a::len word) AND 255 = take_bit 8 v"
  by (simp add: take_bit_eq_mask mask_eq_exp_minus_1)

lemma length_store_le [simp]:
  "length (store_le16 a) = 2" "length (store_le32 b) = 4" "length (store_le64 c) = 8"
  by (simp_all add: store_le16_def store_le32_def store_le64_def)

lemma load_store_le16 [simp]: "load_le16 (store_le16 v @ bs) = v"
  by (rule bit_word_eqI) (auto simp: load_le16_def store_le16_def and_0xFF bit_simps)

lemma load_store_le32 [simp]: "load_le32 (store_le32 v @ bs) = v"
proof (rule bit_word_eqI)
  fix n assume n: "n < LENGTH(32)"
  then consider "n < 8" | "8 \<le> n" "n < 16" | "16 \<le> n" "n < 24" | "24 \<le> n" "n < 32"
    by fastforce
  then show "bit (load_le32 (store_le32 v @ bs)) n = bit v n"
    by cases (auto simp: load_le32_def store_le32_def and_0xFF bit_simps)
qed

lemma bit_foldl_or:
  "bit (foldl (\<lambda>v i. v OR f i) (a :: 'a::len word) is) n \<longleftrightarrow> bit a n \<or> (\<exists>i\<in>set is. bit (f i) n)"
  by (induction "is" arbitrary: a) (auto simp: bit_or_iff)

lemma load_store_le64 [simp]: "load_le64 (store_le64 v @ bs) = v"
proof (rule bit_word_eqI)
  fix n assume n: "n < LENGTH(64)"
  have nth: "(store_le64 v @ bs) ! i = ucast (drop_bit (8 * i) v AND 0xFF)" if "i < 8" for i
    using that by (simp add: store_le64_def nth_append)
  have "bit (load_le64 (store_le64 v @ bs)) n \<longleftrightarrow>
      (\<exists>i<8. bit (push_bit (8 * i) (ucast ((store_le64 v @ bs) ! i)) :: u64) n)"
    by (auto simp: load_le64_def bit_foldl_or)
  also have "\<dots> \<longleftrightarrow> (\<exists>i<8. 8 * i \<le> n \<and> n < 8 * i + 8 \<and> bit v n)"
  proof (intro ex_cong1 conj_cong refl)
    fix i :: nat assume "i < 8"
    then show "bit (push_bit (8 * i) (ucast ((store_le64 v @ bs) ! i)) :: u64) n =
        (8 * i \<le> n \<and> n < 8 * i + 8 \<and> bit v n)"
      using n by (auto simp: nth and_0xFF bit_simps)
  qed
  also have "\<dots> \<longleftrightarrow> bit v n"
  proof -
    have "n div 8 < 8 \<and> 8 * (n div 8) \<le> n \<and> n < 8 * (n div 8) + 8"
      using n by (simp, linarith)
    then show ?thesis by blast
  qed
  finally show "bit (load_le64 (store_le64 v @ bs)) n = bit v n" .
qed

lemma xor_cancel_left [simp]: "(a :: 'a::len word) XOR b = a XOR c \<longleftrightarrow> b = c"
proof
  assume "a XOR b = a XOR c"
  then have "a XOR (a XOR b) = a XOR (a XOR c)" by simp
  then show "b = c" by (simp flip: xor.assoc)
qed simp

lemma xor_cancel_right [simp]: "(b :: 'a::len word) XOR a = c XOR a \<longleftrightarrow> b = c"
  by (metis xor.commute xor_cancel_left)

lemma ucast_up_inj: "(ucast (b :: u8) :: u32) = ucast b' \<longleftrightarrow> b = b'"
proof
  assume eq: "(ucast b :: u32) = ucast b'"
  show "b = b'"
  proof (rule bit_word_eqI)
    fix n assume "n < LENGTH(8)"
    moreover have "bit (ucast b :: u32) n = bit (ucast b' :: u32) n"
      using eq by simp
    ultimately show "bit b n = bit b' n"
      by (simp add: bit_simps)
  qed
qed simp

section \<open>The CRC register\<close>

lemma and_1_bit: "(c :: 'a::len word) AND 1 \<noteq> 0 \<longleftrightarrow> bit c 0"
  by (simp add: and_one_eq bit_0 odd_iff_mod_2_eq_one)

lemma crc_bit_eq: "crc_bit c = (if bit c 0 then 0xEDB88320 XOR drop_bit 1 c else drop_bit 1 c)"
  by (simp add: crc_bit_def and_1_bit)

lemma crc_bit_xor: "crc_bit (a XOR b) = crc_bit a XOR crc_bit b"
  by (rule bit_word_eqI) (auto simp: crc_bit_eq bit_simps)

lemma crc_bits_xor: "(crc_bit ^^ n) (a XOR b) = (crc_bit ^^ n) a XOR (crc_bit ^^ n) b"
  by (induction n) (simp_all add: crc_bit_xor)

lemma crc_bit_top: "bit (crc_bit c) 31 = bit c 0"
  using bit_imp_le_length [of c 32] by (auto simp: crc_bit_eq bit_simps)

lemma crc_bit_inj: "crc_bit a = crc_bit b \<Longrightarrow> a = b"
proof -
  assume eq: "crc_bit a = crc_bit b"
  then have low: "bit a 0 = bit b 0"
    by (metis crc_bit_top)
  with eq have "drop_bit 1 a = drop_bit 1 b"
    by (auto simp: crc_bit_eq split: if_splits)
  then have "bit a (Suc n) = bit b (Suc n)" for n
    by (metis bit_drop_bit_eq comp_apply plus_1_eq_Suc)
  with low show "a = b"
    by (metis bit_eqI not0_implies_Suc)
qed

lemma crc_bits_inj: "(crc_bit ^^ n) a = (crc_bit ^^ n) b \<Longrightarrow> a = b"
  by (induction n) (auto dest: crc_bit_inj)

lemma crc_bits_shift: "take_bit n c = 0 \<Longrightarrow> (crc_bit ^^ n) c = drop_bit n c"
proof (induction n)
  case (Suc n)
  have "take_bit n c = take_bit n (take_bit (Suc n) c)"
    by (simp add: take_bit_take_bit)
  with Suc have IH: "(crc_bit ^^ n) c = drop_bit n c"
    by simp
  have "bit (take_bit (Suc n) c) n = bit c n"
    by (simp add: bit_take_bit_iff)
  with Suc.prems have "\<not> bit c n"
    by simp
  have "(crc_bit ^^ Suc n) c = crc_bit (drop_bit n c)"
    by (simp add: IH)
  also have "\<dots> = drop_bit (Suc n) c"
    using \<open>\<not> bit c n\<close> by (simp add: crc_bit_eq bit_drop_bit_eq)
  finally show ?case .
qed simp

lemma crc_table_nth: "i < 256 \<Longrightarrow> crc_table ! i = (crc_bit ^^ 8) (of_nat i)"
  by (simp add: crc_table_def)

lemma crc_table_step: "(crc_bit ^^ 8) x = crc_table ! unat (x AND 0xFF) XOR drop_bit 8 x"
proof -
  have split: "x = (x AND 0xFF) XOR push_bit 8 (drop_bit 8 x)"
    by (rule bit_word_eqI) (auto simp: and_0xFF bit_simps)
  have "(crc_bit ^^ 8) (push_bit 8 (drop_bit 8 x)) = drop_bit 8 (push_bit 8 (drop_bit 8 x))"
    by (rule crc_bits_shift) (simp add: take_bit_push_bit)
  also have "\<dots> = drop_bit 8 x"
    by (rule bit_word_eqI) (auto simp: bit_simps dest: bit_imp_le_length)
  finally have high: "(crc_bit ^^ 8) (push_bit 8 (drop_bit 8 x)) = drop_bit 8 x" .
  have "unat (x AND 0xFF) < 256"
    using word_and_le1 [of x 255] by (simp add: word_le_nat_alt)
  then have "crc_table ! unat (x AND 0xFF) = (crc_bit ^^ 8) (x AND 0xFF)"
    by (simp add: crc_table_nth)
  then show ?thesis
    by (metis split high crc_bits_xor)
qed

lemma crc_step_eq_ref: "crc_step crc b = crc_step_ref crc b"
proof -
  have "drop_bit 8 (crc XOR ucast b) = drop_bit 8 crc"
    by (rule bit_word_eqI) (auto simp: bit_simps dest: bit_imp_le_length)
  then show ?thesis
    by (simp add: crc_step_def crc_step_ref_def crc_table_step)
qed

lemma crc_step_inj_crc: "crc_step c b = crc_step c' b \<Longrightarrow> c = c'"
proof -
  assume "crc_step c b = crc_step c' b"
  then have "c XOR ucast b = c' XOR ucast b"
    unfolding crc_step_eq_ref crc_step_ref_def by (rule crc_bits_inj)
  then show "c = c'"
    by simp
qed

lemma crc_step_inj_byte: "crc_step c b = crc_step c b' \<Longrightarrow> b = b'"
proof -
  assume "crc_step c b = crc_step c b'"
  then have "c XOR ucast b = c XOR ucast b'"
    unfolding crc_step_eq_ref crc_step_ref_def by (rule crc_bits_inj)
  then show "b = b'"
    by (simp add: ucast_up_inj)
qed

lemma crc_fold_inj: "foldl crc_step c bs = foldl crc_step c' bs \<Longrightarrow> c = c'"
  by (induction bs arbitrary: c c') (auto dest: crc_step_inj_crc)

section \<open>Error detection\<close>

text \<open>The little-endian value of up to four bytes; the register absorbs a whole window at once.\<close>

primrec window :: "bytes \<Rightarrow> u32" where
  "window [] = 0"
| "window (b # bs) = ucast b XOR push_bit 8 (window bs)"

lemma bit_window: "bit (window bs) n \<longleftrightarrow> n < 32 \<and> n div 8 < length bs \<and> bit (bs ! (n div 8)) (n mod 8)"
proof (induction bs arbitrary: n)
  case (Cons b bs)
  show ?case
  proof (cases "n < 8")
    case True
    then show ?thesis by (simp add: bit_simps)
  next
    case False
    then have "n div 8 = Suc ((n - 8) div 8)" "(n - 8) mod 8 = n mod 8"
      by (simp_all add: le_div_geq le_mod_geq)
    moreover from False have "\<not> bit (ucast b :: u32) n"
      by (auto simp: bit_simps dest: bit_imp_le_length)
    ultimately show ?thesis
      using False Cons.IH [of "n - 8"] by (auto simp: bit_simps)
  qed
qed simp

lemma window_inj:
  assumes "window bs = window bs'" "length bs = length bs'" "length bs \<le> 4"
  shows "bs = bs'"
proof (rule nth_equalityI)
  fix i assume i: "i < length bs"
  show "bs ! i = bs' ! i"
  proof (rule bit_word_eqI)
    fix k assume k: "k < LENGTH(8)"
    then have "bit (window bs) (8 * i + k) = bit (window bs') (8 * i + k)"
      using assms(1) by simp
    then show "bit (bs ! i) k = bit (bs' ! i) k"
      using i k assms(2,3) by (simp add: bit_window)
  qed
qed (use assms in simp)

lemma crc_bits_absorb:
  assumes "drop_bit 24 v = 0"
  shows "(crc_bit ^^ 8) (c XOR push_bit 8 v) = (crc_bit ^^ 8) c XOR v"
proof -
  have "(crc_bit ^^ 8) (push_bit 8 v) = drop_bit 8 (push_bit 8 v)"
    by (rule crc_bits_shift) (simp add: take_bit_push_bit)
  also have "\<dots> = v"
  proof (rule bit_word_eqI)
    fix n assume n: "n < LENGTH(32)"
    have "bit (drop_bit 24 v) (n - 24) = bit (0 :: u32) (n - 24)"
      by (simp only: assms)
    then have "\<not> bit v (24 + (n - 24))"
      by (simp add: bit_drop_bit_eq)
    then show "bit (drop_bit 8 (push_bit 8 v)) n = bit v n"
      using n by (cases "n < 24") (simp_all add: bit_simps)
  qed
  finally show ?thesis by (simp add: crc_bits_xor)
qed

lemma crc_window:
  "length bs \<le> 4 \<Longrightarrow> foldl crc_step c bs = (crc_bit ^^ (8 * length bs)) (c XOR window bs)"
proof (induction bs arbitrary: c)
  case (Cons b bs)
  have high: "drop_bit 24 (window bs) = 0"
    by (rule bit_word_eqI) (use Cons.prems in \<open>auto simp: bit_simps bit_window\<close>)
  have "foldl crc_step c (b # bs) = (crc_bit ^^ (8 * length bs)) (crc_step c b XOR window bs)"
    using Cons by simp
  also have "crc_step c b XOR window bs = (crc_bit ^^ 8) (c XOR window (b # bs))"
    using crc_bits_absorb [OF high, of "c XOR ucast b"]
    by (simp add: crc_step_eq_ref crc_step_ref_def xor.assoc)
  finally show ?case
    by (simp only: length_Cons mult_Suc_right funpow_add comp_apply add.commute [of 8])
qed simp

lemma crc32_window_neq:
  assumes "bs \<noteq> bs'" "length bs = length bs'" "length bs \<le> 4"
  shows "crc32 (pre @ bs @ post) \<noteq> crc32 (pre @ bs' @ post)"
proof
  assume "crc32 (pre @ bs @ post) = crc32 (pre @ bs' @ post)"
  then have "foldl crc_step (foldl crc_step 0xFFFFFFFF pre) bs = foldl crc_step (foldl crc_step 0xFFFFFFFF pre) bs'"
    by (auto simp: crc32_def dest: crc_fold_inj)
  then have "window bs = window bs'"
    using assms by (simp add: crc_window) (metis crc_bits_inj xor_cancel_left)
  then show False
    using assms window_inj by blast
qed

lemma crc32_eq_bitwise: "crc32 data = crc32_bitwise data"
  by (simp add: crc32_def crc32_bitwise_def crc_step_eq_ref cong: foldl_cong)

text \<open>C37. The table-driven CRC-32 of \<open>Util.hpp\<close> equals the bitwise definition of the checksum on every buffer.\<close>

theorem crc32_table_driven: "crc32 data = crc32_bitwise data"
  by (rule crc32_eq_bitwise)

text \<open>Any change confined to at most four consecutive bytes of a buffer (every burst of up to 32
  bits, in particular every single corrupted byte) changes its CRC-32.\<close>

theorem crc32_detects_burst:
  assumes "bs \<noteq> bs'" "length bs = length bs'" "length bs \<le> 4"
  shows "crc32 (pre @ bs @ post) \<noteq> crc32 (pre @ bs' @ post)"
  using assms by (rule crc32_window_neq)

theorem crc32_detects_burst_witness:
  "crc32 ([0x41, 0x48] @ [1, 2, 3, 4] @ [7]) \<noteq> crc32 ([0x41, 0x48] @ [1, 2, 3, 5] @ [7])"
  by (rule crc32_detects_burst) simp_all

end
