(* ===== verification/Enums.thy ===== *)
theory Enums
  imports Prelude
begin

text \<open>
  Model of the typed enumerations: every \<open>enum class\<close> of \<open>Enums.hpp\<close>, \<open>ResolutionState\<close> of
  \<open>Fault.hpp\<close> and \<open>MessageType\<close> of \<open>Protocol.hpp\<close>, each as a datatype with the constructors of the
  source (written \<open>HealthState.HEALTHY\<close> as in C++), its integer codes (\<open>_int\<close>, the
  \<open>static_cast<int>\<close>), its name table and the four table-driven functions.  The table functions are
  the templates \<open>enum_to_string\<close>, \<open>enum_to_index\<close>, \<open>enum_from_name\<close> and \<open>enum_from_byte\<close>.

  The locale \<open>wire_enum\<close> states what the rest of the program needs of a name table (it lists every
  constructor, the codes fit a byte and are distinct, the names are distinct) and derives once that
  printing and parsing, and byte code and decoding, are inverse; it is interpreted on every table.
\<close>

section \<open>Table-driven templates\<close>

definition enum_to_string :: "('e \<times> string) list \<Rightarrow> 'e \<Rightarrow> string" where
  "enum_to_string arr v = (case find (\<lambda>kv. fst kv = v) arr of Some kv \<Rightarrow> snd kv | None \<Rightarrow> ''UNKNOWN'')"

primrec index_from :: "nat \<Rightarrow> ('e \<times> string) list \<Rightarrow> 'e \<Rightarrow> int" where
  "index_from i [] v = -1"
| "index_from i (kv # arr) v = (if fst kv = v then int i else index_from (Suc i) arr v)"

definition enum_to_index :: "('e \<times> string) list \<Rightarrow> 'e \<Rightarrow> int" where
  "enum_to_index arr v = index_from 0 arr v"

definition enum_from_name :: "('e \<times> string) list \<Rightarrow> string \<Rightarrow> 'e option" where
  "enum_from_name arr s = map_option fst (find (\<lambda>kv. s = snd kv) arr)"

definition enum_from_byte :: "('e \<Rightarrow> int) \<Rightarrow> ('e \<times> string) list \<Rightarrow> u8 \<Rightarrow> 'e option" where
  "enum_from_byte code arr b = map_option fst (find (\<lambda>kv. word_of_int (code (fst kv)) = b) arr)"

section \<open>What a name table promises\<close>

lemma find_SomeD: "map_option f (find P xs) = Some y \<Longrightarrow> \<exists>x\<in>set xs. P x \<and> f x = y"
  by (induction xs) (auto split: if_splits)

lemma find_Some_unique:
  assumes "x \<in> set xs" "P x" "\<And>y. y \<in> set xs \<Longrightarrow> P y \<Longrightarrow> f y = f x"
  shows "map_option f (find P xs) = Some (f x)"
proof -
  have "find P xs \<noteq> None"
    using assms(1,2) by (auto simp: find_None_iff)
  then obtain y where y: "find P xs = Some y" by blast
  then have "y \<in> set xs" "P y"
    by (auto simp: find_Some_iff)
  then show ?thesis
    using assms(3) y by simp
qed

lemma word8_of_int_inj:
  assumes "0 \<le> i" "i < 256" "0 \<le> j" "j < 256" "(word_of_int i :: u8) = word_of_int j"
  shows "i = j"
proof -
  have "uint (word_of_int i :: u8) = uint (word_of_int j :: u8)"
    using assms(5) by simp
  then show ?thesis
    using assms(1-4) by (simp add: uint_word_of_int)
qed

locale wire_enum =
  fixes code :: "'e \<Rightarrow> int" and names :: "('e \<times> string) list"
  assumes complete: "e \<in> fst ` set names"
    and code_range: "0 \<le> code e \<and> code e < 256"
    and code_inj: "code a = code b \<Longrightarrow> a = b"
    and keys_distinct: "distinct (map fst names)"
    and names_distinct: "distinct (map snd names)"
begin

lemma name_entry: "\<exists>s. (e, s) \<in> set names"
  using complete [of e] by force

lemma to_string_entry: "(e, s) \<in> set names \<Longrightarrow> enum_to_string names e = s"
proof -
  assume e: "(e, s) \<in> set names"
  then have "map_option snd (find (\<lambda>kv. fst kv = e) names) = Some s"
    using find_Some_unique [OF e, of "\<lambda>kv. fst kv = e" snd] keys_distinct
    by (auto simp: eq_key_imp_eq_value)
  then show ?thesis
    by (auto simp: enum_to_string_def split: option.splits)
qed

lemma from_name_to_string: "enum_from_name names (enum_to_string names e) = Some e"
proof -
  obtain s where s: "(e, s) \<in> set names" using name_entry by blast
  have "fst kv = e" if "kv \<in> set names" "s = snd kv" for kv
    using that s names_distinct
    by (metis distinct_map inj_on_eq_iff prod.sel fst_conv)
  then show ?thesis
    using s find_Some_unique [OF s, of "\<lambda>kv. s = snd kv" fst]
    by (simp add: enum_from_name_def to_string_entry)
qed

lemma to_string_inj: "enum_to_string names a = enum_to_string names b \<Longrightarrow> a = b"
  using from_name_to_string by (metis option.inject)

lemma from_name_sound: "enum_from_name names s = Some e \<Longrightarrow> enum_to_string names e = s"
proof -
  assume "enum_from_name names s = Some e"
  then obtain kv where "kv \<in> set names" "s = snd kv" "e = fst kv"
    unfolding enum_from_name_def by - (drule find_SomeD, blast)
  then show ?thesis
    by (metis prod.collapse to_string_entry)
qed

lemma byte_inj: "(word_of_int (code a) :: u8) = word_of_int (code b) \<Longrightarrow> a = b"
  using code_range word8_of_int_inj code_inj by blast

lemma from_byte_to_byte: "enum_from_byte code names (word_of_int (code e)) = Some e"
proof -
  obtain s where s: "(e, s) \<in> set names" using name_entry by blast
  then show ?thesis
    using find_Some_unique [OF s, of "\<lambda>kv. word_of_int (code (fst kv)) = (word_of_int (code e) :: u8)" fst]
    by (auto simp: enum_from_byte_def dest: byte_inj)
qed

lemma from_byte_iff: "enum_from_byte code names b = Some e \<longleftrightarrow> word_of_int (code e) = b"
proof
  assume "enum_from_byte code names b = Some e"
  then obtain kv where "word_of_int (code (fst kv)) = b" "e = fst kv"
    using find_SomeD [of fst "\<lambda>kv. word_of_int (code (fst kv)) = b" names e]
    by (auto simp: enum_from_byte_def)
  then show "word_of_int (code e) = b"
    by simp
next
  assume "word_of_int (code e) = b"
  then show "enum_from_byte code names b = Some e"
    using from_byte_to_byte by blast
qed

lemma from_byte_None: "enum_from_byte code names b = None \<longleftrightarrow> b \<notin> range (\<lambda>e. word_of_int (code e))"
  by (metis (no_types, lifting) from_byte_iff from_byte_to_byte not_None_eq rangeE rangeI)

end

section \<open>HealthState\<close>

datatype HealthState =
    UNKNOWN
  | INITIALIZING
  | HEALTHY
  | DEGRADED
  | UNHEALTHY
  | FAILED
  | DRAINING
  | DRAINED
  | QUARANTINED
  | RECOVERING
  | REVALIDATING
  | OFFLINE
  | LOST

primrec HealthState_int :: "HealthState \<Rightarrow> int" where
  "HealthState_int HealthState.UNKNOWN = 0"
| "HealthState_int HealthState.INITIALIZING = 1"
| "HealthState_int HealthState.HEALTHY = 2"
| "HealthState_int HealthState.DEGRADED = 3"
| "HealthState_int HealthState.UNHEALTHY = 4"
| "HealthState_int HealthState.FAILED = 5"
| "HealthState_int HealthState.DRAINING = 6"
| "HealthState_int HealthState.DRAINED = 7"
| "HealthState_int HealthState.QUARANTINED = 8"
| "HealthState_int HealthState.RECOVERING = 9"
| "HealthState_int HealthState.REVALIDATING = 10"
| "HealthState_int HealthState.OFFLINE = 11"
| "HealthState_int HealthState.LOST = 12"

definition kHealthStateNames :: "(HealthState \<times> string) list" where
  "kHealthStateNames = [
    (HealthState.UNKNOWN, ''UNKNOWN''),
    (HealthState.INITIALIZING, ''INITIALIZING''),
    (HealthState.HEALTHY, ''HEALTHY''),
    (HealthState.DEGRADED, ''DEGRADED''),
    (HealthState.UNHEALTHY, ''UNHEALTHY''),
    (HealthState.FAILED, ''FAILED''),
    (HealthState.DRAINING, ''DRAINING''),
    (HealthState.DRAINED, ''DRAINED''),
    (HealthState.QUARANTINED, ''QUARANTINED''),
    (HealthState.RECOVERING, ''RECOVERING''),
    (HealthState.REVALIDATING, ''REVALIDATING''),
    (HealthState.OFFLINE, ''OFFLINE''),
    (HealthState.LOST, ''LOST'')]"

definition HealthState_to_string :: "HealthState \<Rightarrow> string" where
  "HealthState_to_string e = enum_to_string kHealthStateNames e"

definition parse_health_state :: "string \<Rightarrow> HealthState option" where
  "parse_health_state s = enum_from_name kHealthStateNames s"

definition health_state_from_byte :: "u8 \<Rightarrow> HealthState option" where
  "health_state_from_byte b = enum_from_byte HealthState_int kHealthStateNames b"

interpretation health_state_enum: wire_enum HealthState_int kHealthStateNames
proof unfold_locales
  show "e \<in> fst ` set kHealthStateNames" for e
    by (cases e) (simp_all add: kHealthStateNames_def)
  show "0 \<le> HealthState_int e \<and> HealthState_int e < 256" for e
    by (cases e) simp_all
  show "HealthState_int a = HealthState_int b \<Longrightarrow> a = b" for a b
    by (cases a; cases b; simp)
qed (simp_all add: kHealthStateNames_def)

instantiation HealthState :: linorder
begin

definition less_eq_HealthState :: "HealthState \<Rightarrow> HealthState \<Rightarrow> bool" where
  "less_eq_HealthState a b \<longleftrightarrow> HealthState_int a \<le> HealthState_int b"

definition less_HealthState :: "HealthState \<Rightarrow> HealthState \<Rightarrow> bool" where
  "less_HealthState a b \<longleftrightarrow> HealthState_int a < HealthState_int b"

instance
  by standard (auto simp: less_eq_HealthState_def less_HealthState_def intro: health_state_enum.code_inj)

end

section \<open>ReadinessState\<close>

datatype ReadinessState =
    READY
  | READY_DEGRADED
  | NOT_READY
  | REVALIDATION_REQUIRED
  | DRAIN_REQUIRED
  | QUARANTINED
  | UNKNOWN

primrec ReadinessState_int :: "ReadinessState \<Rightarrow> int" where
  "ReadinessState_int ReadinessState.READY = 0"
| "ReadinessState_int ReadinessState.READY_DEGRADED = 1"
| "ReadinessState_int ReadinessState.NOT_READY = 2"
| "ReadinessState_int ReadinessState.REVALIDATION_REQUIRED = 3"
| "ReadinessState_int ReadinessState.DRAIN_REQUIRED = 4"
| "ReadinessState_int ReadinessState.QUARANTINED = 5"
| "ReadinessState_int ReadinessState.UNKNOWN = 6"

definition kReadinessNames :: "(ReadinessState \<times> string) list" where
  "kReadinessNames = [
    (ReadinessState.READY, ''READY''),
    (ReadinessState.READY_DEGRADED, ''READY_DEGRADED''),
    (ReadinessState.NOT_READY, ''NOT_READY''),
    (ReadinessState.REVALIDATION_REQUIRED, ''REVALIDATION_REQUIRED''),
    (ReadinessState.DRAIN_REQUIRED, ''DRAIN_REQUIRED''),
    (ReadinessState.QUARANTINED, ''QUARANTINED''),
    (ReadinessState.UNKNOWN, ''UNKNOWN'')]"

definition ReadinessState_to_string :: "ReadinessState \<Rightarrow> string" where
  "ReadinessState_to_string e = enum_to_string kReadinessNames e"

definition parse_readiness :: "string \<Rightarrow> ReadinessState option" where
  "parse_readiness s = enum_from_name kReadinessNames s"

definition readiness_from_byte :: "u8 \<Rightarrow> ReadinessState option" where
  "readiness_from_byte b = enum_from_byte ReadinessState_int kReadinessNames b"

interpretation readiness_state_enum: wire_enum ReadinessState_int kReadinessNames
proof unfold_locales
  show "e \<in> fst ` set kReadinessNames" for e
    by (cases e) (simp_all add: kReadinessNames_def)
  show "0 \<le> ReadinessState_int e \<and> ReadinessState_int e < 256" for e
    by (cases e) simp_all
  show "ReadinessState_int a = ReadinessState_int b \<Longrightarrow> a = b" for a b
    by (cases a; cases b; simp)
qed (simp_all add: kReadinessNames_def)

instantiation ReadinessState :: linorder
begin

definition less_eq_ReadinessState :: "ReadinessState \<Rightarrow> ReadinessState \<Rightarrow> bool" where
  "less_eq_ReadinessState a b \<longleftrightarrow> ReadinessState_int a \<le> ReadinessState_int b"

definition less_ReadinessState :: "ReadinessState \<Rightarrow> ReadinessState \<Rightarrow> bool" where
  "less_ReadinessState a b \<longleftrightarrow> ReadinessState_int a < ReadinessState_int b"

instance
  by standard (auto simp: less_eq_ReadinessState_def less_ReadinessState_def intro: readiness_state_enum.code_inj)

end

section \<open>Severity\<close>

datatype Severity =
    INFO
  | WARNING
  | DEGRADED
  | CRITICAL
  | FATAL

primrec Severity_int :: "Severity \<Rightarrow> int" where
  "Severity_int Severity.INFO = 0"
| "Severity_int Severity.WARNING = 1"
| "Severity_int Severity.DEGRADED = 2"
| "Severity_int Severity.CRITICAL = 3"
| "Severity_int Severity.FATAL = 4"

definition kSeverityNames :: "(Severity \<times> string) list" where
  "kSeverityNames = [
    (Severity.INFO, ''INFO''),
    (Severity.WARNING, ''WARNING''),
    (Severity.DEGRADED, ''DEGRADED''),
    (Severity.CRITICAL, ''CRITICAL''),
    (Severity.FATAL, ''FATAL'')]"

definition Severity_to_string :: "Severity \<Rightarrow> string" where
  "Severity_to_string e = enum_to_string kSeverityNames e"

definition parse_severity :: "string \<Rightarrow> Severity option" where
  "parse_severity s = enum_from_name kSeverityNames s"

definition severity_from_byte :: "u8 \<Rightarrow> Severity option" where
  "severity_from_byte b = enum_from_byte Severity_int kSeverityNames b"

interpretation severity_enum: wire_enum Severity_int kSeverityNames
proof unfold_locales
  show "e \<in> fst ` set kSeverityNames" for e
    by (cases e) (simp_all add: kSeverityNames_def)
  show "0 \<le> Severity_int e \<and> Severity_int e < 256" for e
    by (cases e) simp_all
  show "Severity_int a = Severity_int b \<Longrightarrow> a = b" for a b
    by (cases a; cases b; simp)
qed (simp_all add: kSeverityNames_def)

instantiation Severity :: linorder
begin

definition less_eq_Severity :: "Severity \<Rightarrow> Severity \<Rightarrow> bool" where
  "less_eq_Severity a b \<longleftrightarrow> Severity_int a \<le> Severity_int b"

definition less_Severity :: "Severity \<Rightarrow> Severity \<Rightarrow> bool" where
  "less_Severity a b \<longleftrightarrow> Severity_int a < Severity_int b"

instance
  by standard (auto simp: less_eq_Severity_def less_Severity_def intro: severity_enum.code_inj)

end

section \<open>EvidenceClass\<close>

datatype EvidenceClass =
    MEASURED
  | REPORTED
  | DERIVED
  | RECONSTRUCTED
  | INFERRED
  | UNKNOWN

primrec EvidenceClass_int :: "EvidenceClass \<Rightarrow> int" where
  "EvidenceClass_int EvidenceClass.MEASURED = 0"
| "EvidenceClass_int EvidenceClass.REPORTED = 1"
| "EvidenceClass_int EvidenceClass.DERIVED = 2"
| "EvidenceClass_int EvidenceClass.RECONSTRUCTED = 3"
| "EvidenceClass_int EvidenceClass.INFERRED = 4"
| "EvidenceClass_int EvidenceClass.UNKNOWN = 5"

definition kEvidenceNames :: "(EvidenceClass \<times> string) list" where
  "kEvidenceNames = [
    (EvidenceClass.MEASURED, ''MEASURED''),
    (EvidenceClass.REPORTED, ''REPORTED''),
    (EvidenceClass.DERIVED, ''DERIVED''),
    (EvidenceClass.RECONSTRUCTED, ''RECONSTRUCTED''),
    (EvidenceClass.INFERRED, ''INFERRED''),
    (EvidenceClass.UNKNOWN, ''UNKNOWN'')]"

definition EvidenceClass_to_string :: "EvidenceClass \<Rightarrow> string" where
  "EvidenceClass_to_string e = enum_to_string kEvidenceNames e"

definition parse_evidence_class :: "string \<Rightarrow> EvidenceClass option" where
  "parse_evidence_class s = enum_from_name kEvidenceNames s"

definition evidence_class_from_byte :: "u8 \<Rightarrow> EvidenceClass option" where
  "evidence_class_from_byte b = enum_from_byte EvidenceClass_int kEvidenceNames b"

interpretation evidence_class_enum: wire_enum EvidenceClass_int kEvidenceNames
proof unfold_locales
  show "e \<in> fst ` set kEvidenceNames" for e
    by (cases e) (simp_all add: kEvidenceNames_def)
  show "0 \<le> EvidenceClass_int e \<and> EvidenceClass_int e < 256" for e
    by (cases e) simp_all
  show "EvidenceClass_int a = EvidenceClass_int b \<Longrightarrow> a = b" for a b
    by (cases a; cases b; simp)
qed (simp_all add: kEvidenceNames_def)

section \<open>ValidationDepth\<close>

datatype ValidationDepth =
    NONE
  | ENUMERATION_ONLY
  | INITIALIZATION
  | ALLOCATION
  | TRANSFER
  | EXECUTION
  | NUMERICAL
  | FULL

primrec ValidationDepth_int :: "ValidationDepth \<Rightarrow> int" where
  "ValidationDepth_int ValidationDepth.NONE = 0"
| "ValidationDepth_int ValidationDepth.ENUMERATION_ONLY = 1"
| "ValidationDepth_int ValidationDepth.INITIALIZATION = 2"
| "ValidationDepth_int ValidationDepth.ALLOCATION = 3"
| "ValidationDepth_int ValidationDepth.TRANSFER = 4"
| "ValidationDepth_int ValidationDepth.EXECUTION = 5"
| "ValidationDepth_int ValidationDepth.NUMERICAL = 6"
| "ValidationDepth_int ValidationDepth.FULL = 7"

definition kValidationDepthNames :: "(ValidationDepth \<times> string) list" where
  "kValidationDepthNames = [
    (ValidationDepth.NONE, ''NONE''),
    (ValidationDepth.ENUMERATION_ONLY, ''ENUMERATION_ONLY''),
    (ValidationDepth.INITIALIZATION, ''INITIALIZATION''),
    (ValidationDepth.ALLOCATION, ''ALLOCATION''),
    (ValidationDepth.TRANSFER, ''TRANSFER''),
    (ValidationDepth.EXECUTION, ''EXECUTION''),
    (ValidationDepth.NUMERICAL, ''NUMERICAL''),
    (ValidationDepth.FULL, ''FULL'')]"

definition ValidationDepth_to_string :: "ValidationDepth \<Rightarrow> string" where
  "ValidationDepth_to_string e = enum_to_string kValidationDepthNames e"

definition parse_validation_depth :: "string \<Rightarrow> ValidationDepth option" where
  "parse_validation_depth s = enum_from_name kValidationDepthNames s"

definition validation_depth_from_byte :: "u8 \<Rightarrow> ValidationDepth option" where
  "validation_depth_from_byte b = enum_from_byte ValidationDepth_int kValidationDepthNames b"

interpretation validation_depth_enum: wire_enum ValidationDepth_int kValidationDepthNames
proof unfold_locales
  show "e \<in> fst ` set kValidationDepthNames" for e
    by (cases e) (simp_all add: kValidationDepthNames_def)
  show "0 \<le> ValidationDepth_int e \<and> ValidationDepth_int e < 256" for e
    by (cases e) simp_all
  show "ValidationDepth_int a = ValidationDepth_int b \<Longrightarrow> a = b" for a b
    by (cases a; cases b; simp)
qed (simp_all add: kValidationDepthNames_def)

instantiation ValidationDepth :: linorder
begin

definition less_eq_ValidationDepth :: "ValidationDepth \<Rightarrow> ValidationDepth \<Rightarrow> bool" where
  "less_eq_ValidationDepth a b \<longleftrightarrow> ValidationDepth_int a \<le> ValidationDepth_int b"

definition less_ValidationDepth :: "ValidationDepth \<Rightarrow> ValidationDepth \<Rightarrow> bool" where
  "less_ValidationDepth a b \<longleftrightarrow> ValidationDepth_int a < ValidationDepth_int b"

instance
  by standard (auto simp: less_eq_ValidationDepth_def less_ValidationDepth_def intro: validation_depth_enum.code_inj)

end

section \<open>ValidationProfile\<close>

datatype ValidationProfile =
    BASIC
  | MEMORY
  | TRANSFER
  | EXECUTION
  | NUMERICAL
  | FULL

primrec ValidationProfile_int :: "ValidationProfile \<Rightarrow> int" where
  "ValidationProfile_int ValidationProfile.BASIC = 0"
| "ValidationProfile_int ValidationProfile.MEMORY = 1"
| "ValidationProfile_int ValidationProfile.TRANSFER = 2"
| "ValidationProfile_int ValidationProfile.EXECUTION = 3"
| "ValidationProfile_int ValidationProfile.NUMERICAL = 4"
| "ValidationProfile_int ValidationProfile.FULL = 5"

definition kValidationProfileNames :: "(ValidationProfile \<times> string) list" where
  "kValidationProfileNames = [
    (ValidationProfile.BASIC, ''BASIC''),
    (ValidationProfile.MEMORY, ''MEMORY''),
    (ValidationProfile.TRANSFER, ''TRANSFER''),
    (ValidationProfile.EXECUTION, ''EXECUTION''),
    (ValidationProfile.NUMERICAL, ''NUMERICAL''),
    (ValidationProfile.FULL, ''FULL'')]"

definition ValidationProfile_to_string :: "ValidationProfile \<Rightarrow> string" where
  "ValidationProfile_to_string e = enum_to_string kValidationProfileNames e"

definition parse_validation_profile :: "string \<Rightarrow> ValidationProfile option" where
  "parse_validation_profile s = enum_from_name kValidationProfileNames s"

definition validation_profile_from_byte :: "u8 \<Rightarrow> ValidationProfile option" where
  "validation_profile_from_byte b = enum_from_byte ValidationProfile_int kValidationProfileNames b"

interpretation validation_profile_enum: wire_enum ValidationProfile_int kValidationProfileNames
proof unfold_locales
  show "e \<in> fst ` set kValidationProfileNames" for e
    by (cases e) (simp_all add: kValidationProfileNames_def)
  show "0 \<le> ValidationProfile_int e \<and> ValidationProfile_int e < 256" for e
    by (cases e) simp_all
  show "ValidationProfile_int a = ValidationProfile_int b \<Longrightarrow> a = b" for a b
    by (cases a; cases b; simp)
qed (simp_all add: kValidationProfileNames_def)

section \<open>FreshnessStatus\<close>

datatype FreshnessStatus =
    CURRENT
  | AGING
  | STALE
  | EXPIRED

primrec FreshnessStatus_int :: "FreshnessStatus \<Rightarrow> int" where
  "FreshnessStatus_int FreshnessStatus.CURRENT = 0"
| "FreshnessStatus_int FreshnessStatus.AGING = 1"
| "FreshnessStatus_int FreshnessStatus.STALE = 2"
| "FreshnessStatus_int FreshnessStatus.EXPIRED = 3"

definition kFreshnessNames :: "(FreshnessStatus \<times> string) list" where
  "kFreshnessNames = [
    (FreshnessStatus.CURRENT, ''CURRENT''),
    (FreshnessStatus.AGING, ''AGING''),
    (FreshnessStatus.STALE, ''STALE''),
    (FreshnessStatus.EXPIRED, ''EXPIRED'')]"

definition FreshnessStatus_to_string :: "FreshnessStatus \<Rightarrow> string" where
  "FreshnessStatus_to_string e = enum_to_string kFreshnessNames e"

definition parse_freshness :: "string \<Rightarrow> FreshnessStatus option" where
  "parse_freshness s = enum_from_name kFreshnessNames s"

definition freshness_from_byte :: "u8 \<Rightarrow> FreshnessStatus option" where
  "freshness_from_byte b = enum_from_byte FreshnessStatus_int kFreshnessNames b"

interpretation freshness_status_enum: wire_enum FreshnessStatus_int kFreshnessNames
proof unfold_locales
  show "e \<in> fst ` set kFreshnessNames" for e
    by (cases e) (simp_all add: kFreshnessNames_def)
  show "0 \<le> FreshnessStatus_int e \<and> FreshnessStatus_int e < 256" for e
    by (cases e) simp_all
  show "FreshnessStatus_int a = FreshnessStatus_int b \<Longrightarrow> a = b" for a b
    by (cases a; cases b; simp)
qed (simp_all add: kFreshnessNames_def)

section \<open>FaultType\<close>

datatype FaultType =
    ENUMERATION_FAILURE
  | DRIVER_FAILURE
  | CUDA_INIT_FAILURE
  | ALLOCATION_FAILURE
  | TRANSFER_FAILURE
  | KERNEL_LAUNCH_FAILURE
  | SYNCHRONIZATION_FAILURE
  | NUMERICAL_MISMATCH
  | MEMORY_INTEGRITY_FAILURE
  | OUT_OF_MEMORY
  | DEVICE_LOST
  | DEVICE_RESET
  | FATAL_RUNTIME_ERROR
  | THERMAL_DEGRADATION
  | POWER_DEGRADATION
  | INTERCONNECT_DEGRADATION
  | STALE_EVIDENCE
  | IDENTITY_CHANGE
  | UNKNOWN_FAULT

primrec FaultType_int :: "FaultType \<Rightarrow> int" where
  "FaultType_int FaultType.ENUMERATION_FAILURE = 0"
| "FaultType_int FaultType.DRIVER_FAILURE = 1"
| "FaultType_int FaultType.CUDA_INIT_FAILURE = 2"
| "FaultType_int FaultType.ALLOCATION_FAILURE = 3"
| "FaultType_int FaultType.TRANSFER_FAILURE = 4"
| "FaultType_int FaultType.KERNEL_LAUNCH_FAILURE = 5"
| "FaultType_int FaultType.SYNCHRONIZATION_FAILURE = 6"
| "FaultType_int FaultType.NUMERICAL_MISMATCH = 7"
| "FaultType_int FaultType.MEMORY_INTEGRITY_FAILURE = 8"
| "FaultType_int FaultType.OUT_OF_MEMORY = 9"
| "FaultType_int FaultType.DEVICE_LOST = 10"
| "FaultType_int FaultType.DEVICE_RESET = 11"
| "FaultType_int FaultType.FATAL_RUNTIME_ERROR = 12"
| "FaultType_int FaultType.THERMAL_DEGRADATION = 13"
| "FaultType_int FaultType.POWER_DEGRADATION = 14"
| "FaultType_int FaultType.INTERCONNECT_DEGRADATION = 15"
| "FaultType_int FaultType.STALE_EVIDENCE = 16"
| "FaultType_int FaultType.IDENTITY_CHANGE = 17"
| "FaultType_int FaultType.UNKNOWN_FAULT = 18"

definition kFaultTypeNames :: "(FaultType \<times> string) list" where
  "kFaultTypeNames = [
    (FaultType.ENUMERATION_FAILURE, ''ENUMERATION_FAILURE''),
    (FaultType.DRIVER_FAILURE, ''DRIVER_FAILURE''),
    (FaultType.CUDA_INIT_FAILURE, ''CUDA_INIT_FAILURE''),
    (FaultType.ALLOCATION_FAILURE, ''ALLOCATION_FAILURE''),
    (FaultType.TRANSFER_FAILURE, ''TRANSFER_FAILURE''),
    (FaultType.KERNEL_LAUNCH_FAILURE, ''KERNEL_LAUNCH_FAILURE''),
    (FaultType.SYNCHRONIZATION_FAILURE, ''SYNCHRONIZATION_FAILURE''),
    (FaultType.NUMERICAL_MISMATCH, ''NUMERICAL_MISMATCH''),
    (FaultType.MEMORY_INTEGRITY_FAILURE, ''MEMORY_INTEGRITY_FAILURE''),
    (FaultType.OUT_OF_MEMORY, ''OUT_OF_MEMORY''),
    (FaultType.DEVICE_LOST, ''DEVICE_LOST''),
    (FaultType.DEVICE_RESET, ''DEVICE_RESET''),
    (FaultType.FATAL_RUNTIME_ERROR, ''FATAL_RUNTIME_ERROR''),
    (FaultType.THERMAL_DEGRADATION, ''THERMAL_DEGRADATION''),
    (FaultType.POWER_DEGRADATION, ''POWER_DEGRADATION''),
    (FaultType.INTERCONNECT_DEGRADATION, ''INTERCONNECT_DEGRADATION''),
    (FaultType.STALE_EVIDENCE, ''STALE_EVIDENCE''),
    (FaultType.IDENTITY_CHANGE, ''IDENTITY_CHANGE''),
    (FaultType.UNKNOWN_FAULT, ''UNKNOWN_FAULT'')]"

definition FaultType_to_string :: "FaultType \<Rightarrow> string" where
  "FaultType_to_string e = enum_to_string kFaultTypeNames e"

definition parse_fault_type :: "string \<Rightarrow> FaultType option" where
  "parse_fault_type s = enum_from_name kFaultTypeNames s"

definition fault_type_from_byte :: "u8 \<Rightarrow> FaultType option" where
  "fault_type_from_byte b = enum_from_byte FaultType_int kFaultTypeNames b"

interpretation fault_type_enum: wire_enum FaultType_int kFaultTypeNames
proof unfold_locales
  show "e \<in> fst ` set kFaultTypeNames" for e
    by (cases e) (simp_all add: kFaultTypeNames_def)
  show "0 \<le> FaultType_int e \<and> FaultType_int e < 256" for e
    by (cases e) simp_all
  show "FaultType_int a = FaultType_int b \<Longrightarrow> a = b" for a b
    by (cases a; cases b; simp)
qed (simp_all add: kFaultTypeNames_def)

instantiation FaultType :: linorder
begin

definition less_eq_FaultType :: "FaultType \<Rightarrow> FaultType \<Rightarrow> bool" where
  "less_eq_FaultType a b \<longleftrightarrow> FaultType_int a \<le> FaultType_int b"

definition less_FaultType :: "FaultType \<Rightarrow> FaultType \<Rightarrow> bool" where
  "less_FaultType a b \<longleftrightarrow> FaultType_int a < FaultType_int b"

instance
  by standard (auto simp: less_eq_FaultType_def less_FaultType_def intro: fault_type_enum.code_inj)

end

section \<open>FaultClass\<close>

datatype FaultClass =
    TRANSIENT
  | RECOVERABLE
  | FATAL
  | UNKNOWN

primrec FaultClass_int :: "FaultClass \<Rightarrow> int" where
  "FaultClass_int FaultClass.TRANSIENT = 0"
| "FaultClass_int FaultClass.RECOVERABLE = 1"
| "FaultClass_int FaultClass.FATAL = 2"
| "FaultClass_int FaultClass.UNKNOWN = 3"

definition kFaultClassNames :: "(FaultClass \<times> string) list" where
  "kFaultClassNames = [
    (FaultClass.TRANSIENT, ''TRANSIENT''),
    (FaultClass.RECOVERABLE, ''RECOVERABLE''),
    (FaultClass.FATAL, ''FATAL''),
    (FaultClass.UNKNOWN, ''UNKNOWN'')]"

definition FaultClass_to_string :: "FaultClass \<Rightarrow> string" where
  "FaultClass_to_string e = enum_to_string kFaultClassNames e"

definition parse_fault_class :: "string \<Rightarrow> FaultClass option" where
  "parse_fault_class s = enum_from_name kFaultClassNames s"

definition fault_class_from_byte :: "u8 \<Rightarrow> FaultClass option" where
  "fault_class_from_byte b = enum_from_byte FaultClass_int kFaultClassNames b"

interpretation fault_class_enum: wire_enum FaultClass_int kFaultClassNames
proof unfold_locales
  show "e \<in> fst ` set kFaultClassNames" for e
    by (cases e) (simp_all add: kFaultClassNames_def)
  show "0 \<le> FaultClass_int e \<and> FaultClass_int e < 256" for e
    by (cases e) simp_all
  show "FaultClass_int a = FaultClass_int b \<Longrightarrow> a = b" for a b
    by (cases a; cases b; simp)
qed (simp_all add: kFaultClassNames_def)

section \<open>DimensionKind\<close>

datatype DimensionKind =
    ENUMERATION
  | DRIVER
  | RUNTIME_INIT
  | ALLOCATION
  | TRANSFER
  | EXECUTION
  | SYNCHRONIZATION
  | NUMERICAL
  | MEMORY_INTEGRITY
  | MEMORY_PRESSURE
  | TEMPERATURE
  | POWER
  | INTERCONNECT
  | FATAL_ERROR
  | RESTART_RESET
  | FRESHNESS
  | VALIDATION_CONFIDENCE
  | UNKNOWN

primrec DimensionKind_int :: "DimensionKind \<Rightarrow> int" where
  "DimensionKind_int DimensionKind.ENUMERATION = 0"
| "DimensionKind_int DimensionKind.DRIVER = 1"
| "DimensionKind_int DimensionKind.RUNTIME_INIT = 2"
| "DimensionKind_int DimensionKind.ALLOCATION = 3"
| "DimensionKind_int DimensionKind.TRANSFER = 4"
| "DimensionKind_int DimensionKind.EXECUTION = 5"
| "DimensionKind_int DimensionKind.SYNCHRONIZATION = 6"
| "DimensionKind_int DimensionKind.NUMERICAL = 7"
| "DimensionKind_int DimensionKind.MEMORY_INTEGRITY = 8"
| "DimensionKind_int DimensionKind.MEMORY_PRESSURE = 9"
| "DimensionKind_int DimensionKind.TEMPERATURE = 10"
| "DimensionKind_int DimensionKind.POWER = 11"
| "DimensionKind_int DimensionKind.INTERCONNECT = 12"
| "DimensionKind_int DimensionKind.FATAL_ERROR = 13"
| "DimensionKind_int DimensionKind.RESTART_RESET = 14"
| "DimensionKind_int DimensionKind.FRESHNESS = 15"
| "DimensionKind_int DimensionKind.VALIDATION_CONFIDENCE = 16"
| "DimensionKind_int DimensionKind.UNKNOWN = 17"

definition kDimensionKindNames :: "(DimensionKind \<times> string) list" where
  "kDimensionKindNames = [
    (DimensionKind.ENUMERATION, ''ENUMERATION''),
    (DimensionKind.DRIVER, ''DRIVER''),
    (DimensionKind.RUNTIME_INIT, ''RUNTIME_INIT''),
    (DimensionKind.ALLOCATION, ''ALLOCATION''),
    (DimensionKind.TRANSFER, ''TRANSFER''),
    (DimensionKind.EXECUTION, ''EXECUTION''),
    (DimensionKind.SYNCHRONIZATION, ''SYNCHRONIZATION''),
    (DimensionKind.NUMERICAL, ''NUMERICAL''),
    (DimensionKind.MEMORY_INTEGRITY, ''MEMORY_INTEGRITY''),
    (DimensionKind.MEMORY_PRESSURE, ''MEMORY_PRESSURE''),
    (DimensionKind.TEMPERATURE, ''TEMPERATURE''),
    (DimensionKind.POWER, ''POWER''),
    (DimensionKind.INTERCONNECT, ''INTERCONNECT''),
    (DimensionKind.FATAL_ERROR, ''FATAL_ERROR''),
    (DimensionKind.RESTART_RESET, ''RESTART_RESET''),
    (DimensionKind.FRESHNESS, ''FRESHNESS''),
    (DimensionKind.VALIDATION_CONFIDENCE, ''VALIDATION_CONFIDENCE''),
    (DimensionKind.UNKNOWN, ''UNKNOWN'')]"

definition DimensionKind_to_string :: "DimensionKind \<Rightarrow> string" where
  "DimensionKind_to_string e = enum_to_string kDimensionKindNames e"

definition parse_dimension_kind :: "string \<Rightarrow> DimensionKind option" where
  "parse_dimension_kind s = enum_from_name kDimensionKindNames s"

definition dimension_kind_from_byte :: "u8 \<Rightarrow> DimensionKind option" where
  "dimension_kind_from_byte b = enum_from_byte DimensionKind_int kDimensionKindNames b"

interpretation dimension_kind_enum: wire_enum DimensionKind_int kDimensionKindNames
proof unfold_locales
  show "e \<in> fst ` set kDimensionKindNames" for e
    by (cases e) (simp_all add: kDimensionKindNames_def)
  show "0 \<le> DimensionKind_int e \<and> DimensionKind_int e < 256" for e
    by (cases e) simp_all
  show "DimensionKind_int a = DimensionKind_int b \<Longrightarrow> a = b" for a b
    by (cases a; cases b; simp)
qed (simp_all add: kDimensionKindNames_def)

instantiation DimensionKind :: linorder
begin

definition less_eq_DimensionKind :: "DimensionKind \<Rightarrow> DimensionKind \<Rightarrow> bool" where
  "less_eq_DimensionKind a b \<longleftrightarrow> DimensionKind_int a \<le> DimensionKind_int b"

definition less_DimensionKind :: "DimensionKind \<Rightarrow> DimensionKind \<Rightarrow> bool" where
  "less_DimensionKind a b \<longleftrightarrow> DimensionKind_int a < DimensionKind_int b"

instance
  by standard (auto simp: less_eq_DimensionKind_def less_DimensionKind_def intro: dimension_kind_enum.code_inj)

end

section \<open>QuarantineAuthority\<close>

datatype QuarantineAuthority =
    OPERATOR
  | POLICY
  | FAULT
  | RECOVERY_FAILURE
  | UNKNOWN

primrec QuarantineAuthority_int :: "QuarantineAuthority \<Rightarrow> int" where
  "QuarantineAuthority_int QuarantineAuthority.OPERATOR = 0"
| "QuarantineAuthority_int QuarantineAuthority.POLICY = 1"
| "QuarantineAuthority_int QuarantineAuthority.FAULT = 2"
| "QuarantineAuthority_int QuarantineAuthority.RECOVERY_FAILURE = 3"
| "QuarantineAuthority_int QuarantineAuthority.UNKNOWN = 4"

definition kQuarantineAuthorityNames :: "(QuarantineAuthority \<times> string) list" where
  "kQuarantineAuthorityNames = [
    (QuarantineAuthority.OPERATOR, ''OPERATOR''),
    (QuarantineAuthority.POLICY, ''POLICY''),
    (QuarantineAuthority.FAULT, ''FAULT''),
    (QuarantineAuthority.RECOVERY_FAILURE, ''RECOVERY_FAILURE''),
    (QuarantineAuthority.UNKNOWN, ''UNKNOWN'')]"

definition QuarantineAuthority_to_string :: "QuarantineAuthority \<Rightarrow> string" where
  "QuarantineAuthority_to_string e = enum_to_string kQuarantineAuthorityNames e"

definition parse_quarantine_authority :: "string \<Rightarrow> QuarantineAuthority option" where
  "parse_quarantine_authority s = enum_from_name kQuarantineAuthorityNames s"

definition quarantine_authority_from_byte :: "u8 \<Rightarrow> QuarantineAuthority option" where
  "quarantine_authority_from_byte b = enum_from_byte QuarantineAuthority_int kQuarantineAuthorityNames b"

interpretation quarantine_authority_enum: wire_enum QuarantineAuthority_int kQuarantineAuthorityNames
proof unfold_locales
  show "e \<in> fst ` set kQuarantineAuthorityNames" for e
    by (cases e) (simp_all add: kQuarantineAuthorityNames_def)
  show "0 \<le> QuarantineAuthority_int e \<and> QuarantineAuthority_int e < 256" for e
    by (cases e) simp_all
  show "QuarantineAuthority_int a = QuarantineAuthority_int b \<Longrightarrow> a = b" for a b
    by (cases a; cases b; simp)
qed (simp_all add: kQuarantineAuthorityNames_def)

section \<open>ActionRequired\<close>

datatype ActionRequired =
    NONE
  | MONITOR
  | REVALIDATE
  | DRAIN
  | QUARANTINE
  | RECOVER
  | UNKNOWN

primrec ActionRequired_int :: "ActionRequired \<Rightarrow> int" where
  "ActionRequired_int ActionRequired.NONE = 0"
| "ActionRequired_int ActionRequired.MONITOR = 1"
| "ActionRequired_int ActionRequired.REVALIDATE = 2"
| "ActionRequired_int ActionRequired.DRAIN = 3"
| "ActionRequired_int ActionRequired.QUARANTINE = 4"
| "ActionRequired_int ActionRequired.RECOVER = 5"
| "ActionRequired_int ActionRequired.UNKNOWN = 6"

definition kActionRequiredNames :: "(ActionRequired \<times> string) list" where
  "kActionRequiredNames = [
    (ActionRequired.NONE, ''NONE''),
    (ActionRequired.MONITOR, ''MONITOR''),
    (ActionRequired.REVALIDATE, ''REVALIDATE''),
    (ActionRequired.DRAIN, ''DRAIN''),
    (ActionRequired.QUARANTINE, ''QUARANTINE''),
    (ActionRequired.RECOVER, ''RECOVER''),
    (ActionRequired.UNKNOWN, ''UNKNOWN'')]"

definition ActionRequired_to_string :: "ActionRequired \<Rightarrow> string" where
  "ActionRequired_to_string e = enum_to_string kActionRequiredNames e"

definition parse_action :: "string \<Rightarrow> ActionRequired option" where
  "parse_action s = enum_from_name kActionRequiredNames s"

definition action_from_byte :: "u8 \<Rightarrow> ActionRequired option" where
  "action_from_byte b = enum_from_byte ActionRequired_int kActionRequiredNames b"

interpretation action_required_enum: wire_enum ActionRequired_int kActionRequiredNames
proof unfold_locales
  show "e \<in> fst ` set kActionRequiredNames" for e
    by (cases e) (simp_all add: kActionRequiredNames_def)
  show "0 \<le> ActionRequired_int e \<and> ActionRequired_int e < 256" for e
    by (cases e) simp_all
  show "ActionRequired_int a = ActionRequired_int b \<Longrightarrow> a = b" for a b
    by (cases a; cases b; simp)
qed (simp_all add: kActionRequiredNames_def)

section \<open>DimensionState\<close>

datatype DimensionState =
    NOMINAL
  | DEGRADED
  | FAILED
  | UNAVAILABLE
  | UNKNOWN

primrec DimensionState_int :: "DimensionState \<Rightarrow> int" where
  "DimensionState_int DimensionState.NOMINAL = 0"
| "DimensionState_int DimensionState.DEGRADED = 1"
| "DimensionState_int DimensionState.FAILED = 2"
| "DimensionState_int DimensionState.UNAVAILABLE = 3"
| "DimensionState_int DimensionState.UNKNOWN = 4"

definition kDimensionStateNames :: "(DimensionState \<times> string) list" where
  "kDimensionStateNames = [
    (DimensionState.NOMINAL, ''NOMINAL''),
    (DimensionState.DEGRADED, ''DEGRADED''),
    (DimensionState.FAILED, ''FAILED''),
    (DimensionState.UNAVAILABLE, ''UNAVAILABLE''),
    (DimensionState.UNKNOWN, ''UNKNOWN'')]"

definition DimensionState_to_string :: "DimensionState \<Rightarrow> string" where
  "DimensionState_to_string e = enum_to_string kDimensionStateNames e"

definition parse_dimension_state :: "string \<Rightarrow> DimensionState option" where
  "parse_dimension_state s = enum_from_name kDimensionStateNames s"

definition dimension_state_from_byte :: "u8 \<Rightarrow> DimensionState option" where
  "dimension_state_from_byte b = enum_from_byte DimensionState_int kDimensionStateNames b"

interpretation dimension_state_enum: wire_enum DimensionState_int kDimensionStateNames
proof unfold_locales
  show "e \<in> fst ` set kDimensionStateNames" for e
    by (cases e) (simp_all add: kDimensionStateNames_def)
  show "0 \<le> DimensionState_int e \<and> DimensionState_int e < 256" for e
    by (cases e) simp_all
  show "DimensionState_int a = DimensionState_int b \<Longrightarrow> a = b" for a b
    by (cases a; cases b; simp)
qed (simp_all add: kDimensionStateNames_def)

section \<open>ResolutionState\<close>

datatype ResolutionState =
    OPEN
  | RESOLVED
  | SUPPRESSED

primrec ResolutionState_int :: "ResolutionState \<Rightarrow> int" where
  "ResolutionState_int ResolutionState.OPEN = 0"
| "ResolutionState_int ResolutionState.RESOLVED = 1"
| "ResolutionState_int ResolutionState.SUPPRESSED = 2"

definition kResolutionStateNames :: "(ResolutionState \<times> string) list" where
  "kResolutionStateNames = [
    (ResolutionState.OPEN, ''OPEN''),
    (ResolutionState.RESOLVED, ''RESOLVED''),
    (ResolutionState.SUPPRESSED, ''SUPPRESSED'')]"

definition ResolutionState_to_string :: "ResolutionState \<Rightarrow> string" where
  "ResolutionState_to_string e = enum_to_string kResolutionStateNames e"

definition parse_resolution :: "string \<Rightarrow> ResolutionState option" where
  "parse_resolution s = enum_from_name kResolutionStateNames s"

definition resolution_from_byte :: "u8 \<Rightarrow> ResolutionState option" where
  "resolution_from_byte b = enum_from_byte ResolutionState_int kResolutionStateNames b"

interpretation resolution_state_enum: wire_enum ResolutionState_int kResolutionStateNames
proof unfold_locales
  show "e \<in> fst ` set kResolutionStateNames" for e
    by (cases e) (simp_all add: kResolutionStateNames_def)
  show "0 \<le> ResolutionState_int e \<and> ResolutionState_int e < 256" for e
    by (cases e) simp_all
  show "ResolutionState_int a = ResolutionState_int b \<Longrightarrow> a = b" for a b
    by (cases a; cases b; simp)
qed (simp_all add: kResolutionStateNames_def)

section \<open>MessageType\<close>

datatype MessageType =
    HELLO
  | REGISTER
  | OBSERVATION
  | VALIDATION_RESULT
  | FAULT_REPORT
  | HEALTH_ASSESSMENT
  | QUARANTINE
  | CLEAR_QUARANTINE
  | RECOVERY_BEGIN
  | RECOVERY_RESULT
  | POLICY_UPDATE
  | SNAPSHOT_REQUEST
  | SNAPSHOT_RESPONSE
  | ACK
  | ERROR

primrec MessageType_int :: "MessageType \<Rightarrow> int" where
  "MessageType_int MessageType.HELLO = 0"
| "MessageType_int MessageType.REGISTER = 1"
| "MessageType_int MessageType.OBSERVATION = 2"
| "MessageType_int MessageType.VALIDATION_RESULT = 3"
| "MessageType_int MessageType.FAULT_REPORT = 4"
| "MessageType_int MessageType.HEALTH_ASSESSMENT = 5"
| "MessageType_int MessageType.QUARANTINE = 6"
| "MessageType_int MessageType.CLEAR_QUARANTINE = 7"
| "MessageType_int MessageType.RECOVERY_BEGIN = 8"
| "MessageType_int MessageType.RECOVERY_RESULT = 9"
| "MessageType_int MessageType.POLICY_UPDATE = 10"
| "MessageType_int MessageType.SNAPSHOT_REQUEST = 11"
| "MessageType_int MessageType.SNAPSHOT_RESPONSE = 12"
| "MessageType_int MessageType.ACK = 13"
| "MessageType_int MessageType.ERROR = 14"

definition kMessageTypeNames :: "(MessageType \<times> string) list" where
  "kMessageTypeNames = [
    (MessageType.HELLO, ''HELLO''),
    (MessageType.REGISTER, ''REGISTER''),
    (MessageType.OBSERVATION, ''OBSERVATION''),
    (MessageType.VALIDATION_RESULT, ''VALIDATION_RESULT''),
    (MessageType.FAULT_REPORT, ''FAULT_REPORT''),
    (MessageType.HEALTH_ASSESSMENT, ''HEALTH_ASSESSMENT''),
    (MessageType.QUARANTINE, ''QUARANTINE''),
    (MessageType.CLEAR_QUARANTINE, ''CLEAR_QUARANTINE''),
    (MessageType.RECOVERY_BEGIN, ''RECOVERY_BEGIN''),
    (MessageType.RECOVERY_RESULT, ''RECOVERY_RESULT''),
    (MessageType.POLICY_UPDATE, ''POLICY_UPDATE''),
    (MessageType.SNAPSHOT_REQUEST, ''SNAPSHOT_REQUEST''),
    (MessageType.SNAPSHOT_RESPONSE, ''SNAPSHOT_RESPONSE''),
    (MessageType.ACK, ''ACK''),
    (MessageType.ERROR, ''ERROR'')]"

definition MessageType_to_string :: "MessageType \<Rightarrow> string" where
  "MessageType_to_string e = enum_to_string kMessageTypeNames e"

definition message_type_from_byte :: "u8 \<Rightarrow> MessageType option" where
  "message_type_from_byte b = enum_from_byte MessageType_int kMessageTypeNames b"

interpretation message_type_enum: wire_enum MessageType_int kMessageTypeNames
proof unfold_locales
  show "e \<in> fst ` set kMessageTypeNames" for e
    by (cases e) (simp_all add: kMessageTypeNames_def)
  show "0 \<le> MessageType_int e \<and> MessageType_int e < 256" for e
    by (cases e) simp_all
  show "MessageType_int a = MessageType_int b \<Longrightarrow> a = b" for a b
    by (cases a; cases b; simp)
qed (simp_all add: kMessageTypeNames_def)

definition severity_rank :: "Severity \<Rightarrow> int" where
  "severity_rank s = Severity_int s"

definition validation_depth_rank :: "ValidationDepth \<Rightarrow> int" where
  "validation_depth_rank d = ValidationDepth_int d"

end
