(* ===== verification/Wire.thy ===== *)
theory Wire
  imports Util Enums "HOL-Library.State_Monad"
begin

text \<open>
  Model of \<open>include/accelerator-health/Wire.hpp\<close>, the bounded little-endian serialisation every
  persistent record and every protocol message is built from.

  A \<open>wire::Writer\<close> is local to the function that fills it, so a \<open>write\<close> method is modelled by the
  bytes it appends, or by the exception that leaves it (\<open>wr\<close>, the only throwing primitive is
  \<open>string\<close>); a method body that appends several fields is \<open>wr_all\<close> of the list of its statements.
  A \<open>wire::Reader\<close> is a record with the three members of the class, and its methods are
  computations of the state monad (\<open>rd\<close>): a read past the end sets the sticky \<open>fail_\<close> flag and
  yields 0, exactly as in the source.  \<open>rd_try\<close> is the idiom \<open>if (!read(r, x)) return false\<close>.

  Two judgements carry the proofs.  \<open>reads m w v\<close>: on input produced by the writer \<open>w\<close>, at any
  position of any buffer, the reader \<open>m\<close> yields \<open>v\<close> and stops exactly behind it.  \<open>good m\<close>: \<open>m\<close>
  never moves outside the buffer, never clears the fail flag, and if it does not fail it does not
  depend on bytes it has not consumed.  The locale \<open>codec\<close> combines them; inside it we show once that
  encodings are injective and prefix-free and that every truncated encoding is rejected.
\<close>

section \<open>Exceptions\<close>

datatype exn =
    invalid_argument string
  | logic_error string
  | runtime_error string
  | overflow_error string
  | InvalidTransition HealthState HealthState

section \<open>Characters and bytes\<close>

definition byte_of_char :: "char \<Rightarrow> u8" where
  "byte_of_char c = of_char c"

definition char_of_byte :: "u8 \<Rightarrow> char" where
  "char_of_byte b = char_of (unat b)"

lemma char_of_byte_of_char [simp]: "char_of_byte (byte_of_char c) = c"
proof -
  have "unat (of_char c :: u8) = of_char c"
    by (simp add: unat_of_nat flip: of_nat_of_char [where 'a = u8])
  then show ?thesis
    by (simp add: char_of_byte_def byte_of_char_def)
qed

section \<open>Writer\<close>

type_synonym wr = "exn + bytes"

definition wr_u8 :: "u8 \<Rightarrow> wr" where
  "wr_u8 v = Inr [v]"

definition wr_u16 :: "u16 \<Rightarrow> wr" where
  "wr_u16 v = Inr (store_le16 v)"

definition wr_u32 :: "u32 \<Rightarrow> wr" where
  "wr_u32 v = Inr (store_le32 v)"

definition wr_u64 :: "u64 \<Rightarrow> wr" where
  "wr_u64 v = Inr (store_le64 v)"

definition wr_i64 :: "i64 \<Rightarrow> wr" where
  "wr_i64 v = wr_u64 v"

definition wr_f32 :: "f32 \<Rightarrow> wr" where
  "wr_f32 bits = wr_u32 bits"

definition wr_f64 :: "f64 \<Rightarrow> wr" where
  "wr_f64 bits = wr_u64 bits"

definition wr_bytes :: "bytes \<Rightarrow> wr" where
  "wr_bytes data = Inr data"

fun wr_all :: "wr list \<Rightarrow> wr" where
  "wr_all [] = Inr []"
| "wr_all (w # ws) =
     (case w of Inl e \<Rightarrow> Inl e
      | Inr bs \<Rightarrow> (case wr_all ws of Inl e \<Rightarrow> Inl e | Inr cs \<Rightarrow> Inr (bs @ cs)))"

definition wr_string :: "string \<Rightarrow> wr" where
  "wr_string s =
     (if length s > kMaxString then Inl (runtime_error ''wire: string too long'')
      else wr_all [wr_u32 (of_nat (length s)), wr_bytes (map byte_of_char s)])"

definition wr_bool :: "bool \<Rightarrow> wr" where
  "wr_bool b = wr_u8 (if b then 1 else 0)"

text \<open>A count followed by the elements, as every container is written.\<close>

definition wr_vec :: "('a \<Rightarrow> wr) \<Rightarrow> 'a list \<Rightarrow> wr" where
  "wr_vec enc xs = wr_all (wr_u32 (of_nat (length xs)) # map enc xs)"

section \<open>Reader\<close>

record Reader =
  rd_data :: bytes
  rd_pos :: nat
  rd_fail :: bool

type_synonym 'a rd = "(Reader, 'a) state"

definition mk_reader :: "bytes \<Rightarrow> Reader" where
  "mk_reader d = \<lparr>rd_data = d, rd_pos = 0, rd_fail = False\<rparr>"

definition remaining :: "Reader \<Rightarrow> nat" where
  "remaining r = length (rd_data r) - rd_pos r"

definition rest :: "Reader \<Rightarrow> bytes" where
  "rest r = drop (rd_pos r) (rd_data r)"

definition set_fail :: "Reader \<Rightarrow> Reader" where
  "set_fail r = r\<lparr>rd_fail := True\<rparr>"

definition advance :: "nat \<Rightarrow> Reader \<Rightarrow> Reader" where
  "advance n r = r\<lparr>rd_pos := rd_pos r + n\<rparr>"

definition rd_u8 :: "u8 rd" where
  "rd_u8 = State (\<lambda>r. if remaining r < 1 then (0, set_fail r) else (hd (rest r), advance 1 r))"

definition rd_u16 :: "u16 rd" where
  "rd_u16 = State (\<lambda>r. if remaining r < 2 then (0, set_fail r) else (load_le16 (rest r), advance 2 r))"

definition rd_u32 :: "u32 rd" where
  "rd_u32 = State (\<lambda>r. if remaining r < 4 then (0, set_fail r) else (load_le32 (rest r), advance 4 r))"

definition rd_u64 :: "u64 rd" where
  "rd_u64 = State (\<lambda>r. if remaining r < 8 then (0, set_fail r) else (load_le64 (rest r), advance 8 r))"

definition rd_i64 :: "i64 rd" where
  "rd_i64 = rd_u64"

definition rd_f32 :: "f32 rd" where
  "rd_f32 = rd_u32"

definition rd_f64 :: "f64 rd" where
  "rd_f64 = rd_u64"

definition rd_bool :: "bool rd" where
  "rd_bool = do { b \<leftarrow> rd_u8; State_Monad.return (b \<noteq> 0) }"

definition rd_take :: "nat \<Rightarrow> u32 \<Rightarrow> bytes rd" where
  "rd_take cap len = State (\<lambda>r.
     if rd_fail r \<or> unat len > cap \<or> unat len > remaining r then ([], set_fail r)
     else (take (unat len) (rest r), advance (unat len) r))"

definition rd_bytes_vec :: "nat \<Rightarrow> bytes rd" where
  "rd_bytes_vec cap = do { len \<leftarrow> rd_u32; rd_take cap len }"

definition rd_string :: "string rd" where
  "rd_string = do { len \<leftarrow> rd_u32; bs \<leftarrow> rd_take kMaxString len; State_Monad.return (map char_of_byte bs) }"

definition rd_skip :: "nat \<Rightarrow> bool rd" where
  "rd_skip n = State (\<lambda>r. if remaining r < n then (False, set_fail r) else (True, advance n r))"

text \<open>The idioms of the \<open>read\<close> methods: early return, the final \<open>return r.ok()\<close>, enum and count checks.\<close>

definition rd_try :: "'a option rd \<Rightarrow> ('a \<Rightarrow> 'b option rd) \<Rightarrow> 'b option rd" where
  "rd_try m f = do { x \<leftarrow> m; (case x of None \<Rightarrow> State_Monad.return None | Some y \<Rightarrow> f y) }"

definition rd_ok :: "'a \<Rightarrow> 'a option rd" where
  "rd_ok x = State (\<lambda>r. (if rd_fail r then None else Some x, r))"

definition rd_check :: "'a option \<Rightarrow> 'a option rd" where
  "rd_check v = State (\<lambda>r. if rd_fail r \<or> v = None then (None, set_fail r) else (v, r))"

definition write_enum :: "('e \<Rightarrow> int) \<Rightarrow> 'e \<Rightarrow> wr" where
  "write_enum code e = wr_u8 (word_of_int (code e))"

definition read_enum :: "(u8 \<Rightarrow> 'e option) \<Rightarrow> 'e option rd" where
  "read_enum from_byte = do { b \<leftarrow> rd_u8; rd_check (from_byte b) }"

definition rd_count :: "nat option rd" where
  "rd_count = do { n \<leftarrow> rd_u32; rd_check (if unat n > kMaxCount then None else Some (unat n)) }"

primrec rd_times :: "nat \<Rightarrow> 'a option rd \<Rightarrow> 'a list option rd" where
  "rd_times 0 dec = State_Monad.return (Some [])"
| "rd_times (Suc n) dec = rd_try dec (\<lambda>x. rd_try (rd_times n dec) (\<lambda>xs. State_Monad.return (Some (x # xs))))"

primrec rd_times_plain :: "nat \<Rightarrow> 'a rd \<Rightarrow> 'a list rd" where
  "rd_times_plain 0 m = State_Monad.return []"
| "rd_times_plain (Suc n) m =
     do { x \<leftarrow> m; xs \<leftarrow> rd_times_plain n m; State_Monad.return (x # xs) }"

definition rd_vec :: "'a option rd \<Rightarrow> 'a list option rd" where
  "rd_vec dec = rd_try rd_count (\<lambda>n. rd_times n dec)"

section \<open>The decoding judgement\<close>

definition reads :: "'a rd \<Rightarrow> wr \<Rightarrow> 'a \<Rightarrow> bool" where
  "reads m w v \<longleftrightarrow> (\<forall>bs pre post. w = Inr bs \<longrightarrow>
     run_state m \<lparr>rd_data = pre @ bs @ post, rd_pos = length pre, rd_fail = False\<rparr> =
       (v, \<lparr>rd_data = pre @ bs @ post, rd_pos = length pre + length bs, rd_fail = False\<rparr>))"

lemma wr_all_Inr [write_simps]:
  "wr_all (w # ws) = Inr bs \<longleftrightarrow> (\<exists>b1 b2. w = Inr b1 \<and> wr_all ws = Inr b2 \<and> bs = b1 @ b2)"
  by (auto split: sum.splits)

lemma run_bind: "run_state (State_Monad.bind m f) r = (case run_state m r of (x, r') \<Rightarrow> run_state (f x) r')"
  by (cases m) (simp add: case_prod_beta State_Monad.bind_def)

lemma reads_return [reads_intros]: "reads (State_Monad.return x) (wr_all []) x"
  by (simp add: reads_def State_Monad.return_def)

lemma reads_bind [reads_intros]:
  assumes "reads m w a" "reads (f a) (wr_all ws) b"
  shows "reads (State_Monad.bind m f) (wr_all (w # ws)) b"
  unfolding reads_def
proof (intro allI impI)
  fix bs pre post assume "wr_all (w # ws) = Inr bs"
  then obtain b1 b2 where b: "w = Inr b1" "wr_all ws = Inr b2" "bs = b1 @ b2"
    by (auto split: sum.splits)
  have 1: "run_state m \<lparr>rd_data = pre @ b1 @ b2 @ post, rd_pos = length pre, rd_fail = False\<rparr> =
     (a, \<lparr>rd_data = pre @ b1 @ b2 @ post, rd_pos = length pre + length b1, rd_fail = False\<rparr>)"
    using assms(1) b(1) by (simp add: reads_def)
  have 2: "run_state (f a) \<lparr>rd_data = (pre @ b1) @ b2 @ post, rd_pos = length (pre @ b1), rd_fail = False\<rparr> =
     (b, \<lparr>rd_data = (pre @ b1) @ b2 @ post, rd_pos = length (pre @ b1) + length b2, rd_fail = False\<rparr>)"
    using assms(2) b(2) unfolding reads_def by blast
  show "run_state (m \<bind> f) \<lparr>rd_data = pre @ bs @ post, rd_pos = length pre, rd_fail = False\<rparr> =
     (b, \<lparr>rd_data = pre @ bs @ post, rd_pos = length pre + length bs, rd_fail = False\<rparr>)"
    using 1 2 by (simp add: run_bind b(3) add.assoc)
qed

lemma reads_cong: "reads m w a \<Longrightarrow> w = w' \<Longrightarrow> reads m w' a"
  by simp

lemma reads_single: "reads m (wr_all [w]) a \<Longrightarrow> reads m w a"
  by (simp add: reads_def split: sum.splits)

lemma reads_try [reads_intros]:
  "reads m w (Some a) \<Longrightarrow> reads (f a) (wr_all ws) b \<Longrightarrow> reads (rd_try m f) (wr_all (w # ws)) b"
  unfolding rd_try_def by (rule reads_bind) (assumption, simp only: option.case)

lemma reads_ok [reads_intros]: "reads (rd_ok x) (wr_all []) (Some x)"
  by (simp add: reads_def rd_ok_def)

lemma reads_u8 [reads_intros]: "reads rd_u8 (wr_u8 v) v"
  by (simp add: reads_def rd_u8_def wr_u8_def remaining_def rest_def advance_def)

lemma reads_u16 [reads_intros]: "reads rd_u16 (wr_u16 v) v"
  by (simp add: reads_def rd_u16_def wr_u16_def remaining_def rest_def advance_def)

lemma reads_u32 [reads_intros]: "reads rd_u32 (wr_u32 v) v"
  by (simp add: reads_def rd_u32_def wr_u32_def remaining_def rest_def advance_def)

lemma reads_u64 [reads_intros]: "reads rd_u64 (wr_u64 v) v"
  by (simp add: reads_def rd_u64_def wr_u64_def remaining_def rest_def advance_def)

lemma reads_i64 [reads_intros]: "reads rd_i64 (wr_i64 v) v"
  unfolding rd_i64_def wr_i64_def by (rule reads_u64)

lemma reads_f32 [reads_intros]: "reads rd_f32 (wr_f32 v) v"
  unfolding rd_f32_def wr_f32_def by (rule reads_u32)

lemma reads_f64 [reads_intros]: "reads rd_f64 (wr_f64 v) v"
  unfolding rd_f64_def wr_f64_def by (rule reads_u64)

lemma reads_map:
  assumes "reads m w a" shows "reads (do { x \<leftarrow> m; State_Monad.return (f x) }) w (f a)"
  by (rule reads_single, rule reads_bind [OF assms], rule reads_return)

lemma reads_bool [reads_intros]: "reads rd_bool (wr_bool b) b"
  unfolding rd_bool_def wr_bool_def
  using reads_map [OF reads_u8, of "\<lambda>x. x \<noteq> 0" "if b then 1 else 0"] by (cases b) simp_all

lemma reads_take:
  "unat len = length bs \<Longrightarrow> length bs \<le> cap \<Longrightarrow> reads (rd_take cap len) (wr_bytes bs) bs"
  by (simp add: reads_def rd_take_def wr_bytes_def remaining_def rest_def advance_def)

lemma unat_count: "n \<le> kMaxCount \<Longrightarrow> unat (of_nat n :: u32) = n"
  by (simp add: kMaxCount_def unat_of_nat)

lemma reads_string [reads_intros]: "reads rd_string (wr_string s) s"
proof (cases "length s > kMaxString")
  case False
  then have len: "unat (of_nat (length s) :: u32) = length (map byte_of_char s :: bytes)"
    by (simp add: kMaxString_def unat_of_nat)
  have "reads (do { bs \<leftarrow> rd_take kMaxString (of_nat (length s)); State_Monad.return (map char_of_byte bs) })
      (wr_bytes (map byte_of_char s)) (map char_of_byte (map byte_of_char s :: bytes))"
    by (rule reads_map, rule reads_take) (use len False in simp_all)
  moreover have "map char_of_byte (map byte_of_char s :: bytes) = s"
    by (simp add: comp_def)
  ultimately have "reads rd_string (wr_all [wr_u32 (of_nat (length s)), wr_bytes (map byte_of_char s)]) s"
    unfolding rd_string_def
    by (intro reads_bind [OF reads_u32]) (simp add: reads_def split: sum.splits)
  then show ?thesis
    using False by (simp add: wr_string_def)
qed (simp add: wr_string_def reads_def)

lemma reads_check: "reads (rd_check (Some v)) (wr_all []) (Some v)"
  by (simp add: reads_def rd_check_def)

lemma reads_enum: "from_byte (word_of_int (code e)) = Some e \<Longrightarrow>
    reads (read_enum from_byte) (write_enum code e) (Some e)"
  unfolding read_enum_def write_enum_def
  by (rule reads_single, rule reads_bind [OF reads_u8]) (simp only: reads_check)

lemma reads_count: "n \<le> kMaxCount \<Longrightarrow> reads rd_count (wr_u32 (of_nat n)) (Some n)"
  unfolding rd_count_def
  by (rule reads_single, rule reads_bind [OF reads_u32]) (simp add: unat_count reads_check del: wr_all.simps)

lemma reads_times:
  "(\<And>x. x \<in> set xs \<Longrightarrow> reads dec (enc x) (Some x)) \<Longrightarrow>
     reads (rd_times (length xs) dec) (wr_all (map enc xs)) (Some xs)"
proof (induction xs)
  case Nil
  then show ?case using reads_return by simp
next
  case (Cons x xs)
  have IH: "reads (rd_times (length xs) dec) (wr_all (map enc xs)) (Some xs)"
    using Cons by simp
  have "reads (rd_try (rd_times (length xs) dec) (\<lambda>xs. State_Monad.return (Some (x # xs))))
      (wr_all (map enc xs)) (Some (x # xs))"
    by (rule reads_single, rule reads_try [OF IH], rule reads_return)
  then show ?case
    using Cons.prems by (simp only: list.map list.size rd_times.simps length_Cons add_0_right add_Suc_right)
      (rule reads_try, simp_all)
qed

lemma reads_times_plain:
  "(\<And>x. x \<in> set xs \<Longrightarrow> reads m (enc x) x) \<Longrightarrow>
     reads (rd_times_plain (length xs) m) (wr_all (map enc xs)) xs"
proof (induction xs)
  case Nil
  then show ?case using reads_return by simp
next
  case (Cons x xs)
  have IH: "reads (rd_times_plain (length xs) m) (wr_all (map enc xs)) xs"
    using Cons by simp
  have "reads (do { xs \<leftarrow> rd_times_plain (length xs) m; State_Monad.return (x # xs) })
      (wr_all (map enc xs)) (x # xs)"
    by (rule reads_map [OF IH])
  then show ?case
    using Cons.prems by (simp only: list.map rd_times_plain.simps length_Cons)
      (rule reads_bind, simp_all)
qed

lemma reads_vec:
  assumes "length xs \<le> kMaxCount" "\<And>x. x \<in> set xs \<Longrightarrow> reads dec (enc x) (Some x)"
  shows "reads (rd_vec dec) (wr_vec enc xs) (Some xs)"
  unfolding rd_vec_def wr_vec_def
  by (rule reads_try [OF reads_count [OF assms(1)]]) (rule reads_times [OF assms(2)])

section \<open>Well-behaved readers\<close>

definition rd_wf :: "Reader \<Rightarrow> bool" where
  "rd_wf r \<longleftrightarrow> rd_pos r \<le> length (rd_data r)"

definition rd_extend :: "bytes \<Rightarrow> Reader \<Rightarrow> Reader" where
  "rd_extend post r = r\<lparr>rd_data := rd_data r @ post\<rparr>"

definition good :: "'a rd \<Rightarrow> bool" where
  "good m \<longleftrightarrow> (\<forall>r x r'. rd_wf r \<longrightarrow> run_state m r = (x, r') \<longrightarrow>
     rd_wf r' \<and> rd_data r' = rd_data r \<and> rd_pos r \<le> rd_pos r' \<and> (rd_fail r \<longrightarrow> rd_fail r') \<and>
     (\<not> rd_fail r' \<longrightarrow> (\<forall>post. run_state m (rd_extend post r) = (x, rd_extend post r'))))"

lemma goodI:
  assumes "\<And>r x r'. rd_wf r \<Longrightarrow> run_state m r = (x, r') \<Longrightarrow>
     rd_wf r' \<and> rd_data r' = rd_data r \<and> rd_pos r \<le> rd_pos r' \<and> (rd_fail r \<longrightarrow> rd_fail r') \<and>
     (\<not> rd_fail r' \<longrightarrow> (\<forall>post. run_state m (rd_extend post r) = (x, rd_extend post r')))"
  shows "good m"
  using assms unfolding good_def by blast

lemma goodD:
  assumes "good m" "rd_wf r" "run_state m r = (x, r')"
  shows "rd_wf r'" "rd_data r' = rd_data r" "rd_pos r \<le> rd_pos r'" "rd_fail r \<Longrightarrow> rd_fail r'"
    and "\<not> rd_fail r' \<Longrightarrow> run_state m (rd_extend post r) = (x, rd_extend post r')"
  using assms unfolding good_def by blast+

lemma good_return [good_intros]: "good (State_Monad.return x)"
  by (rule goodI) (auto simp: State_Monad.return_def)

lemma good_bind [good_intros]:
  assumes m: "good m" and f: "\<And>x. good (f x)"
  shows "good (State_Monad.bind m f)"
proof (rule goodI)
  fix r y r'' assume wf: "rd_wf r" and run: "run_state (m \<bind> f) r = (y, r'')"
  obtain x r' where 1: "run_state m r = (x, r')" by fastforce
  then have 2: "run_state (f x) r' = (y, r'')"
    using run by (simp add: run_bind)
  note m' = goodD [OF m wf 1] and f' = goodD [OF f goodD(1) [OF m wf 1] 2]
  have "\<forall>post. run_state (m \<bind> f) (rd_extend post r) = (y, rd_extend post r'')" if "\<not> rd_fail r''"
  proof -
    have "\<not> rd_fail r'" using that f'(4) by blast
    then show ?thesis using m'(5) f'(5) that by (simp add: run_bind)
  qed
  then show "rd_wf r'' \<and> rd_data r'' = rd_data r \<and> rd_pos r \<le> rd_pos r'' \<and> (rd_fail r \<longrightarrow> rd_fail r'') \<and>
     (\<not> rd_fail r'' \<longrightarrow> (\<forall>post. run_state (m \<bind> f) (rd_extend post r) = (y, rd_extend post r'')))"
    using m' f' by auto
qed

lemmas rd_prim_defs = rd_wf_def rd_extend_def remaining_def rest_def set_fail_def advance_def

lemma load_le16_append: "2 \<le> length p \<Longrightarrow> load_le16 (p @ q) = load_le16 p"
  by (auto simp: load_le16_def nth_append)

lemma load_le32_append: "4 \<le> length p \<Longrightarrow> load_le32 (p @ q) = load_le32 p"
  by (auto simp: load_le32_def nth_append)

lemma load_le64_append: "8 \<le> length p \<Longrightarrow> load_le64 (p @ q) = load_le64 p"
  unfolding load_le64_def by (rule foldl_cong) (auto simp: nth_append)

lemma good_u8 [good_intros]: "good rd_u8"
  by (rule goodI) (auto simp: rd_u8_def rd_prim_defs split: if_splits)

lemma good_u16 [good_intros]: "good rd_u16"
  by (rule goodI) (auto simp: rd_u16_def rd_prim_defs load_le16_append split: if_splits)

lemma good_u32 [good_intros]: "good rd_u32"
  by (rule goodI) (auto simp: rd_u32_def rd_prim_defs load_le32_append split: if_splits)

lemma good_u64 [good_intros]: "good rd_u64"
  by (rule goodI) (auto simp: rd_u64_def rd_prim_defs load_le64_append split: if_splits)

lemma good_i64 [good_intros]: "good rd_i64" and good_f32 [good_intros]: "good rd_f32"
  and good_f64 [good_intros]: "good rd_f64" and good_bool [good_intros]: "good rd_bool"
  unfolding rd_i64_def rd_f32_def rd_f64_def rd_bool_def by (intro good_intros)+

lemma good_take [good_intros]: "good (rd_take cap len)"
  by (rule goodI) (auto simp: rd_take_def rd_prim_defs split: if_splits)

lemma good_string [good_intros]: "good rd_string"
  unfolding rd_string_def by (intro good_intros)

lemma good_skip [good_intros]: "good (rd_skip n)"
  by (rule goodI) (auto simp: rd_skip_def rd_prim_defs split: if_splits)

lemma good_try [good_intros]: "good m \<Longrightarrow> (\<And>x. good (f x)) \<Longrightarrow> good (rd_try m f)"
  unfolding rd_try_def by (rule good_bind) (auto intro: good_return split: option.split)

lemma good_ok [good_intros]: "good (rd_ok x)"
  by (rule goodI) (auto simp: rd_ok_def rd_prim_defs)

lemma good_check [good_intros]: "good (rd_check v)"
  by (rule goodI) (auto simp: rd_check_def rd_prim_defs split: if_splits)

lemma good_enum [good_intros]: "good (read_enum from_byte)"
  unfolding read_enum_def by (intro good_intros)

lemma good_count [good_intros]: "good rd_count"
  unfolding rd_count_def by (intro good_intros)

lemma good_times [good_intros]: "good dec \<Longrightarrow> good (rd_times n dec)"
  by (induction n) (auto intro!: good_intros)

lemma good_times_plain [good_intros]: "good m \<Longrightarrow> good (rd_times_plain n m)"
  by (induction n) (auto intro!: good_intros)

lemma good_vec [good_intros]: "good dec \<Longrightarrow> good (rd_vec dec)"
  unfolding rd_vec_def by (intro good_intros)

text \<open>A decoder that reports success has not failed.\<close>

definition sound :: "'a option rd \<Rightarrow> bool" where
  "sound m \<longleftrightarrow> (\<forall>r x r'. run_state m r = (Some x, r') \<longrightarrow> \<not> rd_fail r')"

lemma sound_ok [good_intros]: "sound (rd_ok x)"
  by (auto simp: sound_def rd_ok_def split: if_splits)

lemma sound_check [good_intros]: "sound (rd_check v)"
  by (auto simp: sound_def rd_check_def split: if_splits)

lemma sound_bind [good_intros]: "(\<And>x. sound (f x)) \<Longrightarrow> sound (State_Monad.bind m f)"
  by (auto simp: sound_def run_bind split: prod.splits)

lemma sound_None [good_intros]: "sound (State_Monad.return None)"
  by (simp add: sound_def State_Monad.return_def)

lemma sound_try [good_intros]: "(\<And>x. sound (f x)) \<Longrightarrow> sound (rd_try m f)"
  unfolding rd_try_def by (rule sound_bind) (auto intro: sound_None split: option.split)

lemma sound_enum [good_intros]: "sound (read_enum from_byte)"
  unfolding read_enum_def by (intro good_intros)

section \<open>Codecs\<close>

locale codec =
  fixes enc :: "'a \<Rightarrow> wr" and dec :: "'a option rd" and valid :: "'a \<Rightarrow> bool"
  assumes roundtrip: "valid x \<Longrightarrow> reads dec (enc x) (Some x)"
    and dec_good: "good dec"
    and dec_sound: "sound dec"
begin

lemma decode_encode:
  assumes "valid x" "enc x = Inr bs"
  shows "run_state dec (mk_reader (bs @ post)) =
     (Some x, \<lparr>rd_data = bs @ post, rd_pos = length bs, rd_fail = False\<rparr>)"
proof -
  have "\<forall>pre post. run_state dec \<lparr>rd_data = pre @ bs @ post, rd_pos = length pre, rd_fail = False\<rparr> =
       (Some x, \<lparr>rd_data = pre @ bs @ post, rd_pos = length pre + length bs, rd_fail = False\<rparr>)"
    using roundtrip [OF assms(1)] assms(2) by (simp add: reads_def)
  from this [rule_format, of "[]"] show ?thesis
    by (simp add: mk_reader_def)
qed

lemma encoding_prefix_free:
  assumes "valid x" "valid y" "enc x = Inr bs" "enc y = Inr (bs @ cs)"
  shows "x = y \<and> cs = []"
  using decode_encode [OF assms(1,3), of cs] decode_encode [OF assms(2,4), of "[]"] by simp

lemma encoding_inj:
  assumes "valid x" "valid y" "enc x = Inr bs" "enc y = Inr bs"
  shows "x = y"
  using encoding_prefix_free [of x y bs "[]"] assms by simp

lemma truncated_rejected:
  assumes "valid x" "enc x = Inr bs" "k < length bs"
  shows "fst (run_state dec (mk_reader (take k bs))) = None"
proof (rule ccontr)
  let ?r = "mk_reader (take k bs)"
  assume "fst (run_state dec ?r) \<noteq> None"
  then obtain z r' where run: "run_state dec ?r = (Some z, r')"
    by (metis not_None_eq prod.collapse)
  have wf: "rd_wf ?r" by (simp add: mk_reader_def rd_wf_def)
  have ok: "\<not> rd_fail r'" using dec_sound run unfolding sound_def by blast
  note g = goodD [OF dec_good wf run]
  have "run_state dec (rd_extend (drop k bs) ?r) = (Some z, rd_extend (drop k bs) r')"
    using g(5) ok by blast
  moreover have "rd_extend (drop k bs) ?r = mk_reader (bs @ [])"
    by (simp add: rd_extend_def mk_reader_def)
  ultimately have "rd_extend (drop k bs) r' = \<lparr>rd_data = bs, rd_pos = length bs, rd_fail = False\<rparr>"
    using decode_encode [OF assms(1,2), of "[]"] by simp
  then have "rd_pos (rd_extend (drop k bs) r') = length bs"
    by (metis Reader.select_convs(2))
  then have "rd_pos r' = length bs"
    by (simp add: rd_extend_def)
  with g(1,2) assms(3) show False
    by (simp add: rd_wf_def mk_reader_def)
qed

lemma reads_list: "length xs \<le> kMaxCount \<Longrightarrow> list_all valid xs \<Longrightarrow>
    reads (rd_vec dec) (wr_vec enc xs) (Some xs)"
  by (rule reads_vec) (auto simp: list_all_iff intro: roundtrip)

end

sublocale wire_enum \<subseteq> enum_codec: codec "write_enum code" "read_enum (enum_from_byte code names)" "\<lambda>_. True"
  by unfold_locales (auto intro: reads_enum from_byte_to_byte good_intros)

end
