(* ===== verification/EnumsWire.thy ===== *)
theory EnumsWire
  imports Wire
begin

text \<open>
  The \<open>write\<close> and \<open>read\<close> overloads of the enumerations (\<open>Enums.hpp\<close>, \<open>Fault.hpp\<close>): one byte, and a
  decoder that fails on a byte that is no code.  Every pair is a codec through the sublocale of
  \<open>wire_enum\<close>; the round trips go into \<open>reads_intros\<close>, where the record codecs find them.
\<close>

definition HealthState_write :: "HealthState \<Rightarrow> wr" where
  "HealthState_write e = write_enum HealthState_int e"

definition HealthState_read :: "HealthState option rd" where
  "HealthState_read = read_enum health_state_from_byte"

lemma HealthState_reads [reads_intros]: "reads HealthState_read (HealthState_write e) (Some e)"
  unfolding HealthState_read_def HealthState_write_def
  by (rule reads_enum) (simp add: health_state_from_byte_def health_state_enum.from_byte_to_byte)

lemma HealthState_good [good_intros]: "good HealthState_read"
  unfolding HealthState_read_def by (rule good_enum)

definition ReadinessState_write :: "ReadinessState \<Rightarrow> wr" where
  "ReadinessState_write e = write_enum ReadinessState_int e"

definition ReadinessState_read :: "ReadinessState option rd" where
  "ReadinessState_read = read_enum readiness_from_byte"

lemma ReadinessState_reads [reads_intros]: "reads ReadinessState_read (ReadinessState_write e) (Some e)"
  unfolding ReadinessState_read_def ReadinessState_write_def
  by (rule reads_enum) (simp add: readiness_from_byte_def readiness_state_enum.from_byte_to_byte)

lemma ReadinessState_good [good_intros]: "good ReadinessState_read"
  unfolding ReadinessState_read_def by (rule good_enum)

definition Severity_write :: "Severity \<Rightarrow> wr" where
  "Severity_write e = write_enum Severity_int e"

definition Severity_read :: "Severity option rd" where
  "Severity_read = read_enum severity_from_byte"

lemma Severity_reads [reads_intros]: "reads Severity_read (Severity_write e) (Some e)"
  unfolding Severity_read_def Severity_write_def
  by (rule reads_enum) (simp add: severity_from_byte_def severity_enum.from_byte_to_byte)

lemma Severity_good [good_intros]: "good Severity_read"
  unfolding Severity_read_def by (rule good_enum)

definition EvidenceClass_write :: "EvidenceClass \<Rightarrow> wr" where
  "EvidenceClass_write e = write_enum EvidenceClass_int e"

definition EvidenceClass_read :: "EvidenceClass option rd" where
  "EvidenceClass_read = read_enum evidence_class_from_byte"

lemma EvidenceClass_reads [reads_intros]: "reads EvidenceClass_read (EvidenceClass_write e) (Some e)"
  unfolding EvidenceClass_read_def EvidenceClass_write_def
  by (rule reads_enum) (simp add: evidence_class_from_byte_def evidence_class_enum.from_byte_to_byte)

lemma EvidenceClass_good [good_intros]: "good EvidenceClass_read"
  unfolding EvidenceClass_read_def by (rule good_enum)

definition ValidationDepth_write :: "ValidationDepth \<Rightarrow> wr" where
  "ValidationDepth_write e = write_enum ValidationDepth_int e"

definition ValidationDepth_read :: "ValidationDepth option rd" where
  "ValidationDepth_read = read_enum validation_depth_from_byte"

lemma ValidationDepth_reads [reads_intros]: "reads ValidationDepth_read (ValidationDepth_write e) (Some e)"
  unfolding ValidationDepth_read_def ValidationDepth_write_def
  by (rule reads_enum) (simp add: validation_depth_from_byte_def validation_depth_enum.from_byte_to_byte)

lemma ValidationDepth_good [good_intros]: "good ValidationDepth_read"
  unfolding ValidationDepth_read_def by (rule good_enum)

definition ValidationProfile_write :: "ValidationProfile \<Rightarrow> wr" where
  "ValidationProfile_write e = write_enum ValidationProfile_int e"

definition ValidationProfile_read :: "ValidationProfile option rd" where
  "ValidationProfile_read = read_enum validation_profile_from_byte"

lemma ValidationProfile_reads [reads_intros]: "reads ValidationProfile_read (ValidationProfile_write e) (Some e)"
  unfolding ValidationProfile_read_def ValidationProfile_write_def
  by (rule reads_enum) (simp add: validation_profile_from_byte_def validation_profile_enum.from_byte_to_byte)

lemma ValidationProfile_good [good_intros]: "good ValidationProfile_read"
  unfolding ValidationProfile_read_def by (rule good_enum)

definition FreshnessStatus_write :: "FreshnessStatus \<Rightarrow> wr" where
  "FreshnessStatus_write e = write_enum FreshnessStatus_int e"

definition FreshnessStatus_read :: "FreshnessStatus option rd" where
  "FreshnessStatus_read = read_enum freshness_from_byte"

lemma FreshnessStatus_reads [reads_intros]: "reads FreshnessStatus_read (FreshnessStatus_write e) (Some e)"
  unfolding FreshnessStatus_read_def FreshnessStatus_write_def
  by (rule reads_enum) (simp add: freshness_from_byte_def freshness_status_enum.from_byte_to_byte)

lemma FreshnessStatus_good [good_intros]: "good FreshnessStatus_read"
  unfolding FreshnessStatus_read_def by (rule good_enum)

definition FaultType_write :: "FaultType \<Rightarrow> wr" where
  "FaultType_write e = write_enum FaultType_int e"

definition FaultType_read :: "FaultType option rd" where
  "FaultType_read = read_enum fault_type_from_byte"

lemma FaultType_reads [reads_intros]: "reads FaultType_read (FaultType_write e) (Some e)"
  unfolding FaultType_read_def FaultType_write_def
  by (rule reads_enum) (simp add: fault_type_from_byte_def fault_type_enum.from_byte_to_byte)

lemma FaultType_good [good_intros]: "good FaultType_read"
  unfolding FaultType_read_def by (rule good_enum)

definition FaultClass_write :: "FaultClass \<Rightarrow> wr" where
  "FaultClass_write e = write_enum FaultClass_int e"

definition FaultClass_read :: "FaultClass option rd" where
  "FaultClass_read = read_enum fault_class_from_byte"

lemma FaultClass_reads [reads_intros]: "reads FaultClass_read (FaultClass_write e) (Some e)"
  unfolding FaultClass_read_def FaultClass_write_def
  by (rule reads_enum) (simp add: fault_class_from_byte_def fault_class_enum.from_byte_to_byte)

lemma FaultClass_good [good_intros]: "good FaultClass_read"
  unfolding FaultClass_read_def by (rule good_enum)

definition DimensionKind_write :: "DimensionKind \<Rightarrow> wr" where
  "DimensionKind_write e = write_enum DimensionKind_int e"

definition DimensionKind_read :: "DimensionKind option rd" where
  "DimensionKind_read = read_enum dimension_kind_from_byte"

lemma DimensionKind_reads [reads_intros]: "reads DimensionKind_read (DimensionKind_write e) (Some e)"
  unfolding DimensionKind_read_def DimensionKind_write_def
  by (rule reads_enum) (simp add: dimension_kind_from_byte_def dimension_kind_enum.from_byte_to_byte)

lemma DimensionKind_good [good_intros]: "good DimensionKind_read"
  unfolding DimensionKind_read_def by (rule good_enum)

definition QuarantineAuthority_write :: "QuarantineAuthority \<Rightarrow> wr" where
  "QuarantineAuthority_write e = write_enum QuarantineAuthority_int e"

definition QuarantineAuthority_read :: "QuarantineAuthority option rd" where
  "QuarantineAuthority_read = read_enum quarantine_authority_from_byte"

lemma QuarantineAuthority_reads [reads_intros]: "reads QuarantineAuthority_read (QuarantineAuthority_write e) (Some e)"
  unfolding QuarantineAuthority_read_def QuarantineAuthority_write_def
  by (rule reads_enum) (simp add: quarantine_authority_from_byte_def quarantine_authority_enum.from_byte_to_byte)

lemma QuarantineAuthority_good [good_intros]: "good QuarantineAuthority_read"
  unfolding QuarantineAuthority_read_def by (rule good_enum)

definition ActionRequired_write :: "ActionRequired \<Rightarrow> wr" where
  "ActionRequired_write e = write_enum ActionRequired_int e"

definition ActionRequired_read :: "ActionRequired option rd" where
  "ActionRequired_read = read_enum action_from_byte"

lemma ActionRequired_reads [reads_intros]: "reads ActionRequired_read (ActionRequired_write e) (Some e)"
  unfolding ActionRequired_read_def ActionRequired_write_def
  by (rule reads_enum) (simp add: action_from_byte_def action_required_enum.from_byte_to_byte)

lemma ActionRequired_good [good_intros]: "good ActionRequired_read"
  unfolding ActionRequired_read_def by (rule good_enum)

definition DimensionState_write :: "DimensionState \<Rightarrow> wr" where
  "DimensionState_write e = write_enum DimensionState_int e"

definition DimensionState_read :: "DimensionState option rd" where
  "DimensionState_read = read_enum dimension_state_from_byte"

lemma DimensionState_reads [reads_intros]: "reads DimensionState_read (DimensionState_write e) (Some e)"
  unfolding DimensionState_read_def DimensionState_write_def
  by (rule reads_enum) (simp add: dimension_state_from_byte_def dimension_state_enum.from_byte_to_byte)

lemma DimensionState_good [good_intros]: "good DimensionState_read"
  unfolding DimensionState_read_def by (rule good_enum)

definition ResolutionState_write :: "ResolutionState \<Rightarrow> wr" where
  "ResolutionState_write e = write_enum ResolutionState_int e"

definition ResolutionState_read :: "ResolutionState option rd" where
  "ResolutionState_read = read_enum resolution_from_byte"

lemma ResolutionState_reads [reads_intros]: "reads ResolutionState_read (ResolutionState_write e) (Some e)"
  unfolding ResolutionState_read_def ResolutionState_write_def
  by (rule reads_enum) (simp add: resolution_from_byte_def resolution_state_enum.from_byte_to_byte)

lemma ResolutionState_good [good_intros]: "good ResolutionState_read"
  unfolding ResolutionState_read_def by (rule good_enum)

end
