(* ===== verification/Identity.thy ===== *)
theory Identity
  imports EnumsWire
begin

text \<open>
  Model of \<open>StrongIdentity.hpp\<close>, \<open>Time.hpp\<close> and \<open>Freshness.hpp\<close>.  A strong identity and a generation
  are 64-bit values behind a phantom tag, one tag type per C++ tag struct, so the model cannot mix
  identities the source keeps apart.  \<open>Generation::next\<close> refuses to wrap (it throws), while
  \<open>StrongId::next\<close> wraps; both are kept.

  A \<open>Timestamp\<close> is a signed 64-bit nanosecond count: comparisons read it with \<^const>\<open>sint\<close>, the
  difference in \<open>FreshnessEvaluator::evaluate\<close> is the 64-bit subtraction of the machine (in C++ an
  overflow there is undefined behaviour; the theorems about ages assume it does not happen).

  A \<open>Clock\<close> is the sequence of readings it will deliver and the number already delivered:
  \<open>Clock_now\<close> returns the next one.  \<open>SystemClock\<close> is an arbitrary sequence, \<open>FakeClock\<close> a constant
  one until \<open>set\<close> or \<open>advance\<close> is called.
\<close>

section \<open>Strong identities\<close>

datatype 'tag StrongId = StrongId (id_get: u64)

datatype 'tag Generation = Generation (gen_get: u64)

instantiation StrongId :: (type) linorder
begin

definition less_eq_StrongId :: "'a StrongId \<Rightarrow> 'a StrongId \<Rightarrow> bool" where
  "less_eq_StrongId a b \<longleftrightarrow> id_get a \<le> id_get b"

definition less_StrongId :: "'a StrongId \<Rightarrow> 'a StrongId \<Rightarrow> bool" where
  "less_StrongId a b \<longleftrightarrow> id_get a < id_get b"

instance
  by standard (auto simp: less_eq_StrongId_def less_StrongId_def StrongId.expand)

end

instantiation Generation :: (type) linorder
begin

definition less_eq_Generation :: "'a Generation \<Rightarrow> 'a Generation \<Rightarrow> bool" where
  "less_eq_Generation a b \<longleftrightarrow> gen_get a \<le> gen_get b"

definition less_Generation :: "'a Generation \<Rightarrow> 'a Generation \<Rightarrow> bool" where
  "less_Generation a b \<longleftrightarrow> gen_get a < gen_get b"

instance
  by standard (auto simp: less_eq_Generation_def less_Generation_def Generation.expand)

end

definition id_is_null :: "'tag StrongId \<Rightarrow> bool" where
  "id_is_null i \<longleftrightarrow> id_get i = 0"

definition id_next :: "'tag StrongId \<Rightarrow> 'tag StrongId" where
  "id_next i = StrongId (id_get i + 1)"

definition gen_is_null :: "'tag Generation \<Rightarrow> bool" where
  "gen_is_null g \<longleftrightarrow> gen_get g = 0"

definition gen_next :: "'tag Generation \<Rightarrow> exn + 'tag Generation" where
  "gen_next g =
     (if gen_get g = - 1 then Inl (overflow_error ''generation overflow'')
      else Inr (Generation (gen_get g + 1)))"

definition id_string :: "'tag StrongId \<Rightarrow> string" where
  "id_string i = nat_to_string (unat (id_get i))"

definition StrongId_write :: "'tag StrongId \<Rightarrow> wr" where
  "StrongId_write i = wr_u64 (id_get i)"

definition StrongId_read :: "'tag StrongId rd" where
  "StrongId_read = do { v \<leftarrow> rd_u64; State_Monad.return (StrongId v) }"

definition Generation_write :: "'tag Generation \<Rightarrow> wr" where
  "Generation_write g = wr_u64 (gen_get g)"

definition Generation_read :: "'tag Generation rd" where
  "Generation_read = do { v \<leftarrow> rd_u64; State_Monad.return (Generation v) }"

datatype AcceleratorIdTag = AcceleratorIdTag
datatype DeviceUuidTag = DeviceUuidTag
datatype NodeIdTag = NodeIdTag
datatype WorkerIdTag = WorkerIdTag
datatype WorkerBootIdTag = WorkerBootIdTag
datatype ObservationIdTag = ObservationIdTag
datatype HealthAssessmentIdTag = HealthAssessmentIdTag
datatype ValidationRunIdTag = ValidationRunIdTag
datatype FaultIdTag = FaultIdTag
datatype QuarantineIdTag = QuarantineIdTag
datatype RecoveryIdTag = RecoveryIdTag
datatype PolicyIdTag = PolicyIdTag

datatype HealthGenerationTag = HealthGenerationTag
datatype ObservationGenerationTag = ObservationGenerationTag
datatype ValidationGenerationTag = ValidationGenerationTag
datatype RecoveryGenerationTag = RecoveryGenerationTag
datatype DeviceGenerationTag = DeviceGenerationTag
datatype PolicyGenerationTag = PolicyGenerationTag
datatype WorkerGenerationTag = WorkerGenerationTag

type_synonym AcceleratorId = "AcceleratorIdTag StrongId"
type_synonym DeviceUuid = "DeviceUuidTag StrongId"
type_synonym NodeId = "NodeIdTag StrongId"
type_synonym WorkerId = "WorkerIdTag StrongId"
type_synonym WorkerBootId = "WorkerBootIdTag StrongId"
type_synonym ObservationId = "ObservationIdTag StrongId"
type_synonym HealthAssessmentId = "HealthAssessmentIdTag StrongId"
type_synonym ValidationRunId = "ValidationRunIdTag StrongId"
type_synonym FaultId = "FaultIdTag StrongId"
type_synonym QuarantineId = "QuarantineIdTag StrongId"
type_synonym RecoveryId = "RecoveryIdTag StrongId"
type_synonym PolicyId = "PolicyIdTag StrongId"

type_synonym HealthGeneration = "HealthGenerationTag Generation"
type_synonym ObservationGeneration = "ObservationGenerationTag Generation"
type_synonym ValidationGeneration = "ValidationGenerationTag Generation"
type_synonym RecoveryGeneration = "RecoveryGenerationTag Generation"
type_synonym DeviceGeneration = "DeviceGenerationTag Generation"
type_synonym PolicyGeneration = "PolicyGenerationTag Generation"
type_synonym WorkerGeneration = "WorkerGenerationTag Generation"

lemma StrongId_reads [reads_intros]: "reads StrongId_read (StrongId_write i) i"
  unfolding StrongId_read_def StrongId_write_def
  by (cases i) (simp, rule reads_map, rule reads_u64)

lemma Generation_reads [reads_intros]: "reads Generation_read (Generation_write g) g"
  unfolding Generation_read_def Generation_write_def
  by (cases g) (simp, rule reads_map, rule reads_u64)

lemma StrongId_good [good_intros]: "good StrongId_read"
  and Generation_good [good_intros]: "good Generation_read"
  unfolding StrongId_read_def Generation_read_def by (intro good_intros)+

lemma gen_next_less: "gen_next g = Inr g' \<Longrightarrow> g < g' \<and> \<not> gen_is_null g'"
proof -
  assume "gen_next g = Inr g'"
  then have ne: "gen_get g \<noteq> - 1" and g': "g' = Generation (gen_get g + 1)"
    by (auto simp: gen_next_def split: if_splits)
  then have "1 + gen_get g \<noteq> 0"
    by (metis add.commute add_eq_0_iff2)
  then have "gen_get g < gen_get g + 1"
    by (simp add: word_less_nat_alt unatSuc add.commute)
  then show ?thesis
    by (auto simp: less_Generation_def gen_is_null_def g')
qed

section \<open>Authority envelope\<close>

record AuthorityEnvelope =
  env_coordinatorEpoch :: u64
  env_workerId :: WorkerId
  env_workerBootId :: WorkerBootId
  env_observationGeneration :: ObservationGeneration
  env_healthGeneration :: HealthGeneration
  env_validationGeneration :: ValidationGeneration
  env_deviceGeneration :: DeviceGeneration

definition AuthorityEnvelope_write :: "AuthorityEnvelope \<Rightarrow> wr" where
  "AuthorityEnvelope_write e = wr_all [
     wr_u64 (env_coordinatorEpoch e),
     StrongId_write (env_workerId e),
     StrongId_write (env_workerBootId e),
     Generation_write (env_observationGeneration e),
     Generation_write (env_healthGeneration e),
     Generation_write (env_validationGeneration e),
     Generation_write (env_deviceGeneration e)]"

definition AuthorityEnvelope_read :: "AuthorityEnvelope rd" where
  "AuthorityEnvelope_read = do {
     epoch \<leftarrow> rd_u64;
     worker \<leftarrow> StrongId_read;
     boot \<leftarrow> StrongId_read;
     og \<leftarrow> Generation_read;
     hg \<leftarrow> Generation_read;
     vg \<leftarrow> Generation_read;
     dg \<leftarrow> Generation_read;
     State_Monad.return \<lparr>env_coordinatorEpoch = epoch, env_workerId = worker, env_workerBootId = boot,
       env_observationGeneration = og, env_healthGeneration = hg, env_validationGeneration = vg,
       env_deviceGeneration = dg\<rparr> }"

lemma AuthorityEnvelope_reads [reads_intros]:
  "reads AuthorityEnvelope_read (AuthorityEnvelope_write e) e"
  unfolding AuthorityEnvelope_read_def AuthorityEnvelope_write_def
  by (cases e, simp only: AuthorityEnvelope.simps) (rule reads_intros)+

lemma AuthorityEnvelope_good [good_intros]: "good AuthorityEnvelope_read"
  unfolding AuthorityEnvelope_read_def by (intro good_intros)

section \<open>Time\<close>

datatype Timestamp = Timestamp (nanos: i64)

definition ts_less :: "Timestamp \<Rightarrow> Timestamp \<Rightarrow> bool" where
  "ts_less a b \<longleftrightarrow> sint (nanos a) < sint (nanos b)"

definition Timestamp_write :: "Timestamp \<Rightarrow> wr" where
  "Timestamp_write t = wr_i64 (nanos t)"

definition Timestamp_read :: "Timestamp rd" where
  "Timestamp_read = do { v \<leftarrow> rd_i64; State_Monad.return (Timestamp v) }"

lemma Timestamp_reads [reads_intros]: "reads Timestamp_read (Timestamp_write t) t"
  unfolding Timestamp_read_def Timestamp_write_def
  by (cases t) (simp, rule reads_map, rule reads_i64)

lemma Timestamp_good [good_intros]: "good Timestamp_read"
  unfolding Timestamp_read_def by (intro good_intros)

definition kSec :: i64 where
  "kSec = 1000000000"

record Clock =
  cl_readings :: "nat \<Rightarrow> Timestamp"
  cl_reads :: nat

definition Clock_now :: "Clock \<Rightarrow> Timestamp \<times> Clock" where
  "Clock_now c = (cl_readings c (cl_reads c), c\<lparr>cl_reads := Suc (cl_reads c)\<rparr>)"

definition FakeClock :: "i64 \<Rightarrow> Clock" where
  "FakeClock start = \<lparr>cl_readings = (\<lambda>_. Timestamp start), cl_reads = 0\<rparr>"

definition FakeClock_set :: "Timestamp \<Rightarrow> Clock \<Rightarrow> Clock" where
  "FakeClock_set t c = c\<lparr>cl_readings := (\<lambda>_. t)\<rparr>"

definition FakeClock_advance :: "i64 \<Rightarrow> Clock \<Rightarrow> Clock" where
  "FakeClock_advance d c = c\<lparr>cl_readings := (\<lambda>i. Timestamp (nanos (cl_readings c i) + d))\<rparr>"

section \<open>Freshness\<close>

record FreshnessThresholds =
  fr_current :: i64
  fr_stale :: i64
  fr_expire :: i64

definition default_FreshnessThresholds :: FreshnessThresholds where
  "default_FreshnessThresholds = \<lparr>fr_current = 5 * kSec, fr_stale = 30 * kSec, fr_expire = 300 * kSec\<rparr>"

definition freshness_evaluate :: "FreshnessThresholds \<Rightarrow> Timestamp \<Rightarrow> Timestamp \<Rightarrow> FreshnessStatus" where
  "freshness_evaluate th observed now =
     (if ts_less now observed then FreshnessStatus.CURRENT
      else let age = nanos now - nanos observed in
        if sint age \<le> sint (fr_current th) then FreshnessStatus.CURRENT
        else if sint age \<le> sint (fr_stale th) then FreshnessStatus.AGING
        else if sint age \<le> sint (fr_expire th) then FreshnessStatus.STALE
        else FreshnessStatus.EXPIRED)"

end
