(* ===== verification/Records.thy ===== *)
theory Records
  imports Identity
begin

text \<open>
  The plain data records of the program with their binary layouts: \<open>HealthDimension\<close>
  (\<open>Dimension.hpp\<close>), \<open>Evidence\<close> and \<open>AcceleratorObservation\<close> (\<open>Evidence.hpp\<close>), \<open>Fault\<close>
  (\<open>Fault.hpp\<close>), \<open>HealthChange\<close> (\<open>ChangeLog.hpp\<close>), \<open>HealthPolicy\<close> (\<open>Policy.hpp\<close>) and
  \<open>QuarantineRecord\<close>, \<open>RecoveryRecord\<close>, \<open>ValidationRecord\<close> (\<open>Store.hpp\<close>).  Field names carry a
  prefix per record; \<open>write\<close> and \<open>read\<close> list the fields in the order of the source methods.

  Every record is an interpretation of the locale \<open>codec\<close>: what \<open>write\<close> produces, \<open>read\<close> recovers,
  at any place of any buffer, and no truncated record is accepted.
\<close>

section \<open>Dimensions\<close>

record HealthDimension =
  dim_kind :: DimensionKind
  dim_state :: DimensionState
  dim_evidence :: EvidenceClass
  dim_timestamp :: Timestamp
  dim_observationGeneration :: ObservationGeneration
  dim_deviceGeneration :: DeviceGeneration
  dim_confidence :: f32
  dim_severity :: Severity
  dim_reason :: string
  dim_value :: f64
  dim_units :: string

definition HealthDimension_write :: "HealthDimension \<Rightarrow> wr" where
  "HealthDimension_write x = wr_all [
     DimensionKind_write (dim_kind x),
     DimensionState_write (dim_state x),
     EvidenceClass_write (dim_evidence x),
     Timestamp_write (dim_timestamp x),
     Generation_write (dim_observationGeneration x),
     Generation_write (dim_deviceGeneration x),
     wr_f32 (dim_confidence x),
     Severity_write (dim_severity x),
     wr_string (dim_reason x),
     wr_f64 (dim_value x),
     wr_string (dim_units x)]"

definition HealthDimension_read :: "HealthDimension option rd" where
  "HealthDimension_read = do {
     rd_try DimensionKind_read (\<lambda>kind'. do {
     rd_try DimensionState_read (\<lambda>state'. do {
     rd_try EvidenceClass_read (\<lambda>evidence'. do {
     timestamp' \<leftarrow> Timestamp_read;
     observationGeneration' \<leftarrow> Generation_read;
     deviceGeneration' \<leftarrow> Generation_read;
     confidence' \<leftarrow> rd_f32;
     rd_try Severity_read (\<lambda>severity'. do {
     reason' \<leftarrow> rd_string;
     value' \<leftarrow> rd_f64;
     units' \<leftarrow> rd_string;
     rd_ok \<lparr>dim_kind = kind', dim_state = state', dim_evidence = evidence', dim_timestamp = timestamp',
       dim_observationGeneration = observationGeneration', dim_deviceGeneration = deviceGeneration', dim_confidence = confidence', dim_severity = severity',
       dim_reason = reason', dim_value = value', dim_units = units'\<rparr> }) }) }) }) }"

lemma HealthDimension_reads [reads_intros]: "reads HealthDimension_read (HealthDimension_write x) (Some x)"
  unfolding HealthDimension_read_def HealthDimension_write_def
  by (cases x, simp only: HealthDimension.simps) (rule reads_intros)+

lemma HealthDimension_good [good_intros]: "good HealthDimension_read"
  unfolding HealthDimension_read_def by (intro good_intros)

lemma HealthDimension_sound: "sound HealthDimension_read"
  unfolding HealthDimension_read_def by (intro good_intros)

interpretation dimension_codec: codec HealthDimension_write HealthDimension_read "\<lambda>_. True"
  by unfold_locales (auto intro: HealthDimension_reads HealthDimension_good HealthDimension_sound)

text \<open>The default member initialisers and the three convenience constructors.\<close>

definition default_HealthDimension :: HealthDimension where
  "default_HealthDimension = \<lparr>dim_kind = DimensionKind.UNKNOWN, dim_state = DimensionState.UNKNOWN,
     dim_evidence = EvidenceClass.UNKNOWN, dim_timestamp = Timestamp 0,
     dim_observationGeneration = Generation 0, dim_deviceGeneration = Generation 0,
     dim_confidence = 0, dim_severity = Severity.INFO, dim_reason = [], dim_value = 0, dim_units = []\<rparr>"

definition nominal :: "DimensionKind \<Rightarrow> EvidenceClass \<Rightarrow> Timestamp \<Rightarrow> Severity \<Rightarrow> string \<Rightarrow> HealthDimension" where
  "nominal kind ev t sev reason = default_HealthDimension\<lparr>dim_kind := kind,
     dim_state := DimensionState.NOMINAL, dim_evidence := ev, dim_timestamp := t,
     dim_severity := sev, dim_reason := reason, dim_confidence := 0x3F800000\<rparr>"

definition degraded :: "DimensionKind \<Rightarrow> EvidenceClass \<Rightarrow> Timestamp \<Rightarrow> Severity \<Rightarrow> string \<Rightarrow> HealthDimension" where
  "degraded kind ev t sev reason = default_HealthDimension\<lparr>dim_kind := kind,
     dim_state := DimensionState.DEGRADED, dim_evidence := ev, dim_timestamp := t,
     dim_severity := sev, dim_reason := reason, dim_confidence := 0x3F19999A\<rparr>"

definition failed :: "DimensionKind \<Rightarrow> EvidenceClass \<Rightarrow> Timestamp \<Rightarrow> Severity \<Rightarrow> string \<Rightarrow> HealthDimension" where
  "failed kind ev t sev reason = default_HealthDimension\<lparr>dim_kind := kind,
     dim_state := DimensionState.FAILED, dim_evidence := ev, dim_timestamp := t,
     dim_severity := sev, dim_reason := reason, dim_confidence := 0x3E4CCCCD\<rparr>"

section \<open>Evidence and observations\<close>

record Evidence =
  ev_id :: ObservationId
  ev_accelerator :: AcceleratorId
  ev_dimension :: DimensionKind
  ev_state :: DimensionState
  ev_evidenceClass :: EvidenceClass
  ev_timestamp :: Timestamp
  ev_observationGeneration :: ObservationGeneration
  ev_workerId :: WorkerId
  ev_workerBootId :: WorkerBootId
  ev_deviceGeneration :: DeviceGeneration
  ev_confidence :: f32
  ev_severity :: Severity
  ev_reason :: string
  ev_value :: f64
  ev_units :: string

definition Evidence_write :: "Evidence \<Rightarrow> wr" where
  "Evidence_write x = wr_all [
     StrongId_write (ev_id x),
     StrongId_write (ev_accelerator x),
     DimensionKind_write (ev_dimension x),
     DimensionState_write (ev_state x),
     EvidenceClass_write (ev_evidenceClass x),
     Timestamp_write (ev_timestamp x),
     Generation_write (ev_observationGeneration x),
     StrongId_write (ev_workerId x),
     StrongId_write (ev_workerBootId x),
     Generation_write (ev_deviceGeneration x),
     wr_f32 (ev_confidence x),
     Severity_write (ev_severity x),
     wr_string (ev_reason x),
     wr_f64 (ev_value x),
     wr_string (ev_units x)]"

definition Evidence_read :: "Evidence option rd" where
  "Evidence_read = do {
     id' \<leftarrow> StrongId_read;
     accelerator' \<leftarrow> StrongId_read;
     rd_try DimensionKind_read (\<lambda>dimension'. do {
     rd_try DimensionState_read (\<lambda>state'. do {
     rd_try EvidenceClass_read (\<lambda>evidenceClass'. do {
     timestamp' \<leftarrow> Timestamp_read;
     observationGeneration' \<leftarrow> Generation_read;
     workerId' \<leftarrow> StrongId_read;
     workerBootId' \<leftarrow> StrongId_read;
     deviceGeneration' \<leftarrow> Generation_read;
     confidence' \<leftarrow> rd_f32;
     rd_try Severity_read (\<lambda>severity'. do {
     reason' \<leftarrow> rd_string;
     value' \<leftarrow> rd_f64;
     units' \<leftarrow> rd_string;
     rd_ok \<lparr>ev_id = id', ev_accelerator = accelerator', ev_dimension = dimension', ev_state = state',
       ev_evidenceClass = evidenceClass', ev_timestamp = timestamp', ev_observationGeneration = observationGeneration', ev_workerId = workerId',
       ev_workerBootId = workerBootId', ev_deviceGeneration = deviceGeneration', ev_confidence = confidence', ev_severity = severity',
       ev_reason = reason', ev_value = value', ev_units = units'\<rparr> }) }) }) }) }"

lemma Evidence_reads [reads_intros]: "reads Evidence_read (Evidence_write x) (Some x)"
  unfolding Evidence_read_def Evidence_write_def
  by (cases x, simp only: Evidence.simps) (rule reads_intros)+

lemma Evidence_good [good_intros]: "good Evidence_read"
  unfolding Evidence_read_def by (intro good_intros)

lemma Evidence_sound: "sound Evidence_read"
  unfolding Evidence_read_def by (intro good_intros)

interpretation evidence_codec: codec Evidence_write Evidence_read "\<lambda>_. True"
  by unfold_locales (auto intro: Evidence_reads Evidence_good Evidence_sound)

record AcceleratorObservation =
  obs_accelerator :: AcceleratorId
  obs_node :: NodeId
  obs_worker :: WorkerId
  obs_workerBootId :: WorkerBootId
  obs_observationGeneration :: ObservationGeneration
  obs_deviceGeneration :: DeviceGeneration
  obs_timestamp :: Timestamp
  obs_dimensions :: "HealthDimension list"

definition AcceleratorObservation_write :: "AcceleratorObservation \<Rightarrow> wr" where
  "AcceleratorObservation_write x = wr_all [
     StrongId_write (obs_accelerator x),
     StrongId_write (obs_node x),
     StrongId_write (obs_worker x),
     StrongId_write (obs_workerBootId x),
     Generation_write (obs_observationGeneration x),
     Generation_write (obs_deviceGeneration x),
     Timestamp_write (obs_timestamp x),
     wr_vec HealthDimension_write (obs_dimensions x)]"

definition AcceleratorObservation_read :: "AcceleratorObservation option rd" where
  "AcceleratorObservation_read = do {
     accelerator' \<leftarrow> StrongId_read;
     node' \<leftarrow> StrongId_read;
     worker' \<leftarrow> StrongId_read;
     workerBootId' \<leftarrow> StrongId_read;
     observationGeneration' \<leftarrow> Generation_read;
     deviceGeneration' \<leftarrow> Generation_read;
     timestamp' \<leftarrow> Timestamp_read;
     rd_try (rd_vec HealthDimension_read) (\<lambda>dimensions'. do {
     rd_ok \<lparr>obs_accelerator = accelerator', obs_node = node', obs_worker = worker', obs_workerBootId = workerBootId',
       obs_observationGeneration = observationGeneration', obs_deviceGeneration = deviceGeneration', obs_timestamp = timestamp', obs_dimensions = dimensions'\<rparr> }) }"

lemma reads_dimension_vec [reads_intros]:
  "length xs \<le> kMaxCount \<Longrightarrow> reads (rd_vec HealthDimension_read) (wr_vec HealthDimension_write xs) (Some xs)"
  by (rule dimension_codec.reads_list) (simp_all add: list_all_iff)

lemma AcceleratorObservation_reads [reads_intros]:
  "length (obs_dimensions x) \<le> kMaxCount \<Longrightarrow>
     reads AcceleratorObservation_read (AcceleratorObservation_write x) (Some x)"
  unfolding AcceleratorObservation_read_def AcceleratorObservation_write_def
  by (cases x, simp only: AcceleratorObservation.simps) (rule reads_intros | assumption)+

lemma AcceleratorObservation_good [good_intros]: "good AcceleratorObservation_read"
  unfolding AcceleratorObservation_read_def by (intro good_intros)

lemma AcceleratorObservation_sound: "sound AcceleratorObservation_read"
  unfolding AcceleratorObservation_read_def by (intro good_intros)

interpretation observation_codec: codec AcceleratorObservation_write AcceleratorObservation_read "\<lambda>x. length (obs_dimensions x) \<le> kMaxCount"
  by unfold_locales (auto intro: AcceleratorObservation_reads AcceleratorObservation_good AcceleratorObservation_sound)

section \<open>Faults\<close>

record Fault =
  f_id :: FaultId
  f_accelerator :: AcceleratorId
  f_type :: FaultType
  f_faultClass :: FaultClass
  f_severity :: Severity
  f_timestamp :: Timestamp
  f_observationGeneration :: ObservationGeneration
  f_worker :: WorkerId
  f_workerBootId :: WorkerBootId
  f_evidence :: string
  f_transient :: bool
  f_recoverable :: bool
  f_fatal :: bool
  f_causalMetadata :: string
  f_resolution :: ResolutionState
  f_resolvedAt :: Timestamp

definition Fault_write :: "Fault \<Rightarrow> wr" where
  "Fault_write x = wr_all [
     StrongId_write (f_id x),
     StrongId_write (f_accelerator x),
     FaultType_write (f_type x),
     FaultClass_write (f_faultClass x),
     Severity_write (f_severity x),
     Timestamp_write (f_timestamp x),
     Generation_write (f_observationGeneration x),
     StrongId_write (f_worker x),
     StrongId_write (f_workerBootId x),
     wr_string (f_evidence x),
     wr_bool (f_transient x),
     wr_bool (f_recoverable x),
     wr_bool (f_fatal x),
     wr_string (f_causalMetadata x),
     ResolutionState_write (f_resolution x),
     Timestamp_write (f_resolvedAt x)]"

definition Fault_read :: "Fault option rd" where
  "Fault_read = do {
     id' \<leftarrow> StrongId_read;
     accelerator' \<leftarrow> StrongId_read;
     rd_try FaultType_read (\<lambda>type'. do {
     rd_try FaultClass_read (\<lambda>faultClass'. do {
     rd_try Severity_read (\<lambda>severity'. do {
     timestamp' \<leftarrow> Timestamp_read;
     observationGeneration' \<leftarrow> Generation_read;
     worker' \<leftarrow> StrongId_read;
     workerBootId' \<leftarrow> StrongId_read;
     evidence' \<leftarrow> rd_string;
     transient' \<leftarrow> rd_bool;
     recoverable' \<leftarrow> rd_bool;
     fatal' \<leftarrow> rd_bool;
     causalMetadata' \<leftarrow> rd_string;
     rd_try ResolutionState_read (\<lambda>resolution'. do {
     resolvedAt' \<leftarrow> Timestamp_read;
     rd_ok \<lparr>f_id = id', f_accelerator = accelerator', f_type = type', f_faultClass = faultClass',
       f_severity = severity', f_timestamp = timestamp', f_observationGeneration = observationGeneration', f_worker = worker',
       f_workerBootId = workerBootId', f_evidence = evidence', f_transient = transient', f_recoverable = recoverable',
       f_fatal = fatal', f_causalMetadata = causalMetadata', f_resolution = resolution', f_resolvedAt = resolvedAt'\<rparr> }) }) }) }) }"

lemma Fault_reads [reads_intros]: "reads Fault_read (Fault_write x) (Some x)"
  unfolding Fault_read_def Fault_write_def
  by (cases x, simp only: Fault.simps) (rule reads_intros)+

lemma Fault_good [good_intros]: "good Fault_read"
  unfolding Fault_read_def by (intro good_intros)

lemma Fault_sound: "sound Fault_read"
  unfolding Fault_read_def by (intro good_intros)

interpretation fault_codec: codec Fault_write Fault_read "\<lambda>_. True"
  by unfold_locales (auto intro: Fault_reads Fault_good Fault_sound)

section \<open>Health changes\<close>

record HealthChange =
  hc_timestamp :: Timestamp
  hc_accelerator :: AcceleratorId
  hc_from :: HealthState
  hc_to :: HealthState
  hc_readinessFrom :: ReadinessState
  hc_readinessTo :: ReadinessState
  hc_label :: string
  hc_detail :: string
  hc_healthGeneration :: HealthGeneration
  hc_policyGeneration :: PolicyGeneration

definition HealthChange_write :: "HealthChange \<Rightarrow> wr" where
  "HealthChange_write x = wr_all [
     Timestamp_write (hc_timestamp x),
     StrongId_write (hc_accelerator x),
     HealthState_write (hc_from x),
     HealthState_write (hc_to x),
     ReadinessState_write (hc_readinessFrom x),
     ReadinessState_write (hc_readinessTo x),
     wr_string (hc_label x),
     wr_string (hc_detail x),
     Generation_write (hc_healthGeneration x),
     Generation_write (hc_policyGeneration x)]"

definition HealthChange_read :: "HealthChange option rd" where
  "HealthChange_read = do {
     timestamp' \<leftarrow> Timestamp_read;
     accelerator' \<leftarrow> StrongId_read;
     rd_try HealthState_read (\<lambda>from'. do {
     rd_try HealthState_read (\<lambda>to'. do {
     rd_try ReadinessState_read (\<lambda>readinessFrom'. do {
     rd_try ReadinessState_read (\<lambda>readinessTo'. do {
     label' \<leftarrow> rd_string;
     detail' \<leftarrow> rd_string;
     healthGeneration' \<leftarrow> Generation_read;
     policyGeneration' \<leftarrow> Generation_read;
     rd_ok \<lparr>hc_timestamp = timestamp', hc_accelerator = accelerator', hc_from = from', hc_to = to',
       hc_readinessFrom = readinessFrom', hc_readinessTo = readinessTo', hc_label = label', hc_detail = detail',
       hc_healthGeneration = healthGeneration', hc_policyGeneration = policyGeneration'\<rparr> }) }) }) }) }"

lemma HealthChange_reads [reads_intros]: "reads HealthChange_read (HealthChange_write x) (Some x)"
  unfolding HealthChange_read_def HealthChange_write_def
  by (cases x, simp only: HealthChange.simps) (rule reads_intros)+

lemma HealthChange_good [good_intros]: "good HealthChange_read"
  unfolding HealthChange_read_def by (intro good_intros)

lemma HealthChange_sound: "sound HealthChange_read"
  unfolding HealthChange_read_def by (intro good_intros)

interpretation change_codec: codec HealthChange_write HealthChange_read "\<lambda>_. True"
  by unfold_locales (auto intro: HealthChange_reads HealthChange_good HealthChange_sound)

section \<open>Policy\<close>

definition FreshnessThresholds_write :: "FreshnessThresholds \<Rightarrow> wr" where
  "FreshnessThresholds_write t = wr_all [wr_u64 (fr_current t), wr_u64 (fr_stale t), wr_u64 (fr_expire t)]"

definition FreshnessThresholds_read :: "FreshnessThresholds rd" where
  "FreshnessThresholds_read = do { c \<leftarrow> rd_u64; s \<leftarrow> rd_u64; e \<leftarrow> rd_u64;
     State_Monad.return \<lparr>fr_current = c, fr_stale = s, fr_expire = e\<rparr> }"

lemma FreshnessThresholds_reads [reads_intros]:
  "reads FreshnessThresholds_read (FreshnessThresholds_write t) t"
  unfolding FreshnessThresholds_read_def FreshnessThresholds_write_def
  by (cases t, simp only: FreshnessThresholds.simps) (rule reads_intros)+

lemma FreshnessThresholds_good [good_intros]: "good FreshnessThresholds_read"
  unfolding FreshnessThresholds_read_def by (intro good_intros)

record HealthPolicy =
  pol_id :: PolicyId
  pol_requiredValidationDepth :: ValidationDepth
  pol_freshness :: FreshnessThresholds
  pol_degradeAfterFailures :: u32
  pol_unhealthyAfterFailures :: u32
  pol_quarantineAfterFailures :: u32
  pol_recoveryValidationsRequired :: u32
  pol_revalidationProfile :: ValidationProfile
  pol_allowDegradedReadiness :: bool
  pol_fatalFaultTriggersQuarantine :: bool
  pol_requireEnumeratedForHealth :: bool

definition HealthPolicy_write :: "HealthPolicy \<Rightarrow> wr" where
  "HealthPolicy_write x = wr_all [
     StrongId_write (pol_id x),
     ValidationDepth_write (pol_requiredValidationDepth x),
     FreshnessThresholds_write (pol_freshness x),
     wr_u32 (pol_degradeAfterFailures x),
     wr_u32 (pol_unhealthyAfterFailures x),
     wr_u32 (pol_quarantineAfterFailures x),
     wr_u32 (pol_recoveryValidationsRequired x),
     ValidationProfile_write (pol_revalidationProfile x),
     wr_bool (pol_allowDegradedReadiness x),
     wr_bool (pol_fatalFaultTriggersQuarantine x),
     wr_bool (pol_requireEnumeratedForHealth x)]"

definition HealthPolicy_read :: "HealthPolicy option rd" where
  "HealthPolicy_read = do {
     id' \<leftarrow> StrongId_read;
     rd_try ValidationDepth_read (\<lambda>requiredValidationDepth'. do {
     freshness' \<leftarrow> FreshnessThresholds_read;
     degradeAfterFailures' \<leftarrow> rd_u32;
     unhealthyAfterFailures' \<leftarrow> rd_u32;
     quarantineAfterFailures' \<leftarrow> rd_u32;
     recoveryValidationsRequired' \<leftarrow> rd_u32;
     rd_try ValidationProfile_read (\<lambda>revalidationProfile'. do {
     allowDegradedReadiness' \<leftarrow> rd_bool;
     fatalFaultTriggersQuarantine' \<leftarrow> rd_bool;
     requireEnumeratedForHealth' \<leftarrow> rd_bool;
     rd_ok \<lparr>pol_id = id', pol_requiredValidationDepth = requiredValidationDepth', pol_freshness = freshness', pol_degradeAfterFailures = degradeAfterFailures',
       pol_unhealthyAfterFailures = unhealthyAfterFailures', pol_quarantineAfterFailures = quarantineAfterFailures', pol_recoveryValidationsRequired = recoveryValidationsRequired', pol_revalidationProfile = revalidationProfile',
       pol_allowDegradedReadiness = allowDegradedReadiness', pol_fatalFaultTriggersQuarantine = fatalFaultTriggersQuarantine', pol_requireEnumeratedForHealth = requireEnumeratedForHealth'\<rparr> }) }) }"

lemma HealthPolicy_reads [reads_intros]: "reads HealthPolicy_read (HealthPolicy_write x) (Some x)"
  unfolding HealthPolicy_read_def HealthPolicy_write_def
  by (cases x, simp only: HealthPolicy.simps) (rule reads_intros)+

lemma HealthPolicy_good [good_intros]: "good HealthPolicy_read"
  unfolding HealthPolicy_read_def by (intro good_intros)

lemma HealthPolicy_sound: "sound HealthPolicy_read"
  unfolding HealthPolicy_read_def by (intro good_intros)

interpretation policy_codec: codec HealthPolicy_write HealthPolicy_read "\<lambda>_. True"
  by unfold_locales (auto intro: HealthPolicy_reads HealthPolicy_good HealthPolicy_sound)

definition default_HealthPolicy :: HealthPolicy where
  "default_HealthPolicy = \<lparr>pol_id = StrongId 0, pol_requiredValidationDepth = ValidationDepth.FULL,
     pol_freshness = default_FreshnessThresholds, pol_degradeAfterFailures = 2,
     pol_unhealthyAfterFailures = 3, pol_quarantineAfterFailures = 4,
     pol_recoveryValidationsRequired = 1, pol_revalidationProfile = ValidationProfile.FULL,
     pol_allowDegradedReadiness = True, pol_fatalFaultTriggersQuarantine = True,
     pol_requireEnumeratedForHealth = True\<rparr>"

definition isInherentlyFatal :: "FaultType \<Rightarrow> bool" where
  "isInherentlyFatal t \<longleftrightarrow> (case t of
     FaultType.DEVICE_LOST \<Rightarrow> True
   | FaultType.MEMORY_INTEGRITY_FAILURE \<Rightarrow> True
   | FaultType.IDENTITY_CHANGE \<Rightarrow> True
   | FaultType.FATAL_RUNTIME_ERROR \<Rightarrow> True
   | FaultType.NUMERICAL_MISMATCH \<Rightarrow> True
   | _ \<Rightarrow> False)"

section \<open>Quarantine, recovery and validation records\<close>

record QuarantineRecord =
  q_id :: QuarantineId
  q_timestamp :: Timestamp
  q_authority :: QuarantineAuthority
  q_reason :: string
  q_triggeredBy :: string
  q_policyGeneration :: PolicyGeneration
  q_deviceGeneration :: DeviceGeneration
  q_healthGeneration :: HealthGeneration
  q_active :: bool

definition QuarantineRecord_write :: "QuarantineRecord \<Rightarrow> wr" where
  "QuarantineRecord_write x = wr_all [
     StrongId_write (q_id x),
     Timestamp_write (q_timestamp x),
     QuarantineAuthority_write (q_authority x),
     wr_string (q_reason x),
     wr_string (q_triggeredBy x),
     Generation_write (q_policyGeneration x),
     Generation_write (q_deviceGeneration x),
     Generation_write (q_healthGeneration x),
     wr_bool (q_active x)]"

definition QuarantineRecord_read :: "QuarantineRecord option rd" where
  "QuarantineRecord_read = do {
     id' \<leftarrow> StrongId_read;
     timestamp' \<leftarrow> Timestamp_read;
     rd_try QuarantineAuthority_read (\<lambda>authority'. do {
     reason' \<leftarrow> rd_string;
     triggeredBy' \<leftarrow> rd_string;
     policyGeneration' \<leftarrow> Generation_read;
     deviceGeneration' \<leftarrow> Generation_read;
     healthGeneration' \<leftarrow> Generation_read;
     active' \<leftarrow> rd_bool;
     rd_ok \<lparr>q_id = id', q_timestamp = timestamp', q_authority = authority', q_reason = reason',
       q_triggeredBy = triggeredBy', q_policyGeneration = policyGeneration', q_deviceGeneration = deviceGeneration', q_healthGeneration = healthGeneration',
       q_active = active'\<rparr> }) }"

lemma QuarantineRecord_reads [reads_intros]: "reads QuarantineRecord_read (QuarantineRecord_write x) (Some x)"
  unfolding QuarantineRecord_read_def QuarantineRecord_write_def
  by (cases x, simp only: QuarantineRecord.simps) (rule reads_intros)+

lemma QuarantineRecord_good [good_intros]: "good QuarantineRecord_read"
  unfolding QuarantineRecord_read_def by (intro good_intros)

lemma QuarantineRecord_sound: "sound QuarantineRecord_read"
  unfolding QuarantineRecord_read_def by (intro good_intros)

interpretation quarantine_codec: codec QuarantineRecord_write QuarantineRecord_read "\<lambda>_. True"
  by unfold_locales (auto intro: QuarantineRecord_reads QuarantineRecord_good QuarantineRecord_sound)

record RecoveryRecord =
  rec_id :: RecoveryId
  rec_generation :: RecoveryGeneration
  rec_begin :: Timestamp
  rec_profile :: string
  rec_successfulValidations :: u32
  rec_completed :: bool
  rec_end :: Timestamp

definition RecoveryRecord_write :: "RecoveryRecord \<Rightarrow> wr" where
  "RecoveryRecord_write x = wr_all [
     StrongId_write (rec_id x),
     Generation_write (rec_generation x),
     Timestamp_write (rec_begin x),
     wr_string (rec_profile x),
     wr_u32 (rec_successfulValidations x),
     wr_bool (rec_completed x),
     Timestamp_write (rec_end x)]"

definition RecoveryRecord_read :: "RecoveryRecord option rd" where
  "RecoveryRecord_read = do {
     id' \<leftarrow> StrongId_read;
     generation' \<leftarrow> Generation_read;
     begin' \<leftarrow> Timestamp_read;
     profile' \<leftarrow> rd_string;
     successfulValidations' \<leftarrow> rd_u32;
     completed' \<leftarrow> rd_bool;
     end' \<leftarrow> Timestamp_read;
     rd_ok \<lparr>rec_id = id', rec_generation = generation', rec_begin = begin', rec_profile = profile',
       rec_successfulValidations = successfulValidations', rec_completed = completed', rec_end = end'\<rparr> }"

lemma RecoveryRecord_reads [reads_intros]: "reads RecoveryRecord_read (RecoveryRecord_write x) (Some x)"
  unfolding RecoveryRecord_read_def RecoveryRecord_write_def
  by (cases x, simp only: RecoveryRecord.simps) (rule reads_intros)+

lemma RecoveryRecord_good [good_intros]: "good RecoveryRecord_read"
  unfolding RecoveryRecord_read_def by (intro good_intros)

lemma RecoveryRecord_sound: "sound RecoveryRecord_read"
  unfolding RecoveryRecord_read_def by (intro good_intros)

interpretation recovery_codec: codec RecoveryRecord_write RecoveryRecord_read "\<lambda>_. True"
  by unfold_locales (auto intro: RecoveryRecord_reads RecoveryRecord_good RecoveryRecord_sound)

record ValidationRecord =
  v_id :: ValidationRunId
  v_accelerator :: AcceleratorId
  v_timestamp :: Timestamp
  v_profile :: ValidationProfile
  v_depth :: ValidationDepth
  v_passed :: bool
  v_maxError :: f32
  v_detail :: string
  v_worker :: WorkerId
  v_workerBootId :: WorkerBootId
  v_validationGeneration :: ValidationGeneration
  v_deviceGeneration :: DeviceGeneration

definition ValidationRecord_write :: "ValidationRecord \<Rightarrow> wr" where
  "ValidationRecord_write x = wr_all [
     StrongId_write (v_id x),
     StrongId_write (v_accelerator x),
     Timestamp_write (v_timestamp x),
     ValidationProfile_write (v_profile x),
     ValidationDepth_write (v_depth x),
     wr_bool (v_passed x),
     wr_f32 (v_maxError x),
     wr_string (v_detail x),
     StrongId_write (v_worker x),
     StrongId_write (v_workerBootId x),
     Generation_write (v_validationGeneration x),
     Generation_write (v_deviceGeneration x)]"

definition ValidationRecord_read :: "ValidationRecord option rd" where
  "ValidationRecord_read = do {
     id' \<leftarrow> StrongId_read;
     accelerator' \<leftarrow> StrongId_read;
     timestamp' \<leftarrow> Timestamp_read;
     rd_try ValidationProfile_read (\<lambda>profile'. do {
     rd_try ValidationDepth_read (\<lambda>depth'. do {
     passed' \<leftarrow> rd_bool;
     maxError' \<leftarrow> rd_f32;
     detail' \<leftarrow> rd_string;
     worker' \<leftarrow> StrongId_read;
     workerBootId' \<leftarrow> StrongId_read;
     validationGeneration' \<leftarrow> Generation_read;
     deviceGeneration' \<leftarrow> Generation_read;
     rd_ok \<lparr>v_id = id', v_accelerator = accelerator', v_timestamp = timestamp', v_profile = profile',
       v_depth = depth', v_passed = passed', v_maxError = maxError', v_detail = detail',
       v_worker = worker', v_workerBootId = workerBootId', v_validationGeneration = validationGeneration', v_deviceGeneration = deviceGeneration'\<rparr> }) }) }"

lemma ValidationRecord_reads [reads_intros]: "reads ValidationRecord_read (ValidationRecord_write x) (Some x)"
  unfolding ValidationRecord_read_def ValidationRecord_write_def
  by (cases x, simp only: ValidationRecord.simps) (rule reads_intros)+

lemma ValidationRecord_good [good_intros]: "good ValidationRecord_read"
  unfolding ValidationRecord_read_def by (intro good_intros)

lemma ValidationRecord_sound: "sound ValidationRecord_read"
  unfolding ValidationRecord_read_def by (intro good_intros)

interpretation validation_codec: codec ValidationRecord_write ValidationRecord_read "\<lambda>_. True"
  by unfold_locales (auto intro: ValidationRecord_reads ValidationRecord_good ValidationRecord_sound)

end
