(* ===== verification/History.thy ===== *)
theory History
  imports Records
begin

text \<open>
  Model of \<open>History.cpp\<close>/\<open>History.hpp\<close> (\<open>FaultHistory\<close>), of the class \<open>ChangeLog\<close>, and of
  \<open>DeviceFaultStats\<close> (\<open>Assessment.hpp\<close>).  A history is the vector of its faults in insertion order.
  Counters keep their 32 bits.

  The lemmas show that fault ids stay distinct, that nothing but the resolution fields of a fault
  ever changes, that a fault is resolved at most once, and what the statistics mean.
\<close>

type_synonym FaultHistory = "Fault list"

section \<open>Operations\<close>

definition history_record :: "Fault \<Rightarrow> FaultHistory \<Rightarrow> exn + FaultHistory" where
  "history_record f h =
     (if list_ex (\<lambda>existing. f_id existing = f_id f) h
      then Inl (invalid_argument ''duplicate fault id'') else Inr (h @ [f]))"

fun history_resolve :: "FaultId \<Rightarrow> Timestamp \<Rightarrow> FaultHistory \<Rightarrow> bool \<times> FaultHistory" where
  "history_resolve i at [] = (False, [])"
| "history_resolve i at (f # h) =
     (if f_id f = i then
        (if f_resolution f \<noteq> ResolutionState.OPEN then (False, f # h)
         else (True, f\<lparr>f_resolution := ResolutionState.RESOLVED, f_resolvedAt := at\<rparr> # h))
      else (case history_resolve i at h of (ok, h') \<Rightarrow> (ok, f # h')))"

definition is_open :: "Fault \<Rightarrow> bool" where
  "is_open f \<longleftrightarrow> f_resolution f = ResolutionState.OPEN"

definition openFaults :: "FaultHistory \<Rightarrow> Fault list" where
  "openFaults h = filter is_open h"

definition faultsOfType :: "FaultType \<Rightarrow> FaultHistory \<Rightarrow> Fault list" where
  "faultsOfType t h = filter (\<lambda>f. f_type f = t) h"

definition recent :: "nat \<Rightarrow> 'a list \<Rightarrow> 'a list" where
  "recent limit h = (if limit \<ge> length h then h else drop (length h - limit) h)"

definition countOfType :: "FaultType \<Rightarrow> FaultHistory \<Rightarrow> u32" where
  "countOfType t h = foldl (\<lambda>n f. if f_type f = t then n + 1 else n) 0 h"

fun consecutive_from :: "FaultType \<Rightarrow> Fault list \<Rightarrow> u32 \<Rightarrow> u32" where
  "consecutive_from t [] n = n"
| "consecutive_from t (f # fs) n = (if f_type f = t then consecutive_from t fs (n + 1) else n)"

definition consecutiveOfType :: "FaultType \<Rightarrow> FaultHistory \<Rightarrow> u32" where
  "consecutiveOfType t h = consecutive_from t (rev h) 0"

definition firstOfType :: "FaultType \<Rightarrow> FaultHistory \<Rightarrow> Timestamp" where
  "firstOfType t h = (case find (\<lambda>f. f_type f = t) h of Some f \<Rightarrow> f_timestamp f | None \<Rightarrow> Timestamp 0)"

definition latestOfType :: "FaultType \<Rightarrow> FaultHistory \<Rightarrow> Timestamp" where
  "latestOfType t h =
     foldl (\<lambda>latest f. if f_type f = t \<and> ts_less latest (f_timestamp f) then f_timestamp f else latest)
       (Timestamp 0) h"

definition isFaultOpen :: "FaultId \<Rightarrow> FaultHistory \<Rightarrow> bool" where
  "isFaultOpen i h = (case find (\<lambda>f. f_id f = i) h of Some f \<Rightarrow> is_open f | None \<Rightarrow> False)"

record DeviceFaultStats =
  st_total :: u32
  st_criticalFatalOpen :: u32
  st_consecutiveLatest :: u32
  st_hasOpenFatal :: bool
  st_hasOpenCritical :: bool

definition stats_step :: "DeviceFaultStats \<Rightarrow> Fault \<Rightarrow> DeviceFaultStats" where
  "stats_step s f =
     (if f_resolution f = ResolutionState.OPEN then
        let s1 = (if f_fatal f \<or> f_severity f = Severity.FATAL then s\<lparr>st_hasOpenFatal := True\<rparr> else s)
        in if Severity_int (f_severity f) \<ge> Severity_int Severity.CRITICAL
           then s1\<lparr>st_hasOpenCritical := True, st_criticalFatalOpen := st_criticalFatalOpen s1 + 1\<rparr>
           else s1
      else s)"

definition history_stats :: "FaultHistory \<Rightarrow> DeviceFaultStats" where
  "history_stats h =
     (let s = foldl stats_step \<lparr>st_total = of_nat (length h), st_criticalFatalOpen = 0,
                st_consecutiveLatest = 0, st_hasOpenFatal = False, st_hasOpenCritical = False\<rparr> h
      in if h = [] then s
         else s\<lparr>st_consecutiveLatest := consecutiveOfType (f_type (last h)) h\<rparr>)"

definition history_write :: "FaultHistory \<Rightarrow> wr" where
  "history_write h = wr_vec Fault_write h"

text \<open>The loop of \<open>FaultHistory::read\<close>: \<open>acc\<close> is the vector filled so far.\<close>

primrec history_read_loop :: "nat \<Rightarrow> FaultHistory \<Rightarrow> FaultHistory option rd" where
  "history_read_loop 0 acc = rd_ok acc"
| "history_read_loop (Suc n) acc =
     rd_try Fault_read (\<lambda>f.
       if isFaultOpen (f_id f) acc then rd_check None
       else if list_ex (\<lambda>ex. f_id ex = f_id f) acc then rd_check None
       else history_read_loop n (acc @ [f]))"

definition history_read :: "FaultHistory option rd" where
  "history_read = rd_try rd_count (\<lambda>n. history_read_loop n [])"

section \<open>Change log\<close>

definition changelog_append :: "HealthChange \<Rightarrow> HealthChange list \<Rightarrow> HealthChange list" where
  "changelog_append c log = log @ [c]"

definition changelog_write :: "HealthChange list \<Rightarrow> wr" where
  "changelog_write log = wr_vec HealthChange_write log"

definition changelog_read :: "HealthChange list option rd" where
  "changelog_read = rd_try (rd_vec HealthChange_read) rd_ok"

interpretation changelog_codec: codec changelog_write changelog_read "\<lambda>log. length log \<le> kMaxCount"
proof unfold_locales
  show "reads changelog_read (changelog_write log) (Some log)" if "length log \<le> kMaxCount" for log
    unfolding changelog_read_def changelog_write_def
    by (rule reads_single, rule reads_try, rule change_codec.reads_list [OF that])
      (simp add: list_all_iff, rule reads_ok)
  show "good changelog_read" "sound changelog_read"
    unfolding changelog_read_def by (intro good_intros)+
qed

section \<open>Fault ids stay distinct\<close>

definition history_wf :: "FaultHistory \<Rightarrow> bool" where
  "history_wf h \<longleftrightarrow> distinct (map f_id h)"

lemma list_ex_id: "list_ex (\<lambda>e. f_id e = i) h \<longleftrightarrow> i \<in> f_id ` set h"
  by (induction h) auto

lemma history_record_wf: "history_wf h \<Longrightarrow> history_record f h = Inr h' \<Longrightarrow> history_wf h' \<and> h' = h @ [f]"
  by (auto simp: history_wf_def history_record_def list_ex_id split: if_splits)

lemma history_record_ok: "f_id f \<notin> f_id ` set h \<Longrightarrow> history_record f h = Inr (h @ [f])"
  by (simp add: history_record_def list_ex_id)

lemma history_record_dup: "f_id f \<in> f_id ` set h \<Longrightarrow>
    history_record f h = Inl (invalid_argument ''duplicate fault id'')"
  by (simp add: history_record_def list_ex_id)

text \<open>What \<open>resolve\<close> leaves alone: everything but the two resolution fields.\<close>

definition fault_core :: "Fault \<Rightarrow> Fault" where
  "fault_core f = f\<lparr>f_resolution := ResolutionState.OPEN, f_resolvedAt := Timestamp 0\<rparr>"

lemma history_resolve_core: "history_resolve i at h = (ok, h') \<Longrightarrow> map fault_core h' = map fault_core h"
  by (induction i at h arbitrary: ok h' rule: history_resolve.induct)
    (auto simp: fault_core_def split: if_splits prod.splits)

lemma fault_core_id: "f_id (fault_core f) = f_id f"
  by (simp add: fault_core_def)

lemma history_resolve_wf: "history_wf h \<Longrightarrow> history_resolve i at h = (ok, h') \<Longrightarrow> history_wf h'"
proof -
  assume wf: "history_wf h" and res: "history_resolve i at h = (ok, h')"
  have "map f_id h' = map f_id (map fault_core h')"
    by (simp add: fault_core_id comp_def)
  also have "\<dots> = map f_id h"
    using history_resolve_core [OF res] by (simp add: fault_core_id comp_def)
  finally show "history_wf h'"
    using wf by (simp add: history_wf_def)
qed

lemma history_resolve_closed:
  "history_resolve i at h = (ok, h') \<Longrightarrow> f_id f = i \<Longrightarrow> history_wf h \<Longrightarrow> f \<in> set h' \<Longrightarrow> \<not> is_open f"
  by (induction i at h arbitrary: ok h' rule: history_resolve.induct)
    (auto simp: history_wf_def is_open_def split: if_splits prod.splits)

lemma history_resolve_ok_iff:
  "history_wf h \<Longrightarrow> fst (history_resolve i at h) \<longleftrightarrow> (\<exists>f\<in>set h. f_id f = i \<and> is_open f)"
proof (induction i at h rule: history_resolve.induct)
  case (2 i at f h)
  then show ?case
    by (cases "f_id f = i") (auto simp: history_wf_def is_open_def image_iff split: prod.splits)
qed simp

section \<open>Reading and writing\<close>

lemma isFaultOpen_fresh: "f_id f \<notin> f_id ` set acc \<Longrightarrow> \<not> isFaultOpen (f_id f) acc"
  by (auto simp: isFaultOpen_def find_Some_iff split: option.splits) (metis image_eqI nth_mem)

lemma history_read_loop_reads:
  "history_wf (acc @ h) \<Longrightarrow> reads (history_read_loop (length h) acc) (wr_all (map Fault_write h)) (Some (acc @ h))"
proof (induction h arbitrary: acc)
  case Nil
  then show ?case using reads_ok by simp
next
  case (Cons f h)
  then have fresh: "f_id f \<notin> f_id ` set acc"
    by (auto simp: history_wf_def)
  have IH: "reads (history_read_loop (length h) (acc @ [f])) (wr_all (map Fault_write h)) (Some (acc @ f # h))"
    using Cons.IH [of "acc @ [f]"] Cons.prems by simp
  show ?case
    unfolding list.map length_Cons history_read_loop.simps
    by (rule reads_try [OF Fault_reads])
      (use IH fresh isFaultOpen_fresh [OF fresh] in \<open>auto simp: list_ex_id\<close>)
qed

interpretation history_codec: codec history_write history_read "\<lambda>h. length h \<le> kMaxCount \<and> history_wf h"
proof unfold_locales
  show "reads history_read (history_write h) (Some h)" if "length h \<le> kMaxCount \<and> history_wf h" for h
    unfolding history_read_def history_write_def wr_vec_def
    by (rule reads_try [OF reads_count]) (use that history_read_loop_reads [of "[]" h] in auto)
  have loop: "good (history_read_loop n acc)" "sound (history_read_loop n acc)" for n acc
    by (induction n arbitrary: acc) (auto intro!: good_intros)
  show "good history_read" "sound history_read"
    unfolding history_read_def by (intro good_intros loop)+
qed

section \<open>The statistics\<close>

lemma consecutive_from_eq: "consecutive_from t fs n = n + of_nat (length (takeWhile (\<lambda>f. f_type f = t) fs))"
  by (induction t fs n rule: consecutive_from.induct) auto

lemma consecutiveOfType_eq:
  "consecutiveOfType t h = of_nat (length (takeWhile (\<lambda>f. f_type f = t) (rev h)))"
  by (simp add: consecutiveOfType_def consecutive_from_eq)

lemma countOfType_eq: "countOfType t h = of_nat (length (faultsOfType t h))"
proof -
  have "foldl (\<lambda>n f. if f_type f = t then n + 1 else n) (n :: u32) h = n + of_nat (length (faultsOfType t h))" for n
    by (induction h arbitrary: n) (auto simp: faultsOfType_def)
  then show ?thesis by (simp add: countOfType_def)
qed

definition open_fatal :: "Fault \<Rightarrow> bool" where
  "open_fatal f \<longleftrightarrow> is_open f \<and> (f_fatal f \<or> f_severity f = Severity.FATAL)"

definition open_critical :: "Fault \<Rightarrow> bool" where
  "open_critical f \<longleftrightarrow> is_open f \<and> Severity.CRITICAL \<le> f_severity f"

lemma stats_fold:
  "st_hasOpenFatal (foldl stats_step s h) \<longleftrightarrow> st_hasOpenFatal s \<or> (\<exists>f\<in>set h. open_fatal f)"
  "st_hasOpenCritical (foldl stats_step s h) \<longleftrightarrow> st_hasOpenCritical s \<or> (\<exists>f\<in>set h. open_critical f)"
  "st_criticalFatalOpen (foldl stats_step s h) = st_criticalFatalOpen s + of_nat (length (filter open_critical h))"
  "st_total (foldl stats_step s h) = st_total s"
  by (induction h arbitrary: s)
    (auto simp: stats_step_def Let_def open_fatal_def open_critical_def is_open_def less_eq_Severity_def)

lemma history_stats_simps [simp]:
  "st_hasOpenFatal (history_stats h) \<longleftrightarrow> (\<exists>f\<in>set h. open_fatal f)"
  "st_hasOpenCritical (history_stats h) \<longleftrightarrow> (\<exists>f\<in>set h. open_critical f)"
  "st_criticalFatalOpen (history_stats h) = of_nat (length (filter open_critical h))"
  "st_total (history_stats h) = of_nat (length h)"
  "st_consecutiveLatest (history_stats h) =
     (if h = [] then 0 else of_nat (length (takeWhile (\<lambda>f. f_type f = f_type (last h)) (rev h))))"
  by (simp_all add: history_stats_def Let_def stats_fold consecutiveOfType_eq)

end
