(* ===== verification/Readiness.thy ===== *)
theory Readiness
  imports Records
begin

text \<open>
  Model of \<open>Readiness.cpp\<close>/\<open>Readiness.hpp\<close>: the readiness evaluator, a pure function of its input
  record.  The lemmas characterise when a device is ready for execution.
\<close>

record ReadinessInput =
  ri_health :: HealthState
  ri_freshness :: FreshnessStatus
  ri_validationDepth :: ValidationDepth
  ri_requiredValidationDepth :: ValidationDepth
  ri_quarantined :: bool
  ri_inRecovery :: bool
  ri_deviceGenerationChanged :: bool
  ri_policyGenerationChanged :: bool
  ri_requiresRevalidation :: bool
  ri_allowDegradedReadiness :: bool
  ri_runtimeCompatibilityChanged :: bool

record ReadinessResult =
  rr_state :: ReadinessState
  rr_executionReady :: bool
  rr_reasons :: "string list"

definition rr :: "ReadinessState \<Rightarrow> bool \<Rightarrow> string \<Rightarrow> ReadinessResult" where
  "rr s ready reason = \<lparr>rr_state = s, rr_executionReady = ready, rr_reasons = [reason]\<rparr>"

definition stale_or_expired :: "FreshnessStatus \<Rightarrow> bool" where
  "stale_or_expired f \<longleftrightarrow> f = FreshnessStatus.STALE \<or> f = FreshnessStatus.EXPIRED"

definition readiness_healthy :: "ReadinessInput \<Rightarrow> ReadinessResult" where
  "readiness_healthy i =
     (if stale_or_expired (ri_freshness i) then
        rr ReadinessState.REVALIDATION_REQUIRED False ''healthy but evidence is stale/expired''
      else if ri_validationDepth i < ri_requiredValidationDepth i then
        rr ReadinessState.REVALIDATION_REQUIRED False ''validation depth below required''
      else if ri_deviceGenerationChanged i \<or> ri_policyGenerationChanged i \<or> ri_runtimeCompatibilityChanged i then
        rr ReadinessState.REVALIDATION_REQUIRED False ''generation or compatibility changed''
      else if ri_requiresRevalidation i then
        rr ReadinessState.REVALIDATION_REQUIRED False ''revalidation required after recovery''
      else if ri_freshness i = FreshnessStatus.AGING then
        rr ReadinessState.READY_DEGRADED True ''evidence aging; degraded readiness''
      else rr ReadinessState.READY True ''healthy and evidence current'')"

definition readiness_evaluate :: "ReadinessInput \<Rightarrow> ReadinessResult" where
  "readiness_evaluate i =
     (if ri_quarantined i then rr ReadinessState.QUARANTINED False ''quarantine active''
      else if (ri_health i = HealthState.HEALTHY \<or> ri_health i = HealthState.DEGRADED) \<and>
              stale_or_expired (ri_freshness i) then
        rr ReadinessState.REVALIDATION_REQUIRED False ''evidence stale/expired; revalidation required''
      else (case ri_health i of
        HealthState.FAILED \<Rightarrow> rr ReadinessState.DRAIN_REQUIRED False ''device failed; drain required''
      | HealthState.UNHEALTHY \<Rightarrow> rr ReadinessState.DRAIN_REQUIRED False ''device unhealthy; drain required''
      | HealthState.DEGRADED \<Rightarrow>
          (if ri_allowDegradedReadiness i then
             rr ReadinessState.READY_DEGRADED True ''degraded but policy permits degraded readiness''
           else rr ReadinessState.NOT_READY False ''degraded and policy forbids degraded readiness'')
      | HealthState.HEALTHY \<Rightarrow> readiness_healthy i
      | HealthState.UNKNOWN \<Rightarrow> rr ReadinessState.UNKNOWN False ''health unknown/initializing''
      | HealthState.INITIALIZING \<Rightarrow> rr ReadinessState.UNKNOWN False ''health unknown/initializing''
      | HealthState.DRAINING \<Rightarrow> rr ReadinessState.REVALIDATION_REQUIRED False ''device in recovery/revalidation''
      | HealthState.DRAINED \<Rightarrow> rr ReadinessState.REVALIDATION_REQUIRED False ''device in recovery/revalidation''
      | HealthState.RECOVERING \<Rightarrow> rr ReadinessState.REVALIDATION_REQUIRED False ''device in recovery/revalidation''
      | HealthState.REVALIDATING \<Rightarrow> rr ReadinessState.REVALIDATION_REQUIRED False ''device in recovery/revalidation''
      | HealthState.QUARANTINED \<Rightarrow> rr ReadinessState.QUARANTINED False ''quarantine active''
      | HealthState.OFFLINE \<Rightarrow> rr ReadinessState.NOT_READY False ''device offline/lost''
      | HealthState.LOST \<Rightarrow> rr ReadinessState.NOT_READY False ''device offline/lost''))"

section \<open>What readiness means\<close>

lemma rr_simps [simp]:
  "rr_state (rr s b t) = s" "rr_executionReady (rr s b t) = b" "rr_reasons (rr s b t) = [t]"
  by (simp_all add: rr_def)

text \<open>The conditions under which the evaluator reports full readiness, as one conjunction.\<close>

definition fully_qualified :: "ReadinessInput \<Rightarrow> bool" where
  "fully_qualified i \<longleftrightarrow> \<not> ri_quarantined i \<and> ri_health i = HealthState.HEALTHY \<and>
     \<not> stale_or_expired (ri_freshness i) \<and> ri_requiredValidationDepth i \<le> ri_validationDepth i \<and>
     \<not> ri_deviceGenerationChanged i \<and> \<not> ri_policyGenerationChanged i \<and>
     \<not> ri_runtimeCompatibilityChanged i \<and> \<not> ri_requiresRevalidation i"

lemma readiness_READY_iff:
  "rr_state (readiness_evaluate i) = ReadinessState.READY \<longleftrightarrow>
     fully_qualified i \<and> ri_freshness i = FreshnessStatus.CURRENT"
  by (cases "ri_health i"; cases "ri_freshness i")
    (auto simp: readiness_evaluate_def readiness_healthy_def fully_qualified_def stale_or_expired_def)

lemma readiness_ready_iff:
  "rr_executionReady (readiness_evaluate i) \<longleftrightarrow>
     fully_qualified i \<or>
     (\<not> ri_quarantined i \<and> ri_health i = HealthState.DEGRADED \<and> \<not> stale_or_expired (ri_freshness i) \<and>
      ri_allowDegradedReadiness i)"
  by (cases "ri_health i"; cases "ri_freshness i")
    (auto simp: readiness_evaluate_def readiness_healthy_def fully_qualified_def stale_or_expired_def)

lemma readiness_state_ready:
  "rr_executionReady (readiness_evaluate i) \<longleftrightarrow>
     rr_state (readiness_evaluate i) \<in> {ReadinessState.READY, ReadinessState.READY_DEGRADED}"
  by (cases "ri_health i"; cases "ri_freshness i")
    (auto simp: readiness_evaluate_def readiness_healthy_def stale_or_expired_def)

lemma readiness_quarantined: "ri_quarantined i \<Longrightarrow>
    rr_state (readiness_evaluate i) = ReadinessState.QUARANTINED \<and> \<not> rr_executionReady (readiness_evaluate i)"
  by (simp add: readiness_evaluate_def)

text \<open>C35. A device is ready for execution exactly when it is fully qualified (healthy, not quarantined,
  evidence neither stale nor expired, validated to the required depth, no generation, compatibility
  or revalidation flag) or is degraded, not quarantined, with usable evidence under a policy that
  permits degraded readiness; the flag agrees with the reported state, and READY additionally means
  that the evidence is CURRENT.\<close>

theorem execution_ready_iff:
  "(rr_executionReady (readiness_evaluate i) \<longleftrightarrow>
     fully_qualified i \<or>
     (\<not> ri_quarantined i \<and> ri_health i = HealthState.DEGRADED \<and> \<not> stale_or_expired (ri_freshness i) \<and>
      ri_allowDegradedReadiness i)) \<and>
   (rr_executionReady (readiness_evaluate i) \<longleftrightarrow>
     rr_state (readiness_evaluate i) \<in> {ReadinessState.READY, ReadinessState.READY_DEGRADED}) \<and>
   (rr_state (readiness_evaluate i) = ReadinessState.READY \<longleftrightarrow>
     fully_qualified i \<and> ri_freshness i = FreshnessStatus.CURRENT)"
  by (intro conjI readiness_ready_iff readiness_state_ready readiness_READY_iff)

end
