(* ===== verification/Float32.thy ===== *)
theory Float32
  imports Prelude
begin

text \<open>
  IEEE-754 binary32 on bit patterns, as far as the assessment engine computes with it: comparison,
  \<open>std::clamp\<close>, and multiplication rounded to nearest, ties to even.  A finite pattern denotes
  \<open>m * 2 ^ e\<close> with a natural significand \<open>m\<close>; the product of two patterns is formed exactly and
  rounded once by \<open>round_pack\<close>, including subnormal results, overflow to infinity and NaN.

  The lemma \<open>f32_mul_unit\<close> shows that the interval from \<open>+0.0\<close> to \<open>1.0\<close> is closed under the rounded
  product, which is what keeps every confidence value in range.
\<close>

definition f32_sign :: "f32 \<Rightarrow> bool" where
  "f32_sign x \<longleftrightarrow> 2 ^ 31 \<le> unat x"

definition f32_mag :: "f32 \<Rightarrow> nat" where
  "f32_mag x = unat x mod 2 ^ 31"

definition f32_nan :: "f32 \<Rightarrow> bool" where
  "f32_nan x \<longleftrightarrow> 255 * 2 ^ 23 < f32_mag x"

definition f32_inf :: "f32 \<Rightarrow> bool" where
  "f32_inf x \<longleftrightarrow> f32_mag x = 255 * 2 ^ 23"

text \<open>Significand and exponent of a finite pattern.\<close>

definition f32_sig :: "f32 \<Rightarrow> nat" where
  "f32_sig x = (let E = f32_mag x div 2 ^ 23; F = f32_mag x mod 2 ^ 23 in if E = 0 then F else F + 2 ^ 23)"

definition f32_exp :: "f32 \<Rightarrow> int" where
  "f32_exp x = (let E = f32_mag x div 2 ^ 23 in if E = 0 then - 149 else int E - 150)"

fun bitlen :: "nat \<Rightarrow> nat" where
  "bitlen n = (if n = 0 then 0 else Suc (bitlen (n div 2)))"

declare bitlen.simps [simp del]

definition round_even :: "nat \<Rightarrow> nat \<Rightarrow> nat" where
  "round_even m k =
     (let q = m div 2 ^ k; r = m mod 2 ^ k in
      if 2 * r > 2 ^ k \<or> (2 * r = 2 ^ k \<and> odd q) then q + 1 else q)"

definition f32_make :: "bool \<Rightarrow> nat \<Rightarrow> f32" where
  "f32_make neg mag = of_nat (mag + (if neg then 2 ^ 31 else 0))"

definition round_mag :: "nat \<Rightarrow> int \<Rightarrow> nat" where
  "round_mag m e =
     (let shift = max (int (bitlen m) - 24) (- 149 - e);
          m1 = (if shift \<le> 0 then m * 2 ^ nat (- shift) else round_even m (nat shift));
          e1 = e + shift;
          m2 = (if m1 = 2 ^ 24 then 2 ^ 23 else m1);
          e2 = (if m1 = 2 ^ 24 then e1 + 1 else e1)
      in if m2 < 2 ^ 23 then m2
         else if e2 + 150 \<ge> 255 then 255 * 2 ^ 23
         else nat (e2 + 150) * 2 ^ 23 + (m2 - 2 ^ 23))"

definition f32_qnan :: f32 where
  "f32_qnan = 0x7FC00000"

definition f32_mul :: "f32 \<Rightarrow> f32 \<Rightarrow> f32" where
  "f32_mul a b =
     (let neg = (f32_sign a \<noteq> f32_sign b) in
      if f32_nan a \<or> f32_nan b then f32_qnan
      else if f32_inf a \<or> f32_inf b then
        (if f32_mag a = 0 \<or> f32_mag b = 0 then f32_qnan else f32_make neg (255 * 2 ^ 23))
      else let m = f32_sig a * f32_sig b in
        if m = 0 then f32_make neg 0
        else f32_make neg (round_mag m (f32_exp a + f32_exp b)))"

definition f32_key :: "f32 \<Rightarrow> int" where
  "f32_key x = (if f32_sign x then - int (f32_mag x) else int (f32_mag x))"

definition f32_less :: "f32 \<Rightarrow> f32 \<Rightarrow> bool" where
  "f32_less a b \<longleftrightarrow> \<not> f32_nan a \<and> \<not> f32_nan b \<and> f32_key a < f32_key b"

definition f32_clamp :: "f32 \<Rightarrow> f32 \<Rightarrow> f32 \<Rightarrow> f32" where
  "f32_clamp v lo hi = (if f32_less v lo then lo else if f32_less hi v then hi else v)"

definition f32_one :: f32 where
  "f32_one = 0x3F800000"

section \<open>Products of numbers between zero and one\<close>

definition f32_unit :: "f32 \<Rightarrow> bool" where
  "f32_unit x \<longleftrightarrow> x \<le> f32_one"

lemma f32_unit_mag: "f32_unit x \<longleftrightarrow> unat x \<le> 127 * 2 ^ 23"
  by (simp add: f32_unit_def f32_one_def word_le_nat_alt)

lemma f32_unit_facts:
  assumes "f32_unit x"
  shows "f32_mag x = unat x" "\<not> f32_sign x" "\<not> f32_nan x" "\<not> f32_inf x"
proof -
  have le: "unat x \<le> 127 * 2 ^ 23" using assms by (simp add: f32_unit_mag)
  then show m: "f32_mag x = unat x" by (simp add: f32_mag_def)
  show "\<not> f32_sign x"
    using le by (simp add: f32_sign_def)
  show "\<not> f32_nan x" "\<not> f32_inf x"
    using le by (simp_all add: f32_nan_def f32_inf_def m)
qed

lemma bitlen_bounds: "0 < n \<Longrightarrow> 2 ^ (bitlen n - 1) \<le> n \<and> n < 2 ^ bitlen n \<and> 0 < bitlen n"
proof (induction n rule: bitlen.induct)
  case (1 n)
  show ?case
  proof (cases "n div 2 = 0")
    case True
    with 1(2) have "n = 1" by presburger
    then show ?thesis by (simp add: bitlen.simps)
  next
    case False
    then have IH: "2 ^ (bitlen (n div 2) - 1) \<le> n div 2" "n div 2 < 2 ^ bitlen (n div 2)" "0 < bitlen (n div 2)"
      using 1 by auto
    have bl: "bitlen n = Suc (bitlen (n div 2))"
      using 1(2) by (simp add: bitlen.simps [of n])
    have "2 ^ bitlen (n div 2) = 2 * (2::nat) ^ (bitlen (n div 2) - 1)"
      using IH(3) by (simp flip: power_Suc)
    then show ?thesis
      using IH by (simp add: bl, linarith)
  qed
qed

lemma round_even_le: "m \<le> b * 2 ^ k \<Longrightarrow> round_even m k \<le> b"
proof -
  assume le: "m \<le> b * 2 ^ k"
  have split: "m = (m div 2 ^ k) * 2 ^ k + m mod 2 ^ k" by (simp only: div_mult_mod_eq)
  have q: "m div 2 ^ k \<le> b"
    using div_le_mono [OF le, of "2 ^ k"] by simp
  have "m div 2 ^ k < b" if "m mod 2 ^ k > 0"
  proof (rule ccontr)
    assume "\<not> m div 2 ^ k < b"
    with q have "m div 2 ^ k = b" by simp
    then have "m = b * 2 ^ k + m mod 2 ^ k" using split by metis
    with that le show False by linarith
  qed
  then show ?thesis
    using q by (cases "m mod 2 ^ k = 0") (auto simp: round_even_def Let_def)
qed

lemma f32_unit_sig_exp:
  assumes "f32_unit x"
  shows "f32_sig x < 2 ^ 24" "f32_exp x \<le> - 23" "int (f32_sig x) \<le> 2 ^ nat (- f32_exp x)"
proof -
  let ?E = "unat x div 2 ^ 23" and ?F = "unat x mod 2 ^ 23"
  have le: "unat x \<le> 127 * 2 ^ 23" and mag: "f32_mag x = unat x"
    using assms f32_unit_facts by (auto simp: f32_unit_mag)
  have E: "?E \<le> 127" using le by simp
  have F: "?F < 2 ^ 23" by simp
  have top: "?F = 0" if "?E = 127"
  proof -
    have "127 * 2 ^ 23 + ?F = unat x"
      by (metis that div_mult_mod_eq)
    then show ?thesis using le by linarith
  qed
  show "f32_sig x < 2 ^ 24"
    unfolding f32_sig_def mag Let_def using F by (simp split: if_split, linarith)
  show "f32_exp x \<le> - 23"
    using E by (simp add: f32_exp_def mag Let_def)
  show "int (f32_sig x) \<le> 2 ^ nat (- f32_exp x)"
  proof (cases "?E = 127")
    case True
    then show ?thesis using top by (simp add: f32_sig_def f32_exp_def mag Let_def)
  next
    case False
    then have "?E \<le> 126" using E by linarith
    then have "24 \<le> nat (- f32_exp x)"
      unfolding f32_exp_def mag Let_def by (auto simp: nat_le_iff nat_diff_distrib')
    then have "(2::int) ^ 24 \<le> 2 ^ nat (- f32_exp x)"
      by (rule power_increasing) simp
    moreover have "int (f32_sig x) < 2 ^ 24"
      using \<open>f32_sig x < 2 ^ 24\<close> by simp
    ultimately show ?thesis by linarith
  qed
qed

lemma round_mag_unit:
  assumes m: "0 < m" and e: "e \<le> - 46" and le: "int m \<le> 2 ^ nat (- e)"
  shows "round_mag m e \<le> 127 * 2 ^ 23"
proof -
  define L where "L = bitlen m"
  define shift where "shift = max (int L - 24) (- 149 - e)"
  define m1 where "m1 = (if shift \<le> 0 then m * 2 ^ nat (- shift) else round_even m (nat shift))"
  have bl: "2 ^ (L - 1) \<le> m" "m < 2 ^ L" "0 < L"
    using bitlen_bounds [OF m] by (auto simp: L_def)
  have mle: "m \<le> 2 ^ nat (- e)"
    using le by (metis of_nat_le_iff of_nat_numeral of_nat_power)
  have "(2::nat) ^ (L - 1) \<le> 2 ^ nat (- e)"
    using bl(1) mle by (rule le_trans)
  then have Le: "int L \<le> 1 - e"
    using bl(3) e power_le_imp_le_exp [of "2::nat" "L - 1" "nat (- e)"] by linarith
  have pow: "m * 2 ^ nat (- shift) < 2 ^ 24" if "shift \<le> 0"
  proof -
    have "L + nat (- shift) \<le> 24" using that by (simp add: shift_def max_def split: if_splits)
    then have "(2::nat) ^ (L + nat (- shift)) \<le> 2 ^ 24"
      by (rule power_increasing) simp
    then have "(2::nat) ^ L * 2 ^ nat (- shift) \<le> 2 ^ 24"
      by (simp only: power_add)
    then show ?thesis using bl(2) by (meson less_le_trans mult_strict_right_mono zero_less_numeral zero_less_power)
  qed
  have m1_le: "m1 \<le> 2 ^ 24"
  proof (cases "shift \<le> 0")
    case False
    then have "L \<le> 24 + nat shift" by (simp add: shift_def max_def split: if_splits)
    then have "(2::nat) ^ L \<le> 2 ^ (24 + nat shift)"
      by (rule power_increasing) simp
    then have "(2::nat) ^ L \<le> 2 ^ 24 * 2 ^ nat shift"
      by (simp only: power_add)
    then have "m \<le> 2 ^ 24 * 2 ^ nat shift" using bl(2) by linarith
    then show ?thesis using False by (simp add: m1_def round_even_le)
  qed (use pow in \<open>simp add: m1_def\<close>)
  have e1: "e + shift \<le> - 23"
    using Le e by (simp add: shift_def max_def)
  have m1_top: "m1 \<le> 2 ^ 23" if "e + shift = - 23"
  proof -
    have "nat shift + 23 = nat (- e)" "0 < shift" using that e by linarith+
    then have "m \<le> 2 ^ (nat shift + 23)" using mle by simp
    then have "m \<le> 2 ^ 23 * 2 ^ nat shift"
      by (simp only: power_add mult.commute)
    then show ?thesis using \<open>0 < shift\<close> by (simp add: m1_def round_even_le)
  qed
  define m2 where "m2 = (if m1 = 2 ^ 24 then 2 ^ 23 else m1)"
  define e2 where "e2 = (if m1 = 2 ^ 24 then e + shift + 1 else e + shift)"
  have rm: "round_mag m e = (if m2 < 2 ^ 23 then m2
       else if e2 + 150 \<ge> 255 then 255 * 2 ^ 23 else nat (e2 + 150) * 2 ^ 23 + (m2 - 2 ^ 23))"
    unfolding round_mag_def Let_def m2_def e2_def m1_def shift_def L_def by simp
  have "e + shift < - 23" if "m1 = 2 ^ 24"
    using that e1 m1_top by fastforce
  then have e2: "e2 \<le> - 23" using e1 by (auto simp: e2_def)
  have m2: "m2 < 2 ^ 24" using m1_le by (auto simp: m2_def)
  have m2_top: "m2 \<le> 2 ^ 23" if "e2 = - 23"
    using that m1_top by (auto simp: e2_def m2_def split: if_splits)
  show ?thesis
  proof (cases "e2 = - 23")
    case True
    then show ?thesis using m2_top by (simp add: rm)
  next
    case False
    then have "nat (e2 + 150) \<le> 126" using e2 by linarith
    then have "nat (e2 + 150) * 2 ^ 23 \<le> 126 * 2 ^ 23" by (rule mult_le_mono1)
    moreover have "m2 - 2 ^ 23 \<le> 2 ^ 23"
      using m2 by simp
    ultimately have "nat (e2 + 150) * 2 ^ 23 + (m2 - 2 ^ 23) \<le> 126 * 2 ^ 23 + 2 ^ 23"
      by (rule add_mono)
    then show ?thesis using m2 e2 unfolding rm by (auto split: if_split)
  qed
qed

lemma f32_make_unit: "mag \<le> 127 * 2 ^ 23 \<Longrightarrow> f32_unit (f32_make False mag)"
  by (simp add: f32_unit_mag f32_make_def unat_of_nat)

lemma f32_mul_unit: "f32_unit a \<Longrightarrow> f32_unit b \<Longrightarrow> f32_unit (f32_mul a b)"
proof -
  assume a: "f32_unit a" and b: "f32_unit b"
  note fa = f32_unit_facts [OF a] f32_unit_sig_exp [OF a]
  note fb = f32_unit_facts [OF b] f32_unit_sig_exp [OF b]
  let ?m = "f32_sig a * f32_sig b" and ?e = "f32_exp a + f32_exp b"
  have "int ?m \<le> 2 ^ nat (- f32_exp a) * 2 ^ nat (- f32_exp b)"
    using fa(7) fb(7) by (simp add: mult_mono)
  also have "\<dots> = 2 ^ nat (- ?e)"
    using fa(6) fb(6) by (simp flip: power_add nat_add_distrib)
  finally have "int ?m \<le> 2 ^ nat (- ?e)" .
  then have "round_mag ?m ?e \<le> 127 * 2 ^ 23" if "0 < ?m"
    using round_mag_unit [OF that] fa(6) fb(6) by auto
  then show "f32_unit (f32_mul a b)"
    using fa fb by (auto simp: f32_mul_def Let_def intro: f32_make_unit)
qed

lemma f32_unit_clamp: "f32_unit x \<Longrightarrow> f32_clamp x 0 f32_one = x"
proof -
  assume x: "f32_unit x"
  have "f32_unit f32_one" "f32_unit 0" by (simp_all add: f32_unit_def)
  note f = f32_unit_facts [OF x] f32_unit_facts [OF this(1)] f32_unit_facts [OF this(2)]
  show ?thesis
    using x f by (simp add: f32_clamp_def f32_less_def f32_key_def f32_unit_def word_le_def)
qed

end
