(* ===== verification/Assessment.thy ===== *)
theory Assessment
  imports History Readiness Float32
begin

text \<open>
  Model of \<open>Assessment.cpp\<close>/\<open>Assessment.hpp\<close>, the assessment engine.  \<open>assess\<close> is one long C++
  function; the model cuts it at its paragraphs (dimension scan, target state, reasons, confidence,
  action, digest) and composes them in \<open>assess\<close>.  Signed comparisons of unsigned counters go
  through \<^const>\<open>sint\<close>, as the \<open>static_cast<int>\<close> of the source does, and confidence is computed in
  rounded binary32 arithmetic.

  The lemmas state the priority order of the decision (a fatal condition can only be masked by an
  ongoing recovery or an active quarantine) and that confidence stays between 0 and 1.
\<close>

record HealthAssessment =
  a_id :: HealthAssessmentId
  a_accelerator :: AcceleratorId
  a_uuid :: DeviceUuid
  a_state :: HealthState
  a_readiness :: ReadinessState
  a_validationDepth :: ValidationDepth
  a_confidence :: f32
  a_action :: ActionRequired
  a_executionReady :: bool
  a_quarantined :: bool
  a_quarantineId :: QuarantineId
  a_inRecovery :: bool
  a_timestamp :: Timestamp
  a_healthGeneration :: HealthGeneration
  a_policyGeneration :: PolicyGeneration
  a_deviceGeneration :: DeviceGeneration
  a_reasons :: "string list"
  a_digest :: string

definition default_HealthAssessment :: HealthAssessment where
  "default_HealthAssessment = \<lparr>a_id = StrongId 0, a_accelerator = StrongId 0, a_uuid = StrongId 0,
     a_state = HealthState.UNKNOWN, a_readiness = ReadinessState.UNKNOWN,
     a_validationDepth = ValidationDepth.NONE, a_confidence = 0, a_action = ActionRequired.UNKNOWN,
     a_executionReady = False, a_quarantined = False, a_quarantineId = StrongId 0, a_inRecovery = False,
     a_timestamp = Timestamp 0, a_healthGeneration = Generation 0, a_policyGeneration = Generation 0,
     a_deviceGeneration = Generation 0, a_reasons = [], a_digest = []\<rparr>"

record AssessmentInput =
  ai_accelerator :: AcceleratorId
  ai_uuid :: DeviceUuid
  ai_deviceGeneration :: DeviceGeneration
  ai_currentState :: HealthState
  ai_quarantined :: bool
  ai_inRecovery :: bool
  ai_now :: Timestamp
  ai_dimensions :: "(DimensionKind, HealthDimension) stdmap"
  ai_faultStats :: DeviceFaultStats
  ai_highestValidationDepth :: ValidationDepth
  ai_lastObservation :: Timestamp
  ai_policy :: HealthPolicy
  ai_deviceGenerationChanged :: bool
  ai_policyGenerationChanged :: bool

definition default_AssessmentInput :: AssessmentInput where
  "default_AssessmentInput = \<lparr>ai_accelerator = StrongId 0, ai_uuid = StrongId 0,
     ai_deviceGeneration = Generation 0, ai_currentState = HealthState.UNKNOWN, ai_quarantined = False,
     ai_inRecovery = False, ai_now = Timestamp 0, ai_dimensions = [],
     ai_faultStats = \<lparr>st_total = 0, st_criticalFatalOpen = 0, st_consecutiveLatest = 0,
       st_hasOpenFatal = False, st_hasOpenCritical = False\<rparr>,
     ai_highestValidationDepth = ValidationDepth.NONE, ai_lastObservation = Timestamp 0,
     ai_policy = default_HealthPolicy, ai_deviceGenerationChanged = False,
     ai_policyGenerationChanged = False\<rparr>"

section \<open>Freshness of the evidence\<close>

definition evidence_freshness :: "HealthPolicy \<Rightarrow> Timestamp \<Rightarrow> Timestamp \<Rightarrow> FreshnessStatus" where
  "evidence_freshness pol lastObs now =
     (if nanos lastObs \<noteq> 0 then freshness_evaluate (pol_freshness pol) lastObs now
      else FreshnessStatus.EXPIRED)"

section \<open>Dimension scan\<close>

record DimScan =
  sc_anyFailed :: bool
  sc_anyDegraded :: bool
  sc_anyFatalDim :: bool
  sc_worstReason :: string
  sc_worstSeverity :: Severity

definition scan_worst :: "HealthDimension \<Rightarrow> DimScan \<Rightarrow> DimScan" where
  "scan_worst dim s =
     (if Severity_int (dim_severity dim) > Severity_int (sc_worstSeverity s)
      then s\<lparr>sc_worstSeverity := dim_severity dim, sc_worstReason := dim_reason dim\<rparr> else s)"

definition scan_dim :: "DimScan \<Rightarrow> HealthDimension \<Rightarrow> DimScan" where
  "scan_dim s dim =
     (if dim_state dim = DimensionState.FAILED then
        scan_worst dim (s\<lparr>sc_anyFailed := True,
          sc_anyFatalDim := (if dim_severity dim = Severity.FATAL then True else sc_anyFatalDim s)\<rparr>)
      else if dim_state dim = DimensionState.DEGRADED then scan_worst dim (s\<lparr>sc_anyDegraded := True\<rparr>)
      else s)"

definition scan_dimensions :: "(DimensionKind, HealthDimension) stdmap \<Rightarrow> DimScan" where
  "scan_dimensions dims = foldl scan_dim
     \<lparr>sc_anyFailed = False, sc_anyDegraded = False, sc_anyFatalDim = False,
      sc_worstReason = [], sc_worstSeverity = Severity.INFO\<rparr> (smap_values dims)"

section \<open>Target state\<close>

definition consecutive_failures :: "AssessmentInput \<Rightarrow> int" where
  "consecutive_failures i = sint (st_consecutiveLatest (ai_faultStats i))"

definition assess_freshness :: "AssessmentInput \<Rightarrow> FreshnessStatus" where
  "assess_freshness i = evidence_freshness (ai_policy i) (ai_lastObservation i) (ai_now i)"

definition assess_target :: "AssessmentInput \<Rightarrow> HealthState" where
  "assess_target i =
     (let sc = scan_dimensions (ai_dimensions i); st = ai_faultStats i; pol = ai_policy i;
          consecutive = consecutive_failures i; freshness = assess_freshness i; cur = ai_currentState i in
      if ai_inRecovery i then
        (if cur = HealthState.RECOVERING \<or> cur = HealthState.REVALIDATING \<or>
            cur = HealthState.DRAINING \<or> cur = HealthState.DRAINED then cur else HealthState.RECOVERING)
      else if ai_quarantined i then HealthState.QUARANTINED
      else if st_hasOpenFatal st \<or> sc_anyFatalDim sc then HealthState.FAILED
      else if sc_anyFailed sc then HealthState.UNHEALTHY
      else if st_hasOpenCritical st \<and> consecutive \<ge> sint (pol_quarantineAfterFailures pol) then
        HealthState.QUARANTINED
      else if consecutive \<ge> sint (pol_unhealthyAfterFailures pol) then HealthState.UNHEALTHY
      else if consecutive \<ge> sint (pol_degradeAfterFailures pol) then HealthState.DEGRADED
      else if freshness = FreshnessStatus.EXPIRED \<or> freshness = FreshnessStatus.STALE then
        (if cur = HealthState.HEALTHY then HealthState.DEGRADED else cur)
      else HealthState.HEALTHY)"

section \<open>Reasons\<close>

definition depth_below :: "AssessmentInput \<Rightarrow> bool" where
  "depth_below i \<longleftrightarrow> ValidationDepth_int (ai_highestValidationDepth i) <
     ValidationDepth_int (pol_requiredValidationDepth (ai_policy i))"

definition assess_reasons :: "AssessmentInput \<Rightarrow> HealthState \<Rightarrow> string list" where
  "assess_reasons i target =
     (let sc = scan_dimensions (ai_dimensions i); consecutive = consecutive_failures i;
          freshness = assess_freshness i;
          worst = (if sc_worstReason sc = [] then ''unknown'' else sc_worstReason sc);
          rs = (if ai_inRecovery i then [''device in recovery/revalidation''] else [])
             @ (if ai_quarantined i then [''quarantine active''] else [])
             @ (if st_hasOpenFatal (ai_faultStats i) then [''open fatal fault present''] else [])
             @ (if sc_anyFailed sc then [''dimension failure: '' @ worst]
                else if sc_anyDegraded sc then [''dimension degraded: '' @ worst] else [])
             @ (if consecutive \<ge> sint (pol_degradeAfterFailures (ai_policy i))
                then [''repeated failures: '' @ int_to_string consecutive] else [])
             @ (if freshness = FreshnessStatus.STALE then [''evidence stale''] else [])
             @ (if freshness = FreshnessStatus.EXPIRED then [''evidence expired''] else [])
             @ (if depth_below i then [''validation depth below required''] else [])
             @ (if ai_deviceGenerationChanged i then [''device generation changed''] else [])
             @ (if ai_policyGenerationChanged i then [''policy generation changed''] else []);
          rs1 = (if rs = [] \<and> target = HealthState.HEALTHY then [''all evidence nominal and fresh''] else rs)
      in if rs1 = [] then [''no adverse evidence''] else rs1)"

section \<open>Confidence\<close>

definition scale_if :: "bool \<Rightarrow> f32 \<Rightarrow> f32 \<Rightarrow> f32" where
  "scale_if c k conf = (if c then f32_mul conf k else conf)"

definition scale_target :: "HealthState \<Rightarrow> f32 \<Rightarrow> f32" where
  "scale_target target conf = (case target of
     HealthState.DEGRADED \<Rightarrow> f32_mul conf 0x3F4CCCCD
   | HealthState.UNHEALTHY \<Rightarrow> f32_mul conf 0x3F000000
   | HealthState.FAILED \<Rightarrow> f32_mul conf 0x3E4CCCCD
   | HealthState.QUARANTINED \<Rightarrow> f32_mul conf 0x3DCCCCCD
   | HealthState.RECOVERING \<Rightarrow> f32_mul conf 0x3F000000
   | HealthState.REVALIDATING \<Rightarrow> f32_mul conf 0x3F000000
   | _ \<Rightarrow> conf)"

definition assess_confidence :: "AssessmentInput \<Rightarrow> HealthState \<Rightarrow> f32" where
  "assess_confidence i target =
     (let freshness = assess_freshness i;
          c1 = scale_if (ai_inRecovery i) 0x3ECCCCCD f32_one;
          c2 = scale_if (ai_quarantined i) 0x3DCCCCCD c1;
          c3 = scale_if (freshness = FreshnessStatus.AGING) 0x3F666666 c2;
          c4 = scale_if (freshness = FreshnessStatus.STALE) 0x3F19999A c3;
          c5 = scale_if (freshness = FreshnessStatus.EXPIRED) 0x3E99999A c4;
          c6 = scale_target target c5;
          c7 = scale_if (depth_below i) 0x3F4CCCCD c6;
          c8 = scale_if (st_hasOpenCritical (ai_faultStats i)) 0x3F000000 c7
      in f32_clamp c8 0 f32_one)"

section \<open>Action and digest\<close>

definition assess_action :: "AssessmentInput \<Rightarrow> HealthState \<Rightarrow> ActionRequired" where
  "assess_action i target =
     (if ai_quarantined i then ActionRequired.RECOVER
      else if target = HealthState.FAILED then ActionRequired.DRAIN
      else if target = HealthState.UNHEALTHY then ActionRequired.DRAIN
      else if target = HealthState.QUARANTINED then ActionRequired.QUARANTINE
      else if ai_inRecovery i \<or> depth_below i then ActionRequired.REVALIDATE
      else if target = HealthState.DEGRADED then ActionRequired.MONITOR
      else ActionRequired.NONE)"

definition digest_body :: "AssessmentInput \<Rightarrow> HealthState \<Rightarrow> ReadinessState \<Rightarrow> wr" where
  "digest_body i target readiness = wr_all [
     StrongId_write (ai_accelerator i),
     StrongId_write (ai_uuid i),
     Generation_write (ai_deviceGeneration i),
     HealthState_write target,
     ReadinessState_write readiness,
     FreshnessStatus_write (assess_freshness i),
     ValidationDepth_write (ai_highestValidationDepth i),
     ValidationDepth_write (pol_requiredValidationDepth (ai_policy i)),
     wr_u32 (st_total (ai_faultStats i)),
     wr_u32 (st_criticalFatalOpen (ai_faultStats i)),
     wr_u32 (st_consecutiveLatest (ai_faultStats i)),
     wr_bool (st_hasOpenFatal (ai_faultStats i)),
     wr_bool (st_hasOpenCritical (ai_faultStats i)),
     wr_u32 (pol_degradeAfterFailures (ai_policy i)),
     wr_u32 (pol_unhealthyAfterFailures (ai_policy i)),
     wr_u32 (pol_quarantineAfterFailures (ai_policy i))]"

definition assess_digest :: "AssessmentInput \<Rightarrow> HealthState \<Rightarrow> ReadinessState \<Rightarrow> string" where
  "assess_digest i target readiness =
     ''ah-'' @ (case digest_body i target readiness of Inr bs \<Rightarrow> to_hex bs | Inl _ \<Rightarrow> [])"

section \<open>The engine\<close>

definition assess_readiness_input :: "AssessmentInput \<Rightarrow> HealthState \<Rightarrow> ReadinessInput" where
  "assess_readiness_input i target = \<lparr>ri_health = target, ri_freshness = assess_freshness i,
     ri_validationDepth = ai_highestValidationDepth i,
     ri_requiredValidationDepth = pol_requiredValidationDepth (ai_policy i),
     ri_quarantined = ai_quarantined i, ri_inRecovery = ai_inRecovery i,
     ri_deviceGenerationChanged = ai_deviceGenerationChanged i,
     ri_policyGenerationChanged = ai_policyGenerationChanged i, ri_requiresRevalidation = False,
     ri_allowDegradedReadiness = pol_allowDegradedReadiness (ai_policy i),
     ri_runtimeCompatibilityChanged = False\<rparr>"

definition assess :: "AssessmentInput \<Rightarrow> HealthAssessment" where
  "assess i =
     (let target = assess_target i;
          res = readiness_evaluate (assess_readiness_input i target)
      in default_HealthAssessment\<lparr>
           a_accelerator := ai_accelerator i, a_uuid := ai_uuid i,
           a_validationDepth := ai_highestValidationDepth i, a_timestamp := ai_now i,
           a_state := target, a_reasons := assess_reasons i target,
           a_confidence := assess_confidence i target, a_action := assess_action i target,
           a_readiness := rr_state res, a_executionReady := rr_executionReady res,
           a_digest := assess_digest i target (rr_state res),
           a_quarantined := ai_quarantined i, a_inRecovery := ai_inRecovery i\<rparr>)"

section \<open>Facts about the scan\<close>

lemma scan_worst_simps [simp]:
  "sc_anyFailed (scan_worst d s) = sc_anyFailed s" "sc_anyDegraded (scan_worst d s) = sc_anyDegraded s"
  "sc_anyFatalDim (scan_worst d s) = sc_anyFatalDim s"
  by (simp_all add: scan_worst_def)

definition failed_dim :: "HealthDimension \<Rightarrow> bool" where
  "failed_dim d \<longleftrightarrow> dim_state d = DimensionState.FAILED"

definition fatal_dim :: "HealthDimension \<Rightarrow> bool" where
  "fatal_dim d \<longleftrightarrow> failed_dim d \<and> dim_severity d = Severity.FATAL"

lemma scan_fold:
  "sc_anyFailed (foldl scan_dim s ds) \<longleftrightarrow> sc_anyFailed s \<or> (\<exists>d\<in>set ds. failed_dim d)"
  "sc_anyFatalDim (foldl scan_dim s ds) \<longleftrightarrow> sc_anyFatalDim s \<or> (\<exists>d\<in>set ds. fatal_dim d)"
  by (induction ds arbitrary: s) (auto simp: scan_dim_def failed_dim_def fatal_dim_def)

lemma scan_dimensions_simps [simp]:
  "sc_anyFailed (scan_dimensions dims) \<longleftrightarrow> (\<exists>d\<in>set (smap_values dims). failed_dim d)"
  "sc_anyFatalDim (scan_dimensions dims) \<longleftrightarrow> (\<exists>d\<in>set (smap_values dims). fatal_dim d)"
  by (simp_all add: scan_dimensions_def scan_fold)

section \<open>Facts about the decision\<close>

lemma assess_state [simp]: "a_state (assess i) = assess_target i"
  by (simp add: assess_def Let_def)

lemma assess_target_recovery:
  "ai_inRecovery i \<Longrightarrow> assess_target i \<in>
     {HealthState.RECOVERING, HealthState.REVALIDATING, HealthState.DRAINING, HealthState.DRAINED}"
  by (auto simp: assess_target_def Let_def)

lemma assess_target_quarantined:
  "\<not> ai_inRecovery i \<Longrightarrow> ai_quarantined i \<Longrightarrow> assess_target i = HealthState.QUARANTINED"
  by (simp add: assess_target_def)

lemma assess_target_fatal:
  "\<not> ai_inRecovery i \<Longrightarrow> \<not> ai_quarantined i \<Longrightarrow>
   st_hasOpenFatal (ai_faultStats i) \<or> sc_anyFatalDim (scan_dimensions (ai_dimensions i)) \<Longrightarrow>
     assess_target i = HealthState.FAILED"
  by (simp add: assess_target_def Let_def)

lemma scale_if_unit: "f32_unit conf \<Longrightarrow> f32_unit k \<Longrightarrow> f32_unit (scale_if c k conf)"
  by (simp add: scale_if_def f32_mul_unit)

lemma scale_target_unit: "f32_unit conf \<Longrightarrow> f32_unit (scale_target t conf)"
  by (cases t) (auto simp: scale_target_def f32_unit_def f32_one_def intro!: f32_mul_unit [unfolded f32_unit_def f32_one_def])

section \<open>Confidence and safety of the assessment\<close>

lemma assess_confidence_unit: "f32_unit (assess_confidence i t)"
proof -
  have k: "f32_unit 0x3ECCCCCD" "f32_unit 0x3DCCCCCD" "f32_unit 0x3F666666" "f32_unit 0x3F19999A"
    "f32_unit 0x3E99999A" "f32_unit 0x3F4CCCCD" "f32_unit 0x3F000000" "f32_unit f32_one"
    by (simp_all add: f32_unit_def f32_one_def)
  show ?thesis
    unfolding assess_confidence_def Let_def
    by (subst f32_unit_clamp; intro scale_if_unit scale_target_unit k)
qed

lemma assess_readiness [simp]:
  "a_readiness (assess i) = rr_state (readiness_evaluate (assess_readiness_input i (assess_target i)))"
  "a_executionReady (assess i) \<longleftrightarrow>
     rr_executionReady (readiness_evaluate (assess_readiness_input i (assess_target i)))"
  "a_confidence (assess i) = assess_confidence i (assess_target i)"
  by (simp_all add: assess_def Let_def)

lemma assess_ready_state:
  "a_executionReady (assess i) \<Longrightarrow> assess_target i \<in> {HealthState.HEALTHY, HealthState.DEGRADED}"
  by (auto simp: readiness_ready_iff fully_qualified_def assess_readiness_input_def)

text \<open>C36. The confidence of every assessment, computed in rounded binary32 arithmetic, lies between 0.0
  and 1.0 (and in particular is never a NaN or negative).\<close>

theorem assess_confidence_bounds: "f32_unit (a_confidence (assess i))"
  by (simp add: assess_confidence_unit)

text \<open>While a fatal condition is present (an open fatal fault or a failed dimension of FATAL
  severity), no assessment declares the device ready for execution, whatever the policy, the current
  state, the freshness or the validation depth; and outside recovery and quarantine the target is FAILED.\<close>

theorem fatal_never_ready:
  assumes "st_hasOpenFatal (ai_faultStats i) \<or> (\<exists>d\<in>set (smap_values (ai_dimensions i)). fatal_dim d)"
  shows "\<not> a_executionReady (assess i) \<and>
    (\<not> ai_inRecovery i \<and> \<not> ai_quarantined i \<longrightarrow> a_state (assess i) = HealthState.FAILED)"
proof -
  have "assess_target i \<notin> {HealthState.HEALTHY, HealthState.DEGRADED}"
    using assms assess_target_recovery [of i] assess_target_quarantined [of i] assess_target_fatal [of i]
    by (cases "ai_inRecovery i"; cases "ai_quarantined i") auto
  then show ?thesis
    using assess_ready_state [of i] assess_target_fatal [of i] assms by auto
qed

theorem fatal_never_ready_witness:
  "let i = default_AssessmentInput\<lparr>ai_dimensions := [(DimensionKind.MEMORY_INTEGRITY, default_HealthDimension
       \<lparr>dim_state := DimensionState.FAILED, dim_severity := Severity.FATAL\<rparr>)]\<rparr>
   in \<not> a_executionReady (assess i) \<and> a_state (assess i) = HealthState.FAILED"
proof -
  let ?i = "default_AssessmentInput\<lparr>ai_dimensions := [(DimensionKind.MEMORY_INTEGRITY, default_HealthDimension
       \<lparr>dim_state := DimensionState.FAILED, dim_severity := Severity.FATAL\<rparr>)]\<rparr>"
  have "\<exists>d\<in>set (smap_values (ai_dimensions ?i)). fatal_dim d"
    by (simp add: smap_values_def fatal_dim_def failed_dim_def)
  moreover have "\<not> ai_inRecovery ?i" "\<not> ai_quarantined ?i"
    by (simp_all add: default_AssessmentInput_def)
  ultimately show ?thesis
    unfolding Let_def using fatal_never_ready [of ?i] by blast
qed

end
