(* ===== verification/StateMachine.thy ===== *)
theory StateMachine
  imports Records
begin

text \<open>
  Model of \<open>StateMachine.cpp\<close> and \<open>StateMachine.hpp\<close>: the table of legal health transitions, the
  class \<open>StateMachine\<close>, and the two documented recovery sequences.

  The lemmas characterise the table (who may enter HEALTHY, how a quarantine may be left, that LOST
  is reachable from everywhere) and show for whole runs that an impaired device cannot become
  HEALTHY without passing through REVALIDATING, OFFLINE or LOST.
\<close>

definition legalTransitions :: "(HealthState \<times> HealthState \<times> string) list" where
  "legalTransitions = [
    (HealthState.UNKNOWN, HealthState.INITIALIZING, ''init''),
    (HealthState.UNKNOWN, HealthState.OFFLINE, ''offline''),
    (HealthState.UNKNOWN, HealthState.LOST, ''lost''),
    (HealthState.UNKNOWN, HealthState.HEALTHY, ''first-validated''),
    (HealthState.INITIALIZING, HealthState.HEALTHY, ''init-ok''),
    (HealthState.INITIALIZING, HealthState.DEGRADED, ''init-degraded''),
    (HealthState.INITIALIZING, HealthState.UNHEALTHY, ''init-unhealthy''),
    (HealthState.INITIALIZING, HealthState.FAILED, ''init-failed''),
    (HealthState.INITIALIZING, HealthState.DRAINING, ''init-drain''),
    (HealthState.INITIALIZING, HealthState.QUARANTINED, ''init-quarantine''),
    (HealthState.INITIALIZING, HealthState.OFFLINE, ''init-offline''),
    (HealthState.INITIALIZING, HealthState.LOST, ''init-lost''),
    (HealthState.HEALTHY, HealthState.DEGRADED, ''degraded''),
    (HealthState.HEALTHY, HealthState.UNHEALTHY, ''unhealthy''),
    (HealthState.HEALTHY, HealthState.FAILED, ''failed''),
    (HealthState.HEALTHY, HealthState.DRAINING, ''drain''),
    (HealthState.HEALTHY, HealthState.QUARANTINED, ''quarantine''),
    (HealthState.HEALTHY, HealthState.OFFLINE, ''offline''),
    (HealthState.HEALTHY, HealthState.LOST, ''lost''),
    (HealthState.DEGRADED, HealthState.UNHEALTHY, ''unhealthy''),
    (HealthState.DEGRADED, HealthState.FAILED, ''failed''),
    (HealthState.DEGRADED, HealthState.DRAINING, ''drain''),
    (HealthState.DEGRADED, HealthState.QUARANTINED, ''quarantine''),
    (HealthState.DEGRADED, HealthState.REVALIDATING, ''revalidate''),
    (HealthState.DEGRADED, HealthState.OFFLINE, ''offline''),
    (HealthState.DEGRADED, HealthState.LOST, ''lost''),
    (HealthState.UNHEALTHY, HealthState.DRAINING, ''drain''),
    (HealthState.UNHEALTHY, HealthState.FAILED, ''failed''),
    (HealthState.UNHEALTHY, HealthState.QUARANTINED, ''quarantine''),
    (HealthState.UNHEALTHY, HealthState.OFFLINE, ''offline''),
    (HealthState.UNHEALTHY, HealthState.LOST, ''lost''),
    (HealthState.FAILED, HealthState.QUARANTINED, ''quarantine''),
    (HealthState.FAILED, HealthState.DRAINING, ''drain''),
    (HealthState.FAILED, HealthState.RECOVERING, ''recover''),
    (HealthState.FAILED, HealthState.OFFLINE, ''offline''),
    (HealthState.FAILED, HealthState.LOST, ''lost''),
    (HealthState.DRAINING, HealthState.DRAINED, ''drained''),
    (HealthState.DRAINING, HealthState.FAILED, ''failed''),
    (HealthState.DRAINING, HealthState.QUARANTINED, ''quarantine''),
    (HealthState.DRAINING, HealthState.OFFLINE, ''offline''),
    (HealthState.DRAINING, HealthState.LOST, ''lost''),
    (HealthState.DRAINED, HealthState.RECOVERING, ''recover''),
    (HealthState.DRAINED, HealthState.REVALIDATING, ''revalidate''),
    (HealthState.DRAINED, HealthState.OFFLINE, ''offline''),
    (HealthState.DRAINED, HealthState.LOST, ''lost''),
    (HealthState.QUARANTINED, HealthState.RECOVERING, ''recover''),
    (HealthState.QUARANTINED, HealthState.OFFLINE, ''offline''),
    (HealthState.QUARANTINED, HealthState.LOST, ''lost''),
    (HealthState.RECOVERING, HealthState.REVALIDATING, ''revalidate''),
    (HealthState.RECOVERING, HealthState.FAILED, ''failed''),
    (HealthState.RECOVERING, HealthState.QUARANTINED, ''quarantine''),
    (HealthState.RECOVERING, HealthState.OFFLINE, ''offline''),
    (HealthState.RECOVERING, HealthState.LOST, ''lost''),
    (HealthState.REVALIDATING, HealthState.HEALTHY, ''revalidated-ok''),
    (HealthState.REVALIDATING, HealthState.DEGRADED, ''revalidated-degraded''),
    (HealthState.REVALIDATING, HealthState.UNHEALTHY, ''revalidated-unhealthy''),
    (HealthState.REVALIDATING, HealthState.FAILED, ''revalidated-failed''),
    (HealthState.REVALIDATING, HealthState.QUARANTINED, ''revalidated-quarantine''),
    (HealthState.REVALIDATING, HealthState.OFFLINE, ''offline''),
    (HealthState.REVALIDATING, HealthState.LOST, ''lost''),
    (HealthState.OFFLINE, HealthState.INITIALIZING, ''re-enumerate''),
    (HealthState.OFFLINE, HealthState.HEALTHY, ''re-enumerated-ok''),
    (HealthState.OFFLINE, HealthState.LOST, ''lost''),
    (HealthState.LOST, HealthState.OFFLINE, ''offline''),
    (HealthState.LOST, HealthState.INITIALIZING, ''re-enumerate'')]"

definition canTransition :: "HealthState \<Rightarrow> HealthState \<Rightarrow> bool" where
  "canTransition from to \<longleftrightarrow> list_ex (\<lambda>(f, t, _). f = from \<and> t = to) legalTransitions"

record StateMachine =
  sm_state :: HealthState
  sm_generation :: u64

definition StateMachine_init :: "HealthState \<Rightarrow> StateMachine" where
  "StateMachine_init s = \<lparr>sm_state = s, sm_generation = 0\<rparr>"

definition transitionTo :: "HealthState \<Rightarrow> StateMachine \<Rightarrow> exn + StateMachine" where
  "transitionTo to m =
     (if \<not> canTransition (sm_state m) to then Inl (InvalidTransition (sm_state m) to)
      else Inr (m\<lparr>sm_state := to, sm_generation := sm_generation m + 1\<rparr>))"

definition recoverySequenceFromUnhealthy :: "HealthState list" where
  "recoverySequenceFromUnhealthy = [HealthState.UNHEALTHY, HealthState.DRAINING, HealthState.DRAINED,
     HealthState.RECOVERING, HealthState.REVALIDATING, HealthState.HEALTHY]"

definition recoverySequenceFromFailed :: "HealthState list" where
  "recoverySequenceFromFailed = [HealthState.FAILED, HealthState.QUARANTINED, HealthState.RECOVERING,
     HealthState.REVALIDATING, HealthState.HEALTHY]"

section \<open>The transition table\<close>

text \<open>The successor lists, one equation per source state, so that the simplifier decides the table.\<close>

lemma canTransition_simps [simp]:
  "canTransition HealthState.UNKNOWN to \<longleftrightarrow> to \<in> {HealthState.INITIALIZING, HealthState.OFFLINE, HealthState.LOST, HealthState.HEALTHY}"
  "canTransition HealthState.INITIALIZING to \<longleftrightarrow> to \<in> {HealthState.HEALTHY, HealthState.DEGRADED, HealthState.UNHEALTHY, HealthState.FAILED, HealthState.DRAINING, HealthState.QUARANTINED, HealthState.OFFLINE, HealthState.LOST}"
  "canTransition HealthState.HEALTHY to \<longleftrightarrow> to \<in> {HealthState.DEGRADED, HealthState.UNHEALTHY, HealthState.FAILED, HealthState.DRAINING, HealthState.QUARANTINED, HealthState.OFFLINE, HealthState.LOST}"
  "canTransition HealthState.DEGRADED to \<longleftrightarrow> to \<in> {HealthState.UNHEALTHY, HealthState.FAILED, HealthState.DRAINING, HealthState.QUARANTINED, HealthState.REVALIDATING, HealthState.OFFLINE, HealthState.LOST}"
  "canTransition HealthState.UNHEALTHY to \<longleftrightarrow> to \<in> {HealthState.DRAINING, HealthState.FAILED, HealthState.QUARANTINED, HealthState.OFFLINE, HealthState.LOST}"
  "canTransition HealthState.FAILED to \<longleftrightarrow> to \<in> {HealthState.QUARANTINED, HealthState.DRAINING, HealthState.RECOVERING, HealthState.OFFLINE, HealthState.LOST}"
  "canTransition HealthState.DRAINING to \<longleftrightarrow> to \<in> {HealthState.DRAINED, HealthState.FAILED, HealthState.QUARANTINED, HealthState.OFFLINE, HealthState.LOST}"
  "canTransition HealthState.DRAINED to \<longleftrightarrow> to \<in> {HealthState.RECOVERING, HealthState.REVALIDATING, HealthState.OFFLINE, HealthState.LOST}"
  "canTransition HealthState.QUARANTINED to \<longleftrightarrow> to \<in> {HealthState.RECOVERING, HealthState.OFFLINE, HealthState.LOST}"
  "canTransition HealthState.RECOVERING to \<longleftrightarrow> to \<in> {HealthState.REVALIDATING, HealthState.FAILED, HealthState.QUARANTINED, HealthState.OFFLINE, HealthState.LOST}"
  "canTransition HealthState.REVALIDATING to \<longleftrightarrow> to \<in> {HealthState.HEALTHY, HealthState.DEGRADED, HealthState.UNHEALTHY, HealthState.FAILED, HealthState.QUARANTINED, HealthState.OFFLINE, HealthState.LOST}"
  "canTransition HealthState.OFFLINE to \<longleftrightarrow> to \<in> {HealthState.INITIALIZING, HealthState.HEALTHY, HealthState.LOST}"
  "canTransition HealthState.LOST to \<longleftrightarrow> to \<in> {HealthState.OFFLINE, HealthState.INITIALIZING}"
  by (cases to; simp add: canTransition_def legalTransitions_def)+

lemma canTransition_irrefl [simp]: "\<not> canTransition s s"
  by (cases s) simp_all

lemma canTransition_to_HEALTHY: "canTransition s HealthState.HEALTHY \<longleftrightarrow>
    s \<in> {HealthState.UNKNOWN, HealthState.INITIALIZING, HealthState.REVALIDATING, HealthState.OFFLINE}"
  by (cases s) simp_all

lemma canTransition_to_LOST: "canTransition s HealthState.LOST \<longleftrightarrow> s \<noteq> HealthState.LOST"
  by (cases s) simp_all

lemma canTransition_to_RECOVERING: "canTransition s HealthState.RECOVERING \<longleftrightarrow>
    s \<in> {HealthState.FAILED, HealthState.DRAINED, HealthState.QUARANTINED}"
  by (cases s) simp_all

lemma canTransition_from_QUARANTINED: "canTransition HealthState.QUARANTINED s \<longleftrightarrow>
    s \<in> {HealthState.RECOVERING, HealthState.OFFLINE, HealthState.LOST}"
  by (cases s) simp_all

section \<open>Runs of the machine\<close>

primrec run_machine :: "HealthState list \<Rightarrow> StateMachine \<Rightarrow> exn + StateMachine" where
  "run_machine [] m = Inr m"
| "run_machine (s # ss) m = (case transitionTo s m of Inl e \<Rightarrow> Inl e | Inr m' \<Rightarrow> run_machine ss m')"

lemma run_machine_append:
  "run_machine (xs @ ys) m = (case run_machine xs m of Inl e \<Rightarrow> Inl e | Inr m' \<Rightarrow> run_machine ys m')"
  by (induction xs arbitrary: m) (auto split: sum.splits)

lemma run_machine_state:
  "run_machine ss m = Inr m' \<Longrightarrow> sm_state m' = last (sm_state m # ss) \<and>
     sm_generation m' = sm_generation m + of_nat (length ss)"
proof (induction ss arbitrary: m)
  case (Cons s ss)
  then have "run_machine ss (m\<lparr>sm_state := s, sm_generation := sm_generation m + 1\<rparr>) = Inr m'"
    by (simp add: transitionTo_def split: if_splits)
  from Cons.IH [OF this] show ?case
    by (simp add: add.assoc)
qed simp

definition impaired :: "HealthState \<Rightarrow> bool" where
  "impaired s \<longleftrightarrow> s \<in> {HealthState.DEGRADED, HealthState.UNHEALTHY, HealthState.FAILED, HealthState.DRAINING,
     HealthState.DRAINED, HealthState.QUARANTINED, HealthState.RECOVERING}"

definition requalified :: "HealthState \<Rightarrow> bool" where
  "requalified s \<longleftrightarrow> s \<in> {HealthState.REVALIDATING, HealthState.OFFLINE, HealthState.LOST}"

lemma impaired_step: "impaired s \<Longrightarrow> canTransition s t \<Longrightarrow> impaired t \<or> requalified t"
  by (cases s; cases t; simp add: impaired_def requalified_def)

lemma impaired_run:
  "impaired (sm_state m) \<Longrightarrow> run_machine ss m = Inr m' \<Longrightarrow>
     impaired (sm_state m') \<or> (\<exists>t\<in>set ss. requalified t)"
proof (induction ss arbitrary: m)
  case (Cons s ss)
  then have step: "canTransition (sm_state m) s"
    and rest: "run_machine ss (m\<lparr>sm_state := s, sm_generation := sm_generation m + 1\<rparr>) = Inr m'"
    by (auto simp: transitionTo_def split: if_splits)
  from impaired_step [OF Cons.prems(1) step] show ?case
    using Cons.IH [OF _ rest] by auto
qed simp

section \<open>No shortcut back to HEALTHY\<close>

text \<open>C34. Whatever sequence of transitions the machine accepts, a device that is degraded, unhealthy,
  failed, draining, drained, quarantined or recovering becomes HEALTHY only if it was REVALIDATING,
  OFFLINE or LOST on the way.\<close>

theorem no_bypass_to_healthy:
  assumes "impaired (sm_state m)" "run_machine ss m = Inr m'" "sm_state m' = HealthState.HEALTHY"
  shows "\<exists>i < length ss. requalified (ss ! i)"
  using impaired_run [OF assms(1,2)] assms(3) by (auto simp: impaired_def in_set_conv_nth)

theorem no_bypass_to_healthy_witness:
  "\<exists>i < length (tl recoverySequenceFromFailed). requalified (tl recoverySequenceFromFailed ! i)"
  by (rule no_bypass_to_healthy [of "StateMachine_init HealthState.FAILED" _
        "\<lparr>sm_state = HealthState.HEALTHY, sm_generation = 4\<rparr>"])
    (simp_all add: impaired_def StateMachine_init_def recoverySequenceFromFailed_def transitionTo_def)

text \<open>Both documented recovery sequences are accepted by the machine from their first state, end in
  HEALTHY and count one generation per transition.\<close>

theorem recovery_sequences_accepted:
  "run_machine (tl recoverySequenceFromUnhealthy) (StateMachine_init (hd recoverySequenceFromUnhealthy)) =
     Inr \<lparr>sm_state = HealthState.HEALTHY, sm_generation = 5\<rparr> \<and>
   run_machine (tl recoverySequenceFromFailed) (StateMachine_init (hd recoverySequenceFromFailed)) =
     Inr \<lparr>sm_state = HealthState.HEALTHY, sm_generation = 4\<rparr>"
  by (simp add: recoverySequenceFromUnhealthy_def recoverySequenceFromFailed_def StateMachine_init_def
      transitionTo_def)

end
