(* ===== verification/Store.thy ===== *)
theory Store
  imports Assessment StateMachine "HOL-Library.Product_Lexorder"
begin

text \<open>
  Model of \<open>Store.cpp\<close>/\<open>Store.hpp\<close>, the health store.  Every public method runs under the store's
  mutex, so one method is one step on the record \<open>HealthStore\<close> (the exception is \<open>setPolicy\<close>, which
  takes the lock twice and is the composition of two steps).

  A method that works on one device (\<open>Device& d\<close>, a reference into \<open>devices_\<close>) is a \<open>dev_op\<close>: it maps
  the device and the rest of the store to an optional exception and the two as they stand when it
  returns or throws; mutations made before a throw are kept, as in C++.  \<open>on_device\<close> fetches the
  device and writes it back, \<open>run_ops\<close> is the sequence of statements of a body.  \<open>clock_->now()\<close>
  consumes the next reading of the store's clock.
\<close>

section \<open>State\<close>

record Device =
  dv_id :: AcceleratorId
  dv_uuid :: DeviceUuid
  dv_node :: NodeId
  dv_lastWorker :: WorkerId
  dv_lastWorkerBootId :: WorkerBootId
  dv_generation :: DeviceGeneration
  dv_state :: HealthState
  dv_readiness :: ReadinessState
  dv_healthGeneration :: HealthGeneration
  dv_transitionCount :: u64
  dv_dimensions :: "(DimensionKind, HealthDimension) stdmap"
  dv_faults :: FaultHistory
  dv_recentEvidence :: "Evidence list"
  dv_validations :: "ValidationRecord list"
  dv_changes :: "HealthChange list"
  dv_latestAssessment :: HealthAssessment
  dv_highestValidation :: ValidationDepth
  dv_quarantine :: "QuarantineRecord option"
  dv_recovery :: "RecoveryRecord option"
  dv_lastObservation :: Timestamp
  dv_firstSeen :: Timestamp
  dv_deviceGenerationChangedFlag :: bool
  dv_policyGenerationChangedFlag :: bool
  dv_requiresRevalidation :: bool
  dv_inRecovery :: bool
  dv_present :: bool

definition default_Device :: Device where
  "default_Device = \<lparr>dv_id = StrongId 0, dv_uuid = StrongId 0, dv_node = StrongId 0,
     dv_lastWorker = StrongId 0, dv_lastWorkerBootId = StrongId 0, dv_generation = Generation 0,
     dv_state = HealthState.UNKNOWN, dv_readiness = ReadinessState.UNKNOWN,
     dv_healthGeneration = Generation 0, dv_transitionCount = 0, dv_dimensions = [], dv_faults = [],
     dv_recentEvidence = [], dv_validations = [], dv_changes = [],
     dv_latestAssessment = default_HealthAssessment, dv_highestValidation = ValidationDepth.NONE,
     dv_quarantine = None, dv_recovery = None, dv_lastObservation = Timestamp 0,
     dv_firstSeen = Timestamp 0, dv_deviceGenerationChangedFlag = False,
     dv_policyGenerationChangedFlag = False, dv_requiresRevalidation = False, dv_inRecovery = False,
     dv_present = True\<rparr>"

record HealthStore =
  hs_clock :: Clock
  hs_policy :: HealthPolicy
  hs_policyGeneration :: PolicyGeneration
  hs_coordinatorEpoch :: u64
  hs_nextDeviceRaw :: u64
  hs_nextFaultRaw :: u64
  hs_nextObservationRaw :: u64
  hs_nextValidationRaw :: u64
  hs_nextQuarantineRaw :: u64
  hs_nextRecoveryRaw :: u64
  hs_nextAssessmentRaw :: u64
  hs_nextIncidentRaw :: u64
  hs_workerBootRegistry :: "(WorkerId, WorkerBootId) stdmap"
  hs_lastObservedGeneration :: "(u64 \<times> u64, ObservationGeneration) stdmap"
  hs_devices :: "(AcceleratorId, Device) stdmap"
  hs_uuidIndex :: "(DeviceUuid, AcceleratorId) stdmap"
  hs_stateIndex :: "(HealthState, AcceleratorId) index"
  hs_readinessIndex :: "(ReadinessState, AcceleratorId) index"
  hs_faultIndex :: "(FaultType, AcceleratorId) index"
  hs_quarantineIndex :: "AcceleratorId list"
  hs_staleIndex :: "AcceleratorId list"
  hs_globalFaults :: "Fault list"
  hs_globalChanges :: "HealthChange list"

definition HealthStore_new :: "Clock \<Rightarrow> HealthPolicy \<Rightarrow> u64 \<Rightarrow> HealthStore" where
  "HealthStore_new clock policy epoch = \<lparr>hs_clock = clock, hs_policy = policy,
     hs_policyGeneration = Generation 1, hs_coordinatorEpoch = epoch, hs_nextDeviceRaw = 1,
     hs_nextFaultRaw = 1, hs_nextObservationRaw = 1, hs_nextValidationRaw = 1,
     hs_nextQuarantineRaw = 1, hs_nextRecoveryRaw = 1, hs_nextAssessmentRaw = 1,
     hs_nextIncidentRaw = 1, hs_workerBootRegistry = [], hs_lastObservedGeneration = [],
     hs_devices = [], hs_uuidIndex = [], hs_stateIndex = [], hs_readinessIndex = [],
     hs_faultIndex = [], hs_quarantineIndex = [], hs_staleIndex = [], hs_globalFaults = [],
     hs_globalChanges = []\<rparr>"

definition quarantine_active :: "Device \<Rightarrow> bool" where
  "quarantine_active d = (case dv_quarantine d of Some q \<Rightarrow> q_active q | None \<Rightarrow> False)"

section \<open>Statements on one device\<close>

type_synonym dctx = "Device \<times> HealthStore"
type_synonym dev_op = "dctx \<Rightarrow> exn option \<times> dctx"

definition dev_do :: "(Device \<Rightarrow> Device) \<Rightarrow> dev_op" where
  "dev_do f c = (None, (f (fst c), snd c))"

definition sto_do :: "(HealthStore \<Rightarrow> HealthStore) \<Rightarrow> dev_op" where
  "sto_do f c = (None, (fst c, f (snd c)))"

definition op_when :: "(dctx \<Rightarrow> bool) \<Rightarrow> dev_op \<Rightarrow> dev_op" where
  "op_when cond a c = (if cond c then a c else (None, c))"

fun run_ops :: "dev_op list \<Rightarrow> dev_op" where
  "run_ops [] c = (None, c)"
| "run_ops (a # as) c = (case a c of (Some e, c') \<Rightarrow> (Some e, c') | (None, c') \<Rightarrow> run_ops as c')"

definition clock_now :: "HealthStore \<Rightarrow> Timestamp \<times> HealthStore" where
  "clock_now s = (case Clock_now (hs_clock s) of (t, cl) \<Rightarrow> (t, s\<lparr>hs_clock := cl\<rparr>))"

section \<open>Transitions and indexes (lock held)\<close>

definition recordChangeLocked :: "HealthState \<Rightarrow> HealthState \<Rightarrow> string \<Rightarrow> string \<Rightarrow> dev_op" where
  "recordChangeLocked from to label detail c =
     (case clock_now (snd c) of (now, s) \<Rightarrow>
        let d = fst c;
            hc = \<lparr>hc_timestamp = now, hc_accelerator = dv_id d, hc_from = from, hc_to = to,
                  hc_readinessFrom = dv_readiness d, hc_readinessTo = dv_readiness d,
                  hc_label = label, hc_detail = detail, hc_healthGeneration = dv_healthGeneration d,
                  hc_policyGeneration = hs_policyGeneration s\<rparr>
        in (None, (d\<lparr>dv_changes := changelog_append hc (dv_changes d)\<rparr>,
                   s\<lparr>hs_globalChanges := hs_globalChanges s @ [hc]\<rparr>)))"

definition applyTransitionLocked :: "HealthState \<Rightarrow> string \<Rightarrow> string \<Rightarrow> dev_op" where
  "applyTransitionLocked to label detail c =
     (let d = fst c; from = dv_state d in
      if from = to then (None, c)
      else if \<not> canTransition from to then (Some (InvalidTransition from to), c)
      else let d1 = d\<lparr>dv_state := to, dv_transitionCount := dv_transitionCount d + 1\<rparr> in
        (case gen_next (dv_healthGeneration d1) of
           Inl e \<Rightarrow> (Some e, (d1, snd c))
         | Inr g \<Rightarrow> recordChangeLocked from to label detail (d1\<lparr>dv_healthGeneration := g\<rparr>, snd c)))"

definition updateIndexesLocked :: "Device \<Rightarrow> HealthStore \<Rightarrow> HealthStore" where
  "updateIndexesLocked d s = s\<lparr>
     hs_stateIndex := idx_insert (dv_state d) (dv_id d) (idx_erase_first (dv_id d) (hs_stateIndex s)),
     hs_readinessIndex :=
       idx_insert (dv_readiness d) (dv_id d) (idx_erase_first (dv_id d) (hs_readinessIndex s))\<rparr>"

definition recompute_device :: "HealthStore \<Rightarrow> Device \<Rightarrow> HealthStore" where
  "recompute_device s d = s\<lparr>
     hs_stateIndex := idx_insert (dv_state d) (dv_id d) (hs_stateIndex s),
     hs_readinessIndex := idx_insert (dv_readiness d) (dv_id d) (hs_readinessIndex s),
     hs_faultIndex := foldl (\<lambda>idx f. idx_insert (f_type f) (dv_id d) idx) (hs_faultIndex s)
       (openFaults (dv_faults d)),
     hs_quarantineIndex := (if quarantine_active d then sset_insert (dv_id d) (hs_quarantineIndex s)
       else hs_quarantineIndex s)\<rparr>"

definition recomputeIndexes :: "HealthStore \<Rightarrow> HealthStore" where
  "recomputeIndexes s = foldl recompute_device
     (s\<lparr>hs_stateIndex := [], hs_readinessIndex := [], hs_faultIndex := [], hs_quarantineIndex := [],
        hs_staleIndex := []\<rparr>) (smap_values (hs_devices s))"

section \<open>Reassessment (lock held)\<close>

definition device_input :: "Device \<Rightarrow> HealthPolicy \<Rightarrow> Timestamp \<Rightarrow> AssessmentInput" where
  "device_input d pol now = \<lparr>ai_accelerator = dv_id d, ai_uuid = dv_uuid d,
     ai_deviceGeneration = dv_generation d, ai_currentState = dv_state d,
     ai_quarantined = quarantine_active d, ai_inRecovery = dv_inRecovery d, ai_now = now,
     ai_dimensions = dv_dimensions d, ai_faultStats = history_stats (dv_faults d),
     ai_highestValidationDepth = dv_highestValidation d, ai_lastObservation = dv_lastObservation d,
     ai_policy = pol, ai_deviceGenerationChanged = dv_deviceGenerationChangedFlag d,
     ai_policyGenerationChanged = dv_policyGenerationChangedFlag d\<rparr>"

definition device_readiness_input :: "Device \<Rightarrow> HealthPolicy \<Rightarrow> Timestamp \<Rightarrow> ReadinessInput" where
  "device_readiness_input d pol now = \<lparr>ri_health = dv_state d,
     ri_freshness = evidence_freshness pol (dv_lastObservation d) now,
     ri_validationDepth = dv_highestValidation d,
     ri_requiredValidationDepth = pol_requiredValidationDepth pol,
     ri_quarantined = quarantine_active d, ri_inRecovery = dv_inRecovery d,
     ri_deviceGenerationChanged = dv_deviceGenerationChangedFlag d,
     ri_policyGenerationChanged = dv_policyGenerationChangedFlag d,
     ri_requiresRevalidation = dv_requiresRevalidation d,
     ri_allowDegradedReadiness = pol_allowDegradedReadiness pol,
     ri_runtimeCompatibilityChanged = False\<rparr>"

text \<open>
  The part of \<open>reassessLocked\<close> behind the transition: readiness of the state actually reached, the
  stored assessment and the indexes.
\<close>

definition device_readiness :: "Device \<Rightarrow> HealthPolicy \<Rightarrow> Timestamp \<Rightarrow> bool \<Rightarrow> ReadinessState \<times> bool" where
  "device_readiness d pol now transitionBlocked =
     (let rr = readiness_evaluate (device_readiness_input d pol now) in
      if transitionBlocked then (ReadinessState.REVALIDATION_REQUIRED, False)
      else (rr_state rr, rr_executionReady rr))"

definition finish_device :: "Timestamp \<Rightarrow> HealthPolicy \<Rightarrow> PolicyGeneration \<Rightarrow> HealthAssessment \<Rightarrow> bool \<Rightarrow> Device \<Rightarrow> Device" where
  "finish_device now pol pg desired transitionBlocked d =
     (case device_readiness d pol now transitionBlocked of (rstate, ready) \<Rightarrow>
        d\<lparr>dv_readiness := rstate,
          dv_latestAssessment := desired\<lparr>a_state := dv_state d, a_readiness := rstate,
            a_executionReady := ready, a_validationDepth := dv_highestValidation d,
            a_healthGeneration := dv_healthGeneration d, a_policyGeneration := pg,
            a_deviceGeneration := dv_generation d, a_quarantined := quarantine_active d,
            a_inRecovery := dv_inRecovery d\<rparr>\<rparr>)"

definition finish_store :: "Timestamp \<Rightarrow> Device \<Rightarrow> HealthStore \<Rightarrow> HealthStore" where
  "finish_store now d s = updateIndexesLocked d (s\<lparr>hs_staleIndex :=
     (if stale_or_expired (evidence_freshness (hs_policy s) (dv_lastObservation d) now)
      then sset_insert (dv_id d) (hs_staleIndex s) else sset_erase (dv_id d) (hs_staleIndex s))\<rparr>)"

definition reassess_finish :: "Timestamp \<Rightarrow> HealthAssessment \<Rightarrow> bool \<Rightarrow> dev_op" where
  "reassess_finish now desired transitionBlocked c =
     (let s = snd c;
          d = finish_device now (hs_policy s) (hs_policyGeneration s) desired transitionBlocked (fst c)
      in (None, (d, finish_store now d s)))"

definition reassessLocked :: dev_op where
  "reassessLocked c =
     (case clock_now (snd c) of (now, s) \<Rightarrow>
        let d = fst c;
            desired = assess (device_input d (hs_policy s) now);
            target = a_state desired;
            moves = (target \<noteq> dv_state d \<and> canTransition (dv_state d) target);
            transitionBlocked = (target \<noteq> dv_state d \<and> \<not> canTransition (dv_state d) target)
        in run_ops [op_when (\<lambda>_. moves) (applyTransitionLocked target ''health'' (HealthState_to_string target)),
                    reassess_finish now desired transitionBlocked] (d, s))"

section \<open>Access to devices\<close>

definition put_device :: "AcceleratorId \<Rightarrow> dctx \<Rightarrow> HealthStore" where
  "put_device k c = (snd c)\<lparr>hs_devices := smap_put k (fst c) (hs_devices (snd c))\<rparr>"

definition findLocked :: "AcceleratorId \<Rightarrow> HealthStore \<Rightarrow> Device option" where
  "findLocked k s = smap_find k (hs_devices s)"

definition on_device :: "AcceleratorId \<Rightarrow> exn option \<Rightarrow> dev_op \<Rightarrow> HealthStore \<Rightarrow> exn option \<times> HealthStore" where
  "on_device k missing body s =
     (case findLocked k s of
        None \<Rightarrow> (missing, s)
      | Some d \<Rightarrow> (case body (d, s) of (r, c) \<Rightarrow> (r, put_device k c)))"

fun for_devices :: "AcceleratorId list \<Rightarrow> dev_op \<Rightarrow> HealthStore \<Rightarrow> exn option \<times> HealthStore" where
  "for_devices [] body s = (None, s)"
| "for_devices (k # ks) body s =
     (case on_device k None body s of
        (Some e, s') \<Rightarrow> (Some e, s')
      | (None, s') \<Rightarrow> for_devices ks body s')"

section \<open>Policy, epoch and workers\<close>

definition reassessAll :: "HealthStore \<Rightarrow> exn option \<times> HealthStore" where
  "reassessAll s = for_devices (smap_keys (hs_devices s)) reassessLocked s"

definition reassess :: "AcceleratorId \<Rightarrow> HealthStore \<Rightarrow> exn option \<times> HealthStore" where
  "reassess k s = on_device k None reassessLocked s"

text \<open>The first critical section of \<open>setPolicy\<close>.\<close>

definition installPolicy :: "HealthPolicy \<Rightarrow> HealthStore \<Rightarrow> exn option \<times> HealthStore" where
  "installPolicy policy s =
     (let s1 = s\<lparr>hs_policy := policy\<rparr> in
      (case gen_next (hs_policyGeneration s1) of
         Inl e \<Rightarrow> (Some e, s1)
       | Inr g \<Rightarrow> for_devices (smap_keys (hs_devices s1))
           (dev_do (\<lambda>d. d\<lparr>dv_policyGenerationChangedFlag := True\<rparr>)) (s1\<lparr>hs_policyGeneration := g\<rparr>)))"

definition setPolicy :: "HealthPolicy \<Rightarrow> HealthStore \<Rightarrow> exn option \<times> HealthStore" where
  "setPolicy policy s = (case installPolicy policy s of
     (Some e, s') \<Rightarrow> (Some e, s') | (None, s') \<Rightarrow> reassessAll s')"

definition rollCoordinatorEpoch :: "HealthStore \<Rightarrow> HealthStore" where
  "rollCoordinatorEpoch s = s\<lparr>hs_coordinatorEpoch := hs_coordinatorEpoch s + 1\<rparr>"

definition setCoordinatorEpoch :: "u64 \<Rightarrow> HealthStore \<Rightarrow> HealthStore" where
  "setCoordinatorEpoch e s = s\<lparr>hs_coordinatorEpoch := e\<rparr>"

definition registerWorker :: "WorkerId \<Rightarrow> WorkerBootId \<Rightarrow> HealthStore \<Rightarrow> HealthStore" where
  "registerWorker worker boot s =
     s\<lparr>hs_workerBootRegistry := smap_put worker boot (hs_workerBootRegistry s)\<rparr>"

definition isWorkerCurrent :: "WorkerId \<Rightarrow> WorkerBootId \<Rightarrow> HealthStore \<Rightarrow> bool" where
  "isWorkerCurrent worker boot s = (smap_find worker (hs_workerBootRegistry s) = Some boot)"

definition invalidate_device :: "WorkerId \<Rightarrow> WorkerBootId \<Rightarrow> dev_op" where
  "invalidate_device worker boot =
     op_when (\<lambda>(d, _). dv_lastWorker d = worker \<and> dv_lastWorkerBootId d = boot)
       (run_ops [dev_do (\<lambda>d. d\<lparr>dv_lastObservation := Timestamp 0, dv_deviceGenerationChangedFlag := False\<rparr>),
                 reassessLocked])"

definition invalidateWorker :: "WorkerId \<Rightarrow> WorkerBootId \<Rightarrow> HealthStore \<Rightarrow> exn option \<times> HealthStore" where
  "invalidateWorker worker boot s =
     (if smap_find worker (hs_workerBootRegistry s) = Some boot then
        (case for_devices (smap_keys (hs_devices s)) (invalidate_device worker boot) s of
           (Some e, s') \<Rightarrow> (Some e, s')
         | (None, s') \<Rightarrow> (None, s'\<lparr>hs_workerBootRegistry := smap_erase worker (hs_workerBootRegistry s')\<rparr>))
      else (None, s))"

section \<open>Devices\<close>

definition new_device :: "AcceleratorId \<Rightarrow> DeviceUuid \<Rightarrow> NodeId \<Rightarrow> Timestamp \<Rightarrow> Device" where
  "new_device i uuid node now = default_Device\<lparr>dv_id := i, dv_uuid := uuid, dv_node := node,
     dv_generation := Generation 1, dv_state := HealthState.INITIALIZING, dv_firstSeen := now,
     dv_healthGeneration := Generation 1\<rparr>"

definition registerDevice :: "DeviceUuid \<Rightarrow> NodeId \<Rightarrow> HealthStore \<Rightarrow> AcceleratorId \<times> HealthStore" where
  "registerDevice uuid node s =
     (case smap_find uuid (hs_uuidIndex s) of
        Some i \<Rightarrow> (i, s)
      | None \<Rightarrow>
          let (i, s1) = (if id_get uuid \<noteq> 0 then (StrongId (id_get uuid), s)
                         else (StrongId (hs_nextDeviceRaw s), s\<lparr>hs_nextDeviceRaw := hs_nextDeviceRaw s + 1\<rparr>));
              (now, s2) = clock_now s1;
              d = new_device i uuid node now;
              s3 = s2\<lparr>hs_devices := smap_put i d (hs_devices s2), hs_uuidIndex := smap_put uuid i (hs_uuidIndex s2)\<rparr>
          in (i, updateIndexesLocked d s3))"

definition isTracked :: "AcceleratorId \<Rightarrow> HealthStore \<Rightarrow> bool" where
  "isTracked i s = (findLocked i s \<noteq> None)"

definition lost_body :: "string \<Rightarrow> dev_op" where
  "lost_body reason = run_ops [
     dev_do (\<lambda>d. d\<lparr>dv_present := False\<rparr>),
     op_when (\<lambda>(d, _). dv_state d \<noteq> HealthState.LOST)
       (\<lambda>c. if canTransition (dv_state (fst c)) HealthState.LOST
            then applyTransitionLocked HealthState.LOST ''lost'' reason c
            else run_ops [dev_do (\<lambda>d. d\<lparr>dv_state := HealthState.LOST\<rparr>),
                          recordChangeLocked HealthState.LOST HealthState.LOST ''lost'' reason] c)]"

definition markLost :: "AcceleratorId \<Rightarrow> string \<Rightarrow> HealthStore \<Rightarrow> exn option \<times> HealthStore" where
  "markLost i reason s = on_device i None (lost_body reason) s"

section \<open>Evidence\<close>

definition og_key :: "AuthorityEnvelope \<Rightarrow> u64 \<times> u64" where
  "og_key env = (id_get (env_workerId env), id_get (env_workerBootId env))"

definition stale_generation :: "AuthorityEnvelope \<Rightarrow> HealthStore \<Rightarrow> bool" where
  "stale_generation env s = (case smap_find (og_key env) (hs_lastObservedGeneration s) of
     None \<Rightarrow> False | Some g \<Rightarrow> env_observationGeneration env \<le> g)"

definition observe_device :: "AcceleratorObservation \<Rightarrow> AuthorityEnvelope \<Rightarrow> Device \<Rightarrow> Device" where
  "observe_device obs env d =
     (let d1 = (if env_deviceGeneration env > dv_generation d
                then d\<lparr>dv_generation := env_deviceGeneration env, dv_deviceGenerationChangedFlag := True\<rparr> else d)
      in d1\<lparr>dv_lastWorker := obs_worker obs, dv_lastWorkerBootId := obs_workerBootId obs,
            dv_requiresRevalidation := False,
            dv_dimensions := foldl (\<lambda>m dim. smap_put (dim_kind dim) dim m) (dv_dimensions d1) (obs_dimensions obs),
            dv_lastObservation := obs_timestamp obs\<rparr>)"

definition observe_body :: "AcceleratorObservation \<Rightarrow> AuthorityEnvelope \<Rightarrow> dev_op" where
  "observe_body obs env = run_ops [
     dev_do (observe_device obs env),
     sto_do (\<lambda>s. s\<lparr>hs_lastObservedGeneration :=
       smap_put (og_key env) (env_observationGeneration env) (hs_lastObservedGeneration s)\<rparr>),
     reassessLocked]"

definition acceptObservation ::
    "AcceleratorObservation \<Rightarrow> AuthorityEnvelope \<Rightarrow> HealthStore \<Rightarrow> (exn + string) \<times> HealthStore" where
  "acceptObservation obs env s =
     (case findLocked (obs_accelerator obs) s of
        None \<Rightarrow> (Inr ''rejected: unknown device'', s)
      | Some d \<Rightarrow>
          if env_coordinatorEpoch env \<noteq> hs_coordinatorEpoch s then (Inr ''rejected: stale coordinator epoch'', s)
          else (case smap_find (env_workerId env) (hs_workerBootRegistry s) of
             None \<Rightarrow> (Inr ''rejected: unregistered worker'', s)
           | Some boot \<Rightarrow>
               if boot \<noteq> env_workerBootId env then (Inr ''rejected: stale worker boot id'', s)
               else if stale_generation env s then (Inr ''rejected: stale observation generation'', s)
               else if gen_get (env_deviceGeneration env) < gen_get (dv_generation d)
               then (Inr ''rejected: stale device generation'', s)
               else (case observe_body obs env (d, s) of
                  (Some e, c) \<Rightarrow> (Inl e, put_device (obs_accelerator obs) c)
                | (None, c) \<Rightarrow> (Inr ''accepted'', put_device (obs_accelerator obs) c))))"

definition fault_body :: "Fault \<Rightarrow> dev_op" where
  "fault_body f = run_ops [
     (\<lambda>c. case history_record f (dv_faults (fst c)) of
            Inl e \<Rightarrow> (Some e, c)
          | Inr h \<Rightarrow> (None, ((fst c)\<lparr>dv_faults := h\<rparr>, snd c))),
     sto_do (\<lambda>s. s\<lparr>hs_faultIndex := idx_insert (f_type f) (f_accelerator f) (hs_faultIndex s)\<rparr>),
     sto_do (\<lambda>s. s\<lparr>hs_globalFaults := hs_globalFaults s @ [f]\<rparr>),
     reassessLocked]"

definition recordFault :: "Fault \<Rightarrow> HealthStore \<Rightarrow> exn option \<times> HealthStore" where
  "recordFault f s = on_device (f_accelerator f) None (fault_body f) s"

definition validate_device :: "ValidationRecord \<Rightarrow> Device \<Rightarrow> Device" where
  "validate_device v d =
     (let d1 = d\<lparr>dv_validations := dv_validations d @ [v]\<rparr> in
      if v_passed v \<and> ValidationDepth_int (v_depth v) > ValidationDepth_int (dv_highestValidation d1)
      then d1\<lparr>dv_highestValidation := v_depth v\<rparr> else d1)"

definition validation_body :: "ValidationRecord \<Rightarrow> dev_op" where
  "validation_body v = run_ops [dev_do (validate_device v), reassessLocked]"

definition recordValidation :: "ValidationRecord \<Rightarrow> HealthStore \<Rightarrow> exn option \<times> HealthStore" where
  "recordValidation v s = on_device (v_accelerator v) None (validation_body v) s"

section \<open>Quarantine and recovery\<close>

definition install_quarantine :: "AcceleratorId \<Rightarrow> QuarantineAuthority \<Rightarrow> string \<Rightarrow> string \<Rightarrow> dev_op" where
  "install_quarantine i authority reason triggeredBy c =
     (let d = fst c; s = snd c; qid = StrongId (hs_nextQuarantineRaw s);
          (now, s1) = clock_now (s\<lparr>hs_nextQuarantineRaw := hs_nextQuarantineRaw s + 1\<rparr>);
          q = \<lparr>q_id = qid, q_timestamp = now, q_authority = authority, q_reason = reason,
               q_triggeredBy = triggeredBy, q_policyGeneration = hs_policyGeneration s1,
               q_deviceGeneration = dv_generation d, q_healthGeneration = dv_healthGeneration d,
               q_active = True\<rparr>
      in (None, (d\<lparr>dv_quarantine := Some q\<rparr>,
                 s1\<lparr>hs_quarantineIndex := sset_insert i (hs_quarantineIndex s1)\<rparr>)))"

definition quarantine_body :: "AcceleratorId \<Rightarrow> QuarantineAuthority \<Rightarrow> string \<Rightarrow> string \<Rightarrow> dev_op" where
  "quarantine_body i authority reason triggeredBy c =
     (if quarantine_active (fst c) then (Some (logic_error ''quarantine already active''), c)
      else run_ops [
        install_quarantine i authority reason triggeredBy,
        op_when (\<lambda>(d, _). dv_state d \<noteq> HealthState.QUARANTINED)
          (applyTransitionLocked HealthState.QUARANTINED ''quarantine'' reason),
        reassessLocked] c)"

definition beginQuarantine ::
    "AcceleratorId \<Rightarrow> QuarantineAuthority \<Rightarrow> string \<Rightarrow> string \<Rightarrow> HealthStore \<Rightarrow> exn option \<times> HealthStore" where
  "beginQuarantine i authority reason triggeredBy s =
     on_device i (Some (invalid_argument ''quarantine: unknown device''))
       (quarantine_body i authority reason triggeredBy) s"

definition clear_body :: "AcceleratorId \<Rightarrow> dev_op" where
  "clear_body i = run_ops [
     (\<lambda>c. case dv_quarantine (fst c) of
            None \<Rightarrow> (None, c)
          | Some q \<Rightarrow> (None, ((fst c)\<lparr>dv_quarantine := Some (q\<lparr>q_active := False\<rparr>)\<rparr>,
              (snd c)\<lparr>hs_quarantineIndex := sset_erase i (hs_quarantineIndex (snd c))\<rparr>))),
     reassessLocked]"

definition clearQuarantine :: "AcceleratorId \<Rightarrow> HealthStore \<Rightarrow> exn option \<times> HealthStore" where
  "clearQuarantine i s = on_device i None (clear_body i) s"

definition install_recovery :: dev_op where
  "install_recovery c =
     (let d = fst c; s = snd c; rid = StrongId (hs_nextRecoveryRaw s);
          s1 = s\<lparr>hs_nextRecoveryRaw := hs_nextRecoveryRaw s + 1\<rparr> in
      (case (case dv_recovery d of Some r \<Rightarrow> gen_next (rec_generation r) | None \<Rightarrow> Inr (Generation 1)) of
         Inl e \<Rightarrow> (Some e, (d, s1))
       | Inr g \<Rightarrow> (case clock_now s1 of (now, s2) \<Rightarrow>
           (None, (d\<lparr>dv_recovery := Some \<lparr>rec_id = rid, rec_generation = g, rec_begin = now,
              rec_profile = ValidationProfile_to_string (pol_revalidationProfile (hs_policy s2)),
              rec_successfulValidations = 0, rec_completed = False, rec_end = Timestamp 0\<rparr>\<rparr>, s2)))))"

definition recovery_body :: dev_op where
  "recovery_body c =
     (if dv_inRecovery (fst c) then (None, c)
      else if \<not> canTransition (dv_state (fst c)) HealthState.RECOVERING
      then (Some (InvalidTransition (dv_state (fst c)) HealthState.RECOVERING), c)
      else run_ops [
        applyTransitionLocked HealthState.RECOVERING ''recovery'' ''begin recovery'',
        dev_do (\<lambda>d. d\<lparr>dv_inRecovery := True\<rparr>),
        install_recovery,
        reassessLocked] c)"

definition beginRecovery :: "AcceleratorId \<Rightarrow> HealthStore \<Rightarrow> exn option \<times> HealthStore" where
  "beginRecovery i s = on_device i (Some (invalid_argument ''recovery: unknown device'')) recovery_body s"

definition count_success :: "Device \<Rightarrow> Device" where
  "count_success d = (case dv_recovery d of
     Some r \<Rightarrow> d\<lparr>dv_recovery := Some (r\<lparr>rec_successfulValidations := rec_successfulValidations r + 1\<rparr>)\<rparr>
   | None \<Rightarrow> d)"

definition recovery_done :: "Device \<Rightarrow> HealthPolicy \<Rightarrow> bool" where
  "recovery_done d pol \<longleftrightarrow> dv_state d = HealthState.REVALIDATING \<and> (case dv_recovery d of
     Some r \<Rightarrow> rec_successfulValidations r \<ge> pol_recoveryValidationsRequired pol | None \<Rightarrow> False)"

definition complete_recovery :: dev_op where
  "complete_recovery c = (case dv_recovery (fst c) of
     Some r \<Rightarrow> (case clock_now (snd c) of (now, s) \<Rightarrow>
       (None, ((fst c)\<lparr>dv_recovery := Some (r\<lparr>rec_completed := True, rec_end := now\<rparr>)\<rparr>, s)))
   | None \<Rightarrow> (None, c))"

definition recovery_passed :: dev_op where
  "recovery_passed = run_ops [
     op_when (\<lambda>(d, _). dv_state d = HealthState.RECOVERING \<and> canTransition (dv_state d) HealthState.REVALIDATING)
       (applyTransitionLocked HealthState.REVALIDATING ''revalidate'' ''enter revalidation''),
     dev_do count_success,
     op_when (\<lambda>(d, s). recovery_done d (hs_policy s))
       (run_ops [applyTransitionLocked HealthState.HEALTHY ''recovery'' ''revalidated'',
                 dev_do (\<lambda>d. d\<lparr>dv_inRecovery := False\<rparr>),
                 complete_recovery])]"

definition recovery_failed :: dev_op where
  "recovery_failed = op_when
     (\<lambda>(d, _). dv_state d = HealthState.RECOVERING \<or> dv_state d = HealthState.REVALIDATING)
     (applyTransitionLocked HealthState.QUARANTINED ''revalidate-failed'' ''validation failed during recovery'')"

definition revalidate_body :: "ValidationRecord \<Rightarrow> dev_op" where
  "revalidate_body v = run_ops [
     dev_do (validate_device v),
     op_when (\<lambda>(d, _). dv_inRecovery d) (if v_passed v then recovery_passed else recovery_failed),
     reassessLocked]"

section \<open>Snapshots and queries\<close>

record DeviceSnapshot =
  sn_accelerator :: AcceleratorId
  sn_uuid :: DeviceUuid
  sn_node :: NodeId
  sn_lastWorker :: WorkerId
  sn_lastWorkerBootId :: WorkerBootId
  sn_generation :: DeviceGeneration
  sn_state :: HealthState
  sn_readiness :: ReadinessState
  sn_highestValidation :: ValidationDepth
  sn_dimensions :: "(DimensionKind, HealthDimension) stdmap"
  sn_lastObservation :: Timestamp
  sn_openFaults :: "Fault list"
  sn_faultCount :: u32
  sn_validations :: "ValidationRecord list"
  sn_changes :: "HealthChange list"
  sn_latestAssessment :: HealthAssessment
  sn_quarantine :: "QuarantineRecord option"
  sn_recovery :: "RecoveryRecord option"
  sn_deviceGenerationChanged :: bool

definition default_DeviceSnapshot :: DeviceSnapshot where
  "default_DeviceSnapshot = \<lparr>sn_accelerator = StrongId 0, sn_uuid = StrongId 0, sn_node = StrongId 0,
     sn_lastWorker = StrongId 0, sn_lastWorkerBootId = StrongId 0, sn_generation = Generation 0,
     sn_state = HealthState.UNKNOWN, sn_readiness = ReadinessState.UNKNOWN,
     sn_highestValidation = ValidationDepth.NONE, sn_dimensions = [], sn_lastObservation = Timestamp 0,
     sn_openFaults = [], sn_faultCount = 0, sn_validations = [], sn_changes = [],
     sn_latestAssessment = default_HealthAssessment, sn_quarantine = None, sn_recovery = None,
     sn_deviceGenerationChanged = False\<rparr>"

definition makeSnapshotLocked :: "Device \<Rightarrow> DeviceSnapshot" where
  "makeSnapshotLocked d = \<lparr>sn_accelerator = dv_id d, sn_uuid = dv_uuid d, sn_node = dv_node d,
     sn_lastWorker = dv_lastWorker d, sn_lastWorkerBootId = dv_lastWorkerBootId d,
     sn_generation = dv_generation d, sn_state = dv_state d, sn_readiness = dv_readiness d,
     sn_highestValidation = dv_highestValidation d, sn_dimensions = dv_dimensions d,
     sn_lastObservation = dv_lastObservation d, sn_openFaults = openFaults (dv_faults d),
     sn_faultCount = of_nat (length (dv_faults d)), sn_validations = dv_validations d,
     sn_changes = dv_changes d, sn_latestAssessment = dv_latestAssessment d,
     sn_quarantine = dv_quarantine d, sn_recovery = dv_recovery d,
     sn_deviceGenerationChanged = dv_deviceGenerationChangedFlag d\<rparr>"

definition revalidate ::
    "AcceleratorId \<Rightarrow> ValidationRecord \<Rightarrow> HealthStore \<Rightarrow> (exn + DeviceSnapshot) \<times> HealthStore" where
  "revalidate i v s =
     (case findLocked i s of
        None \<Rightarrow> (Inl (invalid_argument ''revalidate: unknown device''), s)
      | Some d \<Rightarrow> (case revalidate_body v (d, s) of
           (Some e, c) \<Rightarrow> (Inl e, put_device i c)
         | (None, c) \<Rightarrow> (Inr (makeSnapshotLocked (fst c)), put_device i c)))"

definition snapshot :: "AcceleratorId \<Rightarrow> HealthStore \<Rightarrow> DeviceSnapshot" where
  "snapshot i s = (case findLocked i s of None \<Rightarrow> default_DeviceSnapshot | Some d \<Rightarrow> makeSnapshotLocked d)"

definition deviceIds :: "HealthStore \<Rightarrow> AcceleratorId list" where
  "deviceIds s = smap_keys (hs_devices s)"

definition allSnapshots :: "HealthStore \<Rightarrow> DeviceSnapshot list" where
  "allSnapshots s = map makeSnapshotLocked (smap_values (hs_devices s))"

definition byHealthState :: "HealthState \<Rightarrow> HealthStore \<Rightarrow> AcceleratorId list" where
  "byHealthState st s = idx_get st (hs_stateIndex s)"

definition byReadiness :: "ReadinessState \<Rightarrow> HealthStore \<Rightarrow> AcceleratorId list" where
  "byReadiness r s = idx_get r (hs_readinessIndex s)"

definition byFaultType :: "FaultType \<Rightarrow> HealthStore \<Rightarrow> AcceleratorId list" where
  "byFaultType t s = idx_get t (hs_faultIndex s)"

definition quarantined :: "HealthStore \<Rightarrow> AcceleratorId list" where
  "quarantined s = hs_quarantineIndex s"

definition revalidationRequired :: "HealthStore \<Rightarrow> AcceleratorId list" where
  "revalidationRequired s = map fst (filter (\<lambda>(_, d).
     dv_readiness d = ReadinessState.REVALIDATION_REQUIRED \<or> dv_readiness d = ReadinessState.NOT_READY)
     (hs_devices s))"

definition staleEvidence :: "HealthStore \<Rightarrow> AcceleratorId list" where
  "staleEvidence s = hs_staleIndex s"

definition faultsOf :: "AcceleratorId \<Rightarrow> HealthStore \<Rightarrow> Fault list" where
  "faultsOf i s = (case findLocked i s of None \<Rightarrow> [] | Some d \<Rightarrow> dv_faults d)"

definition changesOf :: "AcceleratorId \<Rightarrow> HealthStore \<Rightarrow> HealthChange list" where
  "changesOf i s = (case findLocked i s of None \<Rightarrow> [] | Some d \<Rightarrow> dv_changes d)"

definition assessmentOf :: "AcceleratorId \<Rightarrow> HealthStore \<Rightarrow> HealthAssessment" where
  "assessmentOf i s = (case findLocked i s of None \<Rightarrow> default_HealthAssessment | Some d \<Rightarrow> dv_latestAssessment d)"

definition allFaults :: "HealthStore \<Rightarrow> Fault list" where
  "allFaults s = hs_globalFaults s"

section \<open>Accounting\<close>

record Accounting =
  ac_tracked :: u64
  ac_healthy :: u64
  ac_degraded :: u64
  ac_unhealthy :: u64
  ac_failed :: u64
  ac_quarantined :: u64
  ac_recovering :: u64
  ac_stale :: u64
  ac_validationRecords :: u64
  ac_unresolvedFaults :: u64
  ac_resolvedFaults :: u64

definition default_Accounting :: Accounting where
  "default_Accounting = \<lparr>ac_tracked = 0, ac_healthy = 0, ac_degraded = 0, ac_unhealthy = 0, ac_failed = 0,
     ac_quarantined = 0, ac_recovering = 0, ac_stale = 0, ac_validationRecords = 0,
     ac_unresolvedFaults = 0, ac_resolvedFaults = 0\<rparr>"

definition account_state :: "HealthState \<Rightarrow> Accounting \<Rightarrow> Accounting" where
  "account_state st a =
     (if st = HealthState.HEALTHY then a\<lparr>ac_healthy := ac_healthy a + 1\<rparr>
      else if st = HealthState.DEGRADED then a\<lparr>ac_degraded := ac_degraded a + 1\<rparr>
      else if st = HealthState.UNHEALTHY then a\<lparr>ac_unhealthy := ac_unhealthy a + 1\<rparr>
      else if st = HealthState.FAILED then a\<lparr>ac_failed := ac_failed a + 1\<rparr>
      else a)"

definition account_fault :: "Accounting \<Rightarrow> Fault \<Rightarrow> Accounting" where
  "account_fault a f =
     (if f_resolution f = ResolutionState.OPEN then a\<lparr>ac_unresolvedFaults := ac_unresolvedFaults a + 1\<rparr>
      else a\<lparr>ac_resolvedFaults := ac_resolvedFaults a + 1\<rparr>)"

definition account_device :: "Accounting \<Rightarrow> Device \<Rightarrow> Accounting" where
  "account_device a d =
     (let a1 = account_state (dv_state d) (a\<lparr>ac_tracked := ac_tracked a + 1\<rparr>);
          a2 = (if dv_state d = HealthState.QUARANTINED then a1\<lparr>ac_quarantined := ac_quarantined a1 + 1\<rparr> else a1);
          a3 = (if dv_inRecovery d then a2\<lparr>ac_recovering := ac_recovering a2 + 1\<rparr> else a2);
          a4 = a3\<lparr>ac_validationRecords := ac_validationRecords a3 + of_nat (length (dv_validations d))\<rparr>
      in foldl account_fault a4 (dv_faults d))"

definition account_stale :: "Accounting \<times> HealthStore \<Rightarrow> Device \<Rightarrow> Accounting \<times> HealthStore" where
  "account_stale x d =
     (let (a, s) = x;
          (fr, s') = (if nanos (dv_lastObservation d) \<noteq> 0 then
              (case clock_now s of (now, s1) \<Rightarrow>
                 (freshness_evaluate (pol_freshness (hs_policy s)) (dv_lastObservation d) now, s1))
            else (FreshnessStatus.EXPIRED, s))
      in (if stale_or_expired fr then a\<lparr>ac_stale := ac_stale a + 1\<rparr> else a, s'))"

definition recomputeAccounting :: "HealthStore \<Rightarrow> Accounting \<times> HealthStore" where
  "recomputeAccounting s =
     (let ds = smap_values (hs_devices s) in
      foldl account_stale (foldl account_device default_Accounting ds, s) ds)"

definition accounting :: "HealthStore \<Rightarrow> Accounting \<times> HealthStore" where
  "accounting s = recomputeAccounting s"

end
