(* ===== verification/Transactions.thy ===== *)
theory Transactions
  imports Store "HOL-Library.Sublist"
begin

text \<open>
  What the methods of the store do to a single device.  \<open>keeps R a\<close> says that the device operation
  \<open>a\<close> relates the device and store it starts from to the ones it leaves by \<open>R\<close>, whether it returns or
  throws.  The locale \<open>ctx_relation\<close> lifts this through sequences and conditionals for every preorder
  \<open>R\<close>; the locale \<open>txn_relation\<close> adds the elementary statements of \<open>Store.cpp\<close> and concludes that
  every transaction (the locked body of every public method) keeps \<open>R\<close>.
\<close>

section \<open>Elementary facts\<close>

definition tick :: "HealthStore \<Rightarrow> HealthStore" where
  "tick s = s\<lparr>hs_clock := (hs_clock s)\<lparr>cl_reads := Suc (cl_reads (hs_clock s))\<rparr>\<rparr>"

definition reading :: "HealthStore \<Rightarrow> Timestamp" where
  "reading s = cl_readings (hs_clock s) (cl_reads (hs_clock s))"

lemma clock_now_eq: "clock_now s = (reading s, tick s)"
  by (simp add: clock_now_def Clock_now_def tick_def reading_def)

lemma tick_simps [simp]:
  "hs_policy (tick s) = hs_policy s" "hs_policyGeneration (tick s) = hs_policyGeneration s"
  "hs_coordinatorEpoch (tick s) = hs_coordinatorEpoch s" "hs_devices (tick s) = hs_devices s"
  "hs_workerBootRegistry (tick s) = hs_workerBootRegistry s"
  "hs_lastObservedGeneration (tick s) = hs_lastObservedGeneration s"
  "hs_uuidIndex (tick s) = hs_uuidIndex s" "hs_stateIndex (tick s) = hs_stateIndex s"
  "hs_readinessIndex (tick s) = hs_readinessIndex s" "hs_faultIndex (tick s) = hs_faultIndex s"
  "hs_quarantineIndex (tick s) = hs_quarantineIndex s" "hs_staleIndex (tick s) = hs_staleIndex s"
  "hs_globalFaults (tick s) = hs_globalFaults s" "hs_globalChanges (tick s) = hs_globalChanges s"
  by (simp_all add: tick_def)

text \<open>The states the store itself can move a device to.\<close>

definition store_targets :: "HealthState set" where
  "store_targets = {HealthState.HEALTHY, HealthState.DEGRADED, HealthState.UNHEALTHY, HealthState.FAILED,
     HealthState.QUARANTINED, HealthState.RECOVERING, HealthState.REVALIDATING, HealthState.LOST}"

lemma assess_target_in: "assess_target i = ai_currentState i \<or> assess_target i \<in> store_targets"
  by (auto simp: assess_target_def Let_def store_targets_def)

text \<open>The \<open>else\<close> branch of \<open>markLost\<close> is dead: every other state may become LOST.\<close>

lemma lost_body_eq: "lost_body reason = run_ops [
    dev_do (\<lambda>d. d\<lparr>dv_present := False\<rparr>),
    op_when (\<lambda>(d, _). dv_state d \<noteq> HealthState.LOST) (applyTransitionLocked HealthState.LOST ''lost'' reason)]"
  unfolding lost_body_def
  by (rule arg_cong [of _ _ run_ops], simp add: op_when_def fun_eq_iff canTransition_to_LOST)

section \<open>Relations kept by device operations\<close>

definition keeps :: "(dctx \<Rightarrow> dctx \<Rightarrow> bool) \<Rightarrow> dev_op \<Rightarrow> bool" where
  "keeps R a \<longleftrightarrow> (\<forall>c. R c (snd (a c)))"

lemma keepsI: "(\<And>d s. R (d, s) (snd (a (d, s)))) \<Longrightarrow> keeps R a"
  by (simp add: keeps_def)

lemma keepsD: "keeps R a \<Longrightarrow> R c (snd (a c))"
  unfolding keeps_def by blast

locale ctx_relation =
  fixes R :: "dctx \<Rightarrow> dctx \<Rightarrow> bool"
  assumes refl: "R c c" and trans: "R a b \<Longrightarrow> R b c \<Longrightarrow> R a c"
begin

lemma keeps_seq:
  assumes "keeps R a" "keeps R (run_ops as)"
  shows "keeps R (run_ops (a # as))"
proof (rule keepsI)
  fix d s
  obtain r c' where a: "a (d, s) = (r, c')" by (cases "a (d, s)")
  have 1: "R (d, s) c'"
    using keepsD [OF assms(1), of "(d, s)"] a by simp
  show "R (d, s) (snd (run_ops (a # as) (d, s)))"
    using 1 trans [OF 1 keepsD [OF assms(2)]] by (cases r) (simp_all add: a)
qed

lemma keeps_nil: "keeps R (run_ops [])"
  by (simp add: keeps_def refl)

lemma keeps_when: "(\<And>c. cond c \<Longrightarrow> R c (snd (a c))) \<Longrightarrow> keeps R (op_when cond a)"
  by (auto simp: keeps_def op_when_def refl)

lemma keeps_when': "keeps R a \<Longrightarrow> keeps R (op_when cond a)"
  by (auto simp: keeps_def op_when_def refl)

end

text \<open>
  The contract of the elementary statements: transitions to the states the store uses, the end of a
  reassessment, reading the clock, and the field updates of the individual methods.  \<open>quiet_relation\<close>
  leaves out the installation of a quarantine, \<open>txn_relation\<close> adds it.
\<close>

locale quiet_relation = ctx_relation +
  fixes k :: AcceleratorId
  assumes transition: "to \<in> store_targets \<Longrightarrow> keeps R (applyTransitionLocked to label detail)"
    and finish: "keeps R (reassess_finish now desired blocked)"
    and clock: "R (d, s) (d, tick s)"
    and policy_flag: "R (d, s) (d\<lparr>dv_policyGenerationChangedFlag := True\<rparr>, s)"
    and forget: "R (d, s) (d\<lparr>dv_lastObservation := Timestamp 0, dv_deviceGenerationChangedFlag := False\<rparr>, s)"
    and lost: "R (d, s) (d\<lparr>dv_present := False\<rparr>, s)"
    and fault: "f_id f \<notin> f_id ` set (dv_faults d) \<Longrightarrow> f_accelerator f = k \<Longrightarrow>
        R (d, s) (d\<lparr>dv_faults := dv_faults d @ [f]\<rparr>,
          s\<lparr>hs_faultIndex := idx_insert (f_type f) k (hs_faultIndex s),
            hs_globalFaults := hs_globalFaults s @ [f]\<rparr>)"
    and observe: "dv_generation d \<le> env_deviceGeneration env \<Longrightarrow> \<not> stale_generation env s \<Longrightarrow>
        R (d, s) (observe_device obs env d, s\<lparr>hs_lastObservedGeneration :=
          smap_put (og_key env) (env_observationGeneration env) (hs_lastObservedGeneration s)\<rparr>)"
    and validation: "R (d, s) (validate_device v d, s)"
    and release: "dv_quarantine d = Some q \<Longrightarrow> R (d, s) (d\<lparr>dv_quarantine := Some (q\<lparr>q_active := False\<rparr>)\<rparr>,
        s\<lparr>hs_quarantineIndex := sset_erase k (hs_quarantineIndex s)\<rparr>)"
    and recovering: "R (d, s) (d\<lparr>dv_inRecovery := b\<rparr>, s)"
    and recovery_record: "R (d, s) (d\<lparr>dv_recovery := r\<rparr>, s)"
    and recovery_number: "R (d, s) (d, s\<lparr>hs_nextRecoveryRaw := n\<rparr>)"
begin

lemma reassessLocked: "keeps R reassessLocked"
proof (rule keepsI)
  fix d s
  let ?s = "tick s" let ?des = "assess (device_input d (hs_policy s) (reading s))"
  let ?t = "assess_target (device_input d (hs_policy s) (reading s))"
  let ?bl = "?t \<noteq> dv_state d \<and> \<not> canTransition (dv_state d) ?t"
  have tgt: "?t \<in> store_targets" if "?t \<noteq> dv_state d"
    using assess_target_in [of "device_input d (hs_policy s) (reading s)"] that
    by (simp add: device_input_def)
  let ?mv = "op_when (\<lambda>_. ?t \<noteq> dv_state d \<and> canTransition (dv_state d) ?t)
        (applyTransitionLocked ?t ''health'' (HealthState_to_string ?t))"
  have "keeps R ?mv"
    by (rule keeps_when) (use tgt transition keepsD in blast)
  then have "keeps R (run_ops [?mv, reassess_finish (reading s) ?des ?bl])"
    by (intro keeps_seq keeps_nil finish)
  from trans [OF clock keepsD [OF this, of "(d, ?s)"]]
  show "R (d, s) (snd (reassessLocked (d, s)))"
    by (simp only: reassessLocked_def clock_now_eq Let_def assess_state prod.case fst_conv snd_conv tick_simps)
qed

lemma dev_do: "(\<And>d s. R (d, s) (f d, s)) \<Longrightarrow> keeps R (dev_do f)"
  by (simp add: keeps_def dev_do_def)

lemma invalidate: "keeps R (invalidate_device w b)"
  unfolding invalidate_device_def
  by (intro keeps_when' keeps_seq keeps_nil reassessLocked dev_do forget)

lemma lost_txn: "keeps R (lost_body reason)"
  unfolding lost_body_eq
  by (intro keeps_when' keeps_seq keeps_nil dev_do lost transition) (simp add: store_targets_def)

lemma fault_txn: "f_accelerator f = k \<Longrightarrow> keeps R (fault_body f)"
proof (rule keepsI)
  fix d s assume k: "f_accelerator f = k"
  show "R (d, s) (snd (fault_body f (d, s)))"
  proof (cases "f_id f \<in> f_id ` set (dv_faults d)")
    case True
    then show ?thesis by (simp add: fault_body_def history_record_dup refl)
  next
    case False
    let ?d = "d\<lparr>dv_faults := dv_faults d @ [f]\<rparr>"
    let ?s = "s\<lparr>hs_faultIndex := idx_insert (f_type f) k (hs_faultIndex s),
        hs_globalFaults := hs_globalFaults s @ [f]\<rparr>"
    have "snd (fault_body f (d, s)) = snd (Store.reassessLocked (?d, ?s))"
      using False k by (simp add: fault_body_def history_record_ok sto_do_def split: prod.splits option.splits)
    then show ?thesis
      using trans [OF fault [OF False k] keepsD [OF reassessLocked]] by metis
  qed
qed

lemma observe_txn:
  assumes "dv_generation d \<le> env_deviceGeneration env" "\<not> stale_generation env s"
  shows "R (d, s) (snd (observe_body obs env (d, s)))"
proof -
  let ?s = "s\<lparr>hs_lastObservedGeneration :=
     smap_put (og_key env) (env_observationGeneration env) (hs_lastObservedGeneration s)\<rparr>"
  have "snd (observe_body obs env (d, s)) = snd (Store.reassessLocked (observe_device obs env d, ?s))"
    by (simp add: observe_body_def Store.dev_do_def sto_do_def split: prod.splits option.splits)
  then show ?thesis
    using trans [OF observe [OF assms] keepsD [OF reassessLocked]] by metis
qed

lemma validation_txn: "keeps R (validation_body v)"
  unfolding validation_body_def by (intro keeps_seq keeps_nil dev_do validation reassessLocked)

lemma clear_txn: "keeps R (clear_body k)"
  unfolding clear_body_def
  by (intro keeps_seq keeps_nil reassessLocked)
    (auto simp: keeps_def refl split: option.splits intro: release)

lemma install_recovery_txn: "keeps R install_recovery"
proof (rule keepsI)
  fix d s
  have 1: "R (d, s) (d, s\<lparr>hs_nextRecoveryRaw := hs_nextRecoveryRaw s + 1\<rparr>)"
    by (rule recovery_number)
  show "R (d, s) (snd (install_recovery (d, s)))"
    using 1 trans [OF 1 trans [OF clock recovery_record]]
    by (auto simp: install_recovery_def Let_def clock_now_eq split: sum.splits option.splits)
qed

lemma recovery_txn: "keeps R recovery_body"
proof -
  have "keeps R (run_ops [applyTransitionLocked HealthState.RECOVERING ''recovery'' ''begin recovery'',
      Store.dev_do (\<lambda>d. d\<lparr>dv_inRecovery := True\<rparr>), install_recovery, Store.reassessLocked])"
    by (intro keeps_seq keeps_nil dev_do recovering transition reassessLocked install_recovery_txn)
      (simp add: store_targets_def)
  then show ?thesis
    by (simp only: keeps_def recovery_body_def) (simp add: refl del: run_ops.simps)
qed

lemma complete_txn: "keeps R complete_recovery"
  by (auto simp: keeps_def complete_recovery_def refl clock_now_eq split: option.splits
      intro: trans [OF clock recovery_record])

lemma count_txn: "R (d, s) (count_success d, s)"
  by (auto simp: count_success_def refl split: option.splits intro: recovery_record)

lemma passed_txn: "keeps R recovery_passed"
  unfolding recovery_passed_def
  by (intro keeps_seq keeps_nil keeps_when' dev_do recovering count_txn complete_txn transition)
    (simp_all add: store_targets_def)

lemma failed_txn: "keeps R recovery_failed"
  unfolding recovery_failed_def by (intro keeps_when' transition) (simp add: store_targets_def)

lemma revalidate_txn: "keeps R (revalidate_body v)"
  unfolding revalidate_body_def
  by (intro keeps_seq keeps_nil keeps_when' dev_do validation reassessLocked)
    (simp add: passed_txn failed_txn)

end

locale txn_relation = quiet_relation +
  assumes quarantine: "keeps R (install_quarantine k authority reason by)"
begin

lemma quarantine_txn: "keeps R (quarantine_body k authority reason by)"
proof -
  have "keeps R (run_ops [install_quarantine k authority reason by,
      op_when (\<lambda>(d, _). dv_state d \<noteq> HealthState.QUARANTINED)
        (applyTransitionLocked HealthState.QUARANTINED ''quarantine'' reason), Store.reassessLocked])"
    by (intro keeps_seq keeps_nil keeps_when' quarantine transition reassessLocked) (simp add: store_targets_def)
  then show ?thesis
    by (simp only: keeps_def quarantine_body_def) (simp add: refl del: run_ops.simps)
qed

end

section \<open>Transactions\<close>

text \<open>
  \<open>txn_step k c c'\<close>: one method of the store takes the device filed under \<open>k\<close> from \<open>c\<close> to \<open>c'\<close>.
\<close>

inductive txn_step :: "AcceleratorId \<Rightarrow> dctx \<Rightarrow> dctx \<Rightarrow> bool" for k where
  reassess: "txn_step k c (snd (reassessLocked c))"
| policy: "txn_step k c (snd (dev_do (\<lambda>d. d\<lparr>dv_policyGenerationChangedFlag := True\<rparr>) c))"
| invalidate: "txn_step k c (snd (invalidate_device worker boot c))"
| lost: "txn_step k c (snd (lost_body reason c))"
| observe: "dv_generation (fst c) \<le> env_deviceGeneration env \<Longrightarrow> \<not> stale_generation env (snd c) \<Longrightarrow>
    txn_step k c (snd (observe_body obs env c))"
| fault: "f_accelerator f = k \<Longrightarrow> txn_step k c (snd (fault_body f c))"
| validation: "txn_step k c (snd (validation_body v c))"
| quarantine: "txn_step k c (snd (quarantine_body k authority reason by c))"
| clear: "txn_step k c (snd (clear_body k c))"
| recovery: "txn_step k c (snd (recovery_body c))"
| revalidate: "txn_step k c (snd (revalidate_body v c))"

text \<open>A transaction that does not keep a quiet relation is a quarantine.\<close>

context quiet_relation
begin

lemma txn_step_quiet: "txn_step k c c' \<Longrightarrow> R c c' \<or> (\<exists>authority reason by. c' = snd (quarantine_body k authority reason by c))"
proof (induction rule: txn_step.induct)
  case (policy c)
  then show ?case using keepsD [OF dev_do [OF policy_flag]] by blast
next
  case (observe c env obs)
  then show ?case using observe_txn by (cases c) simp
qed (use keepsD reassessLocked invalidate lost_txn fault_txn validation_txn clear_txn
     recovery_txn revalidate_txn in blast)+

end

context txn_relation
begin

lemma txn_step_keeps: "txn_step k c c' \<Longrightarrow> R c c'"
  using txn_step_quiet keepsD [OF quarantine_txn] by blast

end

end
