(* ===== verification/DeviceLife.thy ===== *)
theory DeviceLife
  imports Transactions
begin

text \<open>
  The life of a device under arbitrary transactions: how it can evolve (\<open>dev_le\<close>), that its change log
  is a faithful audit trail (\<open>audited\<close>), what a transaction leaves alone in the store
  (\<open>store_frame\<close>), and that the indexes follow the device (\<open>idx_follows\<close>).  Each is an interpretation
  of \<open>txn_relation\<close>.
\<close>

section \<open>The elementary statements, on the device\<close>

definition change_entry :: "Device \<Rightarrow> HealthStore \<Rightarrow> HealthState \<Rightarrow> string \<Rightarrow> string \<Rightarrow> HealthGeneration \<Rightarrow> HealthChange" where
  "change_entry d s to label detail g = \<lparr>hc_timestamp = reading s, hc_accelerator = dv_id d,
     hc_from = dv_state d, hc_to = to, hc_readinessFrom = dv_readiness d, hc_readinessTo = dv_readiness d,
     hc_label = label, hc_detail = detail, hc_healthGeneration = g, hc_policyGeneration = hs_policyGeneration s\<rparr>"

lemma change_entry_simps [simp]:
  "hc_from (change_entry d s to l x g) = dv_state d" "hc_to (change_entry d s to l x g) = to"
  "hc_healthGeneration (change_entry d s to l x g) = g" "hc_accelerator (change_entry d s to l x g) = dv_id d"
  by (simp_all add: change_entry_def)

lemma applyTransition_eq:
  "applyTransitionLocked to label detail (d, s) =
     (if dv_state d = to then (None, (d, s))
      else if \<not> canTransition (dv_state d) to then (Some (InvalidTransition (dv_state d) to), (d, s))
      else case gen_next (dv_healthGeneration d) of
          Inl e \<Rightarrow> (Some e, (d\<lparr>dv_state := to, dv_transitionCount := dv_transitionCount d + 1\<rparr>, s))
        | Inr g \<Rightarrow> (None, (d\<lparr>dv_state := to, dv_transitionCount := dv_transitionCount d + 1,
              dv_healthGeneration := g, dv_changes := dv_changes d @ [change_entry d s to label detail g]\<rparr>,
            (tick s)\<lparr>hs_globalChanges := hs_globalChanges s @ [change_entry d s to label detail g]\<rparr>)))"
  by (simp add: applyTransitionLocked_def Let_def recordChangeLocked_def clock_now_eq changelog_append_def
      change_entry_def split: sum.splits)

lemma finish_device_simps [simp]:
  "dv_id (finish_device n p g a b d) = dv_id d" "dv_uuid (finish_device n p g a b d) = dv_uuid d"
  "dv_node (finish_device n p g a b d) = dv_node d" "dv_firstSeen (finish_device n p g a b d) = dv_firstSeen d"
  "dv_state (finish_device n p g a b d) = dv_state d" "dv_faults (finish_device n p g a b d) = dv_faults d"
  "dv_validations (finish_device n p g a b d) = dv_validations d"
  "dv_changes (finish_device n p g a b d) = dv_changes d"
  "dv_generation (finish_device n p g a b d) = dv_generation d"
  "dv_healthGeneration (finish_device n p g a b d) = dv_healthGeneration d"
  "dv_transitionCount (finish_device n p g a b d) = dv_transitionCount d"
  "dv_highestValidation (finish_device n p g a b d) = dv_highestValidation d"
  "dv_quarantine (finish_device n p g a b d) = dv_quarantine d"
  "dv_recovery (finish_device n p g a b d) = dv_recovery d"
  "dv_inRecovery (finish_device n p g a b d) = dv_inRecovery d"
  "dv_dimensions (finish_device n p g a b d) = dv_dimensions d"
  "dv_lastObservation (finish_device n p g a b d) = dv_lastObservation d"
  "dv_lastWorker (finish_device n p g a b d) = dv_lastWorker d"
  "dv_lastWorkerBootId (finish_device n p g a b d) = dv_lastWorkerBootId d"
  "dv_policyGenerationChangedFlag (finish_device n p g a b d) = dv_policyGenerationChangedFlag d"
  "dv_deviceGenerationChangedFlag (finish_device n p g a b d) = dv_deviceGenerationChangedFlag d"
  "dv_requiresRevalidation (finish_device n p g a b d) = dv_requiresRevalidation d"
  "dv_readiness (finish_device n p g a b d) = fst (device_readiness d p n b)"
  "a_executionReady (dv_latestAssessment (finish_device n p g a b d)) = snd (device_readiness d p n b)"
  "a_readiness (dv_latestAssessment (finish_device n p g a b d)) = fst (device_readiness d p n b)"
  "a_state (dv_latestAssessment (finish_device n p g a b d)) = dv_state d"
  by (simp_all add: finish_device_def split: prod.splits)

lemma finish_store_simps [simp]:
  "hs_policy (finish_store n d s) = hs_policy s" "hs_policyGeneration (finish_store n d s) = hs_policyGeneration s"
  "hs_coordinatorEpoch (finish_store n d s) = hs_coordinatorEpoch s" "hs_devices (finish_store n d s) = hs_devices s"
  "hs_workerBootRegistry (finish_store n d s) = hs_workerBootRegistry s"
  "hs_lastObservedGeneration (finish_store n d s) = hs_lastObservedGeneration s"
  "hs_uuidIndex (finish_store n d s) = hs_uuidIndex s" "hs_faultIndex (finish_store n d s) = hs_faultIndex s"
  "hs_quarantineIndex (finish_store n d s) = hs_quarantineIndex s"
  "hs_globalFaults (finish_store n d s) = hs_globalFaults s"
  "hs_globalChanges (finish_store n d s) = hs_globalChanges s"
  "hs_nextDeviceRaw (finish_store n d s) = hs_nextDeviceRaw s"
  "hs_clock (finish_store n d s) = hs_clock s"
  "hs_stateIndex (finish_store n d s) =
     idx_insert (dv_state d) (dv_id d) (idx_erase_first (dv_id d) (hs_stateIndex s))"
  "hs_readinessIndex (finish_store n d s) =
     idx_insert (dv_readiness d) (dv_id d) (idx_erase_first (dv_id d) (hs_readinessIndex s))"
  by (simp_all add: finish_store_def updateIndexesLocked_def)

lemma validate_device_simps [simp]:
  "dv_id (validate_device v d) = dv_id d" "dv_uuid (validate_device v d) = dv_uuid d"
  "dv_node (validate_device v d) = dv_node d" "dv_firstSeen (validate_device v d) = dv_firstSeen d"
  "dv_state (validate_device v d) = dv_state d" "dv_faults (validate_device v d) = dv_faults d"
  "dv_validations (validate_device v d) = dv_validations d @ [v]"
  "dv_changes (validate_device v d) = dv_changes d" "dv_generation (validate_device v d) = dv_generation d"
  "dv_healthGeneration (validate_device v d) = dv_healthGeneration d"
  "dv_policyGenerationChangedFlag (validate_device v d) = dv_policyGenerationChangedFlag d"
  "dv_deviceGenerationChangedFlag (validate_device v d) = dv_deviceGenerationChangedFlag d"
  "dv_requiresRevalidation (validate_device v d) = dv_requiresRevalidation d"
  "dv_quarantine (validate_device v d) = dv_quarantine d" "dv_recovery (validate_device v d) = dv_recovery d"
  "dv_inRecovery (validate_device v d) = dv_inRecovery d" "dv_readiness (validate_device v d) = dv_readiness d"
  "dv_latestAssessment (validate_device v d) = dv_latestAssessment d"
  "dv_dimensions (validate_device v d) = dv_dimensions d"
  "dv_lastObservation (validate_device v d) = dv_lastObservation d"
  by (simp_all add: validate_device_def Let_def)

lemma validate_device_depth: "dv_highestValidation (validate_device v d) =
    (if v_passed v then max (dv_highestValidation d) (v_depth v) else dv_highestValidation d)"
  by (auto simp: validate_device_def Let_def max_def less_eq_ValidationDepth_def)
    (metis less_eq_ValidationDepth_def linorder_not_le order_antisym_conv order.strict_implies_order)

lemma observe_device_simps [simp]:
  "dv_id (observe_device obs env d) = dv_id d" "dv_uuid (observe_device obs env d) = dv_uuid d"
  "dv_node (observe_device obs env d) = dv_node d" "dv_firstSeen (observe_device obs env d) = dv_firstSeen d"
  "dv_state (observe_device obs env d) = dv_state d" "dv_faults (observe_device obs env d) = dv_faults d"
  "dv_validations (observe_device obs env d) = dv_validations d"
  "dv_changes (observe_device obs env d) = dv_changes d"
  "dv_healthGeneration (observe_device obs env d) = dv_healthGeneration d"
  "dv_highestValidation (observe_device obs env d) = dv_highestValidation d"
  "dv_policyGenerationChangedFlag (observe_device obs env d) = dv_policyGenerationChangedFlag d"
  "dv_quarantine (observe_device obs env d) = dv_quarantine d"
  "dv_recovery (observe_device obs env d) = dv_recovery d"
  "dv_inRecovery (observe_device obs env d) = dv_inRecovery d"
  "dv_readiness (observe_device obs env d) = dv_readiness d"
  "dv_latestAssessment (observe_device obs env d) = dv_latestAssessment d"
  "dv_lastObservation (observe_device obs env d) = obs_timestamp obs"
  "dv_requiresRevalidation (observe_device obs env d) = False"
  "dv_generation (observe_device obs env d) = max (dv_generation d) (env_deviceGeneration env)"
  by (auto simp: observe_device_def Let_def max_def)

definition quarantine_entry :: "Device \<Rightarrow> HealthStore \<Rightarrow> QuarantineAuthority \<Rightarrow> string \<Rightarrow> string \<Rightarrow> QuarantineRecord" where
  "quarantine_entry d s authority reason triggeredBy = \<lparr>q_id = StrongId (hs_nextQuarantineRaw s),
     q_timestamp = reading s, q_authority = authority, q_reason = reason, q_triggeredBy = triggeredBy,
     q_policyGeneration = hs_policyGeneration s, q_deviceGeneration = dv_generation d,
     q_healthGeneration = dv_healthGeneration d, q_active = True\<rparr>"

lemma quarantine_entry_active [simp]: "q_active (quarantine_entry d s a r b)"
  by (simp add: quarantine_entry_def)

lemma install_quarantine_eq: "install_quarantine i authority reason by (d, s) =
    (None, (d\<lparr>dv_quarantine := Some (quarantine_entry d s authority reason by)\<rparr>,
      (tick (s\<lparr>hs_nextQuarantineRaw := hs_nextQuarantineRaw s + 1\<rparr>))
        \<lparr>hs_quarantineIndex := sset_insert i (hs_quarantineIndex s)\<rparr>))"
  by (simp add: install_quarantine_def clock_now_eq quarantine_entry_def reading_def)

section \<open>Evolution of a device\<close>

definition dev_le :: "Device \<Rightarrow> Device \<Rightarrow> bool" where
  "dev_le d d' \<longleftrightarrow> dv_id d' = dv_id d \<and> dv_uuid d' = dv_uuid d \<and> dv_node d' = dv_node d \<and>
     dv_firstSeen d' = dv_firstSeen d \<and>
     prefix (dv_faults d) (dv_faults d') \<and> prefix (dv_validations d) (dv_validations d') \<and>
     prefix (dv_changes d) (dv_changes d') \<and>
     dv_generation d \<le> dv_generation d' \<and> dv_healthGeneration d \<le> dv_healthGeneration d' \<and>
     dv_highestValidation d \<le> dv_highestValidation d' \<and>
     (dv_policyGenerationChangedFlag d \<longrightarrow> dv_policyGenerationChangedFlag d') \<and>
     (dv_state d = HealthState.LOST \<longrightarrow> dv_state d' = HealthState.LOST)"

lemma dev_le_refl: "dev_le d d"
  by (simp add: dev_le_def)

lemma dev_le_trans: "dev_le a b \<Longrightarrow> dev_le b c \<Longrightarrow> dev_le a c"
  unfolding dev_le_def by (auto intro: prefix_order.trans order.trans)

lemma transition_le: "to \<in> store_targets \<Longrightarrow> dev_le d (fst (snd (applyTransitionLocked to l x (d, s))))"
  by (auto simp: applyTransition_eq dev_le_def store_targets_def split: sum.splits
      dest: gen_next_less intro: order.strict_implies_order)

interpretation life: txn_relation "\<lambda>c c'. dev_le (fst c) (fst c')" k for k
  by unfold_locales
    (auto simp: keeps_def dev_le_refl reassess_finish_def Let_def transition_le install_quarantine_eq
      intro: dev_le_trans, auto simp: dev_le_def validate_device_depth)

section \<open>The change log is an audit trail\<close>

text \<open>Replaying a log: every entry starts where the previous one ended and is a legal transition.\<close>

fun replay :: "HealthState \<Rightarrow> HealthChange list \<Rightarrow> HealthState option" where
  "replay s [] = Some s"
| "replay s (c # cs) =
     (if hc_from c = s \<and> canTransition s (hc_to c) then replay (hc_to c) cs else None)"

lemma replay_append: "replay s (xs @ ys) = (case replay s xs of None \<Rightarrow> None | Some t \<Rightarrow> replay t ys)"
  by (induction s xs rule: replay.induct) auto

text \<open>The log replays to the current state, and the health generation numbers its entries.  Only a
  device whose 64-bit generation is exhausted may have left the trail.\<close>

definition gen_max :: "'t Generation \<Rightarrow> bool" where
  "gen_max g \<longleftrightarrow> gen_get g = - 1"

definition audited :: "Device \<Rightarrow> bool" where
  "audited d \<longleftrightarrow> (\<exists>st. replay HealthState.INITIALIZING (dv_changes d) = Some st \<and>
       (gen_max (dv_healthGeneration d) \<or> st = dv_state d)) \<and>
     unat (gen_get (dv_healthGeneration d)) = length (dv_changes d) + 1 \<and>
     (\<forall>i < length (dv_changes d). unat (gen_get (hc_healthGeneration (dv_changes d ! i))) = i + 2)"

lemma gen_next_max: "gen_next g = Inl e \<Longrightarrow> gen_max g"
  by (auto simp: gen_next_def gen_max_def split: if_splits)

lemma gen_next_unat: "gen_next g = Inr g' \<Longrightarrow> \<not> gen_max g \<and> unat (gen_get g') = Suc (unat (gen_get g))"
proof -
  assume "gen_next g = Inr g'"
  then have ne: "gen_get g \<noteq> - 1" and g': "g' = Generation (gen_get g + 1)"
    by (auto simp: gen_next_def split: if_splits)
  then have "1 + gen_get g \<noteq> 0"
    by (metis add.commute add_eq_0_iff2)
  then show ?thesis
    using ne by (simp add: g' gen_max_def unatSuc add.commute)
qed

lemma transition_audited: "audited d \<Longrightarrow> audited (fst (snd (applyTransitionLocked to l x (d, s))))"
proof (cases "dv_state d = to \<or> \<not> canTransition (dv_state d) to")
  case False
  assume a: "audited d"
  show ?thesis
  proof (cases "gen_next (dv_healthGeneration d)")
    case (Inl e)
    then show ?thesis
      using a False by (auto simp: applyTransition_eq audited_def gen_next_max)
  next
    case (Inr g)
    note g = gen_next_unat [OF Inr]
    from a g have rep: "replay HealthState.INITIALIZING (dv_changes d) = Some (dv_state d)"
      by (auto simp: audited_def)
    show ?thesis
      using a g False Inr by (auto simp: applyTransition_eq audited_def replay_append rep nth_append less_Suc_eq)
  qed
qed (auto simp: applyTransition_eq)

interpretation audit: txn_relation "\<lambda>c c'. audited (fst c) \<longrightarrow> audited (fst c')" k for k
  by unfold_locales
    (auto simp: keeps_def reassess_finish_def Let_def transition_audited install_quarantine_eq,
     auto simp: audited_def)

section \<open>What a transaction leaves alone in the store\<close>

definition store_frame :: "HealthStore \<Rightarrow> HealthStore \<Rightarrow> bool" where
  "store_frame s s' \<longleftrightarrow> hs_policy s' = hs_policy s \<and> hs_policyGeneration s' = hs_policyGeneration s \<and>
     hs_coordinatorEpoch s' = hs_coordinatorEpoch s \<and> hs_workerBootRegistry s' = hs_workerBootRegistry s \<and>
     hs_devices s' = hs_devices s \<and> hs_uuidIndex s' = hs_uuidIndex s \<and>
     prefix (hs_globalFaults s) (hs_globalFaults s') \<and> prefix (hs_globalChanges s) (hs_globalChanges s') \<and>
     (\<forall>key g. smap_find key (hs_lastObservedGeneration s) = Some g \<longrightarrow>
        (\<exists>g' \<ge> g. smap_find key (hs_lastObservedGeneration s') = Some g'))"

lemma store_frame_refl: "store_frame s s"
  by (auto simp: store_frame_def)

lemma store_frame_trans: "store_frame a b \<Longrightarrow> store_frame b c \<Longrightarrow> store_frame a c"
proof -
  assume *: "store_frame a b" "store_frame b c"
  then have "\<exists>g'\<ge>g. smap_find key (hs_lastObservedGeneration c) = Some g'"
    if "smap_find key (hs_lastObservedGeneration a) = Some g" for key g
    using that unfolding store_frame_def by (meson order.trans)
  then show ?thesis
    using * unfolding store_frame_def by (auto intro: prefix_order.trans)
qed

lemma store_frame_log: "\<not> stale_generation env s \<Longrightarrow>
    store_frame s (s\<lparr>hs_lastObservedGeneration :=
      smap_put (og_key env) (env_observationGeneration env) (hs_lastObservedGeneration s)\<rparr>)"
  by (auto simp: store_frame_def smap_find_put stale_generation_def)

interpretation frame: txn_relation "\<lambda>c c'. store_frame (snd c) (snd c')" k for k
  by unfold_locales
    (auto simp: keeps_def store_frame_refl reassess_finish_def Let_def install_quarantine_eq
      applyTransition_eq store_frame_log intro: store_frame_trans split: sum.splits,
     auto simp: store_frame_def)

section \<open>The indexes follow the device\<close>

definition fault_types :: "Device \<Rightarrow> FaultType set" where
  "fault_types d = f_type ` set (dv_faults d)"

definition idx_ok :: "Device \<Rightarrow> HealthStore \<Rightarrow> bool" where
  "idx_ok d s \<longleftrightarrow> smap_wf (hs_stateIndex s) \<and> smap_wf (hs_readinessIndex s) \<and>
     (\<exists>st. filed (hs_stateIndex s) (dv_id d) = {st}) \<and>
     filed (hs_readinessIndex s) (dv_id d) = {dv_readiness d} \<and>
     (dv_id d \<in> set (hs_quarantineIndex s) \<longleftrightarrow> quarantine_active d) \<and>
     filed (hs_faultIndex s) (dv_id d) = fault_types d"

definition idx_others :: "AcceleratorId \<Rightarrow> HealthStore \<Rightarrow> HealthStore \<Rightarrow> bool" where
  "idx_others k s s' \<longleftrightarrow> (\<forall>j. j \<noteq> k \<longrightarrow> filed (hs_stateIndex s') j = filed (hs_stateIndex s) j \<and>
     filed (hs_readinessIndex s') j = filed (hs_readinessIndex s) j \<and>
     (j \<in> set (hs_quarantineIndex s') \<longleftrightarrow> j \<in> set (hs_quarantineIndex s)) \<and>
     filed (hs_faultIndex s') j = filed (hs_faultIndex s) j)"

definition idx_follows :: "AcceleratorId \<Rightarrow> dctx \<Rightarrow> dctx \<Rightarrow> bool" where
  "idx_follows k c c' \<longleftrightarrow> (dv_id (fst c) = k \<and> idx_ok (fst c) (snd c) \<longrightarrow>
     dv_id (fst c') = k \<and> idx_ok (fst c') (snd c') \<and> idx_others k (snd c) (snd c'))"

lemma idx_follows_refl: "idx_follows k c c"
  by (simp add: idx_follows_def idx_others_def)

lemma idx_follows_trans: "idx_follows k a b \<Longrightarrow> idx_follows k b c \<Longrightarrow> idx_follows k a c"
  by (auto simp: idx_follows_def idx_others_def)

text \<open>Re-filing an id: erase it from the first set holding it, then insert it under the new key.\<close>

lemma refile:
  assumes "smap_wf idx" "filed idx x = {k'}"
  shows "smap_wf (idx_insert k x (idx_erase_first x idx))"
    and "filed (idx_insert k x (idx_erase_first x idx)) y = (if y = x then {k} else filed idx y)"
  using assms filed_erase_first [OF assms(1), of x k'] filed_erase_first_other [OF assms(1)]
  by (auto simp: idx_wf_insert idx_wf_erase_first filed_insert)

lemma finish_follows: "keeps (idx_follows k) (reassess_finish now desired blocked)"
proof (rule keepsI)
  fix d s
  show "idx_follows k (d, s) (snd (reassess_finish now desired blocked (d, s)))"
    by (auto simp: idx_follows_def idx_ok_def idx_others_def reassess_finish_def Let_def refile
        quarantine_active_def fault_types_def)
qed

lemma idx_follows_cong:
  assumes "dv_id d' = dv_id d" "dv_readiness d' = dv_readiness d"
    "quarantine_active d' = quarantine_active d" "dv_faults d' = dv_faults d"
    "hs_stateIndex s' = hs_stateIndex s" "hs_readinessIndex s' = hs_readinessIndex s"
    "hs_faultIndex s' = hs_faultIndex s" "hs_quarantineIndex s' = hs_quarantineIndex s"
  shows "idx_follows k (d, s) (d', s')"
  using assms by (auto simp: idx_follows_def idx_ok_def idx_others_def fault_types_def)

lemma transition_follows: "keeps (idx_follows k) (applyTransitionLocked to l x)"
  by (rule keepsI, simp add: applyTransition_eq idx_follows_refl split: sum.split)
    (intro allI impI conjI idx_follows_cong; simp add: quarantine_active_def)

lemma fault_follows: "f_accelerator f = k \<Longrightarrow> idx_follows k (d, s) (d\<lparr>dv_faults := dv_faults d @ [f]\<rparr>,
    s\<lparr>hs_faultIndex := idx_insert (f_type f) k (hs_faultIndex s), hs_globalFaults := g\<rparr>)"
  by (auto simp: idx_follows_def idx_ok_def idx_others_def fault_types_def filed_insert quarantine_active_def)

lemma quarantine_follows: "keeps (idx_follows k) (install_quarantine k a r b)"
  by (rule keepsI)
    (auto simp: install_quarantine_eq idx_follows_def idx_ok_def idx_others_def fault_types_def quarantine_active_def)

lemma release_follows: "dv_quarantine d = Some q \<Longrightarrow> idx_follows k (d, s) (d\<lparr>dv_quarantine := Some (q\<lparr>q_active := False\<rparr>)\<rparr>,
    s\<lparr>hs_quarantineIndex := sset_erase k (hs_quarantineIndex s)\<rparr>)"
  by (auto simp: idx_follows_def idx_ok_def idx_others_def fault_types_def quarantine_active_def)

interpretation follows: txn_relation "idx_follows k" k for k
  by (unfold_locales; (rule idx_follows_refl transition_follows finish_follows quarantine_follows
      | erule (1) idx_follows_trans | erule fault_follows | erule release_follows
      | (rule idx_follows_cong; simp add: quarantine_active_def)))

end
