(* ===== verification/Settled.thy ===== *)
theory Settled
  imports DeviceLife
begin

text \<open>
  What holds of a device between transactions.  Inside a transaction the stored readiness and the
  state index lag behind the state; the reassessment at its end brings them up to date.  The triples
  \<open>triple P a Q E\<close> (from \<open>P\<close>, the operation \<open>a\<close> returns with \<open>Q\<close> or throws with \<open>E\<close>) carry \<open>lagging\<close>
  through the statements of a body and \<open>settled\<close> out of its final reassessment.
\<close>

section \<open>Triples\<close>

definition triple :: "(dctx \<Rightarrow> bool) \<Rightarrow> dev_op \<Rightarrow> (dctx \<Rightarrow> bool) \<Rightarrow> (dctx \<Rightarrow> bool) \<Rightarrow> bool" where
  "triple P a Q E \<longleftrightarrow> (\<forall>c r c'. P c \<longrightarrow> a c = (r, c') \<longrightarrow> (if r = None then Q c' else E c'))"

lemma tripleI: "(\<And>d s r c'. P (d, s) \<Longrightarrow> a (d, s) = (r, c') \<Longrightarrow> if r = None then Q c' else E c') \<Longrightarrow> triple P a Q E"
  unfolding triple_def by (metis prod.exhaust)

lemma tripleD: "triple P a Q Q \<Longrightarrow> P c \<Longrightarrow> Q (snd (a c))"
  unfolding triple_def by (metis prod.exhaust_sel)

lemma tripleE: "triple P a Q E \<Longrightarrow> P c \<Longrightarrow> a c = (r, c') \<Longrightarrow> if r = None then Q c' else E c'"
  unfolding triple_def by blast

lemma triple_nil: "triple P (run_ops []) P E"
  by (simp add: triple_def)

lemma triple_seq:
  assumes "triple P a M E" "triple M (run_ops as) Q E"
  shows "triple P (run_ops (a # as)) Q E"
proof (rule tripleI)
  fix d s r c' assume P: "P (d, s)" and run: "run_ops (a # as) (d, s) = (r, c')"
  obtain r1 c1 where a: "a (d, s) = (r1, c1)" by (cases "a (d, s)")
  have 1: "if r1 = None then M c1 else E c1"
    using assms(1) P a unfolding triple_def by blast
  show "if r = None then Q c' else E c'"
  proof (cases r1)
    case None
    then have "M c1" "run_ops as c1 = (r, c')"
      using 1 run a by simp_all
    then show ?thesis
      using assms(2) unfolding triple_def by blast
  next
    case (Some e)
    then show ?thesis
      using 1 run a by auto
  qed
qed

lemma triple_last: "triple P a Q E \<Longrightarrow> triple P (run_ops [a]) Q E"
  by (rule triple_seq [OF _ triple_nil])

lemma triple_when: "triple (\<lambda>c. P c \<and> cond c) a Q E \<Longrightarrow> (\<And>c. P c \<Longrightarrow> \<not> cond c \<Longrightarrow> Q c) \<Longrightarrow>
    triple P (op_when cond a) Q E"
  unfolding triple_def op_when_def by (metis prod.inject)

lemma triple_dev_do: "(\<And>d s. P (d, s) \<Longrightarrow> Q (f d, s)) \<Longrightarrow> triple P (dev_do f) Q E"
  by (auto simp: triple_def dev_do_def)

lemma triple_sto_do: "(\<And>d s. P (d, s) \<Longrightarrow> Q (d, f s)) \<Longrightarrow> triple P (sto_do f) Q E"
  by (auto simp: triple_def sto_do_def)

lemma triple_pre: "triple P' a Q E \<Longrightarrow> (\<And>c. P c \<Longrightarrow> P' c) \<Longrightarrow> triple P a Q E"
  unfolding triple_def by blast

lemma triple_post: "triple P a Q' E \<Longrightarrow> (\<And>c. Q' c \<Longrightarrow> Q c) \<Longrightarrow> triple P a Q E"
  unfolding triple_def by metis

section \<open>Reassessment\<close>

definition target_of :: "Device \<Rightarrow> HealthStore \<Rightarrow> HealthState" where
  "target_of d s = assess_target (device_input d (hs_policy s) (reading s))"

definition blocked :: "Device \<Rightarrow> HealthStore \<Rightarrow> bool" where
  "blocked d s \<longleftrightarrow> target_of d s \<noteq> dv_state d \<and> \<not> canTransition (dv_state d) (target_of d s)"

definition verdict :: "Device \<Rightarrow> HealthStore \<Rightarrow> HealthAssessment" where
  "verdict d s = assess (device_input d (hs_policy s) (reading s))"

definition moved :: "Device \<Rightarrow> HealthStore \<Rightarrow> HealthGeneration \<Rightarrow> dctx" where
  "moved d s g = (let t = target_of d s; hc = change_entry d (tick s) t ''health'' (HealthState_to_string t) g in
     (d\<lparr>dv_state := t, dv_transitionCount := dv_transitionCount d + 1, dv_healthGeneration := g,
        dv_changes := dv_changes d @ [hc]\<rparr>,
      (tick (tick s))\<lparr>hs_globalChanges := hs_globalChanges s @ [hc]\<rparr>))"

text \<open>The three ways a reassessment ends: in place, after a transition, or by generation overflow.\<close>

lemma reassess_eq:
  "reassessLocked (d, s) =
     (if target_of d s \<noteq> dv_state d \<and> canTransition (dv_state d) (target_of d s) then
        (case gen_next (dv_healthGeneration d) of
           Inl e \<Rightarrow> (Some e, (d\<lparr>dv_state := target_of d s, dv_transitionCount := dv_transitionCount d + 1\<rparr>, tick s))
         | Inr g \<Rightarrow> reassess_finish (reading s) (verdict d s) False (moved d s g))
      else reassess_finish (reading s) (verdict d s) (blocked d s) (d, tick s))"
  by (auto simp: reassessLocked_def clock_now_eq Let_def op_when_def applyTransition_eq target_of_def
      verdict_def moved_def blocked_def reassess_finish_def split: sum.splits)

lemma moved_simps [simp]:
  "dv_state (fst (moved d s g)) = target_of d s" "dv_id (fst (moved d s g)) = dv_id d"
  "dv_healthGeneration (fst (moved d s g)) = g" "dv_inRecovery (fst (moved d s g)) = dv_inRecovery d"
  "dv_quarantine (fst (moved d s g)) = dv_quarantine d" "dv_recovery (fst (moved d s g)) = dv_recovery d"
  "dv_faults (fst (moved d s g)) = dv_faults d" "dv_dimensions (fst (moved d s g)) = dv_dimensions d"
  "dv_highestValidation (fst (moved d s g)) = dv_highestValidation d"
  "dv_lastObservation (fst (moved d s g)) = dv_lastObservation d"
  "dv_policyGenerationChangedFlag (fst (moved d s g)) = dv_policyGenerationChangedFlag d"
  "dv_deviceGenerationChangedFlag (fst (moved d s g)) = dv_deviceGenerationChangedFlag d"
  "dv_requiresRevalidation (fst (moved d s g)) = dv_requiresRevalidation d"
  "hs_policy (snd (moved d s g)) = hs_policy s" "hs_policyGeneration (snd (moved d s g)) = hs_policyGeneration s"
  "hs_stateIndex (snd (moved d s g)) = hs_stateIndex s"
  by (simp_all add: moved_def Let_def)

lemma quarantine_active_simps [simp]:
  "quarantine_active (fst (moved d s g)) = quarantine_active d"
  "quarantine_active (finish_device n p pg a b d) = quarantine_active d"
  "quarantine_active (validate_device v d) = quarantine_active d"
  "quarantine_active (observe_device obs env d) = quarantine_active d"
  by (simp_all add: quarantine_active_def)

lemma device_readiness_simps:
  "snd (device_readiness d p n b) \<longleftrightarrow> \<not> b \<and> rr_executionReady (readiness_evaluate (device_readiness_input d p n))"
  "fst (device_readiness d p n b) = (if b then ReadinessState.REVALIDATION_REQUIRED
     else rr_state (readiness_evaluate (device_readiness_input d p n)))"
  by (simp_all add: device_readiness_def Let_def)

definition ready_states :: "ReadinessState set" where
  "ready_states = {ReadinessState.READY, ReadinessState.READY_DEGRADED}"

text \<open>No fatal evidence, no quarantine, no recovery, and a usable state.\<close>

definition fit :: "Device \<Rightarrow> bool" where
  "fit d \<longleftrightarrow> dv_state d \<in> {HealthState.HEALTHY, HealthState.DEGRADED} \<and> \<not> quarantine_active d \<and>
     \<not> dv_inRecovery d \<and> (\<forall>f\<in>set (dv_faults d). \<not> open_fatal f) \<and>
     (\<forall>x\<in>set (smap_values (dv_dimensions d)). \<not> fatal_dim x)"

lemma device_input_simps [simp]:
  "ai_inRecovery (device_input d p n) = dv_inRecovery d" "ai_quarantined (device_input d p n) = quarantine_active d"
  "ai_faultStats (device_input d p n) = history_stats (dv_faults d)"
  "ai_dimensions (device_input d p n) = dv_dimensions d" "ai_currentState (device_input d p n) = dv_state d"
  "ai_policy (device_input d p n) = p" "ai_lastObservation (device_input d p n) = dv_lastObservation d"
  "ai_now (device_input d p n) = n"
  by (simp_all add: device_input_def)

lemma target_fit:
  assumes "target_of d s \<in> {HealthState.HEALTHY, HealthState.DEGRADED}"
  shows "\<not> quarantine_active d \<and> \<not> dv_inRecovery d \<and> (\<forall>f\<in>set (dv_faults d). \<not> open_fatal f) \<and>
     (\<forall>x\<in>set (smap_values (dv_dimensions d)). \<not> fatal_dim x)"
proof -
  let ?i = "device_input d (hs_policy s) (reading s)"
  have t: "assess_target ?i \<in> {HealthState.HEALTHY, HealthState.DEGRADED}"
    using assms by (simp add: target_of_def)
  have r: "\<not> ai_inRecovery ?i"
    using assess_target_recovery [of ?i] t by auto
  have q: "\<not> ai_quarantined ?i"
    using assess_target_quarantined [OF r] t by auto
  have "\<not> (st_hasOpenFatal (ai_faultStats ?i) \<or> sc_anyFatalDim (scan_dimensions (ai_dimensions ?i)))"
  proof
    assume "st_hasOpenFatal (ai_faultStats ?i) \<or> sc_anyFatalDim (scan_dimensions (ai_dimensions ?i))"
    then show False
      using assess_target_fatal [OF r q] t by simp
  qed
  then show ?thesis
    using r q by simp
qed

lemma readiness_input_simps [simp]:
  "ri_health (device_readiness_input d p n) = dv_state d"
  "ri_quarantined (device_readiness_input d p n) = quarantine_active d"
  "ri_freshness (device_readiness_input d p n) = evidence_freshness p (dv_lastObservation d) n"
  "ri_validationDepth (device_readiness_input d p n) = dv_highestValidation d"
  "ri_requiredValidationDepth (device_readiness_input d p n) = pol_requiredValidationDepth p"
  "ri_deviceGenerationChanged (device_readiness_input d p n) = dv_deviceGenerationChangedFlag d"
  "ri_policyGenerationChanged (device_readiness_input d p n) = dv_policyGenerationChangedFlag d"
  "ri_requiresRevalidation (device_readiness_input d p n) = dv_requiresRevalidation d"
  "ri_allowDegradedReadiness (device_readiness_input d p n) = pol_allowDegradedReadiness p"
  by (simp_all add: device_readiness_input_def)

lemma evaluated_ready_state:
  "rr_state (readiness_evaluate i) \<in> ready_states \<Longrightarrow> ri_health i \<in> {HealthState.HEALTHY, HealthState.DEGRADED}"
  using readiness_state_ready [of i] readiness_ready_iff [of i] by (auto simp: ready_states_def fully_qualified_def)

lemma reassess_fit:
  assumes "reassessLocked (d, s) = (None, (d', s'))" "dv_readiness d' \<in> ready_states"
  shows "fit d'"
proof (cases "target_of d s \<noteq> dv_state d \<and> canTransition (dv_state d) (target_of d s)")
  case True
  then obtain g where g: "gen_next (dv_healthGeneration d) = Inr g"
    and d': "d' = finish_device (reading s) (hs_policy s) (hs_policyGeneration s) (verdict d s) False (fst (moved d s g))"
    using assms(1) by (auto simp: reassess_eq reassess_finish_def Let_def split: sum.splits)
  then have "target_of d s \<in> {HealthState.HEALTHY, HealthState.DEGRADED}"
    using assms(2) evaluated_ready_state by (fastforce simp: device_readiness_simps)
  then show ?thesis
    using target_fit [of d s] by (simp add: fit_def d')
next
  case False
  then have d': "d' = finish_device (reading s) (hs_policy s) (hs_policyGeneration s) (verdict d s) (blocked d s) d"
    using assms(1) by (auto simp: reassess_eq reassess_finish_def Let_def split: if_splits)
  then have nb: "\<not> blocked d s" and st: "dv_state d \<in> {HealthState.HEALTHY, HealthState.DEGRADED}"
    using assms(2) evaluated_ready_state by (fastforce simp: device_readiness_simps ready_states_def split: if_splits)+
  then have "target_of d s = dv_state d"
    using False by (auto simp: blocked_def)
  then show ?thesis
    using st target_fit [of d s] by (simp add: fit_def d')
qed

section \<open>Between and inside transactions\<close>

definition active_states :: "HealthState set" where
  "active_states = insert HealthState.INITIALIZING store_targets"

definition recovery_states :: "HealthState set" where
  "recovery_states = {HealthState.RECOVERING, HealthState.REVALIDATING, HealthState.LOST}"

text \<open>Facts no statement disturbs: the id is filed under one state, recoveries are numbered below the health generation.\<close>

definition anchored :: "dctx \<Rightarrow> bool" where
  "anchored c \<longleftrightarrow> smap_wf (hs_stateIndex (snd c)) \<and> (\<exists>st. filed (hs_stateIndex (snd c)) (dv_id (fst c)) = {st}) \<and>
     0 < gen_get (dv_healthGeneration (fst c)) \<and>
     (\<forall>r. dv_recovery (fst c) = Some r \<longrightarrow> gen_get (rec_generation r) < gen_get (dv_healthGeneration (fst c)))"

definition lagging :: "dctx \<Rightarrow> bool" where
  "lagging c \<longleftrightarrow> anchored c \<and> (\<not> gen_max (dv_healthGeneration (fst c)) \<longrightarrow> dv_state (fst c) \<in> active_states \<and>
     (dv_inRecovery (fst c) \<longrightarrow> dv_state (fst c) \<in> insert HealthState.QUARANTINED recovery_states))"

definition settled :: "dctx \<Rightarrow> bool" where
  "settled c \<longleftrightarrow> anchored c \<and> (\<not> gen_max (dv_healthGeneration (fst c)) \<longrightarrow> dv_state (fst c) \<in> active_states \<and>
     (dv_inRecovery (fst c) \<longrightarrow> dv_state (fst c) \<in> recovery_states) \<and>
     (dv_state (fst c) \<noteq> HealthState.LOST \<longrightarrow>
        filed (hs_stateIndex (snd c)) (dv_id (fst c)) = {dv_state (fst c)} \<and>
        (dv_readiness (fst c) \<in> ready_states \<longrightarrow> fit (fst c)) \<and>
        (quarantine_active (fst c) \<longrightarrow> dv_readiness (fst c) = ReadinessState.QUARANTINED)))"

lemma settled_lagging: "settled c \<Longrightarrow> lagging c"
  by (auto simp: settled_def lagging_def)

lemma lagging_LOST: "lagging (d, s) \<Longrightarrow> dv_state d = HealthState.LOST \<Longrightarrow> settled (d, s)"
  by (auto simp: settled_def lagging_def recovery_states_def)

lemma anchored_max: "anchored (d, s) \<Longrightarrow> gen_max (dv_healthGeneration d) \<Longrightarrow> settled (d, s)"
  by (simp add: settled_def)

lemma recovery_next: "(r :: u64) < g \<Longrightarrow> gen_next (Generation g :: 't Generation) = Inr g' \<Longrightarrow> r < gen_get g'"
  using gen_next_less [of "Generation g" g'] by (auto simp: less_Generation_def)

lemma anchored_hg: "anchored (d, s) \<Longrightarrow> gen_next (dv_healthGeneration d) = Inr g \<Longrightarrow> dv_id d' = dv_id d \<Longrightarrow>
    dv_recovery d' = dv_recovery d \<Longrightarrow> dv_healthGeneration d' = g \<Longrightarrow> hs_stateIndex s' = hs_stateIndex s \<Longrightarrow>
    anchored (d', s')"
  using gen_next_less [of "dv_healthGeneration d" g]
  by (auto simp: anchored_def less_Generation_def intro: order.strict_trans)

lemma anchored_same: "anchored (d, s) \<Longrightarrow> dv_id d' = dv_id d \<Longrightarrow> dv_recovery d' = dv_recovery d \<Longrightarrow>
    dv_healthGeneration d' = dv_healthGeneration d \<Longrightarrow> hs_stateIndex s' = hs_stateIndex s \<Longrightarrow> anchored (d', s')"
  by (simp add: anchored_def)

text \<open>A transition to a state the store uses, taken where the table allows it.\<close>

lemma transition_triple:
  "triple (\<lambda>c. lagging c \<and> to \<in> store_targets \<and> (dv_state (fst c) = to \<or> canTransition (dv_state (fst c)) to) \<and>
       (dv_inRecovery (fst c) \<longrightarrow> to \<in> insert HealthState.QUARANTINED recovery_states) \<and> F (dv_inRecovery (fst c)) (dv_recovery (fst c)))
     (applyTransitionLocked to l x)
     (\<lambda>c. lagging c \<and> dv_state (fst c) = to \<and> F (dv_inRecovery (fst c)) (dv_recovery (fst c))) settled"
proof (rule tripleI, elim conjE)
  fix d s r c' assume lag: "lagging (d, s)" and to: "to \<in> store_targets"
    and legal: "dv_state (fst (d, s)) = to \<or> canTransition (dv_state (fst (d, s))) to"
    and rec: "dv_inRecovery (fst (d, s)) \<longrightarrow> to \<in> insert HealthState.QUARANTINED recovery_states"
    and F: "F (dv_inRecovery (fst (d, s))) (dv_recovery (fst (d, s)))"
    and run: "applyTransitionLocked to l x (d, s) = (r, c')"
  have anch: "anchored (d, s)" using lag by (simp add: lagging_def)
  show "if r = None then lagging c' \<and> dv_state (fst c') = to \<and> F (dv_inRecovery (fst c')) (dv_recovery (fst c')) else settled c'"
  proof (cases "dv_state d = to")
    case True
    then show ?thesis using run lag F by (auto simp: applyTransition_eq)
  next
    case False
    show ?thesis
    proof (cases "gen_next (dv_healthGeneration d)")
      case (Inl e)
      then have "gen_max (dv_healthGeneration d)" by (rule gen_next_max)
      then show ?thesis
        using False legal Inl run by (auto simp: applyTransition_eq intro!: anchored_max anchored_same [OF anch])
    next
      case (Inr g)
      have "anchored c'"
        using False legal Inr run by (auto simp: applyTransition_eq intro!: anchored_hg [OF anch Inr])
      then show ?thesis
        using False legal Inr run to rec F by (auto simp: applyTransition_eq lagging_def active_states_def)
    qed
  qed
qed

text \<open>The reassessment settles the device.\<close>

lemma target_cases:
  "\<not> dv_inRecovery d \<Longrightarrow> target_of d s = dv_state d \<or> target_of d s \<in> store_targets - recovery_states"
  "dv_inRecovery d \<Longrightarrow> dv_state d \<in> insert HealthState.QUARANTINED recovery_states \<Longrightarrow>
     target_of d s = (if dv_state d = HealthState.REVALIDATING then HealthState.REVALIDATING else HealthState.RECOVERING)"
  by (auto simp: target_of_def assess_target_def Let_def store_targets_def recovery_states_def)

lemma finish_anchored: "anchored (d, s) \<Longrightarrow> anchored (snd (reassess_finish n a b (d, s))) \<and>
    filed (hs_stateIndex (snd (snd (reassess_finish n a b (d, s))))) (dv_id d) = {dv_state d}"
  by (auto simp: anchored_def reassess_finish_def Let_def refile)

lemma quarantined_readiness: "quarantine_active d \<Longrightarrow> \<not> b \<Longrightarrow>
    fst (device_readiness d p n b) = ReadinessState.QUARANTINED"
  by (simp add: device_readiness_simps readiness_quarantined)

lemma quarantined_target: "quarantine_active d \<Longrightarrow> \<not> dv_inRecovery d \<Longrightarrow> target_of d s = HealthState.QUARANTINED"
  by (simp add: target_of_def assess_target_quarantined)

lemma not_blocked_quarantined:
  assumes "quarantine_active d" "dv_state d \<in> active_states" "dv_state d \<noteq> HealthState.LOST"
    "dv_inRecovery d \<longrightarrow> dv_state d \<in> insert HealthState.QUARANTINED recovery_states"
  shows "\<not> blocked d s"
  using assms quarantined_target [of d s] target_cases(2) [of d s]
  by (cases "dv_inRecovery d") (auto simp: blocked_def active_states_def store_targets_def recovery_states_def)

lemma reassess_move_settled:
  assumes lag: "lagging (d, s)" and g: "gen_next (dv_healthGeneration d) = Inr g"
    and mv: "target_of d s \<noteq> dv_state d" "canTransition (dv_state d) (target_of d s)"
    and run: "reassessLocked (d, s) = (r, (d', s'))"
  shows "settled (d', s')"
proof -
  have nmax: "\<not> gen_max (dv_healthGeneration d)" using gen_next_unat [OF g] by simp
  then have st: "dv_state d \<in> active_states"
    and rec: "dv_inRecovery d \<longrightarrow> dv_state d \<in> insert HealthState.QUARANTINED recovery_states"
    using lag by (auto simp: lagging_def)
  have eq: "reassess_finish (reading s) (verdict d s) False (moved d s g) = (r, (d', s'))"
    using run mv g by (simp add: reassess_eq)
  then have r: "r = None" and d': "d' = finish_device (reading s) (hs_policy s) (hs_policyGeneration s) (verdict d s) False (fst (moved d s g))"
    by (auto simp: reassess_finish_def Let_def)
  have "anchored (fst (moved d s g), snd (moved d s g))"
    by (rule anchored_hg [of d s g]) (use lag g in \<open>simp_all add: lagging_def\<close>)
  then have anch: "anchored (d', s')" "filed (hs_stateIndex s') (dv_id d') = {dv_state d'}"
    using finish_anchored [of "fst (moved d s g)" "snd (moved d s g)" "reading s" "verdict d s" False] eq d'
    by simp_all
  have tgt: "target_of d s \<in> active_states"
    using mv(1) assess_target_in [of "device_input d (hs_policy s) (reading s)"]
    by (auto simp: target_of_def active_states_def)
  have "dv_inRecovery d \<longrightarrow> target_of d s \<in> recovery_states"
    using target_cases(2) [of d s] rec by (auto simp: recovery_states_def)
  moreover have "dv_readiness d' \<in> ready_states \<longrightarrow> fit d'"
    using reassess_fit [of d s d' s'] run r by blast
  moreover have "quarantine_active d' \<longrightarrow> dv_readiness d' = ReadinessState.QUARANTINED"
    by (simp add: d' quarantined_readiness)
  moreover have "dv_state d' = target_of d s" "dv_inRecovery d' = dv_inRecovery d"
    by (simp_all add: d')
  ultimately show ?thesis
    using anch tgt unfolding settled_def fst_conv snd_conv by simp
qed

lemma reassess_stay_settled:
  assumes lag: "lagging (d, s)" and stay: "\<not> (target_of d s \<noteq> dv_state d \<and> canTransition (dv_state d) (target_of d s))"
    and run: "reassessLocked (d, s) = (r, (d', s'))"
  shows "settled (d', s')"
proof -
  have eq: "reassess_finish (reading s) (verdict d s) (blocked d s) (d, tick s) = (r, (d', s'))"
    using run stay by (auto simp: reassess_eq)
  then have r: "r = None" and d': "d' = finish_device (reading s) (hs_policy s) (hs_policyGeneration s) (verdict d s) (blocked d s) d"
    by (auto simp: reassess_finish_def Let_def)
  have "anchored (d, tick s)"
    using lag by (simp add: lagging_def anchored_def)
  then have anch: "anchored (d', s')" "filed (hs_stateIndex s') (dv_id d') = {dv_state d'}"
    using finish_anchored [of d "tick s" "reading s" "verdict d s" "blocked d s"] eq d' by simp_all
  show ?thesis
  proof (cases "gen_max (dv_healthGeneration d)")
    case False
    then have st: "dv_state d \<in> active_states"
      and rec: "dv_inRecovery d \<longrightarrow> dv_state d \<in> insert HealthState.QUARANTINED recovery_states"
      using lag by (auto simp: lagging_def)
    have "dv_inRecovery d \<longrightarrow> dv_state d \<in> recovery_states"
      using stay rec target_cases(2) [of d s] by auto
    moreover have "dv_readiness d' \<in> ready_states \<longrightarrow> fit d'"
      using reassess_fit [of d s d' s'] run r by blast
    moreover have "quarantine_active d' \<longrightarrow> dv_state d \<noteq> HealthState.LOST \<longrightarrow> dv_readiness d' = ReadinessState.QUARANTINED"
      using not_blocked_quarantined [of d s] st rec by (simp add: d' quarantined_readiness)
    moreover have "dv_state d' = dv_state d" "dv_inRecovery d' = dv_inRecovery d"
      by (simp_all add: d')
    ultimately show ?thesis
      using anch st unfolding settled_def fst_conv snd_conv by simp
  qed (use anch in \<open>simp add: settled_def d'\<close>)
qed

lemma reassess_triple: "triple lagging reassessLocked settled settled"
proof (rule tripleI)
  fix d s r c' assume lag: "lagging (d, s)" and run: "reassessLocked (d, s) = (r, c')"
  obtain d' s' where c': "c' = (d', s')" by (cases c')
  have "settled (d', s')"
  proof (cases "target_of d s \<noteq> dv_state d \<and> canTransition (dv_state d) (target_of d s)")
    case True
    show ?thesis
    proof (cases "gen_next (dv_healthGeneration d)")
      case (Inl e)
      then have "gen_max (dv_healthGeneration d)" by (rule gen_next_max)
      then show ?thesis
        using True Inl run lag unfolding c'
        by (auto simp: reassess_eq lagging_def intro!: anchored_max anchored_same [of d s])
    next
      case (Inr g)
      then show ?thesis using reassess_move_settled lag run True unfolding c' by blast
    qed
  next
    case False
    then show ?thesis using reassess_stay_settled lag run unfolding c' by blast
  qed
  then show "if r = None then settled c' else settled c'"
    by (simp add: c')
qed

section \<open>Every transaction settles\<close>

lemma lagging_same: "lagging (d, s) \<Longrightarrow> dv_id d' = dv_id d \<Longrightarrow> dv_recovery d' = dv_recovery d \<Longrightarrow>
    dv_healthGeneration d' = dv_healthGeneration d \<Longrightarrow> dv_state d' = dv_state d \<Longrightarrow>
    dv_inRecovery d' = dv_inRecovery d \<Longrightarrow> hs_stateIndex s' = hs_stateIndex s \<Longrightarrow> lagging (d', s')"
  by (simp add: lagging_def anchored_def)

lemma invalidate_settles: "triple settled (invalidate_device w b) settled settled"
  unfolding invalidate_device_def
  by (rule triple_when, rule triple_seq [where M = lagging], rule triple_dev_do)
    (auto intro!: triple_last reassess_triple elim!: lagging_same [OF settled_lagging])

lemma observe_settles: "triple settled (observe_body obs env) settled settled"
  unfolding observe_body_def
  by (rule triple_seq [where M = lagging], rule triple_dev_do, erule lagging_same [OF settled_lagging], simp_all del: run_ops.simps)
    (rule triple_seq [where M = lagging], rule triple_sto_do, erule lagging_same,
     auto intro!: triple_last reassess_triple)

lemma validation_settles: "triple settled (validation_body v) settled settled"
  unfolding validation_body_def
  by (rule triple_seq [where M = lagging], rule triple_dev_do, erule lagging_same [OF settled_lagging],
      simp_all del: run_ops.simps, rule triple_last, rule reassess_triple)

lemma fault_settles: "triple settled (fault_body f) settled settled"
proof -
  have 1: "triple settled (\<lambda>c. case history_record f (dv_faults (fst c)) of Inl e \<Rightarrow> (Some e, c)
      | Inr h \<Rightarrow> (None, ((fst c)\<lparr>dv_faults := h\<rparr>, snd c))) lagging settled"
    by (rule tripleI) (auto split: sum.splits elim!: lagging_same [OF settled_lagging])
  have 2: "triple lagging (sto_do (\<lambda>s. s\<lparr>hs_faultIndex := F s\<rparr>)) lagging settled"
    "triple lagging (sto_do (\<lambda>s. s\<lparr>hs_globalFaults := G s\<rparr>)) lagging settled" for F G
    by (rule triple_sto_do, erule lagging_same, simp_all)+
  show ?thesis
    unfolding fault_body_def by (intro triple_seq [OF 1] triple_seq [OF 2(1)] triple_seq [OF 2(2)] triple_last reassess_triple)
qed

lemma clear_settles: "triple settled (clear_body k) settled settled"
proof -
  have "triple settled (\<lambda>c. case dv_quarantine (fst c) of None \<Rightarrow> (None, c)
      | Some q \<Rightarrow> (None, ((fst c)\<lparr>dv_quarantine := Some (q\<lparr>q_active := False\<rparr>)\<rparr>,
          (snd c)\<lparr>hs_quarantineIndex := sset_erase k (hs_quarantineIndex (snd c))\<rparr>))) lagging settled"
    by (rule tripleI) (auto split: option.splits intro: settled_lagging elim!: lagging_same [OF settled_lagging])
  then show ?thesis
    unfolding clear_body_def by (rule triple_seq) (rule triple_last, rule reassess_triple)
qed

lemma lost_settles: "triple settled (lost_body reason) settled settled"
proof -
  let ?P = "\<lambda>c. lagging c \<and> (dv_state (fst c) = HealthState.LOST \<longrightarrow> settled c)"
  have 1: "triple settled (dev_do (\<lambda>d. d\<lparr>dv_present := False\<rparr>)) ?P settled"
    by (rule triple_dev_do)
      (auto elim!: lagging_same [OF settled_lagging] intro!: lagging_LOST)
  have "triple (\<lambda>c. ?P c \<and> dv_state (fst c) \<noteq> HealthState.LOST) (applyTransitionLocked HealthState.LOST ''lost'' reason)
      settled settled"
    by (rule triple_pre [OF triple_post [OF transition_triple [where F = "\<lambda>_ _. True"]]])
      (auto simp: canTransition_to_LOST store_targets_def recovery_states_def intro: lagging_LOST)
  then have "triple ?P (op_when (\<lambda>(d, _). dv_state d \<noteq> HealthState.LOST)
      (applyTransitionLocked HealthState.LOST ''lost'' reason)) settled settled"
    by (intro triple_when) (auto simp: case_prod_beta)
  then show ?thesis
    unfolding lost_body_eq by (intro triple_seq [OF 1] triple_last)
qed

lemma transition_anchored:
  "triple (\<lambda>c. anchored c \<and> (dv_state (fst c) = to \<or> canTransition (dv_state (fst c)) to))
     (applyTransitionLocked to l x) (\<lambda>c. anchored c \<and> dv_state (fst c) = to) settled"
proof (rule tripleI, elim conjE)
  fix d s r c' assume anch: "anchored (d, s)"
    and legal: "dv_state (fst (d, s)) = to \<or> canTransition (dv_state (fst (d, s))) to"
    and run: "applyTransitionLocked to l x (d, s) = (r, c')"
  show "if r = None then anchored c' \<and> dv_state (fst c') = to else settled c'"
  proof (cases "gen_next (dv_healthGeneration d)")
    case (Inl e)
    then have "gen_max (dv_healthGeneration d)" by (rule gen_next_max)
    then show ?thesis
      using anch legal Inl run
      by (auto simp: applyTransition_eq split: if_splits intro!: anchored_max anchored_same [OF anch])
  next
    case (Inr g)
    then show ?thesis
      using anch legal Inr run
      by (auto simp: applyTransition_eq split: if_splits intro!: anchored_hg [OF anch Inr])
  qed
qed

lemma quarantine_transition: "triple lagging (applyTransitionLocked HealthState.QUARANTINED l x) lagging settled"
proof (rule tripleI)
  fix d s r c' assume lag: "lagging (d, s)" and run: "applyTransitionLocked HealthState.QUARANTINED l x (d, s) = (r, c')"
  show "if r = None then lagging c' else settled c'"
  proof (cases "dv_state d = HealthState.QUARANTINED \<or> canTransition (dv_state d) HealthState.QUARANTINED")
    case True
    have "if r = None then lagging c' \<and> dv_state (fst c') = HealthState.QUARANTINED \<and> True else settled c'"
      by (rule tripleE [OF transition_triple [where F = "\<lambda>_ _. True"] _ run])
        (use True lag in \<open>simp add: store_targets_def\<close>)
    then show ?thesis by (simp split: if_splits)
  next
    case False
    then have "r \<noteq> None" "c' = (d, s)"
      using run by (auto simp: applyTransition_eq)
    moreover have "gen_max (dv_healthGeneration d) \<or> dv_state d = HealthState.LOST"
      using False lag by (auto simp: lagging_def active_states_def store_targets_def)
    ultimately show ?thesis
      using lag lagging_LOST anchored_max by (auto simp: lagging_def)
  qed
qed

lemma quarantine_settles: "triple settled (quarantine_body k a reason b) settled settled"
proof (rule tripleI)
  fix d s r c' assume st: "settled (d, s)" and run: "quarantine_body k a reason b (d, s) = (r, c')"
  have 1: "triple settled (install_quarantine k a reason b) lagging settled"
    by (rule tripleI) (auto simp: install_quarantine_eq elim!: lagging_same [OF settled_lagging])
  have 2: "triple lagging (op_when (\<lambda>(d, _). dv_state d \<noteq> HealthState.QUARANTINED)
      (applyTransitionLocked HealthState.QUARANTINED ''quarantine'' reason)) lagging settled"
    by (rule triple_when [OF triple_pre [OF quarantine_transition]]) auto
  note all = triple_seq [OF 1 triple_seq [OF 2 triple_last [OF reassess_triple]]]
  show "if r = None then settled c' else settled c'"
  proof (cases "quarantine_active d")
    case True
    then show ?thesis using st run by (auto simp: quarantine_body_def simp del: run_ops.simps)
  next
    case False
    then show ?thesis
      using tripleE [OF all st] run by (simp add: quarantine_body_def del: run_ops.simps)
  qed
qed

definition recovery_ready :: "dctx \<Rightarrow> bool" where
  "recovery_ready c \<longleftrightarrow> lagging c \<and> dv_state (fst c) = HealthState.RECOVERING \<and>
     1 < unat (gen_get (dv_healthGeneration (fst c))) \<and>
     (\<forall>r. dv_recovery (fst c) = Some r \<longrightarrow>
        unat (gen_get (rec_generation r)) + 1 < unat (gen_get (dv_healthGeneration (fst c))))"

lemma recovery_start: "triple (\<lambda>c. settled c \<and> \<not> dv_inRecovery (fst c) \<and> canTransition (dv_state (fst c)) HealthState.RECOVERING)
    (applyTransitionLocked HealthState.RECOVERING l x) recovery_ready settled"
proof (rule tripleI, elim conjE)
  fix d s r c' assume st: "settled (d, s)" and legal: "canTransition (dv_state (fst (d, s))) HealthState.RECOVERING"
    and nrec: "\<not> dv_inRecovery (fst (d, s))"
    and run: "applyTransitionLocked HealthState.RECOVERING l x (d, s) = (r, c')"
  have anch: "anchored (d, s)" using st by (simp add: settled_def)
  have ne: "dv_state d \<noteq> HealthState.RECOVERING" using legal by auto
  show "if r = None then recovery_ready c' else settled c'"
  proof (cases "gen_next (dv_healthGeneration d)")
    case (Inl e)
    then have "gen_max (dv_healthGeneration d)" by (rule gen_next_max)
    then show ?thesis
      using Inl run legal ne by (auto simp: applyTransition_eq intro!: anchored_max anchored_same [OF anch])
  next
    case (Inr g)
    note g = gen_next_unat [OF Inr]
    have "anchored c'"
      using Inr run legal ne by (auto simp: applyTransition_eq intro!: anchored_hg [OF anch Inr])
    moreover have "0 < unat (gen_get (dv_healthGeneration d))"
      using anch by (simp add: anchored_def unat_gt_0 word_greater_zero_iff)
    ultimately show ?thesis
      using anch Inr run legal ne g nrec
      by (auto simp: applyTransition_eq recovery_ready_def lagging_def anchored_def active_states_def
          store_targets_def word_less_nat_alt)
  qed
qed

lemma install_recovery_lagging: "triple (\<lambda>c. recovery_ready c \<and> dv_inRecovery (fst c)) install_recovery lagging settled"
proof (rule tripleI, elim conjE)
  fix d s r c' assume rdy: "recovery_ready (d, s)" and run: "install_recovery (d, s) = (r, c')"
  have "\<exists>g. (case dv_recovery d of Some r \<Rightarrow> gen_next (rec_generation r) | None \<Rightarrow> Inr (Generation 1)) = Inr g \<and>
      unat (gen_get g) < unat (gen_get (dv_healthGeneration d))"
  proof (cases "dv_recovery d")
    case (Some rec)
    then have lt: "unat (gen_get (rec_generation rec)) + 1 < unat (gen_get (dv_healthGeneration d))"
      using rdy by (simp add: recovery_ready_def)
    have "gen_get (rec_generation rec) \<noteq> - 1"
    proof
      assume "gen_get (rec_generation rec) = - 1"
      then have "- 1 < gen_get (dv_healthGeneration d)" using lt by (simp add: word_less_nat_alt)
      then show False by (simp add: word_n1_ge linorder_not_le flip: linorder_not_le)
    qed
    then have "gen_next (rec_generation rec) = Inr (Generation (gen_get (rec_generation rec) + 1))"
      by (simp add: gen_next_def)
    then show ?thesis
      using Some lt gen_next_unat [of "rec_generation rec"] by auto
  qed (use rdy in \<open>simp add: recovery_ready_def\<close>)
  then show "if r = None then lagging c' else settled c'"
    using run rdy by (auto simp: install_recovery_def Let_def clock_now_eq recovery_ready_def lagging_def
        anchored_def word_less_nat_alt)
qed

lemma recovery_settles: "triple settled recovery_body settled settled"
proof (rule tripleI)
  fix d s r c' assume st: "settled (d, s)" and run: "recovery_body (d, s) = (r, c')"
  have 1: "triple recovery_ready (dev_do (\<lambda>d. d\<lparr>dv_inRecovery := True\<rparr>))
      (\<lambda>c. recovery_ready c \<and> dv_inRecovery (fst c)) settled"
    by (rule triple_dev_do) (auto simp: recovery_ready_def lagging_def anchored_def recovery_states_def)
  note all = triple_seq [OF recovery_start triple_seq [OF 1 triple_seq [OF install_recovery_lagging
    triple_last [OF reassess_triple]]], of "''recovery''" "''begin recovery''"]
  show "if r = None then settled c' else settled c'"
  proof (cases "dv_inRecovery d \<or> \<not> canTransition (dv_state d) HealthState.RECOVERING")
    case True
    then show ?thesis using st run by (auto simp: recovery_body_def simp del: run_ops.simps split: if_splits)
  next
    case False
    then show ?thesis
      using tripleE [OF all, of "(d, s)" r c'] st run by (simp add: recovery_body_def del: run_ops.simps)
  qed
qed

lemma completion_lagging: "triple (\<lambda>c. lagging c \<and> dv_state (fst c) = HealthState.REVALIDATING)
    (run_ops [applyTransitionLocked HealthState.HEALTHY l x, dev_do (\<lambda>d. d\<lparr>dv_inRecovery := False\<rparr>), complete_recovery])
    lagging settled"
proof -
  have 1: "triple (\<lambda>c. lagging c \<and> dv_state (fst c) = HealthState.REVALIDATING) (applyTransitionLocked HealthState.HEALTHY l x)
      (\<lambda>c. anchored c \<and> dv_state (fst c) = HealthState.HEALTHY) settled"
    by (rule triple_pre [OF transition_anchored]) (auto simp: lagging_def)
  have 2: "triple (\<lambda>c. anchored c \<and> dv_state (fst c) = HealthState.HEALTHY) (dev_do (\<lambda>d. d\<lparr>dv_inRecovery := False\<rparr>)) lagging settled"
    by (rule triple_dev_do) (auto simp: lagging_def anchored_def active_states_def store_targets_def)
  have 3: "triple lagging complete_recovery lagging settled"
    by (rule tripleI) (auto simp: complete_recovery_def clock_now_eq lagging_def anchored_def split: option.splits)
  show ?thesis
    by (rule triple_seq [OF 1 triple_seq [OF 2 triple_last [OF 3]]])
qed

lemma passed_lagging: "triple lagging recovery_passed lagging settled"
proof -
  have 1: "triple lagging (op_when (\<lambda>(d, _). dv_state d = HealthState.RECOVERING \<and> canTransition (dv_state d) HealthState.REVALIDATING)
      (applyTransitionLocked HealthState.REVALIDATING ''revalidate'' ''enter revalidation'')) lagging settled"
    by (rule triple_when [OF triple_pre [OF triple_post [OF transition_triple [where F = "\<lambda>_ _. True"]]]])
      (auto simp: store_targets_def recovery_states_def)
  have 2: "triple lagging (dev_do count_success) lagging settled"
    by (rule triple_dev_do) (auto simp: count_success_def lagging_def anchored_def split: option.splits)
  have 3: "triple lagging (op_when (\<lambda>(d, s). recovery_done d (hs_policy s))
      (run_ops [applyTransitionLocked HealthState.HEALTHY ''recovery'' ''revalidated'',
         dev_do (\<lambda>d. d\<lparr>dv_inRecovery := False\<rparr>), complete_recovery])) lagging settled"
    by (rule triple_when [OF triple_pre [OF completion_lagging]]) (auto simp: recovery_done_def)
  show ?thesis
    unfolding recovery_passed_def by (rule triple_seq [OF 1 triple_seq [OF 2 triple_last [OF 3]]])
qed

lemma failed_lagging: "triple lagging recovery_failed lagging settled"
  unfolding recovery_failed_def by (rule triple_when [OF triple_pre [OF quarantine_transition]]) auto

lemma revalidate_settles: "triple settled (revalidate_body v) settled settled"
proof -
  have 1: "triple settled (dev_do (validate_device v)) lagging settled"
    by (rule triple_dev_do, erule lagging_same [OF settled_lagging]) simp_all
  have 2: "triple lagging (op_when (\<lambda>(d, _). dv_inRecovery d) (if v_passed v then recovery_passed else recovery_failed)) lagging settled"
    by (rule triple_when [OF triple_pre [of lagging]]) (auto simp: passed_lagging failed_lagging)
  show ?thesis
    unfolding revalidate_body_def by (rule triple_seq [OF 1 triple_seq [OF 2 triple_last [OF reassess_triple]]])
qed

text \<open>Every transaction, returning or throwing, leaves the device settled.\<close>

lemma txn_settles: "txn_step k c c' \<Longrightarrow> settled c \<Longrightarrow> settled c'"
proof (induction rule: txn_step.induct)
  case (reassess c)
  then show ?case using tripleD [OF triple_pre [OF reassess_triple settled_lagging]] by blast
next
  case (policy c)
  then show ?case
    by (auto simp: dev_do_def settled_def anchored_def fit_def quarantine_active_def)
qed (use tripleD invalidate_settles lost_settles observe_settles fault_settles validation_settles
     quarantine_settles clear_settles recovery_settles revalidate_settles in blast)+

text \<open>The stored assessment and the stored readiness agree at all times.\<close>

definition agrees :: "Device \<Rightarrow> bool" where
  "agrees d \<longleftrightarrow> a_readiness (dv_latestAssessment d) = dv_readiness d \<and>
     (a_executionReady (dv_latestAssessment d) \<longleftrightarrow> dv_readiness d \<in> ready_states)"

lemma finish_agrees: "agrees (finish_device n p g a b d)"
  using readiness_state_ready [of "device_readiness_input d p n"]
  by (simp add: agrees_def device_readiness_simps ready_states_def)

interpretation agreement: txn_relation "\<lambda>c c'. agrees (fst c) \<longrightarrow> agrees (fst c')" k for k
  by unfold_locales
    (auto simp: keeps_def reassess_finish_def Let_def finish_agrees install_quarantine_eq applyTransition_eq
      split: sum.splits, auto simp: agrees_def)

end
