(* ===== verification/StoreRuns.thy ===== *)
theory StoreRuns
  imports Settled
begin

text \<open>
  Runs of the store: every public method as a step, in any order and with any arguments, the two
  critical sections of \<open>setPolicy\<close> as separate steps (other threads may run between them).  Each step
  refines to a sequence of \<open>micro\<close> steps: a transaction on one tracked device, the registration of a
  device, or a change of the store's own bookkeeping; invariants are proved by induction over those.

  The parameter \<open>ok\<close> restricts which uuids are registered: \<open>any_uuid\<close> is the full program,
  \<open>real_uuid\<close> excludes the null uuid, for which \<open>registerDevice\<close> makes up an id.
\<close>

section \<open>Steps\<close>

inductive store_step :: "(DeviceUuid \<Rightarrow> bool) \<Rightarrow> HealthStore \<Rightarrow> HealthStore \<Rightarrow> bool" for ok where
  installPolicy: "store_step ok s (snd (installPolicy policy s))"
| reassessAll: "store_step ok s (snd (reassessAll s))"
| reassess: "store_step ok s (snd (reassess i s))"
| rollCoordinatorEpoch: "store_step ok s (rollCoordinatorEpoch s)"
| setCoordinatorEpoch: "store_step ok s (setCoordinatorEpoch e s)"
| registerWorker: "store_step ok s (registerWorker worker boot s)"
| invalidateWorker: "store_step ok s (snd (invalidateWorker worker boot s))"
| registerDevice: "ok uuid \<Longrightarrow> store_step ok s (snd (registerDevice uuid node s))"
| markLost: "store_step ok s (snd (markLost i reason s))"
| acceptObservation: "store_step ok s (snd (acceptObservation obs env s))"
| recordFault: "store_step ok s (snd (recordFault f s))"
| recordValidation: "store_step ok s (snd (recordValidation v s))"
| beginQuarantine: "store_step ok s (snd (beginQuarantine i authority reason by s))"
| clearQuarantine: "store_step ok s (snd (clearQuarantine i s))"
| beginRecovery: "store_step ok s (snd (beginRecovery i s))"
| revalidate: "store_step ok s (snd (revalidate i v s))"
| accounting: "store_step ok s (snd (accounting s))"
| clock: "store_step ok s (snd (clock_now s))"

definition any_uuid :: "DeviceUuid \<Rightarrow> bool" where
  "any_uuid u \<longleftrightarrow> True"

definition real_uuid :: "DeviceUuid \<Rightarrow> bool" where
  "real_uuid u \<longleftrightarrow> id_get u \<noteq> 0"

definition store_run :: "(DeviceUuid \<Rightarrow> bool) \<Rightarrow> HealthStore \<Rightarrow> HealthStore \<Rightarrow> bool" where
  "store_run ok = (store_step ok)\<^sup>*\<^sup>*"

definition reachable :: "(DeviceUuid \<Rightarrow> bool) \<Rightarrow> HealthStore \<Rightarrow> bool" where
  "reachable ok s \<longleftrightarrow> (\<exists>clock policy epoch. store_run ok (HealthStore_new clock policy epoch) s)"

section \<open>Micro steps\<close>

definition same_books :: "HealthStore \<Rightarrow> HealthStore \<Rightarrow> bool" where
  "same_books s s' \<longleftrightarrow> hs_devices s' = hs_devices s \<and> hs_uuidIndex s' = hs_uuidIndex s \<and>
     hs_stateIndex s' = hs_stateIndex s \<and> hs_readinessIndex s' = hs_readinessIndex s \<and>
     hs_faultIndex s' = hs_faultIndex s \<and> hs_quarantineIndex s' = hs_quarantineIndex s \<and>
     hs_lastObservedGeneration s' = hs_lastObservedGeneration s \<and>
     hs_globalFaults s' = hs_globalFaults s \<and> hs_globalChanges s' = hs_globalChanges s"

inductive micro :: "(DeviceUuid \<Rightarrow> bool) \<Rightarrow> HealthStore \<Rightarrow> HealthStore \<Rightarrow> bool" for ok where
  books: "same_books s s' \<Longrightarrow> micro ok s s'"
| txn: "findLocked k s = Some d \<Longrightarrow> txn_step k (d, s) c \<Longrightarrow> micro ok s (put_device k c)"
| register: "ok uuid \<Longrightarrow> smap_find uuid (hs_uuidIndex s) = None \<Longrightarrow> micro ok s (snd (registerDevice uuid node s))"

lemma on_device_micro:
  "(\<And>d. txn_step k (d, s) (snd (body (d, s)))) \<Longrightarrow> (micro ok)\<^sup>*\<^sup>* s (snd (on_device k miss body s))"
  by (auto simp: on_device_def split: option.splits prod.splits)
    (metis micro.txn r_into_rtranclp snd_conv)

lemma for_devices_micro:
  "(\<And>k c. txn_step k c (snd (body c))) \<Longrightarrow> (micro ok)\<^sup>*\<^sup>* s (snd (for_devices ks body s))"
proof (induction ks arbitrary: s)
  case (Cons k ks)
  obtain r s' where od: "on_device k None body s = (r, s')" by (cases "on_device k None body s")
  have 1: "(micro ok)\<^sup>*\<^sup>* s s'"
    using on_device_micro [of k s body ok None] Cons.prems od by simp
  show ?case
    using 1 Cons.IH [OF Cons.prems, of s'] by (cases r) (simp_all add: od rtranclp_trans)
qed simp

lemma books_micro: "same_books s s' \<Longrightarrow> (micro ok)\<^sup>*\<^sup>* s s'"
  by (simp add: micro.books r_into_rtranclp)

lemma installPolicy_micro: "(micro ok)\<^sup>*\<^sup>* s (snd (installPolicy p s))"
proof (cases "gen_next (hs_policyGeneration s)")
  case (Inl e)
  then show ?thesis by (auto simp: installPolicy_def Let_def same_books_def intro!: books_micro)
next
  case (Inr g)
  have "(micro ok)\<^sup>*\<^sup>* s (s\<lparr>hs_policy := p, hs_policyGeneration := g\<rparr>)"
    by (rule books_micro) (simp add: same_books_def)
  then show ?thesis
    using Inr for_devices_micro [OF txn_step.policy] by (simp add: installPolicy_def Let_def rtranclp_trans)
qed

lemma invalidateWorker_micro: "(micro ok)\<^sup>*\<^sup>* s (snd (invalidateWorker w b s))"
proof (cases "smap_find w (hs_workerBootRegistry s) = Some b")
  case True
  obtain r s' where fd: "for_devices (smap_keys (hs_devices s)) (invalidate_device w b) s = (r, s')"
    by (cases "for_devices (smap_keys (hs_devices s)) (invalidate_device w b) s")
  then have 1: "(micro ok)\<^sup>*\<^sup>* s s'"
    using for_devices_micro [of "invalidate_device w b" ok s "smap_keys (hs_devices s)"] txn_step.invalidate by simp
  have "(micro ok)\<^sup>*\<^sup>* s' (s'\<lparr>hs_workerBootRegistry := x\<rparr>)" for x
    by (rule books_micro) (simp add: same_books_def)
  then show ?thesis
    using True 1 by (cases r) (auto simp: invalidateWorker_def fd intro: rtranclp_trans)
qed (simp add: invalidateWorker_def)

lemma acceptObservation_micro: "(micro ok)\<^sup>*\<^sup>* s (snd (acceptObservation obs env s))"
proof (cases "findLocked (obs_accelerator obs) s")
  case (Some d)
  let ?k = "obs_accelerator obs"
  have "(micro ok)\<^sup>*\<^sup>* s (put_device ?k (snd (observe_body obs env (d, s))))"
    if "\<not> stale_generation env s" "\<not> gen_get (env_deviceGeneration env) < gen_get (dv_generation d)"
    by (rule r_into_rtranclp, rule micro.txn [OF Some], rule txn_step.observe)
      (use that in \<open>auto simp: less_eq_Generation_def\<close>)
  then show ?thesis
    using Some by (auto simp: acceptObservation_def split: option.splits prod.splits)
qed (simp add: acceptObservation_def)

lemma revalidate_micro: "(micro ok)\<^sup>*\<^sup>* s (snd (Store.revalidate i v s))"
proof (cases "findLocked i s")
  case (Some d)
  have "(micro ok)\<^sup>*\<^sup>* s (put_device i (snd (revalidate_body v (d, s))))"
    by (rule r_into_rtranclp, rule micro.txn [OF Some], rule txn_step.revalidate)
  then show ?thesis
    using Some by (auto simp: revalidate_def split: option.splits prod.splits)
qed (simp add: revalidate_def)

lemma accounting_books: "same_books s (snd (foldl account_stale (a, s) ds))"
proof (induction ds arbitrary: a s)
  case (Cons x ds)
  obtain a' s' where e: "account_stale (a, s) x = (a', s')" by (cases "account_stale (a, s) x")
  then have "same_books s s'"
    by (auto simp: account_stale_def clock_now_eq same_books_def split: if_splits)
  then show ?case
    using Cons.IH [of s' a'] e by (simp add: same_books_def)
qed (simp add: same_books_def)

lemma registerDevice_micro: "ok uuid \<Longrightarrow> (micro ok)\<^sup>*\<^sup>* s (snd (registerDevice uuid node s))"
  by (cases "smap_find uuid (hs_uuidIndex s)")
    (auto intro: micro.register, simp add: registerDevice_def)

text \<open>Refinement: every method is a sequence of micro steps.\<close>

lemma store_step_micro: "store_step ok s s' \<Longrightarrow> (micro ok)\<^sup>*\<^sup>* s s'"
proof (induction rule: store_step.induct)
  case (accounting s)
  then show ?case
    by (simp add: accounting_def recomputeAccounting_def Let_def books_micro accounting_books)
next
  case (clock s)
  then show ?case
    by (intro books_micro) (simp add: clock_now_eq same_books_def)
qed (unfold reassessAll_def reassess_def markLost_def recordFault_def recordValidation_def beginQuarantine_def
     clearQuarantine_def beginRecovery_def,
     (intro installPolicy_micro invalidateWorker_micro acceptObservation_micro revalidate_micro
       registerDevice_micro on_device_micro for_devices_micro txn_step.intros refl; assumption?
      | (rule books_micro,
         simp add: same_books_def rollCoordinatorEpoch_def setCoordinatorEpoch_def registerWorker_def))+)

lemma store_run_micro: "store_run ok s s' \<Longrightarrow> (micro ok)\<^sup>*\<^sup>* s s'"
  unfolding store_run_def
  by (induction rule: rtranclp_induct) (auto intro: rtranclp_trans store_step_micro)

lemma micro_run_induct [consumes 1, case_names refl step]:
  assumes "store_run ok s s'" "P s" "\<And>t t'. P t \<Longrightarrow> micro ok t t' \<Longrightarrow> P t'"
  shows "P s'"
  using store_run_micro [OF assms(1)] by (induction rule: rtranclp_induct) (use assms in blast)+

section \<open>Transactions and the other devices\<close>

definition idx_apart :: "AcceleratorId \<Rightarrow> dctx \<Rightarrow> dctx \<Rightarrow> bool" where
  "idx_apart k c c' \<longleftrightarrow> (dv_id (fst c) = k \<and> smap_wf (hs_stateIndex (snd c)) \<and> smap_wf (hs_readinessIndex (snd c)) \<longrightarrow>
     dv_id (fst c') = k \<and> smap_wf (hs_stateIndex (snd c')) \<and> smap_wf (hs_readinessIndex (snd c')) \<and>
     idx_others k (snd c) (snd c'))"

lemma idx_apart_cong:
  assumes "dv_id d' = dv_id d" "hs_stateIndex s' = hs_stateIndex s" "hs_readinessIndex s' = hs_readinessIndex s"
    "hs_faultIndex s' = hs_faultIndex s" "hs_quarantineIndex s' = hs_quarantineIndex s"
  shows "idx_apart k (d, s) (d', s')"
  using assms by (simp add: idx_apart_def idx_others_def)

lemma idx_apart_finish: "keeps (idx_apart k) (reassess_finish now desired b)"
  by (rule keepsI)
    (auto simp: idx_apart_def idx_others_def reassess_finish_def Let_def idx_wf_insert idx_wf_erase_first
      filed_insert filed_erase_first_other)

lemma idx_apart_transition: "keeps (idx_apart k) (applyTransitionLocked to l x)"
  by (rule keepsI, simp add: applyTransition_eq split: sum.split)
    (intro allI impI conjI idx_apart_cong; simp)

lemma idx_apart_refl: "idx_apart k c c"
  by (simp add: idx_apart_def idx_others_def)

lemma idx_apart_trans: "idx_apart k a b \<Longrightarrow> idx_apart k b c \<Longrightarrow> idx_apart k a c"
  by (auto simp: idx_apart_def idx_others_def)

lemma idx_apart_fault: "idx_apart k (d, s) (d\<lparr>dv_faults := h\<rparr>,
    s\<lparr>hs_faultIndex := idx_insert t k (hs_faultIndex s), hs_globalFaults := g\<rparr>)"
  by (auto simp: idx_apart_def idx_others_def filed_insert)

lemma idx_apart_quarantine: "keeps (idx_apart k) (install_quarantine k a r b)"
  by (rule keepsI) (auto simp: install_quarantine_eq idx_apart_def idx_others_def)

lemma idx_apart_release: "idx_apart k (d, s) (d\<lparr>dv_quarantine := q\<rparr>,
    s\<lparr>hs_quarantineIndex := sset_erase k (hs_quarantineIndex s)\<rparr>)"
  by (auto simp: idx_apart_def idx_others_def)

interpretation apart: txn_relation "idx_apart k" k for k
  by (unfold_locales; (rule idx_apart_refl idx_apart_transition idx_apart_finish idx_apart_quarantine
      idx_apart_fault idx_apart_release | erule (1) idx_apart_trans | (rule idx_apart_cong; simp)))

lemma put_device_simps [simp]:
  "hs_stateIndex (put_device k c) = hs_stateIndex (snd c)" "hs_readinessIndex (put_device k c) = hs_readinessIndex (snd c)"
  "hs_faultIndex (put_device k c) = hs_faultIndex (snd c)" "hs_quarantineIndex (put_device k c) = hs_quarantineIndex (snd c)"
  "hs_uuidIndex (put_device k c) = hs_uuidIndex (snd c)" "hs_devices (put_device k c) = smap_put k (fst c) (hs_devices (snd c))"
  "hs_lastObservedGeneration (put_device k c) = hs_lastObservedGeneration (snd c)"
  "hs_globalFaults (put_device k c) = hs_globalFaults (snd c)" "hs_globalChanges (put_device k c) = hs_globalChanges (snd c)"
  "hs_policy (put_device k c) = hs_policy (snd c)" "hs_workerBootRegistry (put_device k c) = hs_workerBootRegistry (snd c)"
  by (simp_all add: put_device_def)

lemma txn_devices:
  assumes "txn_step k (d, s) c"
  shows "findLocked j (put_device k c) = (if j = k then Some (fst c) else findLocked j s)"
    and "smap_wf (hs_devices s) \<Longrightarrow> smap_wf (hs_devices (put_device k c))"
  using frame.txn_step_keeps [OF assms] by (auto simp: findLocked_def store_frame_def smap_find_put smap_wf_put)

section \<open>The invariant of all runs\<close>

definition device_ok :: "HealthStore \<Rightarrow> AcceleratorId \<Rightarrow> Device \<Rightarrow> bool" where
  "device_ok s k d \<longleftrightarrow> dv_id d = k \<and> audited d \<and> agrees d \<and> settled (d, s)"

definition store_inv :: "HealthStore \<Rightarrow> bool" where
  "store_inv s \<longleftrightarrow> smap_wf (hs_devices s) \<and> smap_wf (hs_stateIndex s) \<and> smap_wf (hs_readinessIndex s) \<and>
     (\<forall>k. findLocked k s = None \<longrightarrow> filed (hs_stateIndex s) k = {}) \<and>
     (\<forall>k d. findLocked k s = Some d \<longrightarrow> device_ok s k d)"

lemma settled_other: "settled (d, s) \<Longrightarrow> dv_id d = j \<Longrightarrow> smap_wf (hs_stateIndex s') \<Longrightarrow>
    filed (hs_stateIndex s') j = filed (hs_stateIndex s) j \<Longrightarrow> settled (d, s')"
  by (simp add: settled_def anchored_def)

lemma settled_put: "settled c \<Longrightarrow> settled (fst c, put_device k c)"
  by (simp add: settled_def anchored_def)

lemma store_inv_txn:
  assumes inv: "store_inv s" and d: "findLocked k s = Some d" and step: "txn_step k (d, s) c"
  shows "store_inv (put_device k c)"
proof -
  have dok: "device_ok s k d" and wf: "smap_wf (hs_devices s)" "smap_wf (hs_stateIndex s)" "smap_wf (hs_readinessIndex s)"
    using inv d by (auto simp: store_inv_def)
  then have apart: "dv_id (fst c) = k" "smap_wf (hs_stateIndex (snd c))" "smap_wf (hs_readinessIndex (snd c))"
    "idx_others k s (snd c)"
    using apart.txn_step_keeps [OF step] by (auto simp: idx_apart_def device_ok_def)
  have "device_ok (put_device k c) k (fst c)"
    using dok apart audit.txn_step_keeps [OF step] agreement.txn_step_keeps [OF step] txn_settles [OF step]
    by (simp add: device_ok_def settled_put)
  moreover have "device_ok (put_device k c) j d'" if "j \<noteq> k" "findLocked j s = Some d'" for j d'
    using that inv apart by (auto simp: device_ok_def store_inv_def idx_others_def intro: settled_other [of d' s j])
  moreover have "filed (hs_stateIndex (put_device k c)) j = {}" if "j \<noteq> k" "findLocked j s = None" for j
    using that inv apart(4) by (simp add: store_inv_def idx_others_def)
  ultimately show ?thesis
    using apart wf txn_devices [OF step] by (auto simp: store_inv_def)
qed

definition register_id :: "DeviceUuid \<Rightarrow> HealthStore \<Rightarrow> AcceleratorId" where
  "register_id uuid s = (if id_get uuid \<noteq> 0 then StrongId (id_get uuid) else StrongId (hs_nextDeviceRaw s))"

lemma registerDevice_new:
  assumes "smap_find uuid (hs_uuidIndex s) = None"
  shows "fst (registerDevice uuid node s) = register_id uuid s"
    and "findLocked j (snd (registerDevice uuid node s)) =
      (if j = register_id uuid s then Some (new_device j uuid node (reading s)) else findLocked j s)"
    and "hs_stateIndex (snd (registerDevice uuid node s)) =
      idx_insert HealthState.INITIALIZING (register_id uuid s) (idx_erase_first (register_id uuid s) (hs_stateIndex s))"
    and "hs_readinessIndex (snd (registerDevice uuid node s)) =
      idx_insert ReadinessState.UNKNOWN (register_id uuid s) (idx_erase_first (register_id uuid s) (hs_readinessIndex s))"
    and "hs_devices (snd (registerDevice uuid node s)) =
      smap_put (register_id uuid s) (new_device (register_id uuid s) uuid node (reading s)) (hs_devices s)"
    and "hs_uuidIndex (snd (registerDevice uuid node s)) = smap_put uuid (register_id uuid s) (hs_uuidIndex s)"
    and "hs_faultIndex (snd (registerDevice uuid node s)) = hs_faultIndex s"
    and "hs_quarantineIndex (snd (registerDevice uuid node s)) = hs_quarantineIndex s"
    and "hs_lastObservedGeneration (snd (registerDevice uuid node s)) = hs_lastObservedGeneration s"
    and "hs_globalFaults (snd (registerDevice uuid node s)) = hs_globalFaults s"
    and "hs_globalChanges (snd (registerDevice uuid node s)) = hs_globalChanges s"
  using assms
  by (auto simp: registerDevice_def register_id_def clock_now_eq Let_def updateIndexesLocked_def findLocked_def
      smap_find_put new_device_def default_Device_def reading_def)

lemma new_device_ok: "audited (new_device i u n t)" "agrees (new_device i u n t)" "dv_id (new_device i u n t) = i"
  by (auto simp: audited_def agrees_def new_device_def default_Device_def default_HealthAssessment_def ready_states_def)

lemma refile_register:
  assumes "smap_wf idx" "\<exists>k'. filed idx x \<subseteq> {k'}"
  shows "filed (idx_insert k x (idx_erase_first x idx)) y = (if y = x then {k} else filed idx y)"
  using assms filed_erase_first [OF assms(1), of x] filed_erase_first_other [OF assms(1)]
  by (auto simp: filed_insert)

lemma store_inv_register:
  assumes inv: "store_inv s" and new: "smap_find uuid (hs_uuidIndex s) = None"
  shows "store_inv (snd (registerDevice uuid node s))"
proof -
  let ?s = "snd (registerDevice uuid node s)" and ?i = "register_id uuid s"
  note reg = registerDevice_new [OF new, where node = node]
  have "\<exists>st. filed (hs_stateIndex s) ?i \<subseteq> {st}"
  proof (cases "findLocked ?i s")
    case None
    then show ?thesis using inv by (simp add: store_inv_def)
  next
    case (Some d)
    then have "dv_id d = ?i" "anchored (d, s)"
      using inv by (auto simp: store_inv_def device_ok_def settled_def)
    then show ?thesis by (auto simp: anchored_def)
  qed
  then have filed: "filed (hs_stateIndex ?s) y = (if y = ?i then {HealthState.INITIALIZING} else filed (hs_stateIndex s) y)" for y
    unfolding reg(3) using inv by (intro refile_register) (simp_all add: store_inv_def)
  have wf: "smap_wf (hs_devices ?s)" "smap_wf (hs_stateIndex ?s)" "smap_wf (hs_readinessIndex ?s)"
    using inv by (simp_all add: reg store_inv_def smap_wf_put idx_wf_insert idx_wf_erase_first)
  have "settled (new_device ?i uuid node (reading s), ?s)"
    using filed [of ?i] wf
    by (auto simp: settled_def anchored_def new_device_def default_Device_def active_states_def ready_states_def quarantine_active_def)
  then have "device_ok ?s ?i (new_device ?i uuid node (reading s))"
    by (simp add: device_ok_def new_device_ok)
  moreover have "device_ok ?s j d" if "j \<noteq> ?i" "findLocked j s = Some d" for j d
    using that inv wf filed [of j] by (auto simp: store_inv_def device_ok_def intro: settled_other [of d s j])
  ultimately show ?thesis
    using wf inv filed by (auto simp: store_inv_def reg(2))
qed

lemma store_inv_books: "store_inv s \<Longrightarrow> same_books s s' \<Longrightarrow> store_inv s'"
  by (auto simp: store_inv_def same_books_def device_ok_def findLocked_def intro: settled_other [of _ s])

lemma store_inv_micro: "micro ok s s' \<Longrightarrow> store_inv s \<Longrightarrow> store_inv s'"
  by (induction rule: micro.induct) (auto intro: store_inv_txn store_inv_register store_inv_books)

lemma store_inv_new: "store_inv (HealthStore_new clock policy epoch)"
  by (simp add: store_inv_def HealthStore_new_def findLocked_def filed_def idx_get_def)

lemma store_inv_run: "store_run ok s s' \<Longrightarrow> store_inv s \<Longrightarrow> store_inv s'"
  by (induction rule: micro_run_induct) (auto intro: store_inv_micro)

lemma reachable_inv: "reachable ok s \<Longrightarrow> store_inv s"
  unfolding reachable_def using store_inv_run store_inv_new by blast

section \<open>Runs with real uuids\<close>

text \<open>
  Without the null uuid, ids are uuids, so a registration never meets a tracked id, and devices,
  uuid index, readiness index, fault index and quarantine index describe the same set of devices.
\<close>

definition keyed_inv :: "HealthStore \<Rightarrow> bool" where
  "keyed_inv s \<longleftrightarrow> store_inv s \<and>
     (\<forall>k d. findLocked k s = Some d \<longrightarrow> idx_ok d s \<and> id_get (dv_uuid d) = id_get k \<and>
        smap_find (dv_uuid d) (hs_uuidIndex s) = Some k) \<and>
     (\<forall>k. findLocked k s = None \<longrightarrow> filed (hs_readinessIndex s) k = {} \<and> filed (hs_faultIndex s) k = {} \<and>
        k \<notin> set (hs_quarantineIndex s))"

lemma idx_ok_other: "idx_ok d s \<Longrightarrow> dv_id d \<noteq> k \<Longrightarrow> idx_others k s s' \<Longrightarrow> smap_wf (hs_stateIndex s') \<Longrightarrow>
    smap_wf (hs_readinessIndex s') \<Longrightarrow> idx_ok d s'"
  by (simp add: idx_ok_def idx_others_def)

lemma idx_ok_put: "idx_ok d s \<Longrightarrow> idx_ok d (put_device k (d', s))"
  by (simp add: idx_ok_def)

lemma keyed_inv_txn:
  assumes inv: "keyed_inv s" and d: "findLocked k s = Some d" and step: "txn_step k (d, s) c"
  shows "keyed_inv (put_device k c)"
proof -
  have sinv: "store_inv s" and dok: "dv_id d = k" "idx_ok d s"
    and uu: "id_get (dv_uuid d) = id_get k" "smap_find (dv_uuid d) (hs_uuidIndex s) = Some k"
    using inv d by (auto simp: keyed_inv_def store_inv_def device_ok_def)
  then have c: "dv_id (fst c) = k" "idx_ok (fst c) (snd c)" "idx_others k s (snd c)"
    using follows.txn_step_keeps [OF step] by (simp_all add: idx_follows_def)
  then have wf: "smap_wf (hs_stateIndex (snd c))" "smap_wf (hs_readinessIndex (snd c))"
    by (simp_all add: idx_ok_def)
  have le: "dev_le d (fst c)" using life.txn_step_keeps [OF step] by simp
  have ui: "hs_uuidIndex (snd c) = hs_uuidIndex s"
    using frame.txn_step_keeps [OF step] by (simp add: store_frame_def)
  have oth: "idx_others k s (put_device k c)"
    using c(3) by (simp add: idx_others_def)
  have "idx_ok (fst c) (put_device k c)"
    using idx_ok_put [OF c(2), of k "fst c"] by simp
  moreover have "idx_ok d' (put_device k c)" if "j \<noteq> k" "findLocked j s = Some d'" for j d'
    using that inv oth wf by (intro idx_ok_other [OF _ _ oth]) (auto simp: keyed_inv_def store_inv_def device_ok_def)
  moreover have "store_inv (put_device k c)" using store_inv_txn [OF sinv d step] .
  ultimately show ?thesis
    using inv oth uu le ui txn_devices(1) [OF step] unfolding keyed_inv_def idx_others_def
    by (simp add: dev_le_def)
qed

lemma register_fresh: "keyed_inv s \<Longrightarrow> real_uuid uuid \<Longrightarrow> smap_find uuid (hs_uuidIndex s) = None \<Longrightarrow>
    findLocked (register_id uuid s) s = None"
proof (rule ccontr)
  assume inv: "keyed_inv s" and r: "real_uuid uuid" and new: "smap_find uuid (hs_uuidIndex s) = None"
    and "findLocked (register_id uuid s) s \<noteq> None"
  then obtain d where d: "findLocked (StrongId (id_get uuid)) s = Some d"
    by (auto simp: register_id_def real_uuid_def)
  then have "id_get (dv_uuid d) = id_get uuid" "smap_find (dv_uuid d) (hs_uuidIndex s) \<noteq> None"
    using inv by (auto simp: keyed_inv_def)
  then show False
    using new by (metis StrongId.expand)
qed

lemma keyed_inv_register:
  assumes inv: "keyed_inv s" and r: "real_uuid uuid" and new: "smap_find uuid (hs_uuidIndex s) = None"
  shows "keyed_inv (snd (registerDevice uuid node s))"
proof -
  let ?s = "snd (registerDevice uuid node s)" and ?i = "register_id uuid s"
  note reg = registerDevice_new [OF new, where node = node]
  have fresh: "findLocked ?i s = None" by (rule register_fresh [OF inv r new])
  have sinv: "store_inv s" and sinv': "store_inv ?s"
    using inv store_inv_register [OF _ new] by (auto simp: keyed_inv_def)
  have e: "filed (hs_stateIndex s) ?i = {}" "filed (hs_readinessIndex s) ?i = {}" "filed (hs_faultIndex s) ?i = {}"
    "?i \<notin> set (hs_quarantineIndex s)"
    using inv fresh by (auto simp: keyed_inv_def store_inv_def)
  have filed: "filed (hs_stateIndex ?s) y = (if y = ?i then {HealthState.INITIALIZING} else filed (hs_stateIndex s) y)"
    "filed (hs_readinessIndex ?s) y = (if y = ?i then {ReadinessState.UNKNOWN} else filed (hs_readinessIndex s) y)" for y
    unfolding reg using sinv e by (intro refile_register; simp add: store_inv_def)+
  have wf: "smap_wf (hs_stateIndex ?s)" "smap_wf (hs_readinessIndex ?s)"
    using sinv' by (simp_all add: store_inv_def)
  have oth: "idx_others ?i s ?s"
    using filed by (simp add: idx_others_def reg)
  have new_ok: "idx_ok (new_device ?i uuid node (reading s)) ?s"
    using e filed wf by (simp add: idx_ok_def reg new_device_def default_Device_def fault_types_def quarantine_active_def)
  have old_ok: "idx_ok d ?s" if "j \<noteq> ?i" "findLocked j s = Some d" for j d
    using that inv wf by (intro idx_ok_other [OF _ _ oth]) (auto simp: keyed_inv_def store_inv_def device_ok_def)
  have "idx_ok d ?s \<and> id_get (dv_uuid d) = id_get k \<and> smap_find (dv_uuid d) (hs_uuidIndex ?s) = Some k"
    if "findLocked k ?s = Some d" for k d
  proof (cases "k = ?i")
    case True
    then have "d = new_device ?i uuid node (reading s)" using that by (simp add: reg(2))
    moreover have "dv_uuid (new_device ?i uuid node (reading s)) = uuid" "id_get uuid = id_get ?i"
      using r by (simp_all add: new_device_def register_id_def real_uuid_def)
    ultimately show ?thesis
      using new_ok True by (simp add: reg(6) smap_find_put)
  next
    case False
    then have old: "findLocked k s = Some d" using that by (simp add: reg(2))
    then have "smap_find (dv_uuid d) (hs_uuidIndex s) = Some k" "id_get (dv_uuid d) = id_get k"
      using inv by (auto simp: keyed_inv_def)
    moreover from this have "dv_uuid d \<noteq> uuid" using new by auto
    ultimately show ?thesis
      using old_ok [OF False old] by (simp add: reg(6) smap_find_put)
  qed
  moreover have "filed (hs_readinessIndex ?s) k = {} \<and> filed (hs_faultIndex ?s) k = {} \<and> k \<notin> set (hs_quarantineIndex ?s)"
    if "findLocked k ?s = None" for k
    using that inv filed(2) [of k] by (auto simp: reg(2,7,8) keyed_inv_def split: if_splits)
  ultimately show ?thesis
    using sinv' by (simp add: keyed_inv_def)
qed

lemma keyed_inv_books: "keyed_inv s \<Longrightarrow> same_books s s' \<Longrightarrow> keyed_inv s'"
  using store_inv_books [of s s'] by (simp add: keyed_inv_def same_books_def findLocked_def idx_ok_def)

lemma keyed_inv_micro: "micro real_uuid s s' \<Longrightarrow> keyed_inv s \<Longrightarrow> keyed_inv s'"
  by (induction rule: micro.induct) (auto intro: keyed_inv_txn keyed_inv_register keyed_inv_books)

lemma keyed_inv_new: "keyed_inv (HealthStore_new clock policy epoch)"
  using store_inv_new [of clock policy epoch]
  by (simp add: keyed_inv_def HealthStore_new_def findLocked_def filed_def idx_get_def)

lemma keyed_inv_run: "store_run real_uuid s s' \<Longrightarrow> keyed_inv s \<Longrightarrow> keyed_inv s'"
  by (induction rule: micro_run_induct) (auto intro: keyed_inv_micro)

lemma reachable_keyed: "reachable real_uuid s \<Longrightarrow> keyed_inv s"
  unfolding reachable_def using keyed_inv_run keyed_inv_new by blast

section \<open>Evolution over runs\<close>

lemma dev_le_micro:
  assumes "micro real_uuid s s'" "keyed_inv s" "findLocked k s = Some d"
  shows "\<exists>d'. findLocked k s' = Some d' \<and> dev_le d d'"
  using assms
proof (induction rule: micro.induct)
  case (books s s')
  then show ?case by (auto simp: same_books_def findLocked_def dev_le_refl)
next
  case (txn j s d0 c)
  then show ?case
    using life.txn_step_keeps [OF txn(2)] by (auto simp: txn_devices(1) [OF txn(2)] dev_le_refl)
next
  case (register uuid s node)
  then show ?case
    using register_fresh [of s uuid] by (auto simp: registerDevice_new(2) [OF register(2)] dev_le_refl)
qed

lemma dev_le_run:
  assumes "store_run real_uuid s s'" "keyed_inv s" "findLocked k s = Some d"
  shows "\<exists>d'. findLocked k s' = Some d' \<and> dev_le d d'"
proof -
  from assms(1) have "keyed_inv s' \<and> (\<exists>d'. findLocked k s' = Some d' \<and> dev_le d d')"
  proof (induction rule: micro_run_induct)
    case refl
    then show ?case using assms dev_le_refl by auto
  next
    case (step t t')
    then show ?case
      using keyed_inv_micro dev_le_micro dev_le_trans by meson
  qed
  then show ?thesis by blast
qed

text \<open>Per-worker observation generations only grow, and the global logs only grow, in every run.\<close>

definition log_le :: "HealthStore \<Rightarrow> HealthStore \<Rightarrow> bool" where
  "log_le s s' \<longleftrightarrow> prefix (hs_globalFaults s) (hs_globalFaults s') \<and> prefix (hs_globalChanges s) (hs_globalChanges s') \<and>
     (\<forall>key g. smap_find key (hs_lastObservedGeneration s) = Some g \<longrightarrow>
        (\<exists>g' \<ge> g. smap_find key (hs_lastObservedGeneration s') = Some g'))"

lemma log_le_trans: "log_le a b \<Longrightarrow> log_le b c \<Longrightarrow> log_le a c"
  unfolding log_le_def by (meson order.trans prefix_order.trans)

lemma log_le_micro: "micro ok s s' \<Longrightarrow> log_le s s'"
proof (induction rule: micro.induct)
  case (txn k s d c)
  then show ?case using frame.txn_step_keeps [OF txn(2)] by (simp add: log_le_def store_frame_def)
qed (auto simp: log_le_def same_books_def registerDevice_new)

lemma log_le_run: "store_run ok s s' \<Longrightarrow> log_le s s'"
  by (induction rule: micro_run_induct) (auto simp: log_le_def [of s s] intro: log_le_trans log_le_micro)

end
