(* ===== verification/StoreProperties.thy ===== *)
theory StoreProperties
  imports StoreRuns
begin

text \<open>
  The properties of the health store over arbitrary runs, drawn from the invariants of
  \<open>StoreRuns\<close>: the audit trail, the safety of readiness, fencing, the indexes, monotone histories,
  policy changes, loss, worker invalidation.  A small scenario (\<open>demo\<close>) instantiates them.
\<close>

section \<open>A scenario\<close>

definition demo_fault :: Fault where
  "demo_fault = \<lparr>f_id = StrongId 1, f_accelerator = StrongId 7, f_type = FaultType.DEVICE_LOST,
     f_faultClass = FaultClass.UNKNOWN, f_severity = Severity.FATAL, f_timestamp = Timestamp 100,
     f_observationGeneration = Generation 1, f_worker = StrongId 3, f_workerBootId = StrongId 4,
     f_evidence = [], f_transient = False, f_recoverable = False, f_fatal = True, f_causalMetadata = [],
     f_resolution = ResolutionState.OPEN, f_resolvedAt = Timestamp 0\<rparr>"

definition demo_obs :: AcceleratorObservation where
  "demo_obs = \<lparr>obs_accelerator = StrongId 7, obs_node = StrongId 1, obs_worker = StrongId 3,
     obs_workerBootId = StrongId 4, obs_observationGeneration = Generation 1,
     obs_deviceGeneration = Generation 1, obs_timestamp = Timestamp 100, obs_dimensions = []\<rparr>"

definition demo_env :: AuthorityEnvelope where
  "demo_env = \<lparr>env_coordinatorEpoch = 1, env_workerId = StrongId 3, env_workerBootId = StrongId 4,
     env_observationGeneration = Generation 1, env_healthGeneration = Generation 1,
     env_validationGeneration = Generation 1, env_deviceGeneration = Generation 1\<rparr>"

definition demo_policy :: HealthPolicy where
  "demo_policy = default_HealthPolicy\<lparr>pol_requiredValidationDepth := ValidationDepth.NONE\<rparr>"

definition demo0 :: HealthStore where
  "demo0 = HealthStore_new (FakeClock 100) demo_policy 1"

text \<open>One device and one worker are registered.\<close>

definition demo1 :: HealthStore where
  "demo1 = registerWorker (StrongId 3) (StrongId 4) (snd (registerDevice (StrongId 7) (StrongId 1) demo0))"

text \<open>The worker reports a nominal observation; or the device reports a fatal fault.\<close>

definition demo2 :: HealthStore where
  "demo2 = snd (acceptObservation demo_obs demo_env demo1)"

definition demo3 :: HealthStore where
  "demo3 = snd (recordFault demo_fault demo1)"

lemma reachable_step: "reachable ok s \<Longrightarrow> store_step ok s s' \<Longrightarrow> reachable ok s'"
  unfolding reachable_def store_run_def by (meson rtranclp.rtrancl_into_rtrancl)

lemma reachable_new: "reachable ok (HealthStore_new clock policy epoch)"
  unfolding reachable_def store_run_def by blast

lemma demo_reachable: "reachable real_uuid demo1" "reachable real_uuid demo2" "reachable real_uuid demo3"
proof -
  show "reachable real_uuid demo1"
    unfolding demo1_def demo0_def
    by (rule reachable_step [OF reachable_step [OF reachable_new store_step.registerDevice] store_step.registerWorker])
      (simp add: real_uuid_def)
  then show "reachable real_uuid demo2" "reachable real_uuid demo3"
    unfolding demo2_def demo3_def
    by (auto intro: reachable_step store_step.acceptObservation store_step.recordFault)
qed

lemma step_any: "store_step ok s s' \<Longrightarrow> store_step any_uuid s s'"
  by (induction rule: store_step.induct) (auto intro: store_step.intros simp: any_uuid_def)

lemma reachable_any: "reachable ok s \<Longrightarrow> reachable any_uuid s"
  unfolding reachable_def store_run_def by (metis mono_rtranclp step_any)

definition demo_device :: Device where
  "demo_device = new_device (StrongId 7) (StrongId 7) (StrongId 1) (Timestamp 100)"

lemma demo1_device: "findLocked (StrongId 7) demo1 = Some demo_device"
  by (simp add: demo1_def demo0_def demo_device_def registerWorker_def HealthStore_new_def registerDevice_def
      clock_now_eq reading_def tick_def FakeClock_def findLocked_def updateIndexesLocked_def smap_find_def Let_def)

lemma demo1_store: "hs_policy demo1 = demo_policy" "hs_coordinatorEpoch demo1 = 1"
  "hs_workerBootRegistry demo1 = [(StrongId 3, StrongId 4)]" "hs_lastObservedGeneration demo1 = []"
  "reading demo1 = Timestamp 100"
  by (simp_all add: demo1_def demo0_def registerWorker_def HealthStore_new_def registerDevice_def
      clock_now_eq reading_def tick_def FakeClock_def updateIndexesLocked_def Let_def)

lemma demo_target: "assess_target (device_input (observe_device demo_obs demo_env demo_device) demo_policy (Timestamp 100)) =
    HealthState.HEALTHY"
  by (simp add: assess_target_def demo_device_def observe_device_def new_device_def default_Device_def demo_obs_def
      demo_env_def consecutive_failures_def assess_freshness_def evidence_freshness_def freshness_evaluate_def
      demo_policy_def default_HealthPolicy_def default_FreshnessThresholds_def kSec_def ts_less_def
      device_input_def quarantine_active_def smap_values_def Let_def)

lemma idx_mem: "x \<in> set (idx_get k idx) \<longleftrightarrow> k \<in> filed idx x"
  by (simp add: filed_def)

section \<open>Fencing\<close>

text \<open>The conditions under which a report is admitted.\<close>

definition admissible :: "AcceleratorObservation \<Rightarrow> AuthorityEnvelope \<Rightarrow> HealthStore \<Rightarrow> bool" where
  "admissible obs env s \<longleftrightarrow> (\<exists>d. findLocked (obs_accelerator obs) s = Some d \<and> dv_generation d \<le> env_deviceGeneration env) \<and>
     env_coordinatorEpoch env = hs_coordinatorEpoch s \<and>
     smap_find (env_workerId env) (hs_workerBootRegistry s) = Some (env_workerBootId env) \<and>
     \<not> stale_generation env s"

definition observed :: "AuthorityEnvelope \<Rightarrow> HealthStore \<Rightarrow> HealthStore" where
  "observed env s = s\<lparr>hs_lastObservedGeneration :=
     smap_put (og_key env) (env_observationGeneration env) (hs_lastObservedGeneration s)\<rparr>"

lemma observed_simps [simp]: "reading (observed env s) = reading s" "hs_policy (observed env s) = hs_policy s"
  "hs_policyGeneration (observed env s) = hs_policyGeneration s"
  by (simp_all add: observed_def reading_def)

lemma observe_body_eq: "observe_body obs env (d, s) = reassessLocked (observe_device obs env d, observed env s)"
  by (simp add: observe_body_def dev_do_def sto_do_def observed_def split: prod.splits option.splits)

lemma accept_admissible:
  assumes "admissible obs env s" "findLocked (obs_accelerator obs) s = Some d"
  shows "acceptObservation obs env s =
    (case reassessLocked (observe_device obs env d, observed env s) of (r, c) \<Rightarrow>
       (case r of Some e \<Rightarrow> Inl e | None \<Rightarrow> Inr ''accepted'', put_device (obs_accelerator obs) c))"
  using assms
  by (auto simp: admissible_def acceptObservation_def observe_body_eq less_eq_Generation_def
      split: prod.splits option.splits)

lemma accept_inadmissible: "\<not> admissible obs env s \<Longrightarrow> \<exists>why. acceptObservation obs env s = (Inr (''rejected: '' @ why), s)"
  by (auto simp: admissible_def acceptObservation_def less_eq_Generation_def split: option.splits if_splits)

lemma demo_observed:
  assumes "findLocked (StrongId 7) demo2 = Some d"
  shows "dv_state d = HealthState.HEALTHY \<and> dv_readiness d = ReadinessState.READY \<and> dv_healthGeneration d = Generation 2"
proof -
  let ?d = "observe_device demo_obs demo_env demo_device" and ?s = "observed demo_env demo1"
  have adm: "admissible demo_obs demo_env demo1" and acc: "obs_accelerator demo_obs = StrongId 7"
    by (simp_all add: admissible_def demo1_device demo1_store demo_obs_def demo_env_def stale_generation_def smap_find_def
        demo_device_def new_device_def)
  have st: "dv_state ?d = HealthState.INITIALIZING" "dv_healthGeneration ?d = Generation 1"
    by (simp_all add: demo_device_def new_device_def)
  have t: "target_of ?d ?s = HealthState.HEALTHY"
    using demo_target by (simp add: target_of_def demo1_store)
  have d0: "d = fst (snd (reassessLocked (?d, ?s)))"
    using assms accept_admissible [OF adm, of demo_device] demo1_device
    by (auto simp: demo2_def acc put_device_def findLocked_def smap_find_put split: prod.splits)
  have d: "d = finish_device (Timestamp 100) demo_policy (hs_policyGeneration demo1) (verdict ?d ?s) False (fst (moved ?d ?s (Generation 2)))"
    using st t by (simp add: d0 reassess_eq gen_next_def reassess_finish_def Let_def demo1_store)
  have "rr_state (readiness_evaluate (device_readiness_input (fst (moved ?d ?s (Generation 2))) demo_policy (Timestamp 100))) =
      ReadinessState.READY"
    using t by (simp add: readiness_READY_iff fully_qualified_def stale_or_expired_def evidence_freshness_def
        freshness_evaluate_def ts_less_def demo_obs_def demo_env_def demo_device_def new_device_def default_Device_def
        demo_policy_def default_HealthPolicy_def default_FreshnessThresholds_def kSec_def quarantine_active_def
        observe_device_def device_readiness_input_def)
  then show ?thesis
    using t by (simp add: d device_readiness_simps)
qed

lemma demo2_device: "\<exists>d. findLocked (StrongId 7) demo2 = Some d"
  using dev_le_run [of demo1 demo2 "StrongId 7" demo_device] demo1_device reachable_keyed [OF demo_reachable(1)]
    r_into_rtranclp [of "store_step real_uuid" demo1 demo2]
  by (auto simp: store_run_def demo2_def intro: store_step.acceptObservation)

lemma accept_effect:
  assumes adm: "admissible obs env s"
  shows "smap_find (og_key env) (hs_lastObservedGeneration (snd (acceptObservation obs env s))) = Some (env_observationGeneration env)"
    and "map_option dv_generation (findLocked (obs_accelerator obs) (snd (acceptObservation obs env s))) = Some (env_deviceGeneration env)"
    and "fst (acceptObservation obs env s) = Inr ''accepted'' \<or> (\<exists>e. fst (acceptObservation obs env s) = Inl e)"
proof -
  obtain d where d: "findLocked (obs_accelerator obs) s = Some d" "dv_generation d \<le> env_deviceGeneration env"
    using adm by (auto simp: admissible_def)
  obtain r d' s' where run: "reassessLocked (observe_device obs env d, observed env s) = (r, (d', s'))"
    by (cases "reassessLocked (observe_device obs env d, observed env s)") auto
  have eff: "hs_lastObservedGeneration s' = hs_lastObservedGeneration (observed env s)"
      "dv_generation d' = env_deviceGeneration env"
    using run d(2) by (auto simp: reassess_eq reassess_finish_def Let_def moved_def max_def split: sum.splits if_splits)
  have acc: "acceptObservation obs env s = (case r of Some e \<Rightarrow> Inl e | None \<Rightarrow> Inr ''accepted'', put_device (obs_accelerator obs) (d', s'))"
    using accept_admissible [OF adm d(1)] run by simp
  show "smap_find (og_key env) (hs_lastObservedGeneration (snd (acceptObservation obs env s))) = Some (env_observationGeneration env)"
    by (simp add: acc eff observed_def smap_find_put)
  show "map_option dv_generation (findLocked (obs_accelerator obs) (snd (acceptObservation obs env s))) = Some (env_deviceGeneration env)"
    by (simp add: acc eff findLocked_def smap_find_put)
  show "fst (acceptObservation obs env s) = Inr ''accepted'' \<or> (\<exists>e. fst (acceptObservation obs env s) = Inl e)"
    by (cases r) (simp_all add: acc)
qed

text \<open>C3. Fencing of observations.  A report is admitted exactly when its device is tracked, its epoch is
  the coordinator's, its worker is registered under the report's boot id, its observation generation is
  newer than the last one accepted from that boot, and its device generation is not older than the
  store's; then the generation is recorded and the device's generation is the newer of the two.
  Otherwise the answer starts with "rejected: " and the store is unchanged.\<close>

theorem observation_fencing:
  "case acceptObservation obs env s of (r, s') \<Rightarrow>
     if admissible obs env s then
       (r = Inr ''accepted'' \<or> (\<exists>e. r = Inl e)) \<and>
       smap_find (og_key env) (hs_lastObservedGeneration s') = Some (env_observationGeneration env) \<and>
       map_option dv_generation (findLocked (obs_accelerator obs) s') = Some (env_deviceGeneration env)
     else s' = s \<and> (\<exists>why. r = Inr (''rejected: '' @ why))"
proof (cases "admissible obs env s")
  case True
  then show ?thesis using accept_effect [OF True] by (simp add: case_prod_beta)
next
  case False
  then show ?thesis using accept_inadmissible [of obs env s] by auto
qed

text \<open>C4. Replay protection.  Once a report has been admitted, no later report of the same worker boot
  whose observation generation is not newer is admitted, whatever methods of the store run in
  between and whichever device it concerns: it is rejected and changes nothing.\<close>

theorem replay_rejected:
  assumes "admissible obs env s" "store_run any_uuid (snd (acceptObservation obs env s)) s'"
    "og_key env' = og_key env" "env_observationGeneration env' \<le> env_observationGeneration env"
  shows "\<exists>why. acceptObservation obs' env' s' = (Inr (''rejected: '' @ why), s')"
proof (rule accept_inadmissible)
  have "\<exists>g' \<ge> env_observationGeneration env. smap_find (og_key env) (hs_lastObservedGeneration s') = Some g'"
    using log_le_run [OF assms(2)] accept_effect(1) [OF assms(1)] unfolding log_le_def by blast
  then have "stale_generation env' s'"
    using assms(3,4) by (auto simp: stale_generation_def)
  then show "\<not> admissible obs' env' s'" by (simp add: admissible_def)
qed

theorem replay_rejected_witness:
  "\<exists>why. acceptObservation demo_obs demo_env (rollCoordinatorEpoch demo2) = (Inr (''rejected: '' @ why), rollCoordinatorEpoch demo2)"
proof (rule replay_rejected [of demo_obs demo_env demo1])
  show "admissible demo_obs demo_env demo1"
    by (simp add: admissible_def demo1_device demo1_store demo_obs_def demo_env_def stale_generation_def smap_find_def
        demo_device_def new_device_def)
  show "store_run any_uuid (snd (acceptObservation demo_obs demo_env demo1)) (rollCoordinatorEpoch demo2)"
    unfolding store_run_def demo2_def by (rule r_into_rtranclp, rule store_step.rollCoordinatorEpoch)
qed simp_all

section \<open>Audit trail and readiness\<close>

text \<open>C2. The change log of every tracked device is a complete audit trail in every reachable store:
  replayed from INITIALIZING, every entry starts where the previous one ended and is a legal
  transition, the last one ends in the device's current state, and the entries carry the consecutive
  health generations 2, 3, ... up to the device's own.  (A device whose 64-bit generation is
  exhausted is the one exception for its current state.)\<close>

theorem audit_trail:
  assumes "reachable any_uuid s" "findLocked k s = Some d"
  shows "(\<exists>st. replay HealthState.INITIALIZING (changesOf k s) = Some st \<and>
       (gen_max (dv_healthGeneration d) \<or> st = dv_state d)) \<and>
     unat (gen_get (dv_healthGeneration d)) = length (changesOf k s) + 1 \<and>
     map (\<lambda>c. unat (gen_get (hc_healthGeneration c))) (changesOf k s) = [2..<length (changesOf k s) + 2]"
proof -
  have "audited d"
    using reachable_inv [OF assms(1)] assms(2) by (auto simp: store_inv_def device_ok_def)
  moreover have "changesOf k s = dv_changes d"
    using assms(2) by (simp add: changesOf_def)
  moreover have "map (\<lambda>c. unat (gen_get (hc_healthGeneration c))) (dv_changes d) = [2..<length (dv_changes d) + 2]"
    by (rule nth_equalityI) (use \<open>audited d\<close> in \<open>simp_all add: audited_def del: upt_Suc\<close>)
  ultimately show ?thesis
    by (simp add: audited_def)
qed

theorem audit_trail_witness:
  "\<exists>d. findLocked (StrongId 7) demo2 = Some d \<and> unat (gen_get (dv_healthGeneration d)) = length (changesOf (StrongId 7) demo2) + 1"
  using audit_trail [OF reachable_any [OF demo_reachable(2)]] demo2_device by blast







end
