(* ===== verification/StoreBehaviour.thy ===== *)
theory StoreBehaviour
  imports StoreProperties
begin

text \<open>
  The behaviour of the individual methods of the store: which ones return normally, what a policy
  change, an invalidated worker, a fatal fault, a lost device, a quarantine and a recovery do to the
  devices from then on, and what the accounting counts.
\<close>

section \<open>Methods that return normally\<close>

lemma reassess_returns: "\<not> gen_max (dv_healthGeneration d) \<Longrightarrow> fst (reassessLocked (d, s)) = None"
  by (auto simp: reassess_eq reassess_finish_def Let_def dest: gen_next_max split: sum.splits)

lemma for_devices_returns:
  assumes txn: "\<And>k c. txn_step k c (snd (body c))" and ok: "\<And>d t. P d \<Longrightarrow> fst (body (d, t)) = None"
    and "\<And>k d. k \<in> set ks \<Longrightarrow> findLocked k s = Some d \<Longrightarrow> P d" "distinct ks"
  shows "fst (for_devices ks body s) = None"
  using assms(3,4)
proof (induction ks arbitrary: s)
  case (Cons k ks)
  show ?case
  proof (cases "findLocked k s")
    case None
    have "fst (for_devices ks body s) = None"
      by (rule Cons.IH) (use Cons.prems in auto)
    then show ?thesis using None by (simp add: on_device_def)
  next
    case (Some d)
    obtain c where c: "body (d, s) = (None, c)"
      using ok [of d s] Cons.prems(1) [of k d] Some by (metis eq_fst_iff list.set_intros(1))
    then have "txn_step k (d, s) c" using txn [of k "(d, s)"] by simp
    then have same: "findLocked j (put_device k c) = findLocked j s" if "j \<in> set ks" for j
      using that Cons.prems(2) by (auto simp: txn_devices(1))
    have "fst (for_devices ks body (put_device k c)) = None"
      by (rule Cons.IH) (use Cons.prems same in auto)
    then show ?thesis
      using Some c by (simp add: on_device_def)
  qed
qed simp

lemma for_devices_each:
  assumes txn: "\<And>k c. txn_step k c (snd (body c))" and "for_devices ks body s = (None, s')" "distinct ks"
  shows "if k \<in> set ks then
      (case findLocked k s of None \<Rightarrow> findLocked k s' = None
       | Some d \<Rightarrow> \<exists>t c. body (d, t) = (None, c) \<and> findLocked k s' = Some (fst c) \<and> hs_policy t = hs_policy s)
    else findLocked k s' = findLocked k s"
  using assms(2,3)
proof (induction ks arbitrary: s)
  case (Cons j ks)
  show ?case
  proof (cases "findLocked j s")
    case None
    then have "for_devices ks body s = (None, s')" using Cons.prems by (simp add: on_device_def)
    then show ?thesis using Cons.IH [of s] Cons.prems(2) None by (cases "k = j") auto
  next
    case (Some d)
    obtain r c where c: "body (d, s) = (r, c)" by (cases "body (d, s)")
    then have r: "r = None" and rest: "for_devices ks body (put_device j c) = (None, s')"
      using Cons.prems Some by (auto simp: on_device_def split: option.splits)
    have step: "txn_step j (d, s) c" using txn [of j "(d, s)"] c by simp
    have pol: "hs_policy (put_device j c) = hs_policy s"
      using frame.txn_step_keeps [OF step] by (simp add: store_frame_def)
    note IH = Cons.IH [OF rest]
    show ?thesis
    proof (cases "k = j")
      case True
      then have "findLocked k s' = Some (fst c)"
        using IH Cons.prems(2) by (simp add: txn_devices(1) [OF step])
      moreover have "body (d, s) = (None, c)" using c r by simp
      ultimately show ?thesis using True Some by (simp del: split_paired_Ex) blast
    next
      case False
      then show ?thesis
        using IH Cons.prems(2) pol by (auto simp: txn_devices(1) [OF step] split: option.splits)
    qed
  qed
qed simp

lemma store_keys: "smap_wf (hs_devices s) \<Longrightarrow> distinct (smap_keys (hs_devices s))"
  "findLocked k s \<noteq> None \<longleftrightarrow> k \<in> set (smap_keys (hs_devices s))"
  by (simp_all add: smap.keys_distinct smap_find_keys findLocked_def)

text \<open>Predicates of one device over runs with real uuids.\<close>

lemma device_pred_run:
  assumes "store_run real_uuid s s'" "keyed_inv s" "findLocked k s = Some d" "P d"
    and P: "\<And>c c'. txn_step k c c' \<Longrightarrow> P (fst c) \<Longrightarrow> P (fst c')"
  shows "\<exists>d'. findLocked k s' = Some d' \<and> P d'"
proof -
  have step: "\<exists>d'. findLocked k t' = Some d' \<and> P d'"
    if "micro real_uuid t t'" "keyed_inv t" "findLocked k t = Some d" "P d" for t t' d
    using that
  proof (induction rule: micro.induct)
    case (txn j s d0 c)
    show ?case
    proof (cases "j = k")
      case True
      then have "P (fst c)" using P [of "(d0, s)" c] txn by simp
      then show ?thesis using True txn_devices(1) [OF txn(2), of k] by simp
    qed (use txn in \<open>simp add: txn_devices(1) [OF txn(2)]\<close>)
  next
    case (register uuid s node)
    then show ?case using register_fresh [of s uuid] by (auto simp: registerDevice_new(2) [OF register(2)])
  qed (auto simp: same_books_def findLocked_def)
  from assms(1) have "keyed_inv s' \<and> (\<exists>d'. findLocked k s' = Some d' \<and> P d')"
    by (induction rule: micro_run_induct) (use assms(2-4) keyed_inv_micro step in blast)+
  then show ?thesis by blast
qed

section \<open>Policy changes\<close>

definition policy_stale :: "Device \<Rightarrow> bool" where
  "policy_stale d \<longleftrightarrow> dv_policyGenerationChangedFlag d \<and> dv_readiness d \<noteq> ReadinessState.READY"

lemma flagged_not_READY: "dv_policyGenerationChangedFlag d \<Longrightarrow> fst (device_readiness d p n b) \<noteq> ReadinessState.READY"
  using readiness_READY_iff [of "device_readiness_input d p n"]
  by (auto simp: device_readiness_simps fully_qualified_def)

lemma finish_policy_stale: "dv_policyGenerationChangedFlag d \<Longrightarrow> policy_stale (finish_device n p g a b d)"
  by (simp add: policy_stale_def flagged_not_READY)

interpretation stale_policy: txn_relation "\<lambda>c c'. policy_stale (fst c) \<longrightarrow> policy_stale (fst c')" k for k
proof unfold_locales
  show "keeps (\<lambda>c c'. policy_stale (fst c) \<longrightarrow> policy_stale (fst c')) (reassess_finish n a b)" for n a b
    by (rule keepsI, rule impI) (simp add: reassess_finish_def Let_def policy_stale_def flagged_not_READY)
qed (auto simp: keeps_def install_quarantine_eq applyTransition_eq policy_stale_def split: sum.splits)

lemma reassess_policy_stale: "dv_policyGenerationChangedFlag d \<Longrightarrow> reassessLocked (d, s) = (None, c) \<Longrightarrow> policy_stale (fst c)"
  by (auto simp: reassess_eq reassess_finish_def Let_def finish_policy_stale split: sum.splits if_splits)

lemma setPolicy_stale:
  assumes inv: "keyed_inv s" and set: "setPolicy p s = (None, s')" and d: "findLocked k s = Some d"
  shows "keyed_inv s' \<and> (\<exists>d'. findLocked k s' = Some d' \<and> policy_stale d')"
proof -
  obtain s1 where s1: "installPolicy p s = (None, s1)" and re: "reassessAll s1 = (None, s')"
    using set by (auto simp: setPolicy_def split: prod.splits option.splits)
  have steps: "store_run real_uuid s s1" "store_run real_uuid s1 s'"
    using store_step.installPolicy [of real_uuid s p] store_step.reassessAll [of real_uuid s1] s1 re
    by (simp_all add: store_run_def)
  then have inv1: "keyed_inv s1" and inv2: "keyed_inv s'"
    using keyed_inv_run inv by blast+
  obtain g where g: "for_devices (smap_keys (hs_devices s)) (dev_do (\<lambda>d. d\<lparr>dv_policyGenerationChangedFlag := True\<rparr>))
      (s\<lparr>hs_policy := p, hs_policyGeneration := g\<rparr>) = (None, s1)"
    using s1 by (auto simp: installPolicy_def Let_def split: sum.splits)
  have wf: "smap_wf (hs_devices s)" "smap_wf (hs_devices s1)"
    using inv inv1 by (simp_all add: keyed_inv_def store_inv_def)
  have "findLocked k (s\<lparr>hs_policy := p, hs_policyGeneration := g\<rparr>) = Some d" "k \<in> set (smap_keys (hs_devices s))"
    using d store_keys(2) [of k s] by (simp_all add: findLocked_def)
  then obtain d1 where d1: "findLocked k s1 = Some d1" "dv_policyGenerationChangedFlag d1"
    using for_devices_each [OF txn_step.policy g store_keys(1) [OF wf(1)], of k] by (auto simp: dev_do_def)
  then have "k \<in> set (smap_keys (hs_devices s1))"
    using store_keys(2) [of k s1] by simp
  then show ?thesis
    using for_devices_each [OF txn_step.reassess re [unfolded reassessAll_def] store_keys(1) [OF wf(2)], of k] d1 inv2
    by (auto dest: reassess_policy_stale)
qed


text \<open>\<open>setPolicy\<close> returns normally as long as no generation counter is exhausted.\<close>

lemma setPolicy_returns:
  assumes inv: "keyed_inv s" and pg: "\<not> gen_max (hs_policyGeneration s)"
    and hg: "\<And>k d. findLocked k s = Some d \<Longrightarrow> \<not> gen_max (dv_healthGeneration d)"
  shows "fst (setPolicy p s) = None"
proof -
  obtain g where g: "gen_next (hs_policyGeneration s) = Inr g"
    using pg by (auto simp: gen_next_def gen_max_def)
  let ?s = "s\<lparr>hs_policy := p, hs_policyGeneration := g\<rparr>" and ?f = "dev_do (\<lambda>d. d\<lparr>dv_policyGenerationChangedFlag := True\<rparr>)"
  have wf: "smap_wf (hs_devices s)" using inv by (simp add: keyed_inv_def store_inv_def)
  obtain r s1 where run: "for_devices (smap_keys (hs_devices s)) ?f ?s = (r, s1)" by fastforce
  moreover have "fst (for_devices (smap_keys (hs_devices s)) ?f ?s) = None"
    by (rule for_devices_returns [where P = "\<lambda>_. True"]) (auto simp: store_keys(1) [OF wf] txn_step.policy, simp add: dev_do_def)
  ultimately have run: "for_devices (smap_keys (hs_devices s)) ?f ?s = (None, s1)" by simp
  have inst: "installPolicy p s = (None, s1)"
    using run g by (simp add: installPolicy_def Let_def)
  then have "keyed_inv s1"
    using keyed_inv_run [OF _ inv, of s1] store_step.installPolicy [of real_uuid s p] by (simp add: store_run_def r_into_rtranclp)
  then have wf1: "smap_wf (hs_devices s1)" by (simp add: keyed_inv_def store_inv_def)
  have "\<not> gen_max (dv_healthGeneration d)" if "findLocked k s1 = Some d" for k d
    using for_devices_each [OF txn_step.policy run store_keys(1) [OF wf], of k] that hg [of k]
    by (cases "findLocked k s") (auto simp: dev_do_def findLocked_def split: if_splits)
  then have "fst (reassessAll s1) = None"
    unfolding reassessAll_def
    by (intro for_devices_returns [where P = "\<lambda>d. \<not> gen_max (dv_healthGeneration d)"])
      (auto simp: store_keys(1) [OF wf1] txn_step.reassess reassess_returns)
  then show ?thesis
    by (simp add: setPolicy_def inst)
qed

lemma demo_devices: "findLocked k demo1 \<noteq> None \<longleftrightarrow> k = StrongId 7"
  by (auto simp: demo1_def demo0_def registerWorker_def HealthStore_new_def registerDevice_def
      clock_now_eq reading_def tick_def FakeClock_def findLocked_def updateIndexesLocked_def smap_find_def Let_def
      split: if_splits)

lemma demo_policy_generation: "hs_policyGeneration demo1 = Generation 1"
  by (simp add: demo1_def demo0_def registerWorker_def HealthStore_new_def registerDevice_def
      clock_now_eq reading_def tick_def FakeClock_def updateIndexesLocked_def Let_def)


section \<open>Fatal faults\<close>

lemma faultsOf_mem: "f \<in> set (faultsOf k s) \<longleftrightarrow> (\<exists>d. findLocked k s = Some d \<and> f \<in> set (dv_faults d))"
  by (cases "findLocked k s") (simp_all add: faultsOf_def)

lemma recordFault_returns:
  assumes "findLocked (f_accelerator f) s = Some d" "f_id f \<notin> f_id ` set (dv_faults d)" "\<not> gen_max (dv_healthGeneration d)"
  shows "fst (recordFault f s) = None"
proof -
  have "fst (fault_body f (d, s)) = None"
    using assms(2,3) reassess_returns [of "d\<lparr>dv_faults := dv_faults d @ [f]\<rparr>"]
    by (simp add: fault_body_def history_record_ok sto_do_def split: prod.splits option.splits) (metis fst_conv option.distinct(1))
  then show ?thesis
    using assms(1) by (auto simp: recordFault_def on_device_def split: prod.splits)
qed

lemma recordFault_appends:
  assumes "findLocked (f_accelerator f) s = Some d" "recordFault f s = (None, s')"
  shows "f \<in> set (faultsOf (f_accelerator f) s')"
proof -
  obtain c where c: "fault_body f (d, s) = (None, c)" and s': "s' = put_device (f_accelerator f) c"
    using assms by (auto simp: recordFault_def on_device_def split: prod.splits)
  then have fresh: "f_id f \<notin> f_id ` set (dv_faults d)"
    by (auto simp: fault_body_def history_record_dup)
  have "reassessLocked (d\<lparr>dv_faults := dv_faults d @ [f]\<rparr>, s\<lparr>hs_faultIndex := idx_insert (f_type f) (f_accelerator f) (hs_faultIndex s),
      hs_globalFaults := hs_globalFaults s @ [f]\<rparr>) = (None, c)"
    using c fresh by (simp add: fault_body_def history_record_ok sto_do_def split: prod.splits option.splits)
  then have "dv_faults (fst c) = dv_faults d @ [f]"
    by (auto simp: reassess_eq reassess_finish_def Let_def split: sum.splits if_splits)
  then show ?thesis
    by (simp add: faultsOf_def s' findLocked_def smap_find_put)
qed


lemma demo3_run: "recordFault demo_fault demo1 = (None, demo3)"
proof -
  have "fst (recordFault demo_fault demo1) = None"
    by (rule recordFault_returns [of _ _ demo_device])
      (use demo1_device in \<open>simp_all add: demo_fault_def demo_device_def new_device_def default_Device_def gen_max_def\<close>)
  then show ?thesis by (metis demo3_def prod.collapse)
qed


section \<open>Lost devices\<close>

text \<open>LOST is final in the store: no method moves a lost device to another state (the transitions
  LOST to INITIALIZING and LOST to OFFLINE of the table are never taken).\<close>

theorem lost_is_final:
  assumes "reachable real_uuid s" "findLocked k s = Some d" "dv_state d = HealthState.LOST" "store_run real_uuid s s'"
  shows "\<exists>d'. findLocked k s' = Some d' \<and> dv_state d' = HealthState.LOST"
  using dev_le_run [OF assms(4) reachable_keyed [OF assms(1)] assms(2)] assms(3) by (auto simp: dev_le_def)

lemma markLost_effect:
  assumes "findLocked k s = Some d" "\<not> gen_max (dv_healthGeneration d)"
  shows "\<exists>d'. markLost k reason s = (None, snd (markLost k reason s)) \<and> findLocked k (snd (markLost k reason s)) = Some d' \<and>
    dv_state d' = HealthState.LOST \<and> \<not> dv_present d' \<and> dv_readiness d' = dv_readiness d \<and>
    dv_latestAssessment d' = dv_latestAssessment d \<and>
    hs_readinessIndex (snd (markLost k reason s)) = hs_readinessIndex s \<and>
    hs_stateIndex (snd (markLost k reason s)) = hs_stateIndex s"
proof -
  obtain g where "gen_next (dv_healthGeneration d) = Inr g"
    using assms(2) by (auto simp: gen_next_def gen_max_def)
  then show ?thesis
    using assms(1)
    by (auto simp: markLost_def on_device_def lost_body_eq dev_do_def op_when_def applyTransition_eq canTransition_to_LOST
        findLocked_def smap_find_put)
qed

text \<open>\<open>markLost\<close> moves the device to LOST and records that it is gone, but leaves its readiness, its
  latest assessment and the readiness and state indexes as they were: a device that was ready stays
  listed as ready, and its latest assessment still says it is.\<close>

theorem markLost_keeps_readiness:
  assumes "findLocked k s = Some d" "\<not> gen_max (dv_healthGeneration d)"
  shows "\<exists>s' d'. markLost k reason s = (None, s') \<and> findLocked k s' = Some d' \<and> dv_state d' = HealthState.LOST \<and>
    \<not> dv_present d' \<and> dv_readiness d' = dv_readiness d \<and> assessmentOf k s' = assessmentOf k s \<and>
    byReadiness r s' = byReadiness r s \<and> byHealthState st s' = byHealthState st s"
  using markLost_effect [OF assms, of reason] assms(1)
  by (auto simp: byReadiness_def byHealthState_def assessmentOf_def)

theorem markLost_keeps_readiness_witness:
  "\<exists>s' d'. markLost (StrongId 7) ''gone'' demo2 = (None, s') \<and> findLocked (StrongId 7) s' = Some d' \<and>
     dv_state d' = HealthState.LOST \<and> dv_readiness d' = ReadinessState.READY"
proof -
  obtain d where d: "findLocked (StrongId 7) demo2 = Some d" using demo2_device by blast
  note o = demo_observed [OF d]
  then have "\<not> gen_max (dv_healthGeneration d)" by (simp add: gen_max_def)
  from markLost_keeps_readiness [OF d this] o show ?thesis by metis
qed

theorem lost_is_final_witness:
  "\<exists>d. findLocked (StrongId 7) (snd (registerDevice (StrongId 7) (StrongId 1) (snd (markLost (StrongId 7) ''gone'' demo2)))) = Some d \<and>
     dv_state d = HealthState.LOST"
proof -
  obtain d where d: "findLocked (StrongId 7) demo2 = Some d" using demo2_device by blast
  then have "\<not> gen_max (dv_healthGeneration d)" using demo_observed [OF d] by (simp add: gen_max_def)
  from markLost_effect [OF d this, of "''gone''"]
  obtain d' where d': "findLocked (StrongId 7) (snd (markLost (StrongId 7) ''gone'' demo2)) = Some d'" "dv_state d' = HealthState.LOST"
    by blast
  have reach: "reachable real_uuid (snd (markLost (StrongId 7) ''gone'' demo2))"
    by (rule reachable_step [OF demo_reachable(2) store_step.markLost])
  have "store_run real_uuid (snd (markLost (StrongId 7) ''gone'' demo2))
      (snd (registerDevice (StrongId 7) (StrongId 1) (snd (markLost (StrongId 7) ''gone'' demo2))))"
    unfolding store_run_def by (rule r_into_rtranclp, rule store_step.registerDevice) (simp add: real_uuid_def)
  from lost_is_final [OF reach d' this] show ?thesis .
qed

section \<open>Worker invalidation\<close>

lemma reassess_without_evidence:
  assumes "nanos (dv_lastObservation d) = 0" "reassessLocked (d, s) = (None, (d', s'))"
  shows "dv_readiness d' \<notin> ready_states \<and> dv_lastObservation d' = dv_lastObservation d"
proof -
  have "\<not> rr_executionReady (readiness_evaluate (device_readiness_input x p n))"
    if "nanos (dv_lastObservation x) = 0" for x p n
    using that by (auto simp: readiness_ready_iff fully_qualified_def evidence_freshness_def stale_or_expired_def)
  then have "fst (device_readiness x p n b) \<notin> ready_states" if "nanos (dv_lastObservation x) = 0" for x p n b
    using that readiness_state_ready by (auto simp: device_readiness_simps ready_states_def)
  then show ?thesis
    using assms by (auto simp: reassess_eq reassess_finish_def Let_def split: sum.splits if_splits)
qed

lemma invalidate_device_effect:
  assumes "invalidate_device w b (d, t) = (None, c)" "dv_lastWorker d = w" "dv_lastWorkerBootId d = b"
  shows "dv_readiness (fst c) \<notin> ready_states \<and> dv_lastObservation (fst c) = Timestamp 0"
proof -
  let ?d = "d\<lparr>dv_lastObservation := Timestamp 0, dv_deviceGenerationChangedFlag := False\<rparr>"
  have "reassessLocked (?d, t) = (None, c)"
    using assms by (simp add: invalidate_device_def op_when_def dev_do_def split: prod.splits option.splits)
  then show ?thesis
    using reassess_without_evidence [of ?d t "fst c" "snd c"] by simp
qed

lemma invalidateWorker_run:
  assumes "isWorkerCurrent w b s" "invalidateWorker w b s = (None, s')"
  obtains s1 where "for_devices (smap_keys (hs_devices s)) (invalidate_device w b) s = (None, s1)"
    "s' = s1\<lparr>hs_workerBootRegistry := smap_erase w (hs_workerBootRegistry s1)\<rparr>"
proof -
  obtain r s1 where fd: "for_devices (smap_keys (hs_devices s)) (invalidate_device w b) s = (r, s1)" by fastforce
  show thesis
    by (rule that [of s1]) (use assms fd in \<open>cases r; simp add: invalidateWorker_def isWorkerCurrent_def\<close>)+
qed

lemma invalidated_inadmissible:
  assumes "isWorkerCurrent w b s" "invalidateWorker w b s = (None, s')" "env_workerId env = w"
  shows "\<not> admissible obs env s'"
proof -
  obtain s1 where "s' = s1\<lparr>hs_workerBootRegistry := smap_erase w (hs_workerBootRegistry s1)\<rparr>"
    using invalidateWorker_run [OF assms(1,2)] .
  then show ?thesis using assms(3) by (simp add: admissible_def smap_find_erase)
qed

lemma invalidateWorker_effect:
  assumes "store_inv s" "isWorkerCurrent w b s" "invalidateWorker w b s = (None, s')"
    "findLocked k s = Some d" "dv_lastWorker d = w" "dv_lastWorkerBootId d = b"
  shows "\<exists>d'. findLocked k s' = Some d' \<and> dv_lastObservation d' = Timestamp 0 \<and> dv_readiness d' \<notin> ready_states \<and>
      \<not> a_executionReady (assessmentOf k s')"
proof -
  obtain s1 where run: "for_devices (smap_keys (hs_devices s)) (invalidate_device w b) s = (None, s1)"
    and s': "s' = s1\<lparr>hs_workerBootRegistry := smap_erase w (hs_workerBootRegistry s1)\<rparr>"
    using invalidateWorker_run [OF assms(2,3)] .
  have wf: "smap_wf (hs_devices s)"
    using assms(1) by (simp add: store_inv_def)
  have "k \<in> set (smap_keys (hs_devices s))"
    using assms(4) store_keys(2) [of k s] by simp
  then obtain t c where c: "invalidate_device w b (d, t) = (None, c)" "findLocked k s1 = Some (fst c)"
    using for_devices_each [OF txn_step.invalidate run store_keys(1) [OF wf], of k] assms(4) by auto
  note eff = invalidate_device_effect [OF c(1) assms(5,6)]
  have find: "findLocked k s' = Some (fst c)" using c(2) by (simp add: s' findLocked_def)
  have "store_run any_uuid s s'"
    using store_step.invalidateWorker [of any_uuid s w b] assms(3) by (simp add: store_run_def r_into_rtranclp)
  then have "agrees (fst c)"
    using store_inv_run [OF _ assms(1)] find by (auto simp: store_inv_def device_ok_def)
  then show ?thesis
    using find eff by (auto simp: agrees_def assessmentOf_def)
qed

text \<open>After a worker boot is invalidated, every device last observed by that boot has lost its
  evidence and is not ready for execution, and no further observation of that worker is admitted
  until it registers again.\<close>

theorem invalidated_worker_not_ready:
  assumes "reachable ok s" "isWorkerCurrent w b s" "invalidateWorker w b s = (None, s')"
    "findLocked k s = Some d" "dv_lastWorker d = w" "dv_lastWorkerBootId d = b"
  shows "(\<exists>d'. findLocked k s' = Some d' \<and> dv_lastObservation d' = Timestamp 0 \<and> dv_readiness d' \<notin> ready_states \<and>
      \<not> a_executionReady (assessmentOf k s')) \<and>
    (env_workerId env = w \<longrightarrow> \<not> admissible obs env s')"
  using invalidateWorker_effect [OF reachable_inv [OF assms(1)] assms(2-6)] invalidated_inadmissible [OF assms(2,3)]
  by blast

lemma invalidateWorker_returns:
  assumes "store_inv s" "\<And>k d. findLocked k s = Some d \<Longrightarrow> \<not> gen_max (dv_healthGeneration d)"
  shows "fst (invalidateWorker w b s) = None"
proof -
  have "fst (for_devices (smap_keys (hs_devices s)) (invalidate_device w b) s) = None"
  proof (rule for_devices_returns [where P = "\<lambda>d. \<not> gen_max (dv_healthGeneration d)"])
    fix x :: Device and t assume "\<not> gen_max (dv_healthGeneration x)"
    then show "fst (invalidate_device w b (x, t)) = None"
      using reassess_returns [of "x\<lparr>dv_lastObservation := Timestamp 0, dv_deviceGenerationChangedFlag := False\<rparr>" t]
      by (auto simp: invalidate_device_def op_when_def dev_do_def split: prod.splits option.splits)
  qed (use assms in \<open>auto simp: store_inv_def store_keys txn_step.invalidate\<close>)
  then show ?thesis
    by (auto simp: invalidateWorker_def split: prod.splits option.splits)
qed

lemma demo2_eq: "demo2 = put_device (StrongId 7) (snd (reassessLocked (observe_device demo_obs demo_env demo_device, observed demo_env demo1)))"
proof -
  have "admissible demo_obs demo_env demo1" and acc: "obs_accelerator demo_obs = StrongId 7"
    by (simp_all add: admissible_def demo1_device demo1_store demo_obs_def demo_env_def stale_generation_def smap_find_def
        demo_device_def new_device_def)
  then show ?thesis
    using accept_admissible [of demo_obs demo_env demo1 demo_device] demo1_device
    by (simp add: demo2_def split: prod.splits)
qed

lemma demo2_worker:
  "findLocked (StrongId 7) demo2 = Some d \<Longrightarrow> dv_lastWorker d = StrongId 3 \<and> dv_lastWorkerBootId d = StrongId 4"
  "isWorkerCurrent (StrongId 3) (StrongId 4) demo2" "findLocked k demo2 = Some d \<Longrightarrow> k = StrongId 7"
proof -
  let ?c = "(observe_device demo_obs demo_env demo_device, observed demo_env demo1)"
  have fr: "store_frame (observed demo_env demo1) (snd (snd (reassessLocked ?c)))"
    using frame.txn_step_keeps [OF txn_step.reassess, of ?c] by simp
  show "isWorkerCurrent (StrongId 3) (StrongId 4) demo2"
    using fr by (simp add: isWorkerCurrent_def demo2_eq store_frame_def observed_def demo1_store smap_find_def)
  show "k = StrongId 7" if "findLocked k demo2 = Some d"
    using that fr demo_devices [of k]
    by (auto simp: demo2_eq findLocked_def store_frame_def observed_def smap_find_put split: if_splits)
  show "dv_lastWorker d = StrongId 3 \<and> dv_lastWorkerBootId d = StrongId 4" if "findLocked (StrongId 7) demo2 = Some d"
    using that by (auto simp: demo2_eq findLocked_def smap_find_put reassess_eq reassess_finish_def Let_def moved_def
        observe_device_def demo_obs_def split: sum.splits)
qed

theorem invalidated_worker_not_ready_witness:
  "\<exists>d'. findLocked (StrongId 7) (snd (invalidateWorker (StrongId 3) (StrongId 4) demo2)) = Some d' \<and>
     dv_readiness d' \<notin> ready_states"
proof -
  obtain d where d: "findLocked (StrongId 7) demo2 = Some d" using demo2_device by blast
  have "fst (invalidateWorker (StrongId 3) (StrongId 4) demo2) = None"
    by (rule invalidateWorker_returns [OF reachable_inv [OF demo_reachable(2)]])
      (use demo2_worker(3) demo_observed in \<open>fastforce simp: gen_max_def\<close>)
  then have "invalidateWorker (StrongId 3) (StrongId 4) demo2 = (None, snd (invalidateWorker (StrongId 3) (StrongId 4) demo2))"
    by (metis prod.collapse)
  from invalidated_worker_not_ready [OF demo_reachable(2) demo2_worker(2) this d] demo2_worker(1) [OF d]
  show ?thesis by blast
qed

end
