(* ===== verification/StoreRecovery.thy ===== *)
theory StoreRecovery
  imports StoreBehaviour
begin

text \<open>
  Quarantine and recovery: what \<open>beginQuarantine\<close>, \<open>beginRecovery\<close> and \<open>revalidate\<close> do on every branch,
  that a recovery with enough passed validations completes, and the accounting.  Statements about
  methods that move a device assume room for the transitions in its 64-bit health generation.
\<close>

definition headroom :: "nat \<Rightarrow> Device \<Rightarrow> bool" where
  "headroom n d \<longleftrightarrow> unat (gen_get (dv_healthGeneration d)) + n < 2 ^ 64"

lemma headroom_mono: "headroom n d \<Longrightarrow> m \<le> n \<Longrightarrow> headroom m d"
  by (simp add: headroom_def)

lemma gen_next_headroom:
  assumes "headroom (Suc n) d"
  shows "\<exists>g. gen_next (dv_healthGeneration d) = Inr g \<and> unat (gen_get g) = Suc (unat (gen_get (dv_healthGeneration d)))"
proof -
  have "gen_get (dv_healthGeneration d) \<noteq> - 1"
  proof
    assume *: "gen_get (dv_healthGeneration d) = - 1"
    have "unat (- 1 :: u64) = 2 ^ 64 - 1"
      by transfer (simp add: take_bit_minus_one_eq_mask mask_eq_exp_minus_1)
    then show False using assms * by (simp add: headroom_def)
  qed
  then have "gen_next (dv_healthGeneration d) = Inr (Generation (gen_get (dv_healthGeneration d) + 1))"
    by (simp add: gen_next_def)
  then show ?thesis using gen_next_unat by blast
qed

lemma transition_ok:
  assumes "canTransition (dv_state d) to" "headroom (Suc n) d"
  shows "\<exists>d' s'. applyTransitionLocked to l x (d, s) = (None, (d', s')) \<and> headroom n d' \<and> dv_state d' = to \<and>
    d' = d\<lparr>dv_state := to, dv_transitionCount := dv_transitionCount d', dv_healthGeneration := dv_healthGeneration d',
      dv_changes := dv_changes d'\<rparr> \<and>
    s' = (tick s)\<lparr>hs_globalChanges := hs_globalChanges s'\<rparr>"
proof -
  obtain g where g: "gen_next (dv_healthGeneration d) = Inr g" "unat (gen_get g) = Suc (unat (gen_get (dv_healthGeneration d)))"
    using gen_next_headroom [OF assms(2)] by blast
  have "dv_state d \<noteq> to" using assms(1) by auto
  then show ?thesis
    using assms g by (simp add: applyTransition_eq headroom_def)
qed

lemma reassess_stay:
  assumes "target_of d s = dv_state d"
  shows "\<exists>s'. reassessLocked (d, s) = (None, (finish_device (reading s) (hs_policy s) (hs_policyGeneration s) (verdict d s) False d, s')) \<and>
    hs_quarantineIndex s' = hs_quarantineIndex s \<and> hs_policy s' = hs_policy s \<and> hs_clock s' = hs_clock (tick s)"
  using assms by (simp add: reassess_eq reassess_finish_def Let_def blocked_def)

section \<open>Quarantine\<close>

definition signals :: "Device \<Rightarrow> Fault list \<times> (DimensionKind, HealthDimension) stdmap \<times> Timestamp \<times> bool" where
  "signals d = (dv_faults d, dv_dimensions d, dv_lastObservation d, dv_inRecovery d)"

lemma quarantine_frozen:
  assumes "quarantine_active d" "dv_state d = HealthState.QUARANTINED" "\<not> dv_inRecovery d"
  shows "\<exists>d' s'. reassessLocked (d, s) = (None, (d', s')) \<and> quarantine_active d' \<and> dv_state d' = HealthState.QUARANTINED \<and>
    dv_readiness d' = ReadinessState.QUARANTINED \<and> hs_quarantineIndex s' = hs_quarantineIndex s \<and>
    signals d' = signals d \<and> dv_healthGeneration d' = dv_healthGeneration d"
proof -
  have "target_of d s = dv_state d" using quarantined_target [of d s] assms by simp
  from reassess_stay [OF this] show ?thesis
    using assms quarantined_readiness by (auto simp: signals_def)
qed

text \<open>The body of \<open>beginQuarantine\<close> where the transition table allows QUARANTINED.\<close>

lemma quarantine_body_ok:
  assumes legal: "dv_state d = HealthState.QUARANTINED \<or> canTransition (dv_state d) HealthState.QUARANTINED"
    and d: "\<not> quarantine_active d" "\<not> dv_inRecovery d" "headroom (Suc m) d"
  shows "\<exists>d' s'. quarantine_body k authority reason by (d, s) = (None, (d', s')) \<and> quarantine_active d' \<and>
    dv_state d' = HealthState.QUARANTINED \<and> dv_readiness d' = ReadinessState.QUARANTINED \<and>
    k \<in> set (hs_quarantineIndex s') \<and> signals d' = signals d \<and> headroom m d'"
proof -
  let ?d = "d\<lparr>dv_quarantine := Some (quarantine_entry d s authority reason by)\<rparr>"
  let ?s = "(tick (s\<lparr>hs_nextQuarantineRaw := hs_nextQuarantineRaw s + 1\<rparr>))\<lparr>hs_quarantineIndex := sset_insert k (hs_quarantineIndex s)\<rparr>"
  obtain g where g: "gen_next (dv_healthGeneration d) = Inr g" "unat (gen_get g) = Suc (unat (gen_get (dv_healthGeneration d)))"
    using gen_next_headroom [OF d(3)] by auto
  obtain d1 s1 where 1: "op_when (\<lambda>(d, _). dv_state d \<noteq> HealthState.QUARANTINED)
      (applyTransitionLocked HealthState.QUARANTINED ''quarantine'' reason) (?d, ?s) = (None, (d1, s1))"
    "dv_state d1 = HealthState.QUARANTINED" "quarantine_active d1" "\<not> dv_inRecovery d1"
    "hs_quarantineIndex s1 = hs_quarantineIndex ?s" "signals d1 = signals d" "headroom m d1"
    using g d legal headroom_mono [OF d(3), of m]
    by (cases "dv_state d = HealthState.QUARANTINED")
      (auto simp: op_when_def applyTransition_eq quarantine_active_def headroom_def signals_def)
  obtain d2 s2 where 2: "reassessLocked (d1, s1) = (None, (d2, s2))" "quarantine_active d2" "dv_state d2 = HealthState.QUARANTINED"
    "dv_readiness d2 = ReadinessState.QUARANTINED" "hs_quarantineIndex s2 = hs_quarantineIndex s1" "signals d2 = signals d1"
    "dv_healthGeneration d2 = dv_healthGeneration d1"
    using quarantine_frozen [OF 1(3,2,4)] by blast
  have "quarantine_body k authority reason by (d, s) = (None, (d2, s2))"
    using d(1) 1(1) 2(1) by (simp add: quarantine_body_def install_quarantine_eq)
  then show ?thesis
    using 1(5-7) 2 by (simp add: headroom_def)
qed

text \<open>C20. \<open>beginQuarantine\<close> on a tracked device without active quarantine, not in recovery and not lost,
  takes effect: it returns, the device is QUARANTINED with readiness QUARANTINED, its quarantine is
  active and the device is listed among the quarantined.\<close>

theorem beginQuarantine_effective:
  assumes "reachable ok s" "findLocked k s = Some d" "\<not> quarantine_active d" "\<not> dv_inRecovery d"
    "dv_state d \<noteq> HealthState.LOST" "headroom 1 d"
  shows "\<exists>s' d'. beginQuarantine k authority reason by s = (None, s') \<and> findLocked k s' = Some d' \<and>
    dv_state d' = HealthState.QUARANTINED \<and> dv_readiness d' = ReadinessState.QUARANTINED \<and>
    quarantine_active d' \<and> k \<in> set (quarantined s')"
proof -
  have "settled (d, s)"
    using reachable_inv [OF assms(1)] assms(2) by (auto simp: store_inv_def device_ok_def)
  moreover have "\<not> gen_max (dv_healthGeneration d)"
    using gen_next_headroom [of 0 d] assms(6) gen_next_unat by fastforce
  ultimately have "dv_state d \<in> active_states" by (simp add: settled_def)
  then have legal: "dv_state d = HealthState.QUARANTINED \<or> canTransition (dv_state d) HealthState.QUARANTINED"
    using assms(5) by (auto simp: active_states_def store_targets_def)
  obtain d' s' where "quarantine_body k authority reason by (d, s) = (None, (d', s'))" "quarantine_active d'"
    "dv_state d' = HealthState.QUARANTINED" "dv_readiness d' = ReadinessState.QUARANTINED" "k \<in> set (hs_quarantineIndex s')"
    using quarantine_body_ok [OF legal assms(3,4), of 0 k authority reason "by" s] assms(6) by auto
  then show ?thesis
    using assms(2) by (simp add: beginQuarantine_def on_device_def findLocked_def smap_find_put quarantined_def)
qed

theorem beginQuarantine_effective_witness:
  "\<exists>s' d'. beginQuarantine (StrongId 7) QuarantineAuthority.UNKNOWN ''check'' ''operator'' demo2 = (None, s') \<and>
     findLocked (StrongId 7) s' = Some d' \<and> dv_readiness d' = ReadinessState.QUARANTINED"
proof -
  obtain d where d: "findLocked (StrongId 7) demo2 = Some d" using demo2_device by blast
  note o = demo_observed [OF d]
  have "settled (d, demo2)" "agrees d"
    using reachable_inv [OF demo_reachable(2)] d by (auto simp: store_inv_def device_ok_def)
  then have "fit d"
    using o by (simp add: settled_def ready_states_def gen_max_def)
  then have "\<not> quarantine_active d" "\<not> dv_inRecovery d" by (simp_all add: fit_def)
  then show ?thesis
    using beginQuarantine_effective [OF demo_reachable(2) d, of QuarantineAuthority.UNKNOWN "''check''" "''operator''"] o
    by (auto simp: headroom_def)
qed

text \<open>\<open>beginQuarantine\<close> on a lost device throws \<open>InvalidTransition\<close>, yet the quarantine record it
  created stays active and the device stays listed among the quarantined; repeating the call then
  fails with "quarantine already active".\<close>

theorem beginQuarantine_lost:
  assumes "findLocked k s = Some d" "dv_state d = HealthState.LOST" "\<not> quarantine_active d"
  shows "\<exists>s' d'. beginQuarantine k authority reason by s =
       (Some (InvalidTransition HealthState.LOST HealthState.QUARANTINED), s') \<and>
     findLocked k s' = Some d' \<and> quarantine_active d' \<and> k \<in> set (quarantined s') \<and>
     fst (beginQuarantine k authority' reason' by' s') = Some (logic_error ''quarantine already active'')"
  using assms
  by (simp add: beginQuarantine_def on_device_def quarantine_body_def install_quarantine_eq op_when_def applyTransition_eq
      findLocked_def smap_find_put quarantined_def quarantine_active_def put_device_def)

theorem beginQuarantine_lost_witness:
  "\<exists>s' d'. beginQuarantine (StrongId 7) QuarantineAuthority.UNKNOWN [] [] (snd (markLost (StrongId 7) [] demo1)) =
       (Some (InvalidTransition HealthState.LOST HealthState.QUARANTINED), s') \<and>
     findLocked (StrongId 7) s' = Some d' \<and> quarantine_active d'"
proof -
  let ?s = "snd (markLost (StrongId 7) [] demo1)"
  obtain d' where d': "findLocked (StrongId 7) ?s = Some d'" "dv_state d' = HealthState.LOST"
    using markLost_effect [OF demo1_device, of "[]"] by (auto simp: demo_device_def new_device_def gen_max_def)
  have "\<not> quarantine_active d'"
    using d'(1) demo1_device
    by (auto simp: markLost_def on_device_def lost_body_eq dev_do_def op_when_def applyTransition_eq canTransition_to_LOST
        findLocked_def smap_find_put demo_device_def new_device_def default_Device_def gen_next_def quarantine_active_def)
  from beginQuarantine_lost [OF d' this] show ?thesis by blast
qed

section \<open>Clearing a quarantine\<close>

lemma clear_body_eq: "clear_body k (d, s) = reassessLocked (case dv_quarantine d of None \<Rightarrow> (d, s)
    | Some q \<Rightarrow> (d\<lparr>dv_quarantine := Some (q\<lparr>q_active := False\<rparr>)\<rparr>, s\<lparr>hs_quarantineIndex := sset_erase k (hs_quarantineIndex s)\<rparr>))"
  unfolding clear_body_def
  by (cases "dv_quarantine d") (auto split: prod.splits option.splits)

lemma clear_body_ok:
  assumes "dv_state d = HealthState.QUARANTINED" "\<not> dv_inRecovery d"
  shows "\<exists>d' s'. clear_body k (d, s) = (None, (d', s')) \<and> dv_state d' = HealthState.QUARANTINED \<and> \<not> quarantine_active d' \<and>
    dv_readiness d' \<in> {ReadinessState.QUARANTINED, ReadinessState.REVALIDATION_REQUIRED} \<and> signals d' = signals d \<and>
    dv_healthGeneration d' = dv_healthGeneration d"
proof -
  obtain d1 s1 where 1: "clear_body k (d, s) = reassessLocked (d1, s1)" "dv_state d1 = HealthState.QUARANTINED" "\<not> dv_inRecovery d1"
    "\<not> quarantine_active d1" "signals d1 = signals d" "dv_healthGeneration d1 = dv_healthGeneration d"
    using assms by (cases "dv_quarantine d") (auto simp: clear_body_eq quarantine_active_def signals_def)
  have "\<not> (target_of d1 s1 \<noteq> dv_state d1 \<and> canTransition (dv_state d1) (target_of d1 s1))"
    using target_cases(1) [OF 1(3), of s1] 1(2) by (auto simp: store_targets_def recovery_states_def)
  then have "reassessLocked (d1, s1) = reassess_finish (reading s1) (verdict d1 s1) (blocked d1 s1) (d1, tick s1)"
    by (auto simp: reassess_eq)
  moreover have "rr_state (readiness_evaluate (device_readiness_input d1 p n)) = ReadinessState.QUARANTINED" for p n
    using 1(2,4) by (simp add: readiness_evaluate_def)
  ultimately show ?thesis
    using 1 by (simp add: reassess_finish_def Let_def device_readiness_simps signals_def)
qed

text \<open>Clearing a quarantine does not put a device back into service: the call returns, the quarantine is
  no longer active, but a QUARANTINED device stays QUARANTINED and is not ready for execution until it
  has gone through recovery, whatever the evidence says.\<close>

theorem clearQuarantine_not_ready:
  assumes "findLocked k s = Some d" "dv_state d = HealthState.QUARANTINED" "\<not> dv_inRecovery d"
  shows "\<exists>s' d'. clearQuarantine k s = (None, s') \<and> findLocked k s' = Some d' \<and> dv_state d' = HealthState.QUARANTINED \<and>
    \<not> quarantine_active d' \<and> dv_readiness d' \<in> {ReadinessState.QUARANTINED, ReadinessState.REVALIDATION_REQUIRED}"
  using clear_body_ok [OF assms(2,3), of k s] assms(1)
  by (auto simp: clearQuarantine_def on_device_def findLocked_def smap_find_put)

text \<open>The scenario continued: the device is quarantined and the quarantine cleared.\<close>

definition demo4 :: HealthStore where
  "demo4 = snd (beginQuarantine (StrongId 7) QuarantineAuthority.UNKNOWN ''check'' ''operator'' demo2)"

definition demo5 :: HealthStore where
  "demo5 = snd (clearQuarantine (StrongId 7) demo4)"

lemma reassess_signals: "signals (fst (snd (reassessLocked (d, s)))) = signals d"
  "quarantine_active (fst (snd (reassessLocked (d, s)))) = quarantine_active d"
  by (auto simp: reassess_eq reassess_finish_def Let_def signals_def split: sum.splits)
    (auto simp: quarantine_active_def)

lemma demo2_signals:
  assumes "findLocked (StrongId 7) demo2 = Some d"
  shows "signals d = ([], [], Timestamp 100, False) \<and> \<not> quarantine_active d"
proof -
  have "d = fst (snd (reassessLocked (observe_device demo_obs demo_env demo_device, observed demo_env demo1)))"
    using assms by (simp add: demo2_eq findLocked_def smap_find_put)
  moreover have "signals (observe_device demo_obs demo_env demo_device) = ([], [], Timestamp 100, False)"
    by (simp add: signals_def observe_device_def demo_obs_def demo_env_def demo_device_def new_device_def default_Device_def)
  moreover have "\<not> quarantine_active demo_device"
    by (simp add: quarantine_active_def demo_device_def new_device_def default_Device_def)
  ultimately show ?thesis
    by (simp add: reassess_signals)
qed

lemma demo4_device: "\<exists>d. findLocked (StrongId 7) demo4 = Some d \<and> dv_state d = HealthState.QUARANTINED \<and>
    signals d = ([], [], Timestamp 100, False) \<and> headroom 10 d"
proof -
  obtain d where d: "findLocked (StrongId 7) demo2 = Some d" using demo2_device by blast
  have "canTransition (dv_state d) HealthState.QUARANTINED" "\<not> quarantine_active d" "\<not> dv_inRecovery d" "headroom (Suc 10) d"
    using demo_observed [OF d] demo2_signals [OF d] by (simp_all add: signals_def headroom_def)
  from quarantine_body_ok [OF disjI2 [OF this(1)] this(2-4), of "StrongId 7" QuarantineAuthority.UNKNOWN "''check''" "''operator''" demo2]
  show ?thesis
    using d demo2_signals [OF d] by (auto simp: demo4_def beginQuarantine_def on_device_def findLocked_def smap_find_put)
qed

lemma demo5_device: "\<exists>d. findLocked (StrongId 7) demo5 = Some d \<and> dv_state d = HealthState.QUARANTINED \<and>
    \<not> quarantine_active d \<and> signals d = ([], [], Timestamp 100, False) \<and> headroom 10 d"
proof -
  obtain d where d: "findLocked (StrongId 7) demo4 = Some d" "dv_state d = HealthState.QUARANTINED"
    "signals d = ([], [], Timestamp 100, False)" "headroom 10 d" using demo4_device by blast
  then show ?thesis
    using clear_body_ok [of d "StrongId 7" demo4]
    by (auto simp: demo5_def clearQuarantine_def on_device_def findLocked_def smap_find_put signals_def headroom_def)
qed

theorem clearQuarantine_not_ready_witness:
  "\<exists>s' d'. clearQuarantine (StrongId 7) demo4 = (None, s') \<and> findLocked (StrongId 7) s' = Some d' \<and>
     dv_state d' = HealthState.QUARANTINED"
proof -
  obtain d where "findLocked (StrongId 7) demo4 = Some d" "dv_state d = HealthState.QUARANTINED" "\<not> dv_inRecovery d"
    using demo4_device by (auto simp: signals_def)
  from clearQuarantine_not_ready [OF this] show ?thesis by blast
qed

section \<open>Recovery\<close>

interpretation readings: txn_relation "\<lambda>c c'. cl_readings (hs_clock (snd c')) = cl_readings (hs_clock (snd c))" k for k
  by unfold_locales
    (auto simp: keeps_def reassess_finish_def Let_def install_quarantine_eq applyTransition_eq tick_def split: sum.splits)

text \<open>Evidence under which the engine targets HEALTHY.\<close>

definition clean :: "Device \<Rightarrow> HealthPolicy \<Rightarrow> Timestamp \<Rightarrow> bool" where
  "clean d pol now \<longleftrightarrow> \<not> quarantine_active d \<and> (\<forall>f\<in>set (dv_faults d). \<not> open_fatal f) \<and>
     (\<forall>x\<in>set (smap_values (dv_dimensions d)). \<not> failed_dim x) \<and>
     (let c = sint (st_consecutiveLatest (history_stats (dv_faults d))) in
        c < sint (pol_unhealthyAfterFailures pol) \<and> c < sint (pol_degradeAfterFailures pol) \<and>
        ((\<exists>f\<in>set (dv_faults d). open_critical f) \<longrightarrow> c < sint (pol_quarantineAfterFailures pol))) \<and>
     \<not> stale_or_expired (evidence_freshness pol (dv_lastObservation d) now)"

lemma target_clean:
  assumes "clean d (hs_policy s) (reading s)" "\<not> dv_inRecovery d"
  shows "target_of d s = HealthState.HEALTHY"
proof -
  have nofatal: "\<not> (\<exists>x\<in>set (smap_values (dv_dimensions d)). fatal_dim x)"
    using assms(1) by (auto simp: clean_def fatal_dim_def)
  show ?thesis
    using assms nofatal
    by (auto simp: target_of_def assess_target_def clean_def Let_def consecutive_failures_def assess_freshness_def
        stale_or_expired_def simp del: history_stats_simps(5))
qed

definition evidence_of :: "Device \<Rightarrow> QuarantineRecord option \<times> Fault list \<times> (DimensionKind, HealthDimension) stdmap \<times> Timestamp" where
  "evidence_of d = (dv_quarantine d, dv_faults d, dv_dimensions d, dv_lastObservation d)"

lemma clean_cong: "evidence_of d' = evidence_of d \<Longrightarrow> clean d' pol now = clean d pol now"
  by (simp add: evidence_of_def clean_def quarantine_active_def)

text \<open>A device in recovery with \<open>n\<close> passed validations.\<close>

definition recovering :: "nat \<Rightarrow> Device \<Rightarrow> bool" where
  "recovering n d \<longleftrightarrow> dv_inRecovery d \<and> dv_state d \<in> {HealthState.RECOVERING, HealthState.REVALIDATING} \<and>
     (\<exists>r. dv_recovery d = Some r \<and> unat (rec_successfulValidations r) = n)"

lemma reassess_recovering:
  assumes "dv_inRecovery d" "dv_state d \<in> {HealthState.RECOVERING, HealthState.REVALIDATING}"
  shows "\<exists>d' s'. reassessLocked (d, s) = (None, (d', s')) \<and> dv_state d' = dv_state d \<and> dv_inRecovery d' \<and>
    dv_recovery d' = dv_recovery d \<and> evidence_of d' = evidence_of d \<and> dv_healthGeneration d' = dv_healthGeneration d"
proof -
  have "target_of d s = dv_state d"
    using target_cases(2) [of d s] assms by (auto simp: recovery_states_def)
  from reassess_stay [OF this] show ?thesis
    using assms by (auto simp: evidence_of_def)
qed

text \<open>The first statement of a passed revalidation: enter REVALIDATING if not already there.\<close>

lemma enter_revalidating:
  assumes "recovering n d" "headroom (Suc m) d"
  shows "\<exists>d' s'. op_when (\<lambda>(d, _). dv_state d = HealthState.RECOVERING \<and> canTransition (dv_state d) HealthState.REVALIDATING)
      (applyTransitionLocked HealthState.REVALIDATING ''revalidate'' ''enter revalidation'') (d, s) = (None, (d', s')) \<and>
    recovering n d' \<and> dv_state d' = HealthState.REVALIDATING \<and> headroom m d' \<and> evidence_of d' = evidence_of d \<and>
    hs_policy s' = hs_policy s \<and> cl_readings (hs_clock s') = cl_readings (hs_clock s)"
proof (cases "dv_state d = HealthState.RECOVERING")
  case True
  obtain g where "gen_next (dv_healthGeneration d) = Inr g" "unat (gen_get g) = Suc (unat (gen_get (dv_healthGeneration d)))"
    using gen_next_headroom [OF assms(2)] by blast
  then show ?thesis
    using True assms by (simp add: op_when_def applyTransition_eq recovering_def headroom_def evidence_of_def tick_def)
next
  case False
  then show ?thesis
    using assms headroom_mono [OF assms(2), of m] by (auto simp: op_when_def recovering_def)
qed

lemma count_success_recovering:
  assumes "recovering n d" "Suc n < 2 ^ 32"
  shows "recovering (Suc n) (count_success d)" "dv_state (count_success d) = dv_state d"
    "evidence_of (count_success d) = evidence_of d" "dv_healthGeneration (count_success d) = dv_healthGeneration d"
proof -
  obtain r where r: "dv_recovery d = Some r" "unat (rec_successfulValidations r) = n"
    using assms(1) by (auto simp: recovering_def)
  have "unat (rec_successfulValidations r + 1) = Suc n"
    using r(2) assms(2) by (simp add: unat_word_ariths)
  then show "recovering (Suc n) (count_success d)" "dv_state (count_success d) = dv_state d"
    "evidence_of (count_success d) = evidence_of d" "dv_healthGeneration (count_success d) = dv_healthGeneration d"
    using assms(1) r by (auto simp: count_success_def recovering_def evidence_of_def)
qed

lemma recovery_done_iff: "recovering n d \<Longrightarrow> recovery_done d pol \<longleftrightarrow>
    dv_state d = HealthState.REVALIDATING \<and> unat (pol_recoveryValidationsRequired pol) \<le> n"
  by (auto simp: recovery_done_def recovering_def word_le_nat_alt)

lemma run_ops3: "a c = (None, c1) \<Longrightarrow> b c1 = (None, c2) \<Longrightarrow> w c2 = (None, c3) \<Longrightarrow> run_ops [a, b, w] c = (None, c3)"
  by simp

lemma op_when_true: "cond c \<Longrightarrow> a c = x \<Longrightarrow> op_when cond a c = x"
  by (simp add: op_when_def)

lemma revalidate_progress:
  assumes rec: "recovering n d" and small: "Suc n < 2 ^ 32" "Suc n < unat (pol_recoveryValidationsRequired (hs_policy s))"
    and v: "v_passed v" and hr: "headroom (Suc m) d"
  shows "\<exists>d' s'. revalidate_body v (d, s) = (None, (d', s')) \<and> recovering (Suc n) d' \<and>
    dv_state d' = HealthState.REVALIDATING \<and> evidence_of d' = evidence_of d \<and> headroom m d'"
proof -
  let ?d = "validate_device v d"
  have "recovering n ?d" "headroom (Suc m) ?d" "evidence_of ?d = evidence_of d"
    using rec hr by (simp_all add: recovering_def headroom_def evidence_of_def)
  then obtain d1 s1 where 1: "op_when (\<lambda>(d, _). dv_state d = HealthState.RECOVERING \<and> canTransition (dv_state d) HealthState.REVALIDATING)
      (applyTransitionLocked HealthState.REVALIDATING ''revalidate'' ''enter revalidation'') (?d, s) = (None, (d1, s1))"
    "recovering n d1" "dv_state d1 = HealthState.REVALIDATING" "headroom m d1" "evidence_of d1 = evidence_of d" "hs_policy s1 = hs_policy s"
    using enter_revalidating [of n ?d m s] by auto
  note cs = count_success_recovering [OF 1(2) small(1)]
  have "\<not> recovery_done (count_success d1) (hs_policy s1)"
    using recovery_done_iff [OF cs(1)] small 1(6) by simp
  moreover obtain d2 s2 where 2: "reassessLocked (count_success d1, s1) = (None, (d2, s2))" "dv_state d2 = HealthState.REVALIDATING"
    "dv_inRecovery d2" "dv_recovery d2 = dv_recovery (count_success d1)" "evidence_of d2 = evidence_of d"
    "dv_healthGeneration d2 = dv_healthGeneration d1"
    using reassess_recovering [of "count_success d1" s1] cs 1 by (auto simp: recovering_def)
  ultimately have "revalidate_body v (d, s) = (None, (d2, s2))"
    using 1(1) rec v by (simp add: revalidate_body_def recovery_passed_def dev_do_def op_when_def [of "\<lambda>(d, s). recovery_done d (hs_policy s)"]
        op_when_def [of "\<lambda>(d, _). dv_inRecovery d"] recovering_def)
  moreover have "recovering (Suc n) d2" "headroom m d2"
    using 2 cs(1) 1(4) by (auto simp: recovering_def headroom_def)
  ultimately show ?thesis using 2 by blast
qed

lemma revalidate_complete:
  assumes rec: "recovering n d" and small: "Suc n < 2 ^ 32" "unat (pol_recoveryValidationsRequired (hs_policy s)) \<le> Suc n"
    and v: "v_passed v" and hr: "headroom 2 d"
    and cl: "\<And>i. clean d (hs_policy s) (cl_readings (hs_clock s) i)"
  shows "\<exists>d' s'. revalidate_body v (d, s) = (None, (d', s')) \<and> dv_state d' = HealthState.HEALTHY \<and> \<not> dv_inRecovery d' \<and>
    (\<exists>r. dv_recovery d' = Some r \<and> rec_completed r \<and> unat (rec_successfulValidations r) = Suc n)"
proof -
  let ?d = "validate_device v d"
  have "recovering n ?d" "headroom (Suc 1) ?d" "evidence_of ?d = evidence_of d"
    using rec hr by (simp_all add: recovering_def headroom_def evidence_of_def)
  then obtain d1 s1 where 1: "op_when (\<lambda>(d, _). dv_state d = HealthState.RECOVERING \<and> canTransition (dv_state d) HealthState.REVALIDATING)
      (applyTransitionLocked HealthState.REVALIDATING ''revalidate'' ''enter revalidation'') (?d, s) = (None, (d1, s1))"
    "recovering n d1" "dv_state d1 = HealthState.REVALIDATING" "headroom 1 d1" "evidence_of d1 = evidence_of d" "hs_policy s1 = hs_policy s"
    "cl_readings (hs_clock s1) = cl_readings (hs_clock s)"
    using enter_revalidating [of n ?d 1 s] by auto
  let ?d2 = "count_success d1"
  note cs = count_success_recovering [OF 1(2) small(1)]
  obtain r where r: "dv_recovery ?d2 = Some r" "unat (rec_successfulValidations r) = Suc n"
    using cs(1) by (auto simp: recovering_def)
  have rdone: "recovery_done ?d2 (hs_policy s1)"
    using recovery_done_iff [OF cs(1)] small 1(3,6) cs(2) by simp
  obtain g where g: "gen_next (dv_healthGeneration ?d2) = Inr g"
    using gen_next_headroom [of 0 d1] 1(4) cs(4) by auto
  obtain d3 s3 where 3: "run_ops [applyTransitionLocked HealthState.HEALTHY ''recovery'' ''revalidated'',
      dev_do (\<lambda>d. d\<lparr>dv_inRecovery := False\<rparr>), complete_recovery] (?d2, s1) = (None, (d3, s3))"
    "dv_state d3 = HealthState.HEALTHY" "\<not> dv_inRecovery d3" "evidence_of d3 = evidence_of d"
    "\<exists>r. dv_recovery d3 = Some r \<and> rec_completed r \<and> unat (rec_successfulValidations r) = Suc n"
    "hs_policy s3 = hs_policy s1"
    using g r cs(2) 1(3,5) cs(3) by (simp add: applyTransition_eq dev_do_def complete_recovery_def clock_now_eq evidence_of_def)
  have "cl_readings (hs_clock s1) = cl_readings (hs_clock s)" by (rule 1(7))
  moreover have "cl_readings (hs_clock s3) = cl_readings (hs_clock s1)"
    using 3(1) g r cs(2) 1(3) by (auto simp: applyTransition_eq dev_do_def complete_recovery_def clock_now_eq tick_def)
  ultimately have "target_of d3 s3 = dv_state d3"
    using target_clean [of d3 s3] cl clean_cong [OF 3(4)] 3 1(6) by (simp add: reading_def)
  from reassess_stay [OF this] obtain s4 where 4: "reassessLocked (d3, s3) = (None, (finish_device (reading s3) (hs_policy s3)
      (hs_policyGeneration s3) (verdict d3 s3) False d3, s4))" by blast
  have passed: "recovery_passed (?d, s) = (None, (d3, s3))"
    unfolding recovery_passed_def
  proof (rule run_ops3, rule 1(1))
    show "op_when (\<lambda>(d, s). recovery_done d (hs_policy s)) (run_ops [applyTransitionLocked HealthState.HEALTHY ''recovery'' ''revalidated'',
      dev_do (\<lambda>d. d\<lparr>dv_inRecovery := False\<rparr>), complete_recovery]) (?d2, s1) = (None, (d3, s3))"
      by (rule op_when_true) (use rdone 3(1) in simp_all)
  qed (simp add: dev_do_def)
  have "revalidate_body v (d, s) = (None, (finish_device (reading s3) (hs_policy s3)
      (hs_policyGeneration s3) (verdict d3 s3) False d3, s4))"
    unfolding revalidate_body_def
  proof (rule run_ops3)
    show "dev_do (validate_device v) (d, s) = (None, (?d, s))" by (simp add: dev_do_def)
    show "op_when (\<lambda>(d, _). dv_inRecovery d) (if v_passed v then recovery_passed else recovery_failed) (?d, s) = (None, (d3, s3))"
      by (rule op_when_true) (use rec v passed in \<open>simp_all add: recovering_def\<close>)
  qed (rule 4)
  then show ?thesis using 3 by simp
qed

lemma recovery_body_ok:
  assumes st: "settled (d, s)" and nr: "\<not> dv_inRecovery d" and legal: "canTransition (dv_state d) HealthState.RECOVERING"
    and hr: "headroom (Suc m) d"
  shows "\<exists>d' s'. recovery_body (d, s) = (None, (d', s')) \<and> recovering 0 d' \<and> evidence_of d' = evidence_of d \<and> headroom m d'"
proof -
  obtain g where g: "gen_next (dv_healthGeneration d) = Inr g" "unat (gen_get g) = Suc (unat (gen_get (dv_healthGeneration d)))"
    using gen_next_headroom [OF hr] by blast
  have ne: "dv_state d \<noteq> HealthState.RECOVERING" using legal by auto
  have "\<exists>rg. (case dv_recovery d of Some r \<Rightarrow> gen_next (rec_generation r) | None \<Rightarrow> Inr (Generation 1)) = Inr rg"
  proof (cases "dv_recovery d")
    case (Some r)
    then have "gen_get (rec_generation r) < gen_get (dv_healthGeneration d)"
      using st by (simp add: settled_def anchored_def)
    then have "gen_get (rec_generation r) \<noteq> - 1"
      using word_n1_ge [of "gen_get (dv_healthGeneration d)"] by auto
    then show ?thesis using Some by (simp add: gen_next_def)
  qed simp
  then obtain d1 s1 where 1: "run_ops [applyTransitionLocked HealthState.RECOVERING ''recovery'' ''begin recovery'',
      dev_do (\<lambda>d. d\<lparr>dv_inRecovery := True\<rparr>), install_recovery] (d, s) = (None, (d1, s1))"
    "recovering 0 d1" "evidence_of d1 = evidence_of d" "headroom m d1"
    using g ne legal hr
    by (auto simp: applyTransition_eq dev_do_def install_recovery_def Let_def clock_now_eq recovering_def evidence_of_def headroom_def)
  obtain d2 s2 where 2: "reassessLocked (d1, s1) = (None, (d2, s2))" "dv_state d2 = dv_state d1" "dv_inRecovery d2"
    "dv_recovery d2 = dv_recovery d1" "evidence_of d2 = evidence_of d1" "dv_healthGeneration d2 = dv_healthGeneration d1"
    using reassess_recovering [of d1 s1] 1(2) by (auto simp: recovering_def)
  have "recovery_body (d, s) = (None, (d2, s2))"
    using 1(1) 2(1) nr legal by (auto simp: recovery_body_def split: prod.splits option.splits)
  moreover have "recovering 0 d2" "headroom m d2"
    using 1(2,4) 2 by (auto simp: recovering_def headroom_def)
  ultimately show ?thesis using 1(3) 2(5) by auto
qed

fun revalidate_all :: "AcceleratorId \<Rightarrow> ValidationRecord list \<Rightarrow> HealthStore \<Rightarrow> exn option \<times> HealthStore" where
  "revalidate_all k [] s = (None, s)"
| "revalidate_all k (v # vs) s = (case revalidate k v s of
     (Inl e, s') \<Rightarrow> (Some e, s') | (Inr _, s') \<Rightarrow> revalidate_all k vs s')"

lemma revalidate_store:
  assumes "findLocked k s = Some d" "revalidate_body v (d, s) = (None, (d', s1))"
  shows "revalidate k v s = (Inr (makeSnapshotLocked d'), put_device k (d', s1))"
    "findLocked k (put_device k (d', s1)) = Some d'" "hs_policy (put_device k (d', s1)) = hs_policy s"
    "cl_readings (hs_clock (put_device k (d', s1))) = cl_readings (hs_clock s)"
proof -
  have step: "txn_step k (d, s) (d', s1)"
    using txn_step.revalidate [of k "(d, s)" v] assms(2) by simp
  show "revalidate k v s = (Inr (makeSnapshotLocked d'), put_device k (d', s1))"
    using assms by (simp add: revalidate_def)
  show "findLocked k (put_device k (d', s1)) = Some d'" "hs_policy (put_device k (d', s1)) = hs_policy s"
    using txn_devices(1) [OF step, of k] frame.txn_step_keeps [OF step] by (simp_all add: store_frame_def)
  show "cl_readings (hs_clock (put_device k (d', s1))) = cl_readings (hs_clock s)"
    using readings.txn_step_keeps [OF step] by (simp add: put_device_def)
qed

lemma recovery_run:
  assumes "findLocked k s = Some d" "recovering n d" "vs \<noteq> []" "\<And>v. v \<in> set vs \<Longrightarrow> v_passed v"
    "n + length vs < 2 ^ 32" "unat (pol_recoveryValidationsRequired (hs_policy s)) \<le> n + length vs"
    "1 < length vs \<Longrightarrow> n + length vs \<le> unat (pol_recoveryValidationsRequired (hs_policy s))"
    "headroom (Suc (length vs)) d" "\<And>i. clean d (hs_policy s) (cl_readings (hs_clock s) i)"
  shows "\<exists>s' d'. revalidate_all k vs s = (None, s') \<and> findLocked k s' = Some d' \<and> dv_state d' = HealthState.HEALTHY \<and>
    \<not> dv_inRecovery d' \<and> (\<exists>r. dv_recovery d' = Some r \<and> rec_completed r)"
  using assms
proof (induction vs arbitrary: s d n)
  case (Cons v vs)
  show ?case
  proof (cases "vs = []")
    case True
    obtain d' s1 where d': "revalidate_body v (d, s) = (None, (d', s1))" "dv_state d' = HealthState.HEALTHY"
      "\<not> dv_inRecovery d'" "\<exists>r. dv_recovery d' = Some r \<and> rec_completed r"
      using revalidate_complete [OF Cons.prems(2), of s v] Cons.prems True by (auto simp: numeral_2_eq_2)
    show ?thesis
      using revalidate_store [OF Cons.prems(1) d'(1)] d' True by simp
  next
    case False
    then have len: "0 < length vs" by simp
    then have more: "Suc n < unat (pol_recoveryValidationsRequired (hs_policy s))"
      using Cons.prems(7) by (cases vs) simp_all
    obtain d1 s1 where d1: "revalidate_body v (d, s) = (None, (d1, s1))" "recovering (Suc n) d1"
      "evidence_of d1 = evidence_of d" "headroom (Suc (length vs)) d1"
      using revalidate_progress [OF Cons.prems(2) _ more, of v "Suc (length vs)"] Cons.prems by auto
    note rs = revalidate_store [OF Cons.prems(1) d1(1)]
    have "\<exists>s' d'. revalidate_all k vs (put_device k (d1, s1)) = (None, s') \<and> findLocked k s' = Some d' \<and>
        dv_state d' = HealthState.HEALTHY \<and> \<not> dv_inRecovery d' \<and> (\<exists>r. dv_recovery d' = Some r \<and> rec_completed r)"
      by (rule Cons.IH [OF rs(2) d1(2)]) (use False Cons.prems d1(4) rs(3,4) clean_cong [OF d1(3)] in auto)
    then show ?thesis using rs(1) by simp
  qed
qed simp


lemma demo5_reachable: "reachable real_uuid demo5"
  unfolding demo5_def demo4_def
  by (rule reachable_step [OF reachable_step [OF demo_reachable(2) store_step.beginQuarantine] store_step.clearQuarantine])

lemma demo5_frame: "hs_policy demo5 = demo_policy" "cl_readings (hs_clock demo5) i = Timestamp 100"
proof -
  have one: "hs_policy (snd (on_device k m body s)) = hs_policy s \<and>
      cl_readings (hs_clock (snd (on_device k m body s))) = cl_readings (hs_clock s)"
    if txn: "\<And>c. txn_step k c (snd (body c))" for k m body s
  proof (cases "findLocked k s")
    case (Some d)
    then show ?thesis
      using frame.txn_step_keeps [OF txn [of "(d, s)"]] readings.txn_step_keeps [OF txn [of "(d, s)"]]
      by (auto simp: on_device_def store_frame_def put_device_def split: prod.splits)
  qed (simp add: on_device_def)
  have "hs_policy demo2 = demo_policy \<and> cl_readings (hs_clock demo2) = (\<lambda>_. Timestamp 100)"
    using frame.txn_step_keeps [OF txn_step.reassess] readings.txn_step_keeps [OF txn_step.reassess]
    by (simp add: demo2_eq store_frame_def observed_def put_device_def demo1_store)
      (simp add: demo1_def demo0_def registerWorker_def HealthStore_new_def registerDevice_def clock_now_eq tick_def
        FakeClock_def updateIndexesLocked_def Let_def)
  then show "hs_policy demo5 = demo_policy" "cl_readings (hs_clock demo5) i = Timestamp 100"
    using one txn_step.quarantine txn_step.clear
    by (auto simp: demo5_def demo4_def clearQuarantine_def beginQuarantine_def)
qed

definition demo_validation :: ValidationRecord where
  "demo_validation = \<lparr>v_id = StrongId 1, v_accelerator = StrongId 7, v_timestamp = Timestamp 100,
     v_profile = ValidationProfile.FULL, v_depth = ValidationDepth.FULL, v_passed = True, v_maxError = 0,
     v_detail = [], v_worker = StrongId 3, v_workerBootId = StrongId 4, v_validationGeneration = Generation 1,
     v_deviceGeneration = Generation 1\<rparr>"


text \<open>A failed validation during recovery does not leave the device quarantined: the device goes to
  QUARANTINED and, in the same call, back to RECOVERING, since it is still flagged as in recovery; no
  quarantine is activated by it.\<close>

theorem failed_revalidation_keeps_recovering:
  assumes "findLocked k s = Some d" "dv_inRecovery d"
    "dv_state d \<in> {HealthState.RECOVERING, HealthState.REVALIDATING}" "\<not> v_passed v" "headroom 2 d"
  shows "\<exists>s' d'. revalidate k v s = (Inr (makeSnapshotLocked d'), s') \<and> findLocked k s' = Some d' \<and>
    dv_state d' = HealthState.RECOVERING \<and> dv_inRecovery d' \<and> quarantine_active d' = quarantine_active d \<and>
    map hc_to (dv_changes d') = map hc_to (dv_changes d) @ [HealthState.QUARANTINED, HealthState.RECOVERING]"
proof -
  let ?d = "validate_device v d"
  obtain g where g: "gen_next (dv_healthGeneration d) = Inr g" "unat (gen_get g) = Suc (unat (gen_get (dv_healthGeneration d)))"
    using gen_next_headroom [of 1 d] assms(5) by (auto simp: numeral_2_eq_2)
  obtain d1 s1 where 1: "op_when (\<lambda>(d, _). dv_inRecovery d) (if v_passed v then recovery_passed else recovery_failed) (?d, s) = (None, (d1, s1))"
    "dv_state d1 = HealthState.QUARANTINED" "dv_inRecovery d1" "quarantine_active d1 = quarantine_active d" "headroom 1 d1"
    "map hc_to (dv_changes d1) = map hc_to (dv_changes d) @ [HealthState.QUARANTINED]"
    using assms(2-5) g by (auto simp: op_when_def recovery_failed_def applyTransition_eq quarantine_active_def headroom_def)
  have t: "target_of d1 s1 = HealthState.RECOVERING"
    using target_cases(2) [of d1 s1] 1(2,3) by simp
  obtain g' where g': "gen_next (dv_healthGeneration d1) = Inr g'"
    using gen_next_headroom [of 0 d1] 1(5) by auto
  obtain d2 s2 where 2: "reassessLocked (d1, s1) = (None, (d2, s2))" "dv_state d2 = HealthState.RECOVERING" "dv_inRecovery d2"
    "quarantine_active d2 = quarantine_active d1" "map hc_to (dv_changes d2) = map hc_to (dv_changes d1) @ [HealthState.RECOVERING]"
    using t g' 1(2,3) by (simp add: reassess_eq reassess_finish_def Let_def) (simp add: moved_def Let_def)
  have "revalidate_body v (d, s) = (None, (d2, s2))"
    unfolding revalidate_body_def
    by (rule run_ops3) (simp add: dev_do_def, rule 1(1), rule 2(1))
  from revalidate_store [OF assms(1) this] 1 2 show ?thesis by auto
qed

theorem failed_revalidation_keeps_recovering_witness:
  "\<exists>s1 s' d'. beginRecovery (StrongId 7) demo5 = (None, s1) \<and>
     revalidate (StrongId 7) (demo_validation\<lparr>v_passed := False\<rparr>) s1 = (Inr (makeSnapshotLocked d'), s') \<and>
     dv_state d' = HealthState.RECOVERING"
proof -
  obtain d where d: "findLocked (StrongId 7) demo5 = Some d" "dv_state d = HealthState.QUARANTINED" "\<not> dv_inRecovery d" "headroom 10 d"
    using demo5_device by (auto simp: signals_def)
  have "settled (d, demo5)"
    using reachable_inv [OF demo5_reachable] d(1) by (auto simp: store_inv_def device_ok_def)
  moreover have "canTransition (dv_state d) HealthState.RECOVERING" "headroom (Suc 9) d" using d by simp_all
  ultimately obtain d1 s1 where 1: "recovery_body (d, demo5) = (None, (d1, s1))" "recovering 0 d1" "headroom 9 d1"
    using recovery_body_ok d(3) by blast
  have "beginRecovery (StrongId 7) demo5 = (None, put_device (StrongId 7) (d1, s1))"
    using d(1) 1(1) by (simp add: beginRecovery_def on_device_def)
  moreover have "findLocked (StrongId 7) (put_device (StrongId 7) (d1, s1)) = Some d1"
    by (simp add: findLocked_def smap_find_put)
  moreover have "headroom 2 d1" using headroom_mono [OF 1(3)] by simp
  ultimately show ?thesis
    using failed_revalidation_keeps_recovering [of "StrongId 7" "put_device (StrongId 7) (d1, s1)" d1 "demo_validation\<lparr>v_passed := False\<rparr>"]
      1(2) by (auto simp: recovering_def)
qed

section \<open>Accounting\<close>

definition in_state :: "HealthState \<Rightarrow> Device list \<Rightarrow> nat" where
  "in_state st ds = length (filter (\<lambda>d. dv_state d = st) ds)"

lemma account_faults:
  "ac_unresolvedFaults (foldl account_fault a fs) = ac_unresolvedFaults a + of_nat (length (openFaults fs))"
  "ac_resolvedFaults (foldl account_fault a fs) = ac_resolvedFaults a + of_nat (length (filter (\<lambda>f. \<not> is_open f) fs))"
  "ac_tracked (foldl account_fault a fs) = ac_tracked a" "ac_healthy (foldl account_fault a fs) = ac_healthy a"
  "ac_degraded (foldl account_fault a fs) = ac_degraded a" "ac_unhealthy (foldl account_fault a fs) = ac_unhealthy a"
  "ac_failed (foldl account_fault a fs) = ac_failed a" "ac_quarantined (foldl account_fault a fs) = ac_quarantined a"
  "ac_recovering (foldl account_fault a fs) = ac_recovering a" "ac_stale (foldl account_fault a fs) = ac_stale a"
  "ac_validationRecords (foldl account_fault a fs) = ac_validationRecords a"
  by (induction fs arbitrary: a) (auto simp: account_fault_def openFaults_def is_open_def)

lemma account_devices:
  "ac_tracked (foldl account_device a ds) = ac_tracked a + of_nat (length ds)"
  "ac_healthy (foldl account_device a ds) = ac_healthy a + of_nat (in_state HealthState.HEALTHY ds)"
  "ac_degraded (foldl account_device a ds) = ac_degraded a + of_nat (in_state HealthState.DEGRADED ds)"
  "ac_unhealthy (foldl account_device a ds) = ac_unhealthy a + of_nat (in_state HealthState.UNHEALTHY ds)"
  "ac_failed (foldl account_device a ds) = ac_failed a + of_nat (in_state HealthState.FAILED ds)"
  "ac_quarantined (foldl account_device a ds) = ac_quarantined a + of_nat (in_state HealthState.QUARANTINED ds)"
  "ac_recovering (foldl account_device a ds) = ac_recovering a + of_nat (length (filter dv_inRecovery ds))"
  "ac_validationRecords (foldl account_device a ds) = ac_validationRecords a + of_nat (length (concat (map dv_validations ds)))"
  "ac_stale (foldl account_device a ds) = ac_stale a"
  by (induction ds arbitrary: a)
    (simp_all add: account_device_def account_state_def account_faults in_state_def Let_def)

lemma account_devices_faults:
  "ac_unresolvedFaults (foldl account_device a ds) = ac_unresolvedFaults a + of_nat (length (openFaults (concat (map dv_faults ds))))"
  "ac_resolvedFaults (foldl account_device a ds) = ac_resolvedFaults a + of_nat (length (filter (\<lambda>f. \<not> is_open f) (concat (map dv_faults ds))))"
  by (induction ds arbitrary: a)
    (simp_all add: account_device_def account_state_def account_faults openFaults_def Let_def)

lemma account_stale_fold:
  "\<exists>m \<le> length ds. ac_stale (fst (foldl account_stale (a, s) ds)) = ac_stale a + of_nat m \<and>
     fst (foldl account_stale (a, s) ds) = a\<lparr>ac_stale := ac_stale a + of_nat m\<rparr>"
proof (induction ds arbitrary: a s)
  case (Cons d ds)
  obtain a1 s1 where 1: "account_stale (a, s) d = (a1, s1)" by (cases "account_stale (a, s) d")
  then have a1: "a1 = a \<or> a1 = a\<lparr>ac_stale := ac_stale a + 1\<rparr>"
    by (auto simp: account_stale_def split: prod.splits if_splits)
  from Cons.IH [of a1 s1] obtain m where m: "m \<le> length ds" "fst (foldl account_stale (a1, s1) ds) = a1\<lparr>ac_stale := ac_stale a1 + of_nat m\<rparr>"
    by blast
  from a1 show ?case
  proof
    assume "a1 = a"
    then show ?thesis using m 1 by (intro exI [of _ m]) simp
  next
    assume "a1 = a\<lparr>ac_stale := ac_stale a + 1\<rparr>"
    then show ?thesis using m 1 by (intro exI [of _ "Suc m"]) (simp add: add.assoc)
  qed
qed simp

text \<open>The accounting counts what the store holds: tracked, healthy, degraded, unhealthy, failed and
  quarantined devices by their state, devices in recovery, validation records, open faults, and all
  other faults as resolved (each modulo 2^64); the stale count is at most the number of devices, and
  accounting changes nothing but the clock.\<close>

theorem accounting_correct:
  "case accounting s of (a, s') \<Rightarrow>
     let ds = smap_values (hs_devices s) in
       ac_tracked a = of_nat (length ds) \<and>
       ac_healthy a = of_nat (in_state HealthState.HEALTHY ds) \<and>
       ac_degraded a = of_nat (in_state HealthState.DEGRADED ds) \<and>
       ac_unhealthy a = of_nat (in_state HealthState.UNHEALTHY ds) \<and>
       ac_failed a = of_nat (in_state HealthState.FAILED ds) \<and>
       ac_quarantined a = of_nat (in_state HealthState.QUARANTINED ds) \<and>
       ac_recovering a = of_nat (length (filter dv_inRecovery ds)) \<and>
       ac_validationRecords a = of_nat (length (concat (map dv_validations ds))) \<and>
       ac_unresolvedFaults a = of_nat (length (openFaults (concat (map dv_faults ds)))) \<and>
       ac_resolvedFaults a = of_nat (length (filter (\<lambda>f. \<not> is_open f) (concat (map dv_faults ds)))) \<and>
       (\<exists>m \<le> length ds. ac_stale a = of_nat m) \<and> same_books s s'"
proof -
  let ?ds = "smap_values (hs_devices s)" and ?a = "foldl account_device default_Accounting (smap_values (hs_devices s))"
  obtain m where m: "m \<le> length ?ds" "fst (foldl account_stale (?a, s) ?ds) = ?a\<lparr>ac_stale := ac_stale ?a + of_nat m\<rparr>"
    using account_stale_fold [of ?ds ?a s] by blast
  have a: "fst (accounting s) = ?a\<lparr>ac_stale := of_nat m\<rparr>"
    using m(2) by (simp add: accounting_def recomputeAccounting_def Let_def account_devices default_Accounting_def)
  have b: "same_books s (snd (accounting s))"
    by (simp add: accounting_def recomputeAccounting_def Let_def accounting_books)
  have z: "ac_tracked default_Accounting = 0" "ac_healthy default_Accounting = 0" "ac_degraded default_Accounting = 0"
    "ac_unhealthy default_Accounting = 0" "ac_failed default_Accounting = 0" "ac_quarantined default_Accounting = 0"
    "ac_recovering default_Accounting = 0" "ac_validationRecords default_Accounting = 0"
    "ac_unresolvedFaults default_Accounting = 0" "ac_resolvedFaults default_Accounting = 0"
    by (simp_all add: default_Accounting_def)
  show ?thesis
    unfolding case_prod_beta Let_def a using b m(1)
    by (auto simp: account_devices account_devices_faults z)
qed

end
