(* ===== verification/Framing.thy ===== *)
theory Framing
  imports Wire
begin

text \<open>
  What the persistence format (\<open>Persistence.cpp\<close>) and the network format (\<open>Protocol.cpp\<close>) have in
  common: a message is closed by the CRC-32 of everything before it, stored little-endian.  \<open>seal\<close>
  appends the checksum, \<open>sealed\<close> is the check both decoders make.

  Running the checksum register over a sealed message leaves a constant, whatever the message
  (\<open>sealed_residue\<close>).  Hence a sealed message in which any four consecutive bytes are altered is no
  longer sealed, even where the altered bytes straddle the checksum.  The locale \<open>sealed_format\<close> turns
  this into a statement about a decoder that insists on the seal.
\<close>

definition seal :: "bytes \<Rightarrow> bytes" where
  "seal bs = bs @ store_le32 (crc32 bs)"

definition sealed :: "bytes \<Rightarrow> bool" where
  "sealed bs \<longleftrightarrow> 4 \<le> length bs \<and>
     load_le32 (drop (length bs - 4) bs) = crc32 (take (length bs - 4) bs)"

section \<open>Little-endian words and the checksum register\<close>

lemma load_le32_window:
  assumes "length bs = 4" shows "load_le32 bs = window bs"
proof (rule bit_word_eqI)
  fix n assume n: "n < LENGTH(32)"
  obtain a b c d where bs: "bs = [a, b, c, d]"
    using assms by (auto simp: numeral_eq_Suc length_Suc_conv)
  from n consider "n < 8" | "8 \<le> n" "n < 16" | "16 \<le> n" "n < 24" | "24 \<le> n" "n < 32"
    by fastforce
  then show "bit (load_le32 bs) n = bit (window bs) n"
    by cases (auto simp: bs load_le32_def bit_simps dest: bit_imp_le_length)
qed

lemma load_le32_take: "4 \<le> length p \<Longrightarrow> load_le32 (take 4 p) = load_le32 p"
  using load_le32_append [of "take 4 p" "drop 4 p"] by simp

lemma load_store_le32_exact [simp]: "load_le32 (store_le32 v) = v"
  using load_store_le32 [of v "[]"] by simp

lemma window_store_le32 [simp]: "window (store_le32 v) = v"
  by (simp flip: load_le32_window)

lemma sealed_seal [simp]: "sealed (seal bs)"
  by (simp add: sealed_def seal_def)

lemma sealed_append: "length cs = 4 \<Longrightarrow> sealed (bs @ cs) \<longleftrightarrow> load_le32 cs = crc32 bs"
  by (simp add: sealed_def)

text \<open>The register after a sealed message does not depend on the message.\<close>

lemma sealed_residue:
  assumes "sealed bs"
  shows "foldl crc_step 0xFFFFFFFF bs = (crc_bit ^^ 32) (- 1)"
proof -
  define n where "n = length bs - 4"
  define reg where "reg = foldl crc_step 0xFFFFFFFF (take n bs)"
  have len: "length (drop n bs) = 4"
    using assms by (simp add: sealed_def n_def)
  have "window (drop n bs) = reg XOR 0xFFFFFFFF"
    using assms load_le32_window [OF len] by (simp add: sealed_def n_def reg_def crc32_def)
  then have "reg XOR window (drop n bs) = - 1"
    by (simp flip: xor.assoc)
  then have "foldl crc_step reg (drop n bs) = (crc_bit ^^ 32) (- 1)"
    using crc_window [of "drop n bs" reg] len by simp
  then show ?thesis
    unfolding reg_def by (simp flip: foldl_append)
qed

text \<open>Buffers that differ in at most four consecutive bytes.\<close>

definition burst :: "bytes \<Rightarrow> bytes \<Rightarrow> bool" where
  "burst bs bs' \<longleftrightarrow> bs \<noteq> bs' \<and> (\<exists>pre w w' post. bs = pre @ w @ post \<and> bs' = pre @ w' @ post \<and>
     length w = length w' \<and> length w \<le> 4)"

lemma burst_length: "burst bs bs' \<Longrightarrow> length bs' = length bs"
  by (auto simp: burst_def)

lemma burst_update:
  assumes "i < length bs" "b \<noteq> bs ! i"
  shows "burst bs (bs[i := b])"
proof -
  have "bs = take i bs @ [bs ! i] @ drop (Suc i) bs" "bs[i := b] = take i bs @ [b] @ drop (Suc i) bs"
    using assms(1) by (simp_all add: id_take_nth_drop upd_conv_take_nth_drop)
  moreover have "bs[i := b] \<noteq> bs"
    using assms by (metis nth_list_update_eq)
  ultimately show ?thesis
    unfolding burst_def by (metis length_Cons list.size(3) one_le_numeral One_nat_def)
qed

lemma burst_unseals:
  assumes "sealed bs" "burst bs bs'"
  shows "\<not> sealed bs'"
proof
  assume "sealed bs'"
  obtain pre w w' post where w: "bs = pre @ w @ post" "bs' = pre @ w' @ post" "w \<noteq> w'"
      "length w = length w'" "length w \<le> 4"
    using assms(2) unfolding burst_def by metis
  have "crc32 (pre @ w @ post) = crc32 (pre @ w' @ post)"
    using sealed_residue [OF assms(1)] sealed_residue [OF \<open>sealed bs'\<close>] w(1,2) by (simp add: crc32_def)
  then show False
    using crc32_window_neq w by blast
qed

text \<open>A decoder that accepts sealed messages only.\<close>

locale sealed_format =
  fixes accepts :: "bytes \<Rightarrow> bool"
  assumes accepts_sealed: "accepts bs \<Longrightarrow> sealed bs"
begin

lemma burst_rejected: "accepts bs \<Longrightarrow> burst bs bs' \<Longrightarrow> \<not> accepts bs'"
  using accepts_sealed burst_unseals by blast

lemma byte_rejected: "accepts bs \<Longrightarrow> i < length bs \<Longrightarrow> b \<noteq> bs ! i \<Longrightarrow> \<not> accepts (bs[i := b])"
  using burst_rejected burst_update by blast

end

end
