(* ===== verification/Persistence.thy ===== *)
theory Persistence
  imports StoreRecovery Framing
begin

text \<open>
  Model of \<open>Persistence.cpp\<close>: the snapshot format of the health store.  \<open>encodeStateInternal\<close> yields the
  bytes, or the exception of an overlong string; \<open>decodeStateInternal\<close> maps the bytes and the store it
  fills to the way it returns and the store as it then stands.  A decoder step that may give up with
  a message is a \<open>pd\<close>: a reader computation whose result is a value or the exit taken, either \<open>return
  false\<close> with the text written to \<open>*error\<close> (\<open>Refused\<close>) or an exception that leaves the function
  (\<open>Thrown\<close>).
\<close>

section \<open>Assessments\<close>

definition writeAssessment :: "HealthAssessment \<Rightarrow> wr" where
  "writeAssessment a = wr_all [
     StrongId_write (a_id a),
     StrongId_write (a_accelerator a),
     StrongId_write (a_uuid a),
     HealthState_write (a_state a),
     ReadinessState_write (a_readiness a),
     ValidationDepth_write (a_validationDepth a),
     wr_f32 (a_confidence a),
     ActionRequired_write (a_action a),
     wr_bool (a_executionReady a),
     wr_bool (a_quarantined a),
     StrongId_write (a_quarantineId a),
     wr_bool (a_inRecovery a),
     Timestamp_write (a_timestamp a),
     Generation_write (a_healthGeneration a),
     Generation_write (a_policyGeneration a),
     Generation_write (a_deviceGeneration a),
     wr_u32 (of_nat (length (a_reasons a))),
     wr_all (map wr_string (a_reasons a)),
     wr_string (a_digest a)]"

definition readAssessment :: "HealthAssessment option rd" where
  "readAssessment = do {
     id' \<leftarrow> StrongId_read;
     accelerator' \<leftarrow> StrongId_read;
     uuid' \<leftarrow> StrongId_read;
     rd_try HealthState_read (\<lambda>state'.
     rd_try ReadinessState_read (\<lambda>readiness'.
     rd_try ValidationDepth_read (\<lambda>validationDepth'. do {
     confidence' \<leftarrow> rd_f32;
     rd_try ActionRequired_read (\<lambda>action'. do {
     executionReady' \<leftarrow> rd_bool;
     quarantined' \<leftarrow> rd_bool;
     quarantineId' \<leftarrow> StrongId_read;
     inRecovery' \<leftarrow> rd_bool;
     timestamp' \<leftarrow> Timestamp_read;
     healthGeneration' \<leftarrow> Generation_read;
     policyGeneration' \<leftarrow> Generation_read;
     deviceGeneration' \<leftarrow> Generation_read;
     rd_try rd_count (\<lambda>n. do {
     reasons' \<leftarrow> rd_times_plain n rd_string;
     digest' \<leftarrow> rd_string;
     rd_ok \<lparr>a_id = id', a_accelerator = accelerator', a_uuid = uuid', a_state = state',
       a_readiness = readiness', a_validationDepth = validationDepth', a_confidence = confidence',
       a_action = action', a_executionReady = executionReady', a_quarantined = quarantined',
       a_quarantineId = quarantineId', a_inRecovery = inRecovery', a_timestamp = timestamp',
       a_healthGeneration = healthGeneration', a_policyGeneration = policyGeneration',
       a_deviceGeneration = deviceGeneration', a_reasons = reasons', a_digest = digest'\<rparr> }) }) }))) }"

section \<open>Encoding\<close>

definition kMagicP :: bytes where
  "kMagicP = [0x41, 0x48, 0x50, 0x53]"

definition kPersistenceSchemaVersion :: u32 where
  "kPersistenceSchemaVersion = 1"

text \<open>\<open>body.u8(x ? 1 : 0); if (x) x->write(body);\<close>\<close>

definition wr_optional :: "('a \<Rightarrow> wr) \<Rightarrow> 'a option \<Rightarrow> wr" where
  "wr_optional enc x = (case x of None \<Rightarrow> wr_all [wr_u8 0] | Some y \<Rightarrow> wr_all [wr_u8 1, enc y])"

definition head_fields :: "Device \<Rightarrow> wr list" where
  "head_fields d = [
     StrongId_write (dv_id d),
     StrongId_write (dv_uuid d),
     StrongId_write (dv_node d),
     StrongId_write (dv_lastWorker d),
     StrongId_write (dv_lastWorkerBootId d),
     Generation_write (dv_generation d),
     HealthState_write (dv_state d),
     ReadinessState_write (dv_readiness d),
     wr_u64 (gen_get (dv_healthGeneration d)),
     wr_u64 (dv_transitionCount d)]"

definition history_fields :: "Device \<Rightarrow> wr list" where
  "history_fields d = [
     wr_vec HealthDimension_write (smap_values (dv_dimensions d)),
     wr_vec Evidence_write (dv_recentEvidence d),
     wr_vec Fault_write (dv_faults d),
     wr_vec ValidationRecord_write (dv_validations d),
     wr_vec HealthChange_write (dv_changes d)]"

definition tail_fields :: "Device \<Rightarrow> wr list" where
  "tail_fields d = [
     writeAssessment (dv_latestAssessment d),
     ValidationDepth_write (dv_highestValidation d),
     Timestamp_write (dv_lastObservation d),
     Timestamp_write (dv_firstSeen d),
     wr_optional QuarantineRecord_write (dv_quarantine d),
     wr_optional RecoveryRecord_write (dv_recovery d),
     wr_bool (dv_deviceGenerationChangedFlag d),
     wr_bool (dv_policyGenerationChangedFlag d),
     wr_bool (dv_inRecovery d),
     wr_bool (dv_present d)]"

definition encode_device :: "Device \<Rightarrow> wr" where
  "encode_device d = wr_all (head_fields d @ history_fields d @ tail_fields d)"

definition encode_body :: "HealthStore \<Rightarrow> wr" where
  "encode_body s = wr_all [
     HealthPolicy_write (hs_policy s),
     wr_u64 (gen_get (hs_policyGeneration s)),
     wr_u64 (hs_coordinatorEpoch s),
     wr_vec encode_device (smap_values (hs_devices s))]"

definition persist_frame :: "bytes \<Rightarrow> bytes" where
  "persist_frame body =
     kMagicP @ store_le32 kPersistenceSchemaVersion @ store_le32 (of_nat (length body)) @ body"

definition encodeStateInternal :: "HealthStore \<Rightarrow> wr" where
  "encodeStateInternal s = (case encode_body s of
     Inl e \<Rightarrow> Inl e
   | Inr body \<Rightarrow> (let result = persist_frame body in Inr (result @ store_le32 (crc32 result))))"

section \<open>Decoding: statements that may give up\<close>

datatype dec_exit = Refused string | Thrown exn

type_synonym 'a pd = "(dec_exit + 'a) rd"

definition pd_return :: "'a \<Rightarrow> 'a pd" where
  "pd_return x = State_Monad.return (Inr x)"

definition pd_stop :: "dec_exit \<Rightarrow> 'a pd" where
  "pd_stop e = State_Monad.return (Inl e)"

text \<open>\<open>if (!read(r, x)) { *error = msg; return false; }\<close>\<close>

definition pd_or :: "'a option rd \<Rightarrow> string \<Rightarrow> ('a \<Rightarrow> 'b pd) \<Rightarrow> 'b pd" where
  "pd_or m msg k = do { x \<leftarrow> m; (case x of None \<Rightarrow> pd_stop (Refused msg) | Some y \<Rightarrow> k y) }"

definition pd_then :: "'a pd \<Rightarrow> ('a \<Rightarrow> 'b pd) \<Rightarrow> 'b pd" where
  "pd_then m k = do { x \<leftarrow> m; (case x of Inl e \<Rightarrow> pd_stop e | Inr y \<Rightarrow> k y) }"

text \<open>\<open>n = r.u32(); if (r.fail() || n > kMaxCount) { *error = msg; return false; }\<close>\<close>

definition rd_bounded :: "nat option rd" where
  "rd_bounded = do { n \<leftarrow> rd_u32;
     State (\<lambda>r. (if rd_fail r \<or> unat n > kMaxCount then None else Some (unat n), r)) }"

primrec pd_loop :: "nat \<Rightarrow> ('a \<Rightarrow> 'a pd) \<Rightarrow> 'a \<Rightarrow> 'a pd" where
  "pd_loop 0 step acc = pd_return acc"
| "pd_loop (Suc n) step acc = pd_then (step acc) (pd_loop n step)"

section \<open>Decoding one device\<close>

definition decode_dimension :: "(DimensionKind, HealthDimension) stdmap \<Rightarrow> (DimensionKind, HealthDimension) stdmap pd" where
  "decode_dimension m = pd_or HealthDimension_read ''invalid dimension''
     (\<lambda>dim. pd_return (smap_put (dim_kind dim) dim m))"

definition decode_evidence :: "Evidence list \<Rightarrow> Evidence list pd" where
  "decode_evidence es = pd_or Evidence_read ''invalid evidence'' (\<lambda>e. pd_return (es @ [e]))"

definition decode_fault :: "FaultId list \<times> FaultHistory \<Rightarrow> (FaultId list \<times> FaultHistory) pd" where
  "decode_fault acc = (case acc of (seenFault, h) \<Rightarrow>
     pd_or Fault_read ''invalid fault'' (\<lambda>f.
       if f_id f \<in> set seenFault then pd_stop (Refused ''duplicate fault id'')
       else (case history_record f h of
               Inl e \<Rightarrow> pd_stop (Thrown e)
             | Inr h' \<Rightarrow> pd_return (sset_insert (f_id f) seenFault, h'))))"

definition decode_validation ::
    "ValidationRunId list \<times> ValidationRecord list \<Rightarrow> (ValidationRunId list \<times> ValidationRecord list) pd" where
  "decode_validation acc = (case acc of (seenVal, vs) \<Rightarrow>
     pd_or ValidationRecord_read ''invalid validation'' (\<lambda>v.
       if v_id v \<in> set seenVal then pd_stop (Refused ''duplicate validation id'')
       else pd_return (sset_insert (v_id v) seenVal, vs @ [v])))"

definition decode_change :: "HealthChange list \<Rightarrow> HealthChange list pd" where
  "decode_change cs = pd_or HealthChange_read ''invalid change'' (\<lambda>hc. pd_return (changelog_append hc cs))"

text \<open>\<open>has = r.u8(); if (has) { if (!read(r, x)) { *error = msg; return false; } ... }\<close>\<close>

definition decode_optional :: "'a option rd \<Rightarrow> string \<Rightarrow> 'a option pd" where
  "decode_optional m msg = do { has \<leftarrow> rd_u8;
     if has \<noteq> 0 then pd_or m msg (\<lambda>x. pd_return (Some x)) else pd_return None }"

definition pd_unfailed :: "string \<Rightarrow> 'a \<Rightarrow> 'a pd" where
  "pd_unfailed msg x = State (\<lambda>r. (if rd_fail r then Inl (Refused msg) else Inr x, r))"

text \<open>The records of a device behind its fixed head, in the order of the loop body.\<close>

definition decode_histories :: "Device \<Rightarrow> Device pd" where
  "decode_histories d =
     pd_or rd_bounded ''invalid dimension count'' (\<lambda>dimCount.
     pd_then (pd_loop dimCount decode_dimension []) (\<lambda>dimensions'.
     pd_or rd_bounded ''invalid evidence count'' (\<lambda>evCount.
     pd_then (pd_loop evCount decode_evidence []) (\<lambda>recentEvidence'.
     pd_or rd_bounded ''invalid fault count'' (\<lambda>faultCount.
     pd_then (pd_loop faultCount decode_fault ([], [])) (\<lambda>(_, faults').
     pd_or rd_bounded ''invalid validation count'' (\<lambda>valCount.
     pd_then (pd_loop valCount decode_validation ([], [])) (\<lambda>(_, validations').
     pd_or rd_bounded ''invalid change count'' (\<lambda>chCount.
     pd_then (pd_loop chCount decode_change []) (\<lambda>changes'.
     pd_return (d\<lparr>dv_dimensions := dimensions', dv_recentEvidence := recentEvidence',
       dv_faults := faults', dv_validations := validations', dv_changes := changes'\<rparr>)))))))))))"

definition decode_tail :: "Device \<Rightarrow> Device pd" where
  "decode_tail d =
     pd_or readAssessment ''invalid assessment'' (\<lambda>latestAssessment'.
     pd_or ValidationDepth_read ''invalid validation depth'' (\<lambda>highestValidation'. do {
     lastObservation' \<leftarrow> Timestamp_read;
     firstSeen' \<leftarrow> Timestamp_read;
     pd_then (decode_optional QuarantineRecord_read ''invalid quarantine'') (\<lambda>quarantine'.
     pd_then (decode_optional RecoveryRecord_read ''invalid recovery'') (\<lambda>recovery'. do {
     deviceGenerationChangedFlag' \<leftarrow> rd_bool;
     policyGenerationChangedFlag' \<leftarrow> rd_bool;
     inRecovery' \<leftarrow> rd_bool;
     present' \<leftarrow> rd_bool;
     pd_unfailed ''malformed device record''
       (d\<lparr>dv_latestAssessment := latestAssessment', dv_highestValidation := highestValidation',
          dv_lastObservation := lastObservation', dv_firstSeen := firstSeen',
          dv_quarantine := quarantine', dv_recovery := recovery',
          dv_deviceGenerationChangedFlag := deviceGenerationChangedFlag',
          dv_policyGenerationChangedFlag := policyGenerationChangedFlag',
          dv_inRecovery := inRecovery', dv_present := present'\<rparr>) })) }))"

definition decode_head :: "Device pd" where
  "decode_head = do {
     id' \<leftarrow> StrongId_read;
     uuid' \<leftarrow> StrongId_read;
     node' \<leftarrow> StrongId_read;
     lastWorker' \<leftarrow> StrongId_read;
     lastWorkerBootId' \<leftarrow> StrongId_read;
     generation' \<leftarrow> Generation_read;
     pd_or HealthState_read ''invalid health state'' (\<lambda>state'.
     pd_or ReadinessState_read ''invalid readiness'' (\<lambda>readiness'. do {
     healthGeneration' \<leftarrow> rd_u64;
     transitionCount' \<leftarrow> rd_u64;
     if gen_is_null (Generation healthGeneration' :: HealthGeneration)
     then pd_stop (Refused ''invalid health generation'')
     else pd_return (default_Device\<lparr>dv_id := id', dv_uuid := uuid', dv_node := node',
       dv_lastWorker := lastWorker', dv_lastWorkerBootId := lastWorkerBootId', dv_generation := generation',
       dv_state := state', dv_readiness := readiness', dv_healthGeneration := Generation healthGeneration',
       dv_transitionCount := transitionCount'\<rparr>) })) }"

definition decode_device :: "Device pd" where
  "decode_device = pd_then decode_head (\<lambda>d. pd_then (decode_histories d) decode_tail)"

section \<open>Decoding the state\<close>

text \<open>The locals of the device loop together with the store being filled.\<close>

record load_acc =
  ld_seenUuid :: "(DeviceUuid, AcceleratorId) stdmap"
  ld_maxDeviceRaw :: u64
  ld_out :: HealthStore

definition impossible_state :: "Device \<Rightarrow> bool" where
  "impossible_state d \<longleftrightarrow> quarantine_active d \<and> dv_state d = HealthState.HEALTHY"

definition load_device :: "Device \<Rightarrow> load_acc \<Rightarrow> load_acc" where
  "load_device d a =
     (let out = ld_out a; k = dv_id d;
          out1 = out\<lparr>hs_devices := smap_put k d (hs_devices out)\<rparr>
      in \<lparr>ld_seenUuid = smap_put (dv_uuid d) k (ld_seenUuid a),
          ld_maxDeviceRaw = max (ld_maxDeviceRaw a) (id_get k),
          ld_out = out1\<lparr>hs_uuidIndex := smap_put (dv_uuid d) k (hs_uuidIndex out1)\<rparr>\<rparr>)"

primrec decode_devices :: "nat \<Rightarrow> load_acc \<Rightarrow> (dec_exit option \<times> load_acc) rd" where
  "decode_devices 0 a = State_Monad.return (None, a)"
| "decode_devices (Suc n) a = do {
     x \<leftarrow> decode_device;
     (case x of
        Inl e \<Rightarrow> State_Monad.return (Some e, a)
      | Inr d \<Rightarrow>
          if impossible_state d
          then State_Monad.return (Some (Refused ''impossible state: active quarantine with HEALTHY''), a)
          else if smap_find (dv_uuid d) (ld_seenUuid a) \<noteq> None
          then State_Monad.return (Some (Refused ''duplicate device uuid''), a)
          else decode_devices n (load_device d a)) }"

definition clear_store :: "HealthPolicy \<Rightarrow> PolicyGeneration \<Rightarrow> u64 \<Rightarrow> HealthStore \<Rightarrow> HealthStore" where
  "clear_store pol policyGen epoch out = out\<lparr>hs_policy := pol, hs_policyGeneration := policyGen,
     hs_coordinatorEpoch := epoch, hs_devices := [], hs_uuidIndex := [], hs_stateIndex := [],
     hs_readinessIndex := [], hs_faultIndex := [], hs_quarantineIndex := [], hs_staleIndex := [],
     hs_globalFaults := [], hs_globalChanges := []\<rparr>"

definition finish_load :: "load_acc \<Rightarrow> HealthStore" where
  "finish_load a = (let n = ld_maxDeviceRaw a + 1 in
     recomputeIndexes ((ld_out a)\<lparr>hs_nextDeviceRaw := n, hs_nextFaultRaw := n, hs_nextObservationRaw := n,
       hs_nextValidationRaw := n, hs_nextQuarantineRaw := n, hs_nextRecoveryRaw := n,
       hs_nextAssessmentRaw := n, hs_nextIncidentRaw := n\<rparr>))"

definition decode_all :: "HealthStore \<Rightarrow> (dec_exit option \<times> HealthStore) rd" where
  "decode_all out = do {
     n \<leftarrow> rd_bounded;
     (case n of
        None \<Rightarrow> State_Monad.return (Some (Refused ''invalid device count''), out)
      | Some deviceCount \<Rightarrow> do {
          x \<leftarrow> decode_devices deviceCount \<lparr>ld_seenUuid = [], ld_maxDeviceRaw = 0, ld_out = out\<rparr>;
          (case x of
             (Some e, a) \<Rightarrow> State_Monad.return (Some e, ld_out a)
           | (None, a) \<Rightarrow> State (\<lambda>r. (if remaining r \<noteq> 0
               then (Some (Refused ''trailing bytes in payload''), ld_out a)
               else (None, finish_load a), r))) }) }"

definition decode_payload :: "HealthStore \<Rightarrow> (dec_exit option \<times> HealthStore) rd" where
  "decode_payload out = do {
     p \<leftarrow> HealthPolicy_read;
     (case p of
        None \<Rightarrow> State_Monad.return (Some (Refused ''invalid policy''), out)
      | Some pol \<Rightarrow> do {
          policyGen \<leftarrow> rd_u64;
          epoch \<leftarrow> rd_u64;
          State (\<lambda>r.
            if rd_fail r \<or> gen_is_null (Generation policyGen :: PolicyGeneration)
            then ((Some (Refused ''invalid policy generation''), out), r)
            else run_state (decode_all (clear_store pol (Generation policyGen) epoch out)) r) }) }"

text \<open>The checks on the frame, before anything is parsed; the message of the first that fails.\<close>

definition check_envelope :: "bytes \<Rightarrow> string option" where
  "check_envelope data =
     (if length data < 4 + 4 + 4 + 4 then Some ''file too short''
      else if take 4 data \<noteq> kMagicP then Some ''bad magic''
      else if load_le32 (drop 4 data) \<noteq> kPersistenceSchemaVersion then Some ''unsupported schema version''
      else
        let payloadLen = unat (load_le32 (drop 8 data)); bodyLen = 4 + 4 + 4 + payloadLen in
        if length data \<noteq> bodyLen + 4 then Some ''truncated or trailing garbage''
        else if load_le32 (drop bodyLen data) \<noteq> crc32 (take bodyLen data) then Some ''crc mismatch''
        else None)"

definition decodeStateInternal :: "bytes \<Rightarrow> HealthStore \<Rightarrow> dec_exit option \<times> HealthStore" where
  "decodeStateInternal data out = (case check_envelope data of
     Some msg \<Rightarrow> (Some (Refused msg), out)
   | None \<Rightarrow> let payloadLen = unat (load_le32 (drop 8 data)) in
       fst (run_state (decode_payload out) (mk_reader (take payloadLen (drop 12 data)))))"

section \<open>Loading\<close>

text \<open>The part of \<open>loadInternal\<close> behind the file: the trust boundary of a coordinator restart.\<close>

definition require_revalidation :: "HealthStore \<Rightarrow> HealthStore" where
  "require_revalidation s = s\<lparr>hs_devices :=
     map (\<lambda>(k, d). (k, d\<lparr>dv_requiresRevalidation := True\<rparr>)) (hs_devices s)\<rparr>"

definition load_bytes :: "bytes \<Rightarrow> HealthStore \<Rightarrow> dec_exit option \<times> HealthStore" where
  "load_bytes data out =
     (case decodeStateInternal data out of
        (Some e, out') \<Rightarrow> (Some e, out')
      | (None, out') \<Rightarrow> (case reassessAll (require_revalidation out') of
           (Some e, out'') \<Rightarrow> (Some (Thrown e), out'')
         | (None, out'') \<Rightarrow> (None, out'')))"

section \<open>Files\<close>

text \<open>
  The files of the process and what the operating system may refuse.  \<open>io_open\<close>: the temporary file
  cannot be opened for writing; \<open>io_short = Some n\<close>: the stream fails after \<open>n\<close> bytes; \<open>io_rename\<close>,
  \<open>io_remove\<close>: the rename, respectively the removal of the temporary file, fails (the latter throws).
\<close>

type_synonym files = "string \<Rightarrow> bytes option"

record io_faults =
  io_open :: bool
  io_short :: "nat option"
  io_rename :: bool
  io_remove :: bool

definition saveInternal :: "string \<Rightarrow> HealthStore \<Rightarrow> io_faults \<Rightarrow> files \<Rightarrow> dec_exit option \<times> files" where
  "saveInternal path s io fs =
     (case encodeStateInternal s of
        Inl e \<Rightarrow> (Some (Thrown e), fs)
      | Inr data \<Rightarrow>
          let tmp = path @ ''.tmp'' in
          if io_open io then (Some (Refused ''cannot open for write''), fs)
          else (case io_short io of
             Some n \<Rightarrow> (Some (Refused ''write failed''), fs(tmp \<mapsto> take n data))
           | None \<Rightarrow>
               let fs1 = fs(tmp \<mapsto> data) in
               if io_rename io then
                 (if io_remove io then (Some (Thrown (runtime_error ''filesystem error'')), fs1)
                  else (Some (Refused ''atomic replace failed''), fs1(tmp := None)))
               else (None, fs1(path \<mapsto> data, tmp := None))))"

definition loadInternal :: "string \<Rightarrow> HealthStore \<Rightarrow> files \<Rightarrow> dec_exit option \<times> HealthStore" where
  "loadInternal path out fs =
     (case fs path of
        None \<Rightarrow> (Some (Refused ''cannot open for read''), out)
      | Some data \<Rightarrow> load_bytes data out)"

section \<open>The methods of the store that delegate here\<close>

definition encodeState :: "HealthStore \<Rightarrow> wr" where
  "encodeState s = encodeStateInternal s"

definition store_decode :: "bytes \<Rightarrow> HealthStore \<Rightarrow> dec_exit option \<times> HealthStore" where
  "store_decode data out = decodeStateInternal data out"

definition saveToFile :: "string \<Rightarrow> HealthStore \<Rightarrow> io_faults \<Rightarrow> files \<Rightarrow> dec_exit option \<times> files" where
  "saveToFile path s io fs = saveInternal path s io fs"

definition loadFromFile :: "string \<Rightarrow> HealthStore \<Rightarrow> files \<Rightarrow> dec_exit option \<times> HealthStore" where
  "loadFromFile path out fs = loadInternal path out fs"

end
