(* ===== verification/Restore.thy ===== *)
theory Restore
  imports Persistence
begin

text \<open>
  Correctness of the snapshot format: what is written is read back, what is damaged is refused, and
  what a restarted coordinator may conclude from a loaded snapshot.
\<close>

section \<open>Reading back records\<close>

lemma wr_all_append: "wr_all (as @ bs) = wr_all [wr_all as, wr_all bs]"
  by (induction as) (auto split: sum.splits)

lemma wr_all_flatten: "wr_all (wr_all as # bs) = wr_all (as @ bs)"
  by (simp add: wr_all_append split: sum.splits)

lemma wr_all_rest: "wr_all [a, wr_all bs] = wr_all (a # bs)"
  by (simp split: sum.split)

lemma wr_all_single: "wr_all [w] = w"
  by (simp split: sum.split)

lemma reads_pd_return [reads_intros]: "reads (pd_return x) (wr_all []) (Inr x)"
  unfolding pd_return_def by (rule reads_return)

lemma reads_pd_or [reads_intros]:
  "reads m w (Some a) \<Longrightarrow> reads (k a) (wr_all ws) b \<Longrightarrow> reads (pd_or m msg k) (wr_all (w # ws)) b"
  unfolding pd_or_def by (rule reads_bind) (assumption, simp only: option.case)

lemma reads_pd_then [reads_intros]:
  "reads m w (Inr a) \<Longrightarrow> reads (k a) (wr_all ws) b \<Longrightarrow> reads (pd_then m k) (wr_all (w # ws)) b"
  unfolding pd_then_def by (rule reads_bind) (assumption, simp only: sum.case)

lemma reads_pd_unfailed [reads_intros]: "reads (pd_unfailed msg x) (wr_all []) (Inr x)"
  by (simp add: reads_def pd_unfailed_def)

lemma reads_bounded: "n \<le> kMaxCount \<Longrightarrow> reads rd_bounded (wr_u32 (of_nat n)) (Some n)"
  unfolding rd_bounded_def
  by (rule reads_single, rule reads_bind [OF reads_u32]) (simp add: unat_count reads_def)

text \<open>A counted loop whose step reads one element and folds it into the accumulator.\<close>

lemma reads_pd_loop:
  assumes "\<And>ys x zs. xs = ys @ x # zs \<Longrightarrow> reads (step (f ys)) (enc x) (Inr (f (ys @ [x])))"
  shows "reads (pd_loop (length xs) step (f [])) (wr_all (map enc xs)) (Inr (f xs))"
proof -
  have "reads (pd_loop (length zs) step (f ys)) (wr_all (map enc zs)) (Inr (f xs))" if "xs = ys @ zs" for ys zs
    using that
  proof (induction zs arbitrary: ys)
    case Nil
    then show ?case using reads_pd_return by simp
  next
    case (Cons x zs)
    have "reads (step (f ys)) (enc x) (Inr (f (ys @ [x])))"
      using assms Cons.prems by blast
    moreover have "reads (pd_loop (length zs) step (f (ys @ [x]))) (wr_all (map enc zs)) (Inr (f xs))"
      using Cons by simp
    ultimately show ?case
      by (simp only: list.map length_Cons pd_loop.simps) (rule reads_pd_then)
  qed
  from this [of "[]" xs] show ?thesis by simp
qed

lemma reads_counted:
  assumes "length xs \<le> kMaxCount"
    and "reads (pd_loop (length xs) step acc) (wr_all (map enc xs)) (Inr acc')"
    and "reads (k acc') (wr_all ws) b"
  shows "reads (pd_or rd_bounded msg (\<lambda>n. pd_then (pd_loop n step acc) k)) (wr_all (wr_vec enc xs # ws)) b"
proof -
  have "reads (pd_then (pd_loop (length xs) step acc) k) (wr_all (map enc xs @ ws)) b"
    by (subst wr_all_flatten [symmetric], rule reads_pd_then [OF assms(2)]) (rule assms(3))
  then have "reads (pd_or rd_bounded msg (\<lambda>n. pd_then (pd_loop n step acc) k))
      (wr_all (wr_u32 (of_nat (length xs)) # map enc xs @ ws)) b"
    by (rule reads_pd_or [OF reads_bounded [OF assms(1)]])
  then show ?thesis
    by (simp only: wr_vec_def wr_all_flatten append.simps)
qed

lemma reads_optional [reads_intros]:
  assumes "\<And>x. reads m (enc x) (Some x)"
  shows "reads (decode_optional m msg) (wr_optional enc x) (Inr x)"
  by (cases x)
    (auto simp: decode_optional_def wr_optional_def intro!: reads_bind [OF reads_u8] reads_pd_or reads_pd_return assms
      simp del: wr_all.simps)

lemma reads_reasons:
  assumes "length xs \<le> kMaxCount" "reads (k xs) (wr_all ws) b"
  shows "reads (rd_try rd_count (\<lambda>n. rd_times_plain n rd_string \<bind> k))
    (wr_all (wr_u32 (of_nat (length xs)) # wr_all (map wr_string xs) # ws)) b"
  by (rule reads_try [OF reads_count [OF assms(1)]], rule reads_bind, rule reads_times_plain)
    (auto intro: reads_string assms(2))

lemma Assessment_reads:
  assumes "length (a_reasons a) \<le> kMaxCount"
  shows "reads readAssessment (writeAssessment a) (Some a)"
  using assms unfolding readAssessment_def writeAssessment_def
  by (cases a, simp only: HealthAssessment.simps) (rule reads_reasons reads_intros | assumption)+

section \<open>Reading back devices\<close>

lemma reads_dimension: "reads (decode_dimension m) (HealthDimension_write dim) (Inr (smap_put (dim_kind dim) dim m))"
  unfolding decode_dimension_def by (rule reads_single) (rule reads_intros)+

lemma reads_evidence: "reads (decode_evidence es) (Evidence_write e) (Inr (es @ [e]))"
  unfolding decode_evidence_def by (rule reads_single) (rule reads_intros)+

lemma reads_change: "reads (decode_change cs) (HealthChange_write hc) (Inr (cs @ [hc]))"
  unfolding decode_change_def changelog_append_def by (rule reads_single) (rule reads_intros)+

lemma reads_fault:
  assumes "f_id f \<notin> f_id ` set h" "set seen = f_id ` set h"
  shows "reads (decode_fault (seen, h)) (Fault_write f) (Inr (sset_insert (f_id f) seen, h @ [f]))"
proof -
  have "\<not> list_ex (\<lambda>e. f_id e = f_id f) h"
    using assms(1) unfolding list_ex_iff by (metis image_eqI)
  then have h: "history_record f h = Inr (h @ [f])"
    by (simp add: history_record_def)
  show ?thesis
    unfolding decode_fault_def prod.case
    by (rule reads_single, rule reads_pd_or, rule Fault_reads)
      (use assms h in \<open>simp add: reads_pd_return del: wr_all.simps\<close>)
qed

lemma reads_validation:
  assumes "v_id v \<notin> v_id ` set vs" "set seen = v_id ` set vs"
  shows "reads (decode_validation (seen, vs)) (ValidationRecord_write v) (Inr (sset_insert (v_id v) seen, vs @ [v]))"
  unfolding decode_validation_def prod.case
  by (rule reads_single, rule reads_pd_or, rule reads_intros)
    (use assms in \<open>auto intro: reads_intros simp del: wr_all.simps\<close>)

text \<open>A sorted map is rebuilt by storing its values, in order, under their keys.\<close>

lemma smap_put_last: "(\<And>k'. k' \<in> set (map fst m) \<Longrightarrow> k' < k) \<Longrightarrow> smap_put k v m = m @ [(k, v)]"
  by (induction k v m rule: smap_put.induct) (auto dest: less_asym)

lemma smap_rebuild:
  assumes "smap_wf m" "\<And>k v. (k, v) \<in> set m \<Longrightarrow> key v = k"
  shows "foldl (\<lambda>m v. smap_put (key v) v m) [] (smap_values m) = m"
  using assms
proof (induction m rule: rev_induct)
  case (snoc kv m)
  obtain k v where kv: "kv = (k, v)" by fastforce
  have "foldl (\<lambda>m v. smap_put (key v) v m) [] (smap_values m) = m"
    using snoc by (simp add: smap_wf_def sorted_wrt_append)
  moreover have "key v = k"
    using snoc.prems(2) kv by simp
  moreover have "smap_put k v m = m @ [(k, v)]"
    by (rule smap_put_last) (use snoc.prems(1) kv in \<open>auto simp: smap_wf_def sorted_wrt_append\<close>)
  ultimately show ?case
    by (simp add: kv smap_values_def)
qed (simp add: smap_values_def)

lemma reads_dimensions:
  assumes "smap_wf m" "\<And>k dim. (k, dim) \<in> set m \<Longrightarrow> dim_kind dim = k"
  shows "reads (pd_loop (length (smap_values m)) decode_dimension []) (wr_all (map HealthDimension_write (smap_values m)))
    (Inr m)"
proof -
  let ?f = "foldl (\<lambda>m (dim :: HealthDimension). smap_put (dim_kind dim) dim m) []"
  have "reads (pd_loop (length (smap_values m)) decode_dimension (?f []))
      (wr_all (map HealthDimension_write (smap_values m))) (Inr (?f (smap_values m)))"
    by (rule reads_pd_loop) (simp add: reads_dimension)
  then show ?thesis
    using smap_rebuild [of m dim_kind, OF assms] by simp
qed

text \<open>A loop that refuses an element whose key it has seen reads back a list with distinct keys.\<close>

lemma reads_unique:
  fixes key :: "'x \<Rightarrow> 'k::linorder"
  assumes step: "\<And>seen ys x. key x \<notin> key ` set ys \<Longrightarrow> set seen = key ` set ys \<Longrightarrow>
      reads (step (seen, ys)) (enc x) (Inr (sset_insert (key x) seen, ys @ [x]))"
    and "distinct (map key xs)"
  obtains seen where "reads (pd_loop (length xs) step ([], [])) (wr_all (map enc xs)) (Inr (seen, xs))"
proof -
  let ?seen = "foldl (\<lambda>s x. sset_insert (key x) s) []"
  have seen: "set (?seen ys) = key ` set ys" for ys
    by (induction ys rule: rev_induct) auto
  have "reads (pd_loop (length xs) step (?seen [], [])) (wr_all (map enc xs)) (Inr (?seen xs, xs))"
  proof (rule reads_pd_loop [where f = "\<lambda>ys. (?seen ys, ys)"])
    fix ys x zs assume "xs = ys @ x # zs"
    with assms(2) have "key x \<notin> key ` set ys" by auto
    from step [OF this seen] show "reads (step (?seen ys, ys)) (enc x) (Inr (?seen (ys @ [x]), ys @ [x]))"
      by simp
  qed
  then show thesis using that by simp
qed

text \<open>What a device must satisfy to be read back as it was.\<close>

definition persistable :: "Device \<Rightarrow> bool" where
  "persistable d \<longleftrightarrow> \<not> gen_is_null (dv_healthGeneration d) \<and> \<not> impossible_state d \<and>
     length (dv_dimensions d) \<le> kMaxCount \<and> length (dv_recentEvidence d) \<le> kMaxCount \<and>
     length (dv_faults d) \<le> kMaxCount \<and> length (dv_validations d) \<le> kMaxCount \<and>
     length (dv_changes d) \<le> kMaxCount \<and> length (a_reasons (dv_latestAssessment d)) \<le> kMaxCount \<and>
     distinct (map f_id (dv_faults d)) \<and> distinct (map v_id (dv_validations d)) \<and>
     smap_wf (dv_dimensions d) \<and> list_all (\<lambda>(k, dim). dim_kind dim = k) (dv_dimensions d)"

definition head_of :: "Device \<Rightarrow> Device" where
  "head_of d = default_Device\<lparr>dv_id := dv_id d, dv_uuid := dv_uuid d, dv_node := dv_node d,
     dv_lastWorker := dv_lastWorker d, dv_lastWorkerBootId := dv_lastWorkerBootId d,
     dv_generation := dv_generation d, dv_state := dv_state d, dv_readiness := dv_readiness d,
     dv_healthGeneration := Generation (gen_get (dv_healthGeneration d)),
     dv_transitionCount := dv_transitionCount d\<rparr>"

lemma reads_unless: "\<not> c \<Longrightarrow> reads m w b \<Longrightarrow> reads (if c then n else m) w b"
  by simp

lemma reads_head:
  assumes "\<not> gen_is_null (dv_healthGeneration d)"
  shows "reads decode_head (wr_all (head_fields d)) (Inr (head_of d))"
  unfolding decode_head_def head_of_def head_fields_def
  by (rule reads_intros reads_unless | simp add: assms)+

lemma reads_fault_loop:
  assumes "distinct (map f_id h)"
  obtains seen where "reads (pd_loop (length h) decode_fault ([], [])) (wr_all (map Fault_write h)) (Inr (seen, h))"
  by (rule reads_unique [where key = f_id and step = decode_fault, OF reads_fault]) (use assms in auto)

lemma reads_evidence_loop: "reads (pd_loop (length es) decode_evidence []) (wr_all (map Evidence_write es)) (Inr es)"
  using reads_pd_loop [where f = "\<lambda>ys. ys", OF reads_evidence] .

lemma reads_change_loop: "reads (pd_loop (length cs) decode_change []) (wr_all (map HealthChange_write cs)) (Inr cs)"
  using reads_pd_loop [where f = "\<lambda>ys. ys", OF reads_change] .

lemma reads_histories:
  assumes "persistable d"
  shows "reads (decode_histories c) (wr_all (history_fields d))
   (Inr (c\<lparr>dv_dimensions := dv_dimensions d, dv_recentEvidence := dv_recentEvidence d,
       dv_faults := dv_faults d, dv_validations := dv_validations d, dv_changes := dv_changes d\<rparr>))"
proof -
  note p = assms [unfolded persistable_def]
  obtain seenF where F: "reads (pd_loop (length (dv_faults d)) decode_fault ([], []))
      (wr_all (map Fault_write (dv_faults d))) (Inr (seenF, dv_faults d))"
    by (rule reads_fault_loop) (use p in auto)
  obtain seenV where V: "reads (pd_loop (length (dv_validations d)) decode_validation ([], []))
      (wr_all (map ValidationRecord_write (dv_validations d))) (Inr (seenV, dv_validations d))"
    by (rule reads_unique [where key = v_id and step = decode_validation, OF reads_validation]) (use p in auto)
  have D: "reads (pd_loop (length (smap_values (dv_dimensions d))) decode_dimension [])
      (wr_all (map HealthDimension_write (smap_values (dv_dimensions d)))) (Inr (dv_dimensions d))"
    by (rule reads_dimensions) (use p in \<open>auto simp: list_all_iff\<close>)
  note E = reads_evidence_loop and C = reads_change_loop
  have len: "length (smap_values (dv_dimensions d)) \<le> kMaxCount" "length (dv_recentEvidence d) \<le> kMaxCount"
      "length (dv_faults d) \<le> kMaxCount" "length (dv_validations d) \<le> kMaxCount" "length (dv_changes d) \<le> kMaxCount"
    using p by (simp_all add: smap_values_def)
  show ?thesis
    unfolding decode_histories_def history_fields_def
    by (rule reads_counted [OF len(1) D], rule reads_counted [OF len(2) E], rule reads_counted [OF len(3) F],
        unfold prod.case, rule reads_counted [OF len(4) V], unfold prod.case,
        rule reads_counted [OF len(5) C], rule reads_pd_return)
qed

lemma reads_tail:
  assumes "length (a_reasons (dv_latestAssessment d)) \<le> kMaxCount"
  shows "reads (decode_tail c) (wr_all (tail_fields d))
   (Inr (c\<lparr>dv_latestAssessment := dv_latestAssessment d, dv_highestValidation := dv_highestValidation d,
      dv_lastObservation := dv_lastObservation d, dv_firstSeen := dv_firstSeen d,
      dv_quarantine := dv_quarantine d, dv_recovery := dv_recovery d,
      dv_deviceGenerationChangedFlag := dv_deviceGenerationChangedFlag d,
      dv_policyGenerationChangedFlag := dv_policyGenerationChangedFlag d,
      dv_inRecovery := dv_inRecovery d, dv_present := dv_present d\<rparr>))"
  unfolding decode_tail_def tail_fields_def
  by (rule reads_pd_or, rule Assessment_reads [OF assms]) (rule reads_intros)+

text \<open>The flag \<open>requiresRevalidation\<close> is not part of the format.\<close>

definition restored :: "Device \<Rightarrow> Device" where
  "restored d = d\<lparr>dv_requiresRevalidation := False\<rparr>"

lemma reads_device:
  assumes "persistable d"
  shows "reads decode_device (encode_device d) (Inr (restored d))"
proof -
  note p = assms [unfolded persistable_def]
  let ?c = "(head_of d)\<lparr>dv_dimensions := dv_dimensions d, dv_recentEvidence := dv_recentEvidence d,
       dv_faults := dv_faults d, dv_validations := dv_validations d, dv_changes := dv_changes d\<rparr>"
  have "reads (decode_tail ?c) (wr_all (tail_fields d)) (Inr (restored d))"
    using reads_tail [of d ?c] p by (cases d) (simp add: head_of_def restored_def default_Device_def)
  then have "reads (pd_then (decode_histories (head_of d)) decode_tail)
      (wr_all [wr_all (history_fields d), wr_all (tail_fields d)]) (Inr (restored d))"
    by (intro reads_pd_then [OF reads_histories [OF assms]]) (simp only: wr_all_single)
  then have "reads decode_device (wr_all [wr_all (head_fields d), wr_all (history_fields d @ tail_fields d)]) (Inr (restored d))"
    unfolding decode_device_def
    by (intro reads_pd_then [OF reads_head]) (use p in simp, simp only: wr_all_single wr_all_append [of "history_fields d"])
  then show ?thesis
    by (simp only: encode_device_def flip: wr_all_append)
qed

section \<open>Reading back the store\<close>

text \<open>A store the format can carry: bounded, keyed by id and uuid, every device persistable.\<close>

definition storable :: "HealthStore \<Rightarrow> bool" where
  "storable s \<longleftrightarrow> \<not> gen_is_null (hs_policyGeneration s) \<and> length (hs_devices s) \<le> kMaxCount \<and>
     smap_wf (hs_devices s) \<and> list_all (\<lambda>(k, d). dv_id d = k \<and> persistable d) (hs_devices s) \<and>
     distinct (map (dv_uuid \<circ> snd) (hs_devices s))"

lemma reads_devices:
  assumes "list_all persistable ds" "distinct (map dv_uuid ds)"
    "\<And>d. d \<in> set ds \<Longrightarrow> smap_find (dv_uuid d) (ld_seenUuid a) = None"
  shows "reads (decode_devices (length ds) a) (wr_all (map encode_device ds))
     (None, foldl (\<lambda>a d. load_device (restored d) a) a ds)"
  using assms
proof (induction ds arbitrary: a)
  case Nil
  then show ?case using reads_return by simp
next
  case (Cons d ds)
  let ?a = "load_device (restored d) a"
  have "reads (decode_devices (length ds) ?a) (wr_all (map encode_device ds))
     (None, foldl (\<lambda>a d. load_device (restored d) a) ?a ds)"
    by (rule Cons.IH) (use Cons.prems in \<open>auto simp: load_device_def restored_def smap_find_put image_iff Let_def\<close>)
  moreover have "\<not> impossible_state (restored d)" "smap_find (dv_uuid (restored d)) (ld_seenUuid a) = None"
    using Cons.prems by (auto simp: persistable_def impossible_state_def restored_def quarantine_active_def)
  moreover have "reads decode_device (encode_device d) (Inr (restored d))"
    using Cons.prems by (simp add: reads_device)
  ultimately show ?case
    by (simp only: list.map length_Cons decode_devices.simps foldl.simps)
      (rule reads_bind, assumption, simp)
qed

definition load_all :: "Device list \<Rightarrow> HealthStore \<Rightarrow> load_acc" where
  "load_all ds out = foldl (\<lambda>a d. load_device (restored d) a)
     \<lparr>ld_seenUuid = [], ld_maxDeviceRaw = 0, ld_out = out\<rparr> ds"

text \<open>As \<^const>\<open>reads\<close>, for a computation that also looks at the end of the input.\<close>

definition ends :: "'a rd \<Rightarrow> wr \<Rightarrow> 'a \<Rightarrow> bool" where
  "ends m w v \<longleftrightarrow> (\<forall>bs pre. w = Inr bs \<longrightarrow>
     fst (run_state m \<lparr>rd_data = pre @ bs, rd_pos = length pre, rd_fail = False\<rparr>) = v)"

lemma ends_bind:
  assumes "reads m w a" "ends (f a) (wr_all ws) b"
  shows "ends (State_Monad.bind m f) (wr_all (w # ws)) b"
  unfolding ends_def
proof (intro allI impI)
  fix bs pre assume "wr_all (w # ws) = Inr bs"
  then obtain b1 b2 where b: "w = Inr b1" "wr_all ws = Inr b2" "bs = b1 @ b2"
    by (auto split: sum.splits)
  have "run_state m \<lparr>rd_data = pre @ b1 @ b2, rd_pos = length pre, rd_fail = False\<rparr> =
     (a, \<lparr>rd_data = pre @ b1 @ b2, rd_pos = length pre + length b1, rd_fail = False\<rparr>)"
    using assms(1) b(1) by (simp add: reads_def)
  moreover have "fst (run_state (f a) \<lparr>rd_data = (pre @ b1) @ b2, rd_pos = length (pre @ b1), rd_fail = False\<rparr>) = b"
    using assms(2) b(2) unfolding ends_def by blast
  ultimately show "fst (run_state (m \<bind> f) \<lparr>rd_data = pre @ bs, rd_pos = length pre, rd_fail = False\<rparr>) = b"
    by (simp add: run_bind b(3))
qed

lemma ends_State:
  assumes "\<And>r. \<not> rd_fail r \<Longrightarrow> run_state (State g) r = run_state m r" "ends m w v"
  shows "ends (State g) w v"
  using assms unfolding ends_def by auto

lemma ends_payload:
  fixes s out :: HealthStore
  defines "ds \<equiv> smap_values (hs_devices s)"
    and "start \<equiv> clear_store (hs_policy s) (hs_policyGeneration s) (hs_coordinatorEpoch s) out"
  assumes "\<not> gen_is_null (hs_policyGeneration s)" "length (hs_devices s) \<le> kMaxCount"
    and "ends (do { x \<leftarrow> decode_devices (length ds) \<lparr>ld_seenUuid = [], ld_maxDeviceRaw = 0, ld_out = start\<rparr>;
          (case x of
             (Some e, a) \<Rightarrow> State_Monad.return (Some e, ld_out a)
           | (None, a) \<Rightarrow> State (\<lambda>r. (if remaining r \<noteq> 0
               then (Some (Refused ''trailing bytes in payload''), ld_out a)
               else (None, finish_load a), r))) }) (wr_all [wr_all (map encode_device ds)]) v"
  shows "ends (decode_payload out) (encode_body s) v"
proof -
  have len: "length ds \<le> kMaxCount"
    using assms(4) by (simp add: ds_def smap_values_def)
  have "ends (decode_all start) (wr_all [wr_u32 (of_nat (length ds)), wr_all (map encode_device ds)]) v"
    unfolding decode_all_def
    by (rule ends_bind [OF reads_bounded [OF len]], unfold option.case) (rule assms(5))
  then have all: "ends (decode_all start) (wr_all [wr_vec encode_device ds]) v"
    by (simp only: wr_vec_def wr_all_single wr_all_rest)
  show ?thesis
    unfolding decode_payload_def encode_body_def ds_def [symmetric]
    by (rule ends_bind [OF HealthPolicy_reads], unfold option.case, rule ends_bind [OF reads_u64],
        rule ends_bind [OF reads_u64], rule ends_State [OF _ all])
      (use assms(3) in \<open>simp add: start_def\<close>)
qed

lemma length_kMagicP [simp]: "length kMagicP = 4"
  by (simp add: kMagicP_def)

lemma decode_frame:
  assumes "encodeStateInternal s = Inr bs" "length bs < 2 ^ 32" "ends (decode_payload out) (encode_body s) v"
  shows "decodeStateInternal bs out = v"
proof -
  obtain body where body: "encode_body s = Inr body" "bs = seal (persist_frame body)"
    using assms(1) by (auto simp: encodeStateInternal_def seal_def Let_def split: sum.splits)
  have len: "unat (of_nat (length body) :: u32) = length body" "length bs = 16 + length body"
    using assms(2) body(2) by (auto simp: seal_def persist_frame_def kMagicP_def unat_of_nat)
  have "bs = kMagicP @ store_le32 kPersistenceSchemaVersion @ store_le32 (of_nat (length body)) @ body @
      store_le32 (crc32 (persist_frame body))"
    by (simp add: body(2) seal_def persist_frame_def)
  then have "take 4 bs = kMagicP" "load_le32 (drop 4 bs) = kPersistenceSchemaVersion"
      "load_le32 (drop 8 bs) = of_nat (length body)" "take (length body) (drop 12 bs) = body"
      "take (12 + length body) bs = persist_frame body"
      "load_le32 (drop (12 + length body) bs) = crc32 (persist_frame body)"
    by (simp_all add: persist_frame_def)
  moreover have "fst (run_state (decode_payload out) (mk_reader body)) = v"
    using assms(3) body(1) unfolding ends_def mk_reader_def by (metis append_Nil list.size(3))
  ultimately show ?thesis
    by (simp add: decodeStateInternal_def check_envelope_def len add.commute)
qed

lemma decode_snapshot:
  assumes "storable s" "encodeStateInternal s = Inr bs" "length bs < 2 ^ 32"
  shows "decodeStateInternal bs out = (None, finish_load (load_all (smap_values (hs_devices s))
        (clear_store (hs_policy s) (hs_policyGeneration s) (hs_coordinatorEpoch s) out)))"
proof (rule decode_frame [OF assms(2,3)], rule ends_payload)
  let ?ds = "smap_values (hs_devices s)"
  let ?out = "clear_store (hs_policy s) (hs_policyGeneration s) (hs_coordinatorEpoch s) out"
  have ds: "list_all persistable ?ds" "distinct (map dv_uuid ?ds)"
    using assms(1) by (auto simp: storable_def smap_values_def list_all_iff)
  have "reads (decode_devices (length ?ds) \<lparr>ld_seenUuid = [], ld_maxDeviceRaw = 0, ld_out = ?out\<rparr>)
      (wr_all (map encode_device ?ds)) (None, load_all ?ds ?out)"
    unfolding load_all_def by (rule reads_devices) (use ds in simp_all)
  then show "ends (do { x \<leftarrow> decode_devices (length ?ds) \<lparr>ld_seenUuid = [], ld_maxDeviceRaw = 0, ld_out = ?out\<rparr>;
          (case x of
             (Some e, a) \<Rightarrow> State_Monad.return (Some e, ld_out a)
           | (None, a) \<Rightarrow> State (\<lambda>r. (if remaining r \<noteq> 0
               then (Some (Refused ''trailing bytes in payload''), ld_out a)
               else (None, finish_load a), r))) }) (wr_all [wr_all (map encode_device ?ds)])
      (None, finish_load (load_all ?ds ?out))"
    by (rule ends_bind) (simp add: ends_def remaining_def)
qed (use assms(1) in \<open>simp_all add: storable_def\<close>)

section \<open>The indexes of a loaded store\<close>

lemma filed_fold_insert:
  "filed (foldl (\<lambda>idx x. idx_insert (key x) k idx) idx xs) j = filed idx j \<union> (if j = k then key ` set xs else {})"
  by (induction xs arbitrary: idx) (auto simp: filed_insert)

text \<open>Everything but the indexes.\<close>

definition unindexed :: "HealthStore \<Rightarrow> HealthStore" where
  "unindexed s = s\<lparr>hs_stateIndex := [], hs_readinessIndex := [], hs_faultIndex := [],
     hs_quarantineIndex := [], hs_staleIndex := []\<rparr>"

lemma recompute_fold:
  defines "S ds s \<equiv> foldl recompute_device s ds"
  shows "hs_devices (S ds s) = hs_devices s"
    and "smap_wf (hs_stateIndex s) \<Longrightarrow> smap_wf (hs_stateIndex (S ds s))"
    and "smap_wf (hs_readinessIndex s) \<Longrightarrow> smap_wf (hs_readinessIndex (S ds s))"
    and "filed (hs_stateIndex (S ds s)) k = filed (hs_stateIndex s) k \<union> {dv_state d |d. d \<in> set ds \<and> dv_id d = k}"
    and "filed (hs_readinessIndex (S ds s)) k = filed (hs_readinessIndex s) k \<union> {dv_readiness d |d. d \<in> set ds \<and> dv_id d = k}"
    and "filed (hs_faultIndex (S ds s)) k =
      filed (hs_faultIndex s) k \<union> {f_type f |f d. d \<in> set ds \<and> dv_id d = k \<and> f \<in> set (openFaults (dv_faults d))}"
    and "k \<in> set (hs_quarantineIndex (S ds s)) \<longleftrightarrow>
      k \<in> set (hs_quarantineIndex s) \<or> (\<exists>d \<in> set ds. dv_id d = k \<and> quarantine_active d)"
    and "unindexed (S ds s) = unindexed s"
  unfolding S_def
proof (induction ds arbitrary: s)
  case (Cons d ds)
  { case 1 then show ?case using Cons.IH(1) by (simp add: recompute_device_def) }
  { case 2 then show ?case using Cons.IH(2) by (simp add: recompute_device_def idx_wf_insert) }
  { case 3 then show ?case using Cons.IH(3) by (simp add: recompute_device_def idx_wf_insert) }
  { case 4 then show ?case using Cons.IH(4) by (auto simp: recompute_device_def filed_insert) }
  { case 5 then show ?case using Cons.IH(5) by (auto simp: recompute_device_def filed_insert) }
  { case 6 then show ?case using Cons.IH(6) by (auto simp: recompute_device_def filed_fold_insert) }
  { case 7 then show ?case using Cons.IH(7) by (auto simp: recompute_device_def) }
  { case 8 then show ?case using Cons.IH(8) by (simp add: recompute_device_def unindexed_def) }
qed auto

text \<open>A store whose devices are filed under their own id.\<close>

definition self_keyed :: "HealthStore \<Rightarrow> bool" where
  "self_keyed s \<longleftrightarrow> smap_wf (hs_devices s) \<and> (\<forall>k d. findLocked k s = Some d \<longrightarrow> dv_id d = k)"

lemma self_keyed_values:
  assumes "self_keyed s"
  shows "d \<in> set (smap_values (hs_devices s)) \<and> dv_id d = k \<longleftrightarrow> findLocked k s = Some d"
proof
  assume d: "d \<in> set (smap_values (hs_devices s)) \<and> dv_id d = k"
  then obtain j where "findLocked j s = Some d"
    using assms smap_in_set_find [of "hs_devices s"] by (fastforce simp: self_keyed_def findLocked_def smap_values_def)
  then show "findLocked k s = Some d"
    using assms d by (auto simp: self_keyed_def)
next
  assume k: "findLocked k s = Some d"
  then have "(k, d) \<in> set (hs_devices s)"
    by (simp add: findLocked_def smap_find_in_set)
  then show "d \<in> set (smap_values (hs_devices s)) \<and> dv_id d = k"
    using assms k by (force simp: self_keyed_def smap_values_def)
qed

lemma recomputeIndexes_unindexed: "unindexed (recomputeIndexes s) = unindexed s"
  by (simp add: recomputeIndexes_def recompute_fold(8)) (simp add: unindexed_def)

lemma unindexed_simps:
  "hs_devices (unindexed s) = hs_devices s" "hs_uuidIndex (unindexed s) = hs_uuidIndex s"
  "hs_policy (unindexed s) = hs_policy s" "hs_policyGeneration (unindexed s) = hs_policyGeneration s"
  "hs_coordinatorEpoch (unindexed s) = hs_coordinatorEpoch s" "hs_clock (unindexed s) = hs_clock s"
  "hs_workerBootRegistry (unindexed s) = hs_workerBootRegistry s"
  by (simp_all add: unindexed_def)

lemma recomputeIndexes_simps [simp]:
  "hs_devices (recomputeIndexes s) = hs_devices s" "hs_uuidIndex (recomputeIndexes s) = hs_uuidIndex s"
  "hs_policy (recomputeIndexes s) = hs_policy s" "hs_policyGeneration (recomputeIndexes s) = hs_policyGeneration s"
  "hs_coordinatorEpoch (recomputeIndexes s) = hs_coordinatorEpoch s" "hs_clock (recomputeIndexes s) = hs_clock s"
  "hs_workerBootRegistry (recomputeIndexes s) = hs_workerBootRegistry s"
  "findLocked k (recomputeIndexes s) = findLocked k s"
  unfolding findLocked_def by (metis recomputeIndexes_unindexed unindexed_simps)+

lemma recomputeIndexes_filed:
  assumes "self_keyed s"
  defines "t \<equiv> recomputeIndexes s"
  shows "smap_wf (hs_stateIndex t)" "smap_wf (hs_readinessIndex t)"
    "filed (hs_stateIndex t) k = {dv_state d |d. findLocked k s = Some d}"
    "filed (hs_readinessIndex t) k = {dv_readiness d |d. findLocked k s = Some d}"
    "filed (hs_faultIndex t) k = {f_type f |f d. findLocked k s = Some d \<and> f \<in> set (openFaults (dv_faults d))}"
    "k \<in> set (hs_quarantineIndex t) \<longleftrightarrow> (\<exists>d. findLocked k s = Some d \<and> quarantine_active d)"
  unfolding t_def recomputeIndexes_def self_keyed_values [OF assms(1), symmetric]
  by (auto simp: recompute_fold(2-7), auto simp: filed_def idx_get_def)

section \<open>The devices of a loaded store\<close>

lemma load_all_simps:
  "hs_devices (ld_out (load_all ds out)) = foldl (\<lambda>m d. smap_put (dv_id d) d m) (hs_devices out) (map restored ds)"
  "hs_uuidIndex (ld_out (load_all ds out)) = foldl (\<lambda>m d. smap_put (dv_uuid d) (dv_id d) m) (hs_uuidIndex out) ds"
  "hs_policy (ld_out (load_all ds out)) = hs_policy out"
  "hs_policyGeneration (ld_out (load_all ds out)) = hs_policyGeneration out"
  "hs_coordinatorEpoch (ld_out (load_all ds out)) = hs_coordinatorEpoch out"
  by (induction ds rule: rev_induct) (simp_all add: load_all_def load_device_def restored_def Let_def)

lemma finish_load_simps [simp]:
  "hs_devices (finish_load a) = hs_devices (ld_out a)" "hs_uuidIndex (finish_load a) = hs_uuidIndex (ld_out a)"
  "hs_policy (finish_load a) = hs_policy (ld_out a)" "hs_policyGeneration (finish_load a) = hs_policyGeneration (ld_out a)"
  "hs_coordinatorEpoch (finish_load a) = hs_coordinatorEpoch (ld_out a)"
  "findLocked k (finish_load a) = findLocked k (ld_out a)"
  by (simp_all add: finish_load_def Let_def findLocked_def)

definition restore_devices :: "HealthStore \<Rightarrow> (AcceleratorId, Device) stdmap" where
  "restore_devices s = map (\<lambda>(k, d). (k, restored d)) (hs_devices s)"

lemma loaded_devices:
  assumes "storable s" "hs_devices out = []"
  shows "hs_devices (ld_out (load_all (smap_values (hs_devices s)) out)) = restore_devices s"
proof -
  have "map restored (smap_values (hs_devices s)) = smap_values (restore_devices s)"
    by (auto simp: smap_values_def restore_devices_def)
  moreover have "smap_wf (restore_devices s)"
    using assms(1) by (simp add: storable_def restore_devices_def smap_wf_def comp_def case_prod_unfold)
  moreover have "dv_id d = k" if "(k, d) \<in> set (restore_devices s)" for k d
    using that assms(1) by (auto simp: storable_def restore_devices_def list_all_iff restored_def)
  ultimately show ?thesis
    using smap_rebuild [of "restore_devices s" dv_id] assms(2) by (simp add: load_all_simps)
qed

lemma find_restored: "smap_find k (restore_devices s) = map_option restored (findLocked k s)"
  by (simp add: restore_devices_def smap_find_def findLocked_def map_of_map)

text \<open>The bytes written for a store that can be read back.\<close>

definition snapshot_of :: "HealthStore \<Rightarrow> bytes \<Rightarrow> bool" where
  "snapshot_of s bs \<longleftrightarrow> storable s \<and> encodeStateInternal s = Inr bs \<and> length bs < 2 ^ 32"

end
