(* ===== verification/SnapshotSize.thy ===== *)
theory SnapshotSize
  imports Restore
begin

text \<open>
  Sizes of snapshots, and the snapshot of the demonstration store.  \<open>fits w n\<close> says that a writer does not throw and appends at most
  \<open>n\<close> bytes; its rules bound the encoding of a concrete store without evaluating it.
\<close>

definition fits :: "wr \<Rightarrow> nat \<Rightarrow> bool" where
  "fits w n \<longleftrightarrow> (\<exists>bs. w = Inr bs \<and> length bs \<le> n)"

lemma fits_Nil: "fits (wr_all []) 0"
  by (simp add: fits_def)

lemma fits_Cons: "fits w m \<Longrightarrow> fits (wr_all ws) n \<Longrightarrow> fits (wr_all (w # ws)) (m + n)"
  by (fastforce simp: fits_def)

lemma fits_mono: "fits w m \<Longrightarrow> m \<le> n \<Longrightarrow> fits w n"
  by (auto simp: fits_def)

lemma fits_prim: "fits (wr_u8 a) 1" "fits (wr_u32 b) 4" "fits (wr_u64 c) 8" "fits (wr_bool x) 1" "fits (wr_f32 b) 4"
  by (simp_all add: fits_def wr_u8_def wr_u32_def wr_u64_def wr_bool_def wr_f32_def)

lemma fits_string: "length s \<le> kMaxString \<Longrightarrow> fits (wr_string s) (4 + length s)"
  by (simp add: fits_def wr_string_def wr_u32_def wr_bytes_def)

lemma fits_id: "fits (StrongId_write i) 8" "fits (Generation_write g) 8" "fits (Timestamp_write t) 8"
  by (simp_all add: StrongId_write_def Generation_write_def Timestamp_write_def fits_prim wr_i64_def)

lemma fits_enum: "fits (HealthState_write a) 1" "fits (ReadinessState_write b) 1" "fits (ValidationDepth_write c) 1"
  "fits (ActionRequired_write d) 1" "fits (ValidationProfile_write e) 1"
  unfolding HealthState_write_def ReadinessState_write_def ValidationDepth_write_def
    ActionRequired_write_def ValidationProfile_write_def write_enum_def by (rule fits_prim)+

lemmas fits_intros = fits_Nil fits_Cons fits_prim fits_id fits_enum

lemma fits_vec: "fits (wr_all (map enc xs)) n \<Longrightarrow> fits (wr_vec enc xs) (4 + n)"
  unfolding wr_vec_def by (intro fits_intros)

lemma fits_policy: "fits (HealthPolicy_write p) 64"
proof -
  have fr: "fits (FreshnessThresholds_write t) 24" for t
    unfolding FreshnessThresholds_write_def by (rule fits_mono, (rule fits_intros)+) simp
  show ?thesis
    unfolding HealthPolicy_write_def by (rule fits_mono, (rule fr fits_intros)+) simp
qed

lemma fits_device:
  assumes "dv_dimensions d = []" "dv_recentEvidence d = []" "dv_faults d = []" "dv_changes d = []"
    "dv_latestAssessment d = default_HealthAssessment" "dv_quarantine d = None" "dv_recovery d = None"
    and n: "fits (wr_all (map ValidationRecord_write (dv_validations d))) n"
  shows "fits (encode_device d) (400 + n)"
proof -
  have a: "fits (writeAssessment default_HealthAssessment) 200"
    unfolding writeAssessment_def default_HealthAssessment_def HealthAssessment.simps list.map
    by (rule fits_mono, (rule fits_intros fits_string | simp)+)
  have e: "fits (wr_vec enc []) 4" for enc :: "'x \<Rightarrow> wr"
    using fits_vec [of enc "[]" 0] by (simp add: fits_Nil [simplified])
  have o: "fits (wr_optional enc None) 1" for enc :: "'x \<Rightarrow> wr"
    unfolding wr_optional_def option.case by (rule fits_mono, (rule fits_intros)+) simp
  show ?thesis
    unfolding encode_device_def head_fields_def history_fields_def tail_fields_def append.simps
    by (rule fits_mono, simp only: assms(1-7) smap_values_def list.map)
      ((rule a e o fits_vec [OF n] fits_intros)+, simp)
qed

lemma fits_validation: "v_detail v = [] \<Longrightarrow> fits (ValidationRecord_write v) 80"
  unfolding ValidationRecord_write_def
  by (rule fits_mono, simp only:) ((rule fits_string fits_intros | simp)+)

lemma demo1_devices: "hs_devices demo1 = [(StrongId 7, demo_device)]"
  by (simp add: demo1_def demo0_def demo_device_def registerWorker_def HealthStore_new_def registerDevice_def
      clock_now_eq reading_def tick_def FakeClock_def updateIndexesLocked_def Let_def)

lemma demo1_snapshot: "\<exists>bs. snapshot_of demo1 bs"
proof -
  have "persistable demo_device"
    by (simp add: persistable_def demo_device_def new_device_def default_Device_def gen_is_null_def
        impossible_state_def default_HealthAssessment_def)
  then have st: "storable demo1"
    by (simp add: storable_def demo1_devices demo_policy_generation gen_is_null_def smap_wf_def kMaxCount_def)
      (simp add: demo_device_def new_device_def)
  have dev: "fits (encode_device demo_device) (400 + 0)"
    by (rule fits_device) (simp_all add: demo_device_def new_device_def default_Device_def fits_Nil [simplified])
  have "fits (encode_body demo1) 1000"
    unfolding encode_body_def demo1_devices smap_values_def wr_vec_def list.map snd_conv
    by (rule fits_mono, (rule fits_policy dev fits_intros)+) simp
  then obtain body where "encode_body demo1 = Inr body" "length body \<le> 1000"
    by (auto simp: fits_def)
  then show ?thesis
    using st by (simp add: snapshot_of_def encodeStateInternal_def persist_frame_def Let_def)
qed

end
