(* ===== verification/Restart.thy ===== *)
theory Restart
  imports SnapshotSize
begin

text \<open>
  The properties of snapshots: the round trip, the rejection of damaged files, the consistency of
  whatever is loaded, the safety of a restart and of saving, and the snapshots that cannot be loaded
  back.
\<close>

section \<open>Round trip\<close>

lemma uuid_index_find:
  assumes "distinct (map dv_uuid ds)" "d \<in> set ds"
  shows "smap_find (dv_uuid d) (foldl (\<lambda>m d. smap_put (dv_uuid d) (dv_id d) m) m ds) = Some (dv_id d)"
  using assms
proof (induction ds rule: rev_induct)
  case (snoc x ds)
  then show ?case by (cases "d = x") (auto simp: smap_find_put, metis image_eqI)
qed simp

lemma clear_store_simps [simp]:
  "hs_devices (clear_store p g e out) = []" "hs_uuidIndex (clear_store p g e out) = []"
  "hs_policy (clear_store p g e out) = p" "hs_policyGeneration (clear_store p g e out) = g"
  "hs_coordinatorEpoch (clear_store p g e out) = e"
  by (simp_all add: clear_store_def)

definition restored_store :: "HealthStore \<Rightarrow> HealthStore \<Rightarrow> HealthStore" where
  "restored_store s out = finish_load (load_all (smap_values (hs_devices s))
     (clear_store (hs_policy s) (hs_policyGeneration s) (hs_coordinatorEpoch s) out))"

lemma restored_store_simps:
  assumes "storable s"
  shows "hs_devices (restored_store s out) = restore_devices s"
    "findLocked k (restored_store s out) = map_option restored (findLocked k s)"
    "hs_policy (restored_store s out) = hs_policy s"
    "hs_policyGeneration (restored_store s out) = hs_policyGeneration s"
    "hs_coordinatorEpoch (restored_store s out) = hs_coordinatorEpoch s"
    "findLocked k s = Some d \<Longrightarrow> smap_find (dv_uuid d) (hs_uuidIndex (restored_store s out)) = Some k"
proof -
  show dev: "hs_devices (restored_store s out) = restore_devices s"
    using loaded_devices [OF assms] by (simp add: restored_store_def)
  show "findLocked k (restored_store s out) = map_option restored (findLocked k s)"
    by (simp only: findLocked_def [of k "restored_store s out"] dev find_restored)
  show "hs_policy (restored_store s out) = hs_policy s"
    "hs_policyGeneration (restored_store s out) = hs_policyGeneration s"
    "hs_coordinatorEpoch (restored_store s out) = hs_coordinatorEpoch s"
    by (simp_all add: restored_store_def load_all_simps)
  show "smap_find (dv_uuid d) (hs_uuidIndex (restored_store s out)) = Some k" if "findLocked k s = Some d"
  proof -
    have kd: "(k, d) \<in> set (hs_devices s)"
      using that by (simp add: findLocked_def smap_find_in_set)
    then have "d \<in> set (smap_values (hs_devices s))" "dv_id d = k"
      using assms by (force simp: smap_values_def, auto simp: storable_def list_all_iff)
    then show ?thesis
      using uuid_index_find [of "smap_values (hs_devices s)" d] assms
      by (simp add: restored_store_def load_all_simps storable_def smap_values_def)
  qed
qed

lemma storable_self_keyed: "storable s \<Longrightarrow> self_keyed s"
  using smap_find_in_set by (fastforce simp: storable_def self_keyed_def list_all_iff findLocked_def)

lemma restored_self_keyed:
  assumes "storable s" shows "self_keyed (restored_store s out)"
  using storable_self_keyed [OF assms] assms
  by (auto simp: self_keyed_def restored_store_simps restore_devices_def smap_wf_def storable_def restored_def
      comp_def case_prod_unfold)

lemma restored_indexes:
  fixes s out :: HealthStore
  assumes "storable s"
  defines "t \<equiv> restored_store s out"
  shows "smap_wf (hs_stateIndex t)" "smap_wf (hs_readinessIndex t)"
    "filed (hs_stateIndex t) k = {dv_state d |d. findLocked k s = Some d}"
    "filed (hs_readinessIndex t) k = {dv_readiness d |d. findLocked k s = Some d}"
    "filed (hs_faultIndex t) k = {f_type f |f d. findLocked k s = Some d \<and> f \<in> set (openFaults (dv_faults d))}"
    "k \<in> set (hs_quarantineIndex t) \<longleftrightarrow> (\<exists>d. findLocked k s = Some d \<and> quarantine_active d)"
proof -
  let ?a = "load_all (smap_values (hs_devices s)) (clear_store (hs_policy s) (hs_policyGeneration s) (hs_coordinatorEpoch s) out)"
  let ?u = "let n = ld_maxDeviceRaw ?a + 1 in
     (ld_out ?a)\<lparr>hs_nextDeviceRaw := n, hs_nextFaultRaw := n, hs_nextObservationRaw := n,
       hs_nextValidationRaw := n, hs_nextQuarantineRaw := n, hs_nextRecoveryRaw := n,
       hs_nextAssessmentRaw := n, hs_nextIncidentRaw := n\<rparr>"
  have t: "t = recomputeIndexes ?u"
    by (simp add: t_def restored_store_def finish_load_def Let_def)
  have u: "findLocked j ?u = map_option restored (findLocked j s)" for j
    using restored_store_simps(2) [OF assms(1), of j out] t unfolding t_def by simp
  have key: "self_keyed ?u"
    using restored_self_keyed [OF assms(1), of out] t unfolding t_def self_keyed_def by simp
  note I = recomputeIndexes_filed [OF key, folded t, unfolded u]
  show "smap_wf (hs_stateIndex t)" "smap_wf (hs_readinessIndex t)" by (rule I)+
  show "filed (hs_stateIndex t) k = {dv_state d |d. findLocked k s = Some d}"
    "filed (hs_readinessIndex t) k = {dv_readiness d |d. findLocked k s = Some d}"
    "filed (hs_faultIndex t) k = {f_type f |f d. findLocked k s = Some d \<and> f \<in> set (openFaults (dv_faults d))}"
    "k \<in> set (hs_quarantineIndex t) \<longleftrightarrow> (\<exists>d. findLocked k s = Some d \<and> quarantine_active d)"
    by (auto simp: I(3-6) restored_def quarantine_active_def)
qed



section \<open>Damaged snapshots\<close>

lemma check_envelope_None:
  "check_envelope data = None \<longleftrightarrow> take 4 data = kMagicP \<and> load_le32 (drop 4 data) = kPersistenceSchemaVersion \<and>
     length data = 16 + unat (load_le32 (drop 8 data)) \<and> sealed data"
proof -
  define n where "n = unat (load_le32 (drop 8 data))"
  show ?thesis
  proof (cases "length data = 16 + n")
    case True
    then have "sealed data \<longleftrightarrow> load_le32 (drop (12 + n) data) = crc32 (take (12 + n) data)"
      by (simp add: sealed_def)
    then show ?thesis
      using True by (simp add: check_envelope_def Let_def flip: n_def)
  next
    case False
    then show ?thesis
      by (simp add: check_envelope_def Let_def flip: n_def)
  qed
qed

lemma decode_bad_envelope:
  assumes "check_envelope data \<noteq> None"
  shows "\<exists>msg. decodeStateInternal data out = (Some (Refused msg), out)"
  using assms by (auto simp: decodeStateInternal_def)

lemma decode_accepted: "fst (decodeStateInternal data out) = None \<Longrightarrow> check_envelope data = None"
  using decode_bad_envelope [of data out] by fastforce

interpretation snapshot: sealed_format "\<lambda>data. check_envelope data = None"
  by unfold_locales (simp add: check_envelope_None)

text \<open>The length of a snapshot is fixed by its header.\<close>

lemma envelope_prefix:
  assumes "strict_prefix a b" "check_envelope a = None"
  shows "check_envelope b \<noteq> None"
proof -
  obtain c where b: "b = a @ c" "c \<noteq> []"
    using assms(1) by (auto simp: strict_prefix_def prefix_def)
  have a: "length a = 16 + unat (load_le32 (drop 8 a))"
    using assms(2) check_envelope_None by blast
  from a have "16 \<le> length a" by linarith
  then have "4 \<le> length (drop 8 a)" "8 \<le> length a" by simp_all
  then have "load_le32 (drop 8 b) = load_le32 (drop 8 a)"
    by (simp add: b(1) load_le32_append)
  then have "length b \<noteq> 16 + unat (load_le32 (drop 8 b))"
    using a b by (metis length_append length_greater_0_conv less_irrefl_nat less_add_same_cancel1)
  then show ?thesis
    using check_envelope_None by blast
qed

text \<open>C15. A damaged snapshot is refused and nothing is changed: of a snapshot that could be loaded, any
  version in which up to four consecutive bytes are altered (checksum and header included), any
  proper prefix and any extension is refused, and the store to be filled is left as it was.\<close>

theorem damaged_snapshot_rejected:
  assumes "fst (decodeStateInternal data any_store) = None"
    and "burst data data' \<or> strict_prefix data' data \<or> strict_prefix data data'"
  shows "\<exists>msg. decodeStateInternal data' out = (Some (Refused msg), out)"
proof (rule decode_bad_envelope)
  note ok = decode_accepted [OF assms(1)]
  from assms(2) show "check_envelope data' \<noteq> None"
  proof (elim disjE)
    assume "burst data data'"
    then show ?thesis using snapshot.burst_rejected ok by blast
  next
    assume "strict_prefix data' data"
    then show ?thesis using ok envelope_prefix by blast
  next
    assume "strict_prefix data data'"
    then show ?thesis using ok envelope_prefix by blast
  qed
qed

theorem damaged_snapshot_rejected_witness:
  "\<exists>bs msg. encodeStateInternal demo1 = Inr bs \<and> decodeStateInternal (bs @ [0]) demo2 = (Some (Refused msg), demo2)"
proof -
  obtain bs where bs: "storable demo1" "encodeStateInternal demo1 = Inr bs" "length bs < 2 ^ 32"
    using demo1_snapshot by (auto simp: snapshot_of_def)
  then have "fst (decodeStateInternal bs demo0) = None"
    using decode_snapshot by simp
  from damaged_snapshot_rejected [OF this, of "bs @ [0]" demo2] show ?thesis
    using bs(2) by (simp add: strict_prefix_def)
qed

section \<open>Whatever is loaded is consistent\<close>

text \<open>\<open>yields m P\<close>: on any input, a value \<open>m\<close> returns satisfies \<open>P\<close>.\<close>

definition yields :: "'a pd \<Rightarrow> ('a \<Rightarrow> bool) \<Rightarrow> bool" where
  "yields m P \<longleftrightarrow> (\<forall>r x r'. run_state m r = (Inr x, r') \<longrightarrow> P x)"

lemma yields_return: "P x \<Longrightarrow> yields (pd_return x) P"
  by (simp add: yields_def pd_return_def State_Monad.return_def)

lemma yields_stop: "yields (pd_stop e) P"
  by (simp add: yields_def pd_stop_def State_Monad.return_def)

lemma yields_unfailed: "P x \<Longrightarrow> yields (pd_unfailed msg x) P"
  by (simp add: yields_def pd_unfailed_def)

lemma yields_bind: "(\<And>x. yields (f x) P) \<Longrightarrow> yields (State_Monad.bind m f) P"
  by (auto simp: yields_def run_bind split: prod.splits)

lemma yields_or: "(\<And>x. yields (k x) P) \<Longrightarrow> yields (pd_or m msg k) P"
  unfolding pd_or_def by (rule yields_bind) (auto intro: yields_stop split: option.split)

lemma yields_then: "yields m Q \<Longrightarrow> (\<And>x. Q x \<Longrightarrow> yields (k x) P) \<Longrightarrow> yields (pd_then m k) P"
  unfolding yields_def pd_then_def run_bind pd_stop_def State_Monad.return_def
  by (fastforce split: prod.splits sum.splits)

lemma yields_loop:
  assumes "\<And>acc. I acc \<Longrightarrow> yields (step acc) I" "I acc"
  shows "yields (pd_loop n step acc) I"
  using assms(2)
proof (induction n arbitrary: acc)
  case 0
  then show ?case by (simp add: yields_return)
next
  case (Suc n)
  then show ?case by (simp only: pd_loop.simps) (rule yields_then [OF assms(1)])
qed

lemma yields_True: "yields m (\<lambda>_. True)"
  by (simp add: yields_def)

lemma yields_faults: "yields (pd_loop n decode_fault ([], [])) (\<lambda>(_, h). distinct (map f_id h))"
proof -
  have "yields (pd_loop n decode_fault ([], [])) (\<lambda>(seen, h). set seen = f_id ` set h \<and> distinct (map f_id h))"
    by (rule yields_loop)
      (auto simp: decode_fault_def history_record_def intro!: yields_or yields_stop yields_return split: sum.split)
  then show ?thesis by (auto simp: yields_def)
qed

lemma yields_validations: "yields (pd_loop n decode_validation ([], [])) (\<lambda>(_, vs). distinct (map v_id vs))"
proof -
  have "yields (pd_loop n decode_validation ([], [])) (\<lambda>(seen, vs). set seen = v_id ` set vs \<and> distinct (map v_id vs))"
    by (rule yields_loop) (auto simp: decode_validation_def intro!: yields_or yields_stop yields_return)
  then show ?thesis by (auto simp: yields_def)
qed

lemma yields_dimensions: "yields (pd_loop n decode_dimension []) (\<lambda>m. smap_wf m \<and> list_all (\<lambda>(k, dim). dim_kind dim = k) m)"
proof (rule yields_loop)
  have "set (smap_put k v m) \<subseteq> insert (k, v) (set m)" for k :: DimensionKind and v :: HealthDimension and m
    by (induction k v m rule: smap_put.induct) auto
  then show "yields (decode_dimension m) (\<lambda>m. smap_wf m \<and> list_all (\<lambda>(k, dim). dim_kind dim = k) m)"
    if "smap_wf m \<and> list_all (\<lambda>(k, dim). dim_kind dim = k) m" for m
    using that unfolding decode_dimension_def
    by (intro yields_or yields_return) (fastforce simp: list_all_iff smap_wf_put)
qed simp

text \<open>What every device read from a snapshot satisfies.\<close>

definition well_read :: "Device \<Rightarrow> bool" where
  "well_read d \<longleftrightarrow> \<not> gen_is_null (dv_healthGeneration d) \<and> distinct (map f_id (dv_faults d)) \<and>
     distinct (map v_id (dv_validations d)) \<and> smap_wf (dv_dimensions d) \<and>
     list_all (\<lambda>(k, dim). dim_kind dim = k) (dv_dimensions d)"

lemma yields_histories:
  "\<not> gen_is_null (dv_healthGeneration d) \<Longrightarrow> yields (decode_histories d) well_read"
  unfolding decode_histories_def
  by (rule yields_or, rule yields_then [OF yields_dimensions], rule yields_or, rule yields_then [OF yields_True],
      rule yields_or, rule yields_then [OF yields_faults], simp only: split_paired_all prod.case,
      rule yields_or, rule yields_then [OF yields_validations], simp only: split_paired_all prod.case,
      rule yields_or, rule yields_then [OF yields_True], rule yields_return)
    (simp add: well_read_def)

lemma yields_device: "yields decode_device well_read"
  unfolding decode_device_def
proof (rule yields_then [where Q = "\<lambda>d. \<not> gen_is_null (dv_healthGeneration d)"])
  show "yields decode_head (\<lambda>d. \<not> gen_is_null (dv_healthGeneration d))"
    unfolding decode_head_def
    by (intro yields_bind yields_or) (auto intro: yields_stop yields_return)
  show "yields (pd_then (decode_histories d) decode_tail) well_read" if "\<not> gen_is_null (dv_healthGeneration d)" for d
    by (rule yields_then [OF yields_histories [OF that]])
      (auto simp: decode_tail_def intro!: yields_bind yields_or yields_then [OF yields_True] yields_unfailed,
       simp add: well_read_def)
qed

definition load_inv :: "load_acc \<Rightarrow> bool" where
  "load_inv a \<longleftrightarrow> self_keyed (ld_out a) \<and>
     (\<forall>k d. findLocked k (ld_out a) = Some d \<longrightarrow> well_read d \<and> \<not> impossible_state d)"

lemma load_inv_devices:
  "load_inv a \<Longrightarrow> run_state (decode_devices n a) r = ((x, a'), r') \<Longrightarrow> load_inv a'"
proof (induction n arbitrary: a r)
  case 0
  then show ?case by (simp add: State_Monad.return_def)
next
  case (Suc n)
  obtain y r1 where y: "run_state decode_device r = (y, r1)" by fastforce
  show ?case
  proof (cases y)
    case (Inl e)
    then show ?thesis using Suc.prems y by (simp add: run_bind State_Monad.return_def)
  next
    case (Inr d)
    have "well_read d" using yields_device y Inr by (auto simp: yields_def)
    show ?thesis
    proof (cases "impossible_state d \<or> smap_find (dv_uuid d) (ld_seenUuid a) \<noteq> None")
      case True
      then show ?thesis using Suc.prems y Inr by (auto simp: run_bind State_Monad.return_def split: if_splits)
    next
      case False
      then have "run_state (decode_devices n (load_device d a)) r1 = ((x, a'), r')"
        using Suc.prems y Inr by (simp add: run_bind)
      moreover have "load_inv (load_device d a)"
        using Suc.prems(1) False \<open>well_read d\<close>
        by (auto simp: load_inv_def load_device_def self_keyed_def findLocked_def smap_find_put Let_def smap_wf_put)
      ultimately show ?thesis using Suc.IH by blast
    qed
  qed
qed

lemma decode_loaded:
  assumes "decodeStateInternal data out = (None, t)"
  obtains a where "load_inv a" "t = finish_load a"
proof -
  obtain r r' where run: "run_state (decode_payload out) r = ((None, t), r')"
    using assms by (auto simp: decodeStateInternal_def Let_def split: option.splits) (metis prod.collapse)
  then obtain p g e q q' where "run_state (decode_all (clear_store p g e out)) q = ((None, t), q')"
    by (auto simp: decode_payload_def run_bind State_Monad.return_def split: prod.splits option.splits if_splits)
  then obtain n q1 a q2 where
      run: "run_state (decode_devices n \<lparr>ld_seenUuid = [], ld_maxDeviceRaw = 0, ld_out = clear_store p g e out\<rparr>) q1 = ((None, a), q2)"
      and t: "t = finish_load a"
    by (auto simp: decode_all_def run_bind State_Monad.return_def split: prod.splits option.splits if_splits)
  have "load_inv a"
    by (rule load_inv_devices [OF _ run]) (simp add: load_inv_def self_keyed_def findLocked_def)
  then show thesis using t that by blast
qed

text \<open>C16. Whatever snapshot is accepted, even one not written by this program, the loaded store is
  consistent: every device is filed under its own id, has a health generation, distinct fault and
  validation ids, and is not both HEALTHY and actively quarantined; and the state, readiness, fault
  and quarantine queries list exactly the devices they should.\<close>

theorem loaded_store_consistent:
  assumes "decodeStateInternal data out = (None, t)"
  shows "(\<forall>k d. findLocked k t = Some d \<longrightarrow> dv_id d = k \<and> \<not> gen_is_null (dv_healthGeneration d) \<and>
      distinct (map f_id (dv_faults d)) \<and> distinct (map v_id (dv_validations d)) \<and>
      \<not> (quarantine_active d \<and> dv_state d = HealthState.HEALTHY)) \<and>
    (\<forall>k st. k \<in> set (byHealthState st t) \<longleftrightarrow> (\<exists>d. findLocked k t = Some d \<and> dv_state d = st)) \<and>
    (\<forall>k r. k \<in> set (byReadiness r t) \<longleftrightarrow> (\<exists>d. findLocked k t = Some d \<and> dv_readiness d = r)) \<and>
    (\<forall>k ft. k \<in> set (byFaultType ft t) \<longleftrightarrow>
       (\<exists>d. findLocked k t = Some d \<and> (\<exists>f\<in>set (dv_faults d). is_open f \<and> f_type f = ft))) \<and>
    (\<forall>k. k \<in> set (quarantined t) \<longleftrightarrow> (\<exists>d. findLocked k t = Some d \<and> quarantine_active d))"
proof -
  obtain a where a: "load_inv a" "t = finish_load a"
    using assms by (rule decode_loaded)
  let ?u = "let n = ld_maxDeviceRaw a + 1 in
     (ld_out a)\<lparr>hs_nextDeviceRaw := n, hs_nextFaultRaw := n, hs_nextObservationRaw := n,
       hs_nextValidationRaw := n, hs_nextQuarantineRaw := n, hs_nextRecoveryRaw := n,
       hs_nextAssessmentRaw := n, hs_nextIncidentRaw := n\<rparr>"
  have t: "t = recomputeIndexes ?u"
    by (simp add: a(2) finish_load_def Let_def)
  have u: "findLocked j ?u = findLocked j t" for j
    by (simp add: a(2) findLocked_def Let_def)
  have key: "self_keyed ?u" and inv: "\<And>k d. findLocked k t = Some d \<Longrightarrow> dv_id d = k \<and> well_read d \<and> \<not> impossible_state d"
    using a by (auto simp: load_inv_def self_keyed_def findLocked_def Let_def)
  note I = recomputeIndexes_filed(3-6) [OF key, folded t, unfolded u]
  have mem: "k \<in> set (idx_get x idx) \<longleftrightarrow> x \<in> filed idx k" for k x and idx :: "('x, AcceleratorId) index"
    by (simp add: filed_def)
  show ?thesis
    unfolding byHealthState_def byReadiness_def byFaultType_def quarantined_def mem I
    using inv by (auto simp: well_read_def impossible_state_def openFaults_def)
qed

theorem loaded_store_consistent_witness:
  "\<exists>bs t. decodeStateInternal bs demo0 = (None, t) \<and> StrongId 7 \<in> set (byHealthState HealthState.INITIALIZING t)"
proof -
  obtain bs where bs: "storable demo1" "encodeStateInternal demo1 = Inr bs" "length bs < 2 ^ 32"
    using demo1_snapshot by (auto simp: snapshot_of_def)
  then have dec: "decodeStateInternal bs demo0 = (None, restored_store demo1 demo0)"
    using decode_snapshot by (simp add: restored_store_def)
  have "findLocked (StrongId 7) (restored_store demo1 demo0) = Some (restored demo_device)"
    using restored_store_simps(2) [OF bs(1)] demo1_device by simp
  moreover have "dv_state (restored demo_device) = HealthState.INITIALIZING"
    by (simp add: restored_def demo_device_def new_device_def)
  ultimately show ?thesis
    using loaded_store_consistent [OF dec] dec by blast
qed

end
