(* ===== verification/Lifetime.thy ===== *)
theory Lifetime
  imports Restart
begin

text \<open>
  The life of the service across restarts.  \<open>lifetime\<close> extends the runs of the store by restarts: the
  coordinator ends, and a new one loads the snapshot into a fresh store.  The invariant of the store
  survives them, so what a device's readiness and change log promise holds for the life of the
  service.  The theory also states what a restart may trust, that saving is atomic, and which
  snapshots cannot be loaded back.
\<close>

section \<open>Restarts keep the invariant\<close>

lemma device_flagged: "device_ok s k (d\<lparr>dv_requiresRevalidation := b\<rparr>) = device_ok s k d"
  by (simp add: device_ok_def audited_def agrees_def settled_def anchored_def fit_def quarantine_active_def)

lemma device_ok_index: "hs_stateIndex s' = hs_stateIndex s \<Longrightarrow> device_ok s' k d = device_ok s k d"
  by (simp add: device_ok_def settled_def anchored_def)

lemma store_inv_restored:
  assumes "store_inv s" "storable s"
  shows "store_inv (restored_store s out)"
proof -
  let ?t = "restored_store s out"
  note idx = restored_indexes(1-3) [OF assms(2), where out = out]
  note find = restored_store_simps(2) [OF assms(2), where out = out]
  have "device_ok ?t k d" if d: "findLocked k s = Some d" for k d
  proof -
    have "device_ok s k d" using assms(1) d by (simp add: store_inv_def)
    moreover have "filed (hs_stateIndex ?t) k = {dv_state d}"
      using idx(3) [of k] d by simp
    ultimately show ?thesis
      using idx(1) by (auto simp: device_ok_def settled_def anchored_def)
  qed
  then have dev: "device_ok ?t k d" if "findLocked k ?t = Some d" for k d
    using that by (auto simp: find restored_def device_flagged)
  have wf: "smap_wf (hs_devices ?t)"
    using restored_self_keyed [OF assms(2), of out] by (simp add: self_keyed_def)
  have "filed (hs_stateIndex ?t) k = {}" if "findLocked k ?t = None" for k
    using that idx(3) [of k] by (simp add: find)
  then show ?thesis
    unfolding store_inv_def using dev wf idx(1,2) by blast
qed

lemma require_revalidation_find:
  "findLocked k (require_revalidation s) = map_option (\<lambda>d. d\<lparr>dv_requiresRevalidation := True\<rparr>) (findLocked k s)"
  by (simp add: require_revalidation_def findLocked_def smap_find_def map_of_map)

lemma store_inv_revalidation:
  assumes "store_inv s" shows "store_inv (require_revalidation s)"
proof -
  have idx: "hs_stateIndex (require_revalidation s) = hs_stateIndex s"
      "hs_readinessIndex (require_revalidation s) = hs_readinessIndex s"
    by (simp_all add: require_revalidation_def)
  have "smap_wf (hs_devices (require_revalidation s))"
    using assms by (simp add: store_inv_def require_revalidation_def smap_wf_def comp_def case_prod_unfold)
  moreover have "device_ok (require_revalidation s) k d" if "findLocked k (require_revalidation s) = Some d" for k d
    using assms that by (auto simp: store_inv_def require_revalidation_find device_ok_index [OF idx(1)] device_flagged)
  moreover have "filed (hs_stateIndex (require_revalidation s)) k = {}" if "findLocked k (require_revalidation s) = None" for k
    using assms that by (simp add: store_inv_def require_revalidation_find idx)
  ultimately show ?thesis
    using assms idx by (simp add: store_inv_def)
qed

inductive lifetime :: "HealthStore \<Rightarrow> bool" where
  start: "lifetime (HealthStore_new clock policy epoch)"
| call: "lifetime s \<Longrightarrow> store_step any_uuid s s' \<Longrightarrow> lifetime s'"
| restart: "lifetime s \<Longrightarrow> snapshot_of s bs \<Longrightarrow> load_bytes bs (HealthStore_new clock policy epoch) = (r, s') \<Longrightarrow> lifetime s'"

lemma load_snapshot:
  assumes "snapshot_of s bs"
  shows "load_bytes bs out = (case reassessAll (require_revalidation (restored_store s out)) of
     (Some e, t) \<Rightarrow> (Some (Thrown e), t) | (None, t) \<Rightarrow> (None, t))"
  using decode_snapshot [of s bs out] assms by (simp add: snapshot_of_def load_bytes_def restored_store_def)

lemma lifetime_inv: "lifetime s \<Longrightarrow> store_inv s"
proof (induction rule: lifetime.induct)
  case (start clock policy epoch)
  show ?case by (rule store_inv_new)
next
  case (call s s')
  then show ?case using store_inv_run [of any_uuid s s'] by (simp add: store_run_def r_into_rtranclp)
next
  case (restart s bs clock policy epoch r s')
  let ?t = "require_revalidation (restored_store s (HealthStore_new clock policy epoch))"
  have "store_inv ?t"
    using restart by (intro store_inv_revalidation store_inv_restored) (auto simp: snapshot_of_def)
  moreover have "store_step any_uuid ?t (snd (reassessAll ?t))" by (rule store_step.reassessAll)
  moreover have "s' = snd (reassessAll ?t)"
    using restart.hyps(3) load_snapshot [OF restart.hyps(2)] by (auto split: prod.splits option.splits)
  ultimately show ?case
    using store_inv_run [of any_uuid ?t s'] by (simp add: store_run_def r_into_rtranclp)
qed


lemma reachable_lifetime: "reachable any_uuid s \<Longrightarrow> lifetime s"
proof -
  assume "reachable any_uuid s"
  then obtain clock policy epoch where "(store_step any_uuid)\<^sup>*\<^sup>* (HealthStore_new clock policy epoch) s"
    by (auto simp: reachable_def store_run_def)
  then show ?thesis
    by (induction rule: rtranclp_induct) (auto intro: lifetime.intros)
qed


section \<open>The trust boundary of a restart\<close>

text \<open>A device that must be revalidated is not READY, and ready at all only as a degraded device.\<close>

definition untrusted :: "HealthPolicy \<Rightarrow> Device \<Rightarrow> bool" where
  "untrusted pol d \<longleftrightarrow> dv_requiresRevalidation d \<and> dv_readiness d \<noteq> ReadinessState.READY \<and>
     (a_executionReady (dv_latestAssessment d) \<longrightarrow>
        dv_state d = HealthState.DEGRADED \<and> pol_allowDegradedReadiness pol)"

lemma finish_untrusted:
  assumes "dv_requiresRevalidation d"
  shows "untrusted pol (finish_device n pol g a b d)"
  using assms readiness_ready_iff [of "device_readiness_input d pol n"] readiness_READY_iff [of "device_readiness_input d pol n"]
  by (auto simp: untrusted_def device_readiness_simps fully_qualified_def finish_device_def case_prod_unfold
      device_readiness_input_def)

lemma reassess_untrusted:
  "dv_requiresRevalidation d \<Longrightarrow> reassessLocked (d, s) = (None, c) \<Longrightarrow> untrusted (hs_policy s) (fst c)"
  by (auto simp: reassess_eq reassess_finish_def Let_def split: sum.splits if_splits intro: finish_untrusted)
    (metis finish_untrusted moved_simps)

lemma reassessAll_policy: "hs_policy (snd (reassessAll s)) = hs_policy s"
proof -
  have "hs_policy (snd (for_devices ks reassessLocked s)) = hs_policy s" for ks
  proof (induction ks arbitrary: s)
    case (Cons k ks)
    have "hs_policy (put_device k (snd (reassessLocked (d, s)))) = hs_policy s" for d
      using frame.txn_step_keeps [OF txn_step.reassess [of k "(d, s)"]] by (simp add: store_frame_def put_device_def)
    then show ?case
      using Cons.IH by (auto simp: on_device_def split: option.splits prod.splits) (metis snd_conv)+
  qed simp
  then show ?thesis by (simp add: reassessAll_def)
qed

lemma load_bytes_untrusted:
  assumes "load_bytes data out = (None, s)" "findLocked k s = Some d"
  shows "untrusted (hs_policy s) d"
proof -
  obtain t where t: "decodeStateInternal data out = (None, t)" "reassessAll (require_revalidation t) = (None, s)"
    using assms(1) by (auto simp: load_bytes_def split: prod.splits option.splits)
  let ?t = "require_revalidation t"
  obtain a where "load_inv a" "t = finish_load a" using t(1) by (rule decode_loaded)
  then have "smap_wf (hs_devices ?t)"
    by (simp add: load_inv_def self_keyed_def require_revalidation_def smap_wf_def comp_def case_prod_unfold)
  note each = for_devices_each [OF txn_step.reassess t(2) [unfolded reassessAll_def] store_keys(1) [OF this], of k]
  have pol: "hs_policy s = hs_policy ?t"
    using reassessAll_policy [of ?t] t(2) by simp
  show ?thesis
  proof (cases "findLocked k ?t")
    case None
    then show ?thesis using each store_keys(2) [of k ?t] assms(2) by simp
  next
    case (Some d0)
    then have "dv_requiresRevalidation d0" by (auto simp: require_revalidation_find)
    then show ?thesis
      using each store_keys(2) [of k ?t] Some assms(2) pol by (auto dest: reassess_untrusted)
  qed
qed

text \<open>C17. A restart is a trust boundary: after a snapshot is loaded successfully, every device requires
  revalidation and none reports READY; a device can only be declared ready for execution if it is
  DEGRADED and the policy permits degraded readiness (there the evaluator does not look at the flag).\<close>

theorem load_trust_boundary:
  assumes "loadInternal path out fs = (None, s)" "findLocked k s = Some d"
  shows "dv_requiresRevalidation d \<and> dv_readiness d \<noteq> ReadinessState.READY \<and>
     (a_executionReady (assessmentOf k s) \<longrightarrow>
        dv_state d = HealthState.DEGRADED \<and> pol_allowDegradedReadiness (hs_policy s))"
proof -
  obtain data where "load_bytes data out = (None, s)"
    using assms(1) by (auto simp: loadInternal_def split: option.splits)
  from load_bytes_untrusted [OF this assms(2)] show ?thesis
    using assms(2) by (simp add: untrusted_def assessmentOf_def)
qed

theorem load_trust_boundary_witness:
  "\<exists>fs s d. loadInternal ''state.bin'' demo0 fs = (None, s) \<and> findLocked (StrongId 7) s = Some d \<and>
     dv_readiness d \<noteq> ReadinessState.READY"
proof -
  obtain bs where bs: "snapshot_of demo1 bs" using demo1_snapshot by blast
  then have st: "storable demo1" by (simp add: snapshot_of_def)
  let ?t = "require_revalidation (restored_store demo1 demo0)"
  have find: "findLocked k ?t = map_option (\<lambda>d. d\<lparr>dv_requiresRevalidation := True\<rparr>) (map_option restored (findLocked k demo1))" for k
    by (simp only: require_revalidation_find restored_store_simps(2) [OF st])
  have wf: "smap_wf (hs_devices ?t)"
    using restored_self_keyed [OF st, of demo0]
    by (simp add: self_keyed_def require_revalidation_def smap_wf_def comp_def case_prod_unfold)
  have gen: "\<not> gen_max (dv_healthGeneration d)" if "findLocked k ?t = Some d" for k d
    using that demo_devices [of k] demo1_device
    by (cases "k = StrongId 7") (auto simp: find restored_def gen_max_def demo_device_def new_device_def)
  have "fst (reassessAll ?t) = None"
    unfolding reassessAll_def
    by (rule for_devices_returns [where P = "\<lambda>d. \<not> gen_max (dv_healthGeneration d)"])
      (use gen in \<open>auto simp: store_keys(1) [OF wf] txn_step.reassess reassess_returns\<close>)
  then obtain s where s: "reassessAll ?t = (None, s)" by (metis prod.collapse)
  have "findLocked (StrongId 7) ?t \<noteq> None" by (simp add: find demo1_device)
  then obtain d where d: "findLocked (StrongId 7) s = Some d"
    using for_devices_each [OF txn_step.reassess s [unfolded reassessAll_def] store_keys(1) [OF wf], of "StrongId 7"]
      store_keys(2) [of "StrongId 7" ?t] by (auto split: option.splits)
  have "loadInternal ''state.bin'' demo0 [''state.bin'' \<mapsto> bs] = (None, s)"
    using load_snapshot [OF bs] s by (simp add: loadInternal_def)
  from load_trust_boundary [OF this d] this d show ?thesis by blast
qed

section \<open>Saving is atomic\<close>

text \<open>C18. Saving replaces the snapshot atomically: whatever the operating system refuses, and wherever a
  write stops, the file at the given path holds afterwards either what it held before or the complete
  encoding of the store, the latter whenever the save reports success; no file other than this one
  and its temporary is touched.\<close>

theorem save_atomic:
  "(case saveInternal path s io fs of (r, fs') \<Rightarrow>
     (fs' path = fs path \<or> (\<exists>bs. encodeStateInternal s = Inr bs \<and> fs' path = Some bs)) \<and>
     (r = None \<longleftrightarrow> (\<exists>bs. encodeStateInternal s = Inr bs \<and> \<not> io_open io \<and> io_short io = None \<and> \<not> io_rename io)) \<and>
     (r = None \<longrightarrow> Inr (the (fs' path)) = encodeStateInternal s \<and> fs' path \<noteq> None \<and> fs' (path @ ''.tmp'') = None) \<and>
     (\<forall>p. p \<noteq> path \<and> p \<noteq> path @ ''.tmp'' \<longrightarrow> fs' p = fs p))"
  by (auto simp: saveInternal_def Let_def split: sum.splits option.splits)

theorem save_atomic_witness:
  "\<exists>bs. encodeStateInternal demo1 = Inr bs \<and>
     snd (saveInternal ''state.bin'' demo1 \<lparr>io_open = False, io_short = None, io_rename = False, io_remove = False\<rparr>
       Map.empty) ''state.bin'' = Some bs"
proof -
  let ?io = "\<lparr>io_open = False, io_short = None, io_rename = False, io_remove = False\<rparr>"
  obtain bs where bs: "encodeStateInternal demo1 = Inr bs" using demo1_snapshot by (auto simp: snapshot_of_def)
  obtain r fs' where save: "saveInternal ''state.bin'' demo1 ?io Map.empty = (r, fs')" by fastforce
  note atomic = save_atomic [where path = "''state.bin''" and s = demo1 and io = ?io and fs = Map.empty, unfolded save prod.case]
  have "r = None" using atomic bs by simp
  then have "Inr (the (fs' ''state.bin'')) = encodeStateInternal demo1" "fs' ''state.bin'' \<noteq> None"
    using atomic by blast+
  then show ?thesis
    using bs save by auto
qed

end
