(* ===== verification/Unloadable.thy ===== *)
theory Unloadable
  imports Lifetime
begin

text \<open>
  Snapshots that are written but cannot be read back.  The decoder insists on distinct validation
  ids per device, but nothing on the way of a validation record into the store does
  (\<open>recordValidation\<close> appends whatever a worker sends, and a worker numbers its runs by its boot id).
\<close>

text \<open>\<open>fails m w v\<close>: on input produced by \<open>w\<close> the computation ends with \<open>v\<close>, wherever it stops.\<close>

definition fails :: "'a rd \<Rightarrow> wr \<Rightarrow> 'a \<Rightarrow> bool" where
  "fails m w v \<longleftrightarrow> (\<forall>bs pre post. w = Inr bs \<longrightarrow>
     fst (run_state m \<lparr>rd_data = pre @ bs @ post, rd_pos = length pre, rd_fail = False\<rparr>) = v)"

lemma fails_bind:
  assumes "reads m w a" "fails (f a) (wr_all ws) b"
  shows "fails (State_Monad.bind m f) (wr_all (w # ws)) b"
  unfolding fails_def
proof (intro allI impI)
  fix bs pre post assume "wr_all (w # ws) = Inr bs"
  then obtain b1 b2 where b: "w = Inr b1" "wr_all ws = Inr b2" "bs = b1 @ b2"
    by (auto split: sum.splits)
  have "run_state m \<lparr>rd_data = pre @ b1 @ b2 @ post, rd_pos = length pre, rd_fail = False\<rparr> =
     (a, \<lparr>rd_data = pre @ b1 @ b2 @ post, rd_pos = length pre + length b1, rd_fail = False\<rparr>)"
    using assms(1) b(1) by (simp add: reads_def)
  moreover have "fst (run_state (f a) \<lparr>rd_data = (pre @ b1) @ b2 @ post, rd_pos = length (pre @ b1), rd_fail = False\<rparr>) = b"
    using assms(2) b(2) unfolding fails_def by blast
  ultimately show "fst (run_state (m \<bind> f) \<lparr>rd_data = pre @ bs @ post, rd_pos = length pre, rd_fail = False\<rparr>) = b"
    by (simp add: run_bind b(3))
qed

lemma fails_or: "reads m w (Some a) \<Longrightarrow> fails (k a) (wr_all ws) b \<Longrightarrow> fails (pd_or m msg k) (wr_all (w # ws)) b"
  unfolding pd_or_def by (rule fails_bind) (assumption, simp only: option.case)

lemma fails_then: "reads m w (Inr a) \<Longrightarrow> fails (k a) (wr_all ws) b \<Longrightarrow> fails (pd_then m k) (wr_all (w # ws)) b"
  unfolding pd_then_def by (rule fails_bind) (assumption, simp only: sum.case)

lemma reads_fails: "reads m w v \<Longrightarrow> fails m w v"
  by (simp add: reads_def fails_def)

lemma fails_ends: "fails m w v \<Longrightarrow> ends m w v"
  unfolding fails_def ends_def by (metis append_Nil2)

text \<open>An error of a part is the error of the whole.\<close>


lemma fails_first:
  assumes "fails m w (Inl e)"
  shows "fails (pd_then m k) (wr_all (w # ws)) (Inl e)"
  unfolding fails_def
proof (intro allI impI)
  fix bs pre post assume "wr_all (w # ws) = Inr bs"
  then obtain b1 b2 where b: "w = Inr b1" "bs = b1 @ b2"
    by (auto split: sum.splits)
  then have "fst (run_state m \<lparr>rd_data = pre @ b1 @ (b2 @ post), rd_pos = length pre, rd_fail = False\<rparr>) = Inl e"
    using assms unfolding fails_def by blast
  then show "fst (run_state (pd_then m k) \<lparr>rd_data = pre @ bs @ post, rd_pos = length pre, rd_fail = False\<rparr>) = Inl e"
    by (simp add: pd_then_def run_bind b(2) pd_stop_def State_Monad.return_def case_prod_unfold)
qed

lemma fails_counted:
  assumes "length xs \<le> kMaxCount"
    and "fails (pd_then (pd_loop (length xs) step acc) k) (wr_all (wr_all (map enc xs) # ws)) b"
  shows "fails (pd_or rd_bounded msg (\<lambda>n. pd_then (pd_loop n step acc) k)) (wr_all (wr_vec enc xs # ws)) b"
proof -
  have "fails (pd_or rd_bounded msg (\<lambda>n. pd_then (pd_loop n step acc) k))
      (wr_all (wr_u32 (of_nat (length xs)) # map enc xs @ ws)) b"
    by (rule fails_or [OF reads_bounded [OF assms(1)]]) (use assms(2) in \<open>simp only: wr_all_flatten\<close>)
  then show ?thesis
    by (simp only: wr_vec_def wr_all_flatten append.simps)
qed

section \<open>Duplicate validation ids\<close>

lemma reads_duplicate:
  assumes "v_id v \<in> v_id ` set vs" "set seen = v_id ` set vs"
  shows "reads (decode_validation (seen, vs)) (ValidationRecord_write v) (Inl (Refused ''duplicate validation id''))"
  unfolding decode_validation_def prod.case
  by (rule reads_single, rule reads_pd_or, rule reads_intros)
    (use assms in \<open>simp add: pd_stop_def reads_return del: wr_all.simps\<close>)

lemma fails_validations:
  assumes "set seen = v_id ` set ys" "distinct (map v_id ys)" "\<not> distinct (map v_id (ys @ zs))"
  shows "fails (pd_loop (length zs) decode_validation (seen, ys)) (wr_all (map ValidationRecord_write zs))
    (Inl (Refused ''duplicate validation id''))"
  using assms
proof (induction zs arbitrary: seen ys)
  case (Cons v zs)
  show ?case
  proof (cases "v_id v \<in> v_id ` set ys")
    case True
    from fails_first [OF reads_fails [OF reads_duplicate [OF True Cons.prems(1)]]] show ?thesis
      by (simp only: list.map length_Cons pd_loop.simps)
  next
    case False
    have "fails (pd_loop (length zs) decode_validation (sset_insert (v_id v) seen, ys @ [v]))
        (wr_all (map ValidationRecord_write zs)) (Inl (Refused ''duplicate validation id''))"
      by (rule Cons.IH) (use Cons.prems False in auto)
    then show ?thesis
      by (simp only: list.map length_Cons pd_loop.simps)
        (rule fails_then [OF reads_validation [OF False Cons.prems(1)]])
  qed
qed simp

text \<open>A device with nothing against it but a validation id used twice.\<close>

definition poisoned :: "Device \<Rightarrow> bool" where
  "poisoned d \<longleftrightarrow> persistable (d\<lparr>dv_validations := []\<rparr>) \<and> length (dv_validations d) \<le> kMaxCount \<and>
     \<not> distinct (map v_id (dv_validations d))"

lemma fails_histories:
  assumes "poisoned d"
  shows "fails (decode_histories c) (wr_all (history_fields d)) (Inl (Refused ''duplicate validation id''))"
proof -
  note p = assms [unfolded poisoned_def persistable_def, simplified]
  obtain seenF where F: "reads (pd_loop (length (dv_faults d)) decode_fault ([], []))
      (wr_all (map Fault_write (dv_faults d))) (Inr (seenF, dv_faults d))"
    by (rule reads_fault_loop) (use p in auto)
  have D: "reads (pd_loop (length (smap_values (dv_dimensions d))) decode_dimension [])
      (wr_all (map HealthDimension_write (smap_values (dv_dimensions d)))) (Inr (dv_dimensions d))"
    by (rule reads_dimensions) (use p in \<open>auto simp: list_all_iff\<close>)
  have V: "fails (pd_loop (length (dv_validations d)) decode_validation ([], []))
      (wr_all (map ValidationRecord_write (dv_validations d))) (Inl (Refused ''duplicate validation id''))"
    by (rule fails_validations) (use p in auto)
  have len: "length (smap_values (dv_dimensions d)) \<le> kMaxCount" "length (dv_recentEvidence d) \<le> kMaxCount"
      "length (dv_faults d) \<le> kMaxCount" "length (dv_validations d) \<le> kMaxCount"
    using p by (simp_all add: smap_values_def)
  show ?thesis
    unfolding decode_histories_def history_fields_def
    by (rule fails_counted [OF len(1)], rule fails_then [OF D],
        rule fails_counted [OF len(2)], rule fails_then [OF reads_evidence_loop],
        rule fails_counted [OF len(3)], rule fails_then [OF F], unfold prod.case,
        rule fails_counted [OF len(4)], rule fails_first [OF V])
qed

lemma fails_device:
  assumes "poisoned d"
  shows "fails decode_device (encode_device d) (Inl (Refused ''duplicate validation id''))"
proof -
  have gen: "\<not> gen_is_null (dv_healthGeneration d)"
    using assms by (simp add: poisoned_def persistable_def)
  have "fails (pd_then (decode_histories (head_of d)) decode_tail)
      (wr_all [wr_all (history_fields d), wr_all (tail_fields d)]) (Inl (Refused ''duplicate validation id''))"
    by (rule fails_first, rule fails_histories [OF assms])
  then have "fails decode_device (wr_all [wr_all (head_fields d), wr_all (history_fields d @ tail_fields d)])
      (Inl (Refused ''duplicate validation id''))"
    unfolding decode_device_def
    by (intro fails_then [OF reads_head [OF gen]]) (simp only: wr_all_single wr_all_append [of "history_fields d"])
  then show ?thesis
    by (simp only: encode_device_def flip: wr_all_append)
qed

lemma fails_devices:
  assumes "list_all persistable ds" "distinct (map dv_uuid ds)" "poisoned d"
    "\<And>d. d \<in> set ds \<Longrightarrow> smap_find (dv_uuid d) (ld_seenUuid a) = None"
  shows "fails (decode_devices (length (ds @ d # es)) a) (wr_all (map encode_device (ds @ d # es)))
     (Some (Refused ''duplicate validation id''), foldl (\<lambda>a d. load_device (restored d) a) a ds)"
  using assms
proof (induction ds arbitrary: a)
  case Nil
  have "fst (run_state (decode_devices (Suc n) a) r) = (Some e, a)" if "fst (run_state decode_device r) = Inl e" for n r e
    using that by (simp add: run_bind State_Monad.return_def case_prod_unfold)
  then show ?case
    using fails_device [OF Nil(3)] unfolding fails_def
    by (auto simp del: decode_devices.simps split: sum.splits)
next
  case (Cons c ds)
  let ?a = "load_device (restored c) a"
  have "fails (decode_devices (length (ds @ d # es)) ?a) (wr_all (map encode_device (ds @ d # es)))
     (Some (Refused ''duplicate validation id''), foldl (\<lambda>a d. load_device (restored d) a) ?a ds)"
    by (rule Cons.IH) (use Cons.prems in \<open>auto simp: load_device_def restored_def smap_find_put image_iff Let_def\<close>)
  moreover have "\<not> impossible_state (restored c)" "smap_find (dv_uuid (restored c)) (ld_seenUuid a) = None"
    using Cons.prems by (auto simp: persistable_def impossible_state_def restored_def quarantine_active_def)
  moreover have "reads decode_device (encode_device c) (Inr (restored c))"
    using Cons.prems by (simp add: reads_device)
  ultimately show ?case
    by (simp only: list.map length_Cons decode_devices.simps foldl.simps append.simps)
      (rule fails_bind, assumption, simp)
qed

lemma ends_error:
  assumes "fails m w (Some e, a)"
  shows "ends (do { x \<leftarrow> m; (case x of (Some e, a) \<Rightarrow> State_Monad.return (Some e, f a) | (None, a) \<Rightarrow> k a) }) w (Some e, f a)"
  using fails_ends [OF assms] by (auto simp: ends_def run_bind State_Monad.return_def case_prod_unfold)

lemma length_smap_put: "length (smap_put k v m) \<le> Suc (length m)"
  by (induction k v m rule: smap_put.induct) auto

text \<open>C40. A validation id used twice makes the snapshots of a store unusable: if the first device the
  decoder cannot accept is one whose validation records repeat an id, the snapshot is written without
  complaint, and loading it is refused with ''duplicate validation id'', after the store to be filled
  has already lost its own devices and received the policy and the earlier devices of the snapshot.\<close>

theorem duplicate_validation_unloadable:
  assumes "encodeStateInternal s = Inr bs" "length bs < 2 ^ 32" "\<not> gen_is_null (hs_policyGeneration s)"
    "length (hs_devices s) \<le> kMaxCount" "smap_values (hs_devices s) = ds @ d # es"
    "list_all persistable ds" "distinct (map dv_uuid ds)" "poisoned d"
  shows "\<exists>t. decodeStateInternal bs out = (Some (Refused ''duplicate validation id''), t) \<and>
     hs_policy t = hs_policy s \<and> length (hs_devices t) \<le> length ds"
proof -
  let ?out = "clear_store (hs_policy s) (hs_policyGeneration s) (hs_coordinatorEpoch s) out"
  let ?a = "\<lparr>ld_seenUuid = [], ld_maxDeviceRaw = 0, ld_out = ?out\<rparr>"
  have "fails (decode_devices (length (ds @ d # es)) ?a) (wr_all (map encode_device (ds @ d # es)))
      (Some (Refused ''duplicate validation id''), load_all ds ?out)"
    unfolding load_all_def by (rule fails_devices) (use assms in simp_all)
  then have "ends (do { x \<leftarrow> decode_devices (length (ds @ d # es)) ?a;
          (case x of
             (Some e, a) \<Rightarrow> State_Monad.return (Some e, ld_out a)
           | (None, a) \<Rightarrow> State (\<lambda>r. (if remaining r \<noteq> 0
               then (Some (Refused ''trailing bytes in payload''), ld_out a)
               else (None, finish_load a), r))) }) (wr_all [wr_all (map encode_device (ds @ d # es))])
      (Some (Refused ''duplicate validation id''), ld_out (load_all ds ?out))"
    unfolding wr_all_single by (rule ends_error)
  then have "decodeStateInternal bs out = (Some (Refused ''duplicate validation id''), ld_out (load_all ds ?out))"
    using assms(3,4) by (intro decode_frame [OF assms(1,2)] ends_payload) (simp_all only: assms(5) simp_thms)
  moreover have len: "length (foldl (\<lambda>m d. smap_put (dv_id d) d m) [] xs) \<le> length xs" for xs :: "Device list"
    by (induction xs rule: rev_induct) (auto intro: order.trans [OF length_smap_put])
  have "length (hs_devices (ld_out (load_all ds ?out))) \<le> length ds"
    using len [of "map restored ds"] by (simp only: load_all_simps clear_store_simps length_map)
  moreover have "hs_policy (ld_out (load_all ds ?out)) = hs_policy s"
    by (simp only: load_all_simps clear_store_simps)
  ultimately show ?thesis by blast
qed

text \<open>The demonstration device after the same validation record has been stored twice.\<close>

definition poisoned_store :: HealthStore where
  "poisoned_store = demo1\<lparr>hs_devices := [(StrongId 7, validate_device demo_validation (validate_device demo_validation demo_device))]\<rparr>"

theorem duplicate_validation_unloadable_witness:
  "\<exists>bs t. encodeStateInternal poisoned_store = Inr bs \<and>
     decodeStateInternal bs demo0 = (Some (Refused ''duplicate validation id''), t) \<and> hs_devices t = []"
proof -
  let ?d = "validate_device demo_validation (validate_device demo_validation demo_device)"
  have bad: "poisoned ?d"
    by (simp add: poisoned_def persistable_def demo_device_def new_device_def default_Device_def gen_is_null_def
        impossible_state_def default_HealthAssessment_def validate_device_def demo_validation_def kMaxCount_def
        quarantine_active_def Let_def)
  have vals: "dv_validations ?d = [demo_validation, demo_validation]"
    by (simp add: validate_device_def demo_device_def new_device_def default_Device_def Let_def)
  have "fits (wr_all (map ValidationRecord_write (dv_validations ?d))) (80 + (80 + 0))"
    unfolding vals list.map by (intro fits_intros fits_validation) (simp_all add: demo_validation_def)
  then have dev: "fits (encode_device ?d) (400 + (80 + (80 + 0)))"
    by (intro fits_device) (simp_all add: validate_device_def demo_device_def new_device_def default_Device_def Let_def)
  have devs: "hs_devices poisoned_store = [(StrongId 7, ?d)]"
    by (simp add: poisoned_store_def)
  have "fits (encode_body poisoned_store) 2000"
    unfolding encode_body_def devs smap_values_def wr_vec_def list.map snd_conv
    by (rule fits_mono, (rule fits_policy dev fits_intros)+) simp
  then obtain body where "encode_body poisoned_store = Inr body" "length body \<le> 2000"
    by (auto simp: fits_def)
  then obtain bs where bs: "encodeStateInternal poisoned_store = Inr bs" "length bs < 2 ^ 32"
    by (simp add: encodeStateInternal_def persist_frame_def Let_def)
  have "\<exists>t. decodeStateInternal bs demo0 = (Some (Refused ''duplicate validation id''), t) \<and>
     hs_policy t = hs_policy poisoned_store \<and> length (hs_devices t) \<le> length ([] :: Device list)"
    by (rule duplicate_validation_unloadable [OF bs, where d = ?d and es = "[]"])
      (simp_all add: bad, simp_all add: poisoned_store_def demo_policy_generation gen_is_null_def smap_values_def kMaxCount_def)
  then show ?thesis using bs(1) by auto
qed

end
