(* ===== verification/Numbers.thy ===== *)
theory Numbers
  imports Prelude
begin

text \<open>
  The number parsing of the C++ library that the programs use on their arguments: \<open>std::stoull\<close>,
  \<open>std::strtoull\<close> and \<open>std::atoi\<close>, all in base 10.  The lemmas show that they read back what
  \<open>std::to_string\<close> prints.
\<close>

definition is_space :: "char \<Rightarrow> bool" where
  "is_space c \<longleftrightarrow> c = CHR '' '' \<or> (9 \<le> (of_char c :: nat) \<and> (of_char c :: nat) \<le> 13)"

definition is_digit :: "char \<Rightarrow> bool" where
  "is_digit c \<longleftrightarrow> 48 \<le> (of_char c :: nat) \<and> (of_char c :: nat) \<le> 57"

definition is_sign :: "char \<Rightarrow> bool" where
  "is_sign c \<longleftrightarrow> c = CHR ''+'' \<or> c = CHR ''-''"

definition digits_value :: "string \<Rightarrow> nat" where
  "digits_value s = foldl (\<lambda>v c. 10 * v + (of_char c - 48)) 0 s"

text \<open>White space and an optional sign are skipped: whether a minus was read, and what follows.\<close>

definition after_sign :: "string \<Rightarrow> bool \<times> string" where
  "after_sign s = (case dropWhile is_space s of
     [] \<Rightarrow> (False, [])
   | c # cs \<Rightarrow> if is_sign c then (c = CHR ''-'', cs) else (False, c # cs))"

text \<open>\<open>std::stoull\<close>: it throws without digits and out of range; a negative number wraps.  The second
  component is the number of characters used.\<close>

definition stoull :: "string \<Rightarrow> (u64 \<times> nat) option" where
  "stoull s = (case after_sign s of (neg, s2) \<Rightarrow>
     let ds = takeWhile is_digit s2; v = digits_value ds
     in if ds = [] \<or> v \<ge> 2 ^ 64 then None
        else Some (if neg then - of_nat v else of_nat v, length s - length s2 + length ds))"

text \<open>\<open>std::strtoull(s, nullptr, 10)\<close>: 0 without digits, the largest value out of range.\<close>

definition strtoull :: "string \<Rightarrow> u64" where
  "strtoull s = (case after_sign s of (neg, s2) \<Rightarrow>
     let v = digits_value (takeWhile is_digit s2)
     in if v \<ge> 2 ^ 64 then - 1 else if neg then - of_nat v else of_nat v)"

text \<open>\<open>std::atoi\<close> where it is defined (the value fits an int).\<close>

definition atoi :: "string \<Rightarrow> int" where
  "atoi s = (case after_sign s of (neg, s2) \<Rightarrow>
     let v = int (digits_value (takeWhile is_digit s2)) in if neg then - v else v)"

section \<open>Reading what was printed\<close>

lemma digit_char:
  assumes "n < 10"
  shows "is_digit (char_of (48 + n))" "(of_char (char_of (48 + n)) :: nat) - 48 = n"
  using assms by (simp_all add: is_digit_def)

lemma digits_value_snoc: "digits_value (s @ [c]) = 10 * digits_value s + (of_char c - 48)"
  by (simp add: digits_value_def)

lemma printed_digits: "set (nat_to_string n) \<subseteq> Collect is_digit \<and> digits_value (nat_to_string n) = n \<and> nat_to_string n \<noteq> []"
proof (induction n rule: nat_to_string.induct)
  case (1 n)
  show ?case
  proof (cases "n < 10")
    case True
    then show ?thesis
      using digit_char [of n] by (subst (1 2 3) nat_to_string.simps) (simp add: digits_value_def)
  next
    case False
    then show ?thesis
      using 1 digit_char [of "n mod 10"]
      by (subst (1 2 3) nat_to_string.simps) (simp add: digits_value_snoc)
  qed
qed

lemma printed_take: "takeWhile is_digit (nat_to_string n) = nat_to_string n"
  using printed_digits [of n] by (auto simp: takeWhile_eq_all_conv)

lemma digit_no_sign: "is_digit c \<Longrightarrow> \<not> is_space c \<and> \<not> is_sign c"
  by (auto simp: is_digit_def is_space_def is_sign_def)

lemma printed_after_sign: "after_sign (nat_to_string n) = (False, nat_to_string n)"
proof -
  obtain c cs where c: "nat_to_string n = c # cs" "is_digit c"
    using printed_digits [of n] by (cases "nat_to_string n") auto
  then show ?thesis using digit_no_sign [OF c(2)] by (simp add: after_sign_def)
qed

lemma u64_bound: "\<not> 2 ^ 64 \<le> unat (v :: u64)"
  using unsigned_less [of v, where 'a = nat] by simp

lemma strtoull_printed: "strtoull (nat_to_string (unat v)) = v"
  using printed_digits [of "unat v"] u64_bound [of v]
  by (simp add: strtoull_def printed_after_sign printed_take Let_def)

lemma stoull_printed: "stoull (nat_to_string (unat v)) = Some (v, length (nat_to_string (unat v)))"
  using printed_digits [of "unat v"] u64_bound [of v]
  by (simp add: stoull_def printed_after_sign printed_take Let_def)

lemma atoi_printed: "atoi (int_to_string i) = i"
proof (cases "i < 0")
  case True
  have "after_sign (CHR ''-'' # s) = (True, s)" for s
    by (simp add: after_sign_def is_space_def is_sign_def)
  then show ?thesis using True printed_digits [of "nat (- i)"] by (simp add: atoi_def int_to_string_def printed_take)
next
  case False
  then show ?thesis using printed_digits [of "nat i"] by (simp add: atoi_def int_to_string_def printed_take printed_after_sign)
qed

end
