(* ===== verification/Messages.thy ===== *)
theory Messages
  imports Records
begin

text \<open>
  Model of \<open>Messages.hpp\<close>: the bodies of the protocol messages, and of the device identity of
  \<open>Backend.hpp\<close> they carry.  Every body is read back by its reader (the codecs of the observation,
  validation, fault and acknowledgement messages are interpretations of \<open>codec\<close>).
\<close>

record DeviceIdentity =
  di_id :: AcceleratorId
  di_uuid :: DeviceUuid
  di_generation :: DeviceGeneration
  di_name :: string
  di_computeCapabilityMajor :: int
  di_computeCapabilityMinor :: int
  di_totalMemory :: u64
  di_freeMemory :: u64
  di_supported :: bool

definition default_DeviceIdentity :: DeviceIdentity where
  "default_DeviceIdentity = \<lparr>di_id = StrongId 0, di_uuid = StrongId 0, di_generation = Generation 0, di_name = [],
     di_computeCapabilityMajor = 0, di_computeCapabilityMinor = 0, di_totalMemory = 0, di_freeMemory = 0,
     di_supported = True\<rparr>"

section \<open>Hello and registration\<close>

record HelloBody =
  hb_version :: u8
  hb_node :: NodeId
  hb_worker :: WorkerId
  hb_boot :: WorkerBootId
  hb_generation :: WorkerGeneration

definition HelloBody_write :: "HelloBody \<Rightarrow> wr" where
  "HelloBody_write h = wr_all [wr_u8 (hb_version h), StrongId_write (hb_node h), StrongId_write (hb_worker h),
     StrongId_write (hb_boot h), Generation_write (hb_generation h)]"

definition HelloBody_read :: "HelloBody option rd" where
  "HelloBody_read = do {
     version' \<leftarrow> rd_u8;
     node' \<leftarrow> StrongId_read;
     worker' \<leftarrow> StrongId_read;
     boot' \<leftarrow> StrongId_read;
     generation' \<leftarrow> Generation_read;
     rd_ok \<lparr>hb_version = version', hb_node = node', hb_worker = worker', hb_boot = boot', hb_generation = generation'\<rparr> }"

lemma HelloBody_reads [reads_intros]: "reads HelloBody_read (HelloBody_write x) (Some x)"
  unfolding HelloBody_read_def HelloBody_write_def
  by (cases x, simp only: HelloBody.simps) (rule reads_intros)+

lemma HelloBody_good [good_intros]: "good HelloBody_read"
  unfolding HelloBody_read_def by (intro good_intros)

lemma HelloBody_sound: "sound HelloBody_read"
  unfolding HelloBody_read_def by (intro good_intros)

interpretation hello_codec: codec HelloBody_write HelloBody_read "\<lambda>_. True"
  by unfold_locales (auto intro: HelloBody_reads HelloBody_good HelloBody_sound)

definition device_fields :: "DeviceIdentity \<Rightarrow> wr list" where
  "device_fields d = [StrongId_write (di_id d), StrongId_write (di_uuid d), wr_string (di_name d),
     wr_u8 (word_of_int (di_computeCapabilityMajor d)), wr_u8 (word_of_int (di_computeCapabilityMinor d)),
     wr_u64 (di_totalMemory d), wr_u64 (di_freeMemory d), wr_bool (di_supported d)]"

definition regBody :: "HelloBody \<Rightarrow> DeviceIdentity list \<Rightarrow> wr" where
  "regBody hello devices = wr_all (HelloBody_write hello # wr_u32 (of_nat (length devices)) #
     concat (map device_fields devices))"

section \<open>Reports\<close>

definition obsBody :: "AuthorityEnvelope \<times> AcceleratorObservation \<Rightarrow> wr" where
  "obsBody x = wr_all [AuthorityEnvelope_write (fst x), AcceleratorObservation_write (snd x)]"

definition readObsBody :: "(AuthorityEnvelope \<times> AcceleratorObservation) option rd" where
  "readObsBody = do { env \<leftarrow> AuthorityEnvelope_read;
     rd_try AcceleratorObservation_read (\<lambda>obs. State_Monad.return (Some (env, obs))) }"

definition valBody :: "AuthorityEnvelope \<times> ValidationRecord \<Rightarrow> wr" where
  "valBody x = wr_all [AuthorityEnvelope_write (fst x), ValidationRecord_write (snd x)]"

definition readValBody :: "(AuthorityEnvelope \<times> ValidationRecord) option rd" where
  "readValBody = do { env \<leftarrow> AuthorityEnvelope_read;
     rd_try ValidationRecord_read (\<lambda>v. State_Monad.return (Some (env, v))) }"

definition faultBody :: "AuthorityEnvelope \<times> Fault \<Rightarrow> wr" where
  "faultBody x = wr_all [AuthorityEnvelope_write (fst x), Fault_write (snd x)]"

definition readFaultBody :: "(AuthorityEnvelope \<times> Fault) option rd" where
  "readFaultBody = do { env \<leftarrow> AuthorityEnvelope_read;
     rd_try Fault_read (\<lambda>f. State_Monad.return (Some (env, f))) }"

section \<open>Acknowledgements\<close>

definition ackBody :: "MessageType \<times> bool \<times> string \<Rightarrow> wr" where
  "ackBody x = (case x of (type, accepted, msg) \<Rightarrow>
     wr_all [wr_u8 (word_of_int (MessageType_int type)), wr_bool accepted, wr_string msg])"

definition readAckBody :: "(MessageType \<times> bool \<times> string) option rd" where
  "readAckBody = do {
     b \<leftarrow> rd_u8;
     (case message_type_from_byte b of
        None \<Rightarrow> State (\<lambda>r. (None, set_fail r))
      | Some t \<Rightarrow> do { accepted \<leftarrow> rd_bool; msg \<leftarrow> rd_string; rd_ok (t, accepted, msg) }) }"

section \<open>The bodies are read back\<close>

text \<open>The three report messages are a record behind its authority envelope.\<close>

locale enveloped = codec enc dec valid
  for enc :: "'a \<Rightarrow> wr" and dec :: "'a option rd" and valid :: "'a \<Rightarrow> bool"
begin

lemma body_reads: "valid (snd x) \<Longrightarrow> reads (do { env \<leftarrow> AuthorityEnvelope_read;
     rd_try dec (\<lambda>y. State_Monad.return (Some (env, y))) })
   (wr_all [AuthorityEnvelope_write (fst x), enc (snd x)]) (Some x)"
  by (cases x, simp only: fst_conv snd_conv)
    (rule reads_bind [OF AuthorityEnvelope_reads], rule reads_try [OF roundtrip], assumption, rule reads_return)

lemma body_good: "good (do { env \<leftarrow> AuthorityEnvelope_read; rd_try dec (\<lambda>y. State_Monad.return (Some (env, y))) })"
  by (intro good_intros dec_good)

lemma body_sound: "sound (do { env \<leftarrow> AuthorityEnvelope_read; rd_try dec (\<lambda>y. State_Monad.return (Some (env, y))) })"
proof (rule sound_bind)
  show "sound (rd_try dec (\<lambda>y. State_Monad.return (Some (env, y))))" for env :: AuthorityEnvelope
    using dec_sound
    by (auto simp: sound_def rd_try_def run_bind State_Monad.return_def split: prod.splits option.splits)
qed

end

sublocale enveloped \<subseteq> body: codec "\<lambda>x. wr_all [AuthorityEnvelope_write (fst x), enc (snd x)]"
    "do { env \<leftarrow> AuthorityEnvelope_read; rd_try dec (\<lambda>y. State_Monad.return (Some (env, y))) }" "\<lambda>x. valid (snd x)"
  by unfold_locales (rule body_reads, assumption, rule body_good, rule body_sound)

interpretation obs_msg: enveloped AcceleratorObservation_write AcceleratorObservation_read
    "\<lambda>obs. length (obs_dimensions obs) \<le> kMaxCount"
  by unfold_locales (auto intro: AcceleratorObservation_reads AcceleratorObservation_good AcceleratorObservation_sound)

interpretation val_msg: enveloped ValidationRecord_write ValidationRecord_read "\<lambda>_. True"
  by unfold_locales (auto intro: ValidationRecord_reads ValidationRecord_good ValidationRecord_sound)

interpretation fault_msg: enveloped Fault_write Fault_read "\<lambda>_. True"
  by unfold_locales (auto intro: Fault_reads Fault_good Fault_sound)

lemma obsBody_reads: "length (obs_dimensions (snd x)) \<le> kMaxCount \<Longrightarrow> reads readObsBody (obsBody x) (Some x)"
  unfolding readObsBody_def obsBody_def by (rule obs_msg.body.roundtrip)

lemma valBody_reads: "reads readValBody (valBody x) (Some x)"
  unfolding readValBody_def valBody_def by (rule val_msg.body.roundtrip) simp

lemma faultBody_reads: "reads readFaultBody (faultBody x) (Some x)"
  unfolding readFaultBody_def faultBody_def by (rule fault_msg.body.roundtrip) simp

lemma ackBody_reads: "reads readAckBody (ackBody x) (Some x)"
proof -
  obtain t a m where x: "x = (t, a, m)" by (cases x)
  have t: "message_type_from_byte (word_of_int (MessageType_int t)) = Some t"
    unfolding message_type_from_byte_def by (rule message_type_enum.from_byte_to_byte)
  show ?thesis
    unfolding readAckBody_def ackBody_def x prod.case
    by (rule reads_bind [OF reads_u8], unfold t option.case) (rule reads_intros)+
qed

lemma good_reject: "good (State (\<lambda>r. (None, set_fail r)))"
  by (rule goodI) (auto simp: rd_prim_defs)

lemma sound_reject: "sound (State (\<lambda>r. (None, set_fail r)))"
  by (simp add: sound_def)

lemma ack_good: "good readAckBody"
  unfolding readAckBody_def
  by (rule good_bind [OF good_u8]) (simp split: option.split, intro conjI allI impI good_intros good_reject)

lemma ack_sound: "sound readAckBody"
  unfolding readAckBody_def
  by (rule sound_bind) (simp split: option.split, intro conjI allI impI sound_bind sound_ok sound_reject)

interpretation ack_codec: codec ackBody readAckBody "\<lambda>_. True"
  by unfold_locales (auto intro: ackBody_reads ack_good ack_sound)

end
