(* ===== verification/Protocol.thy ===== *)
theory Protocol
  imports Framing "HOL-Library.Sublist"
begin

text \<open>
  Model of \<open>Protocol.cpp\<close>/\<open>Protocol.hpp\<close>: the frames of the coordinator protocol.  \<open>decodeFrame\<close> maps the
  buffer and the frame passed by reference to the result code, the frame, the number of bytes consumed
  and the message written to \<open>*err\<close>, if any.

  The lemmas show that a frame is read back whatever follows it, that an incomplete frame asks for
  more input and is never rejected, and that a damaged frame is malformed.
\<close>

definition kProtocolVersion :: u8 where
  "kProtocolVersion = 1"

definition kMaxFramePayload :: nat where
  "kMaxFramePayload = 2 ^ 20"

definition kHeaderSize :: nat where
  "kHeaderSize = 14"

definition kCrcSize :: nat where
  "kCrcSize = 4"

definition kMagic :: bytes where
  "kMagic = [0x41, 0x48, 0x46, 0x31]"

record Frame =
  pf_version :: u8
  pf_type :: MessageType
  pf_payload :: bytes

definition default_Frame :: Frame where
  "default_Frame = \<lparr>pf_version = kProtocolVersion, pf_type = MessageType.HELLO, pf_payload = []\<rparr>"

datatype DecodeResult = OK | NEED_MORE | MALFORMED

definition frame_bytes :: "MessageType \<Rightarrow> bytes \<Rightarrow> bytes" where
  "frame_bytes type payload =
     kMagic @ [kProtocolVersion, word_of_int (MessageType_int type)] @
     store_le32 (of_nat (length payload)) @ [0, 0, 0, 0] @ payload"

definition encodeFrame :: "MessageType \<Rightarrow> bytes \<Rightarrow> wr" where
  "encodeFrame type payload =
     (if length payload > kMaxFramePayload then Inl (runtime_error ''protocol frame payload too large'')
      else let frame = frame_bytes type payload in Inr (frame @ store_le32 (crc32 frame)))"

definition decodeFrame :: "bytes \<Rightarrow> Frame \<Rightarrow> DecodeResult \<times> Frame \<times> nat \<times> string option" where
  "decodeFrame buffer out =
     (if length buffer < kHeaderSize then (NEED_MORE, out, 0, None)
      else if take 4 buffer \<noteq> kMagic then (MALFORMED, out, 0, Some ''bad magic'')
      else if buffer ! 4 \<noteq> kProtocolVersion then (MALFORMED, out, 0, Some ''unsupported protocol version'')
      else case message_type_from_byte (buffer ! 5) of
        None \<Rightarrow> (MALFORMED, out, 0, Some ''invalid message type'')
      | Some type \<Rightarrow>
          let len = unat (load_le32 (drop 6 buffer)); total = kHeaderSize + len + kCrcSize in
          if len > kMaxFramePayload then (MALFORMED, out, 0, Some ''oversized frame'')
          else if length buffer < total then (NEED_MORE, out, 0, None)
          else if load_le32 (drop (total - kCrcSize) buffer) \<noteq> crc32 (take (total - kCrcSize) buffer)
          then (MALFORMED, out, 0, Some ''crc mismatch'')
          else (OK, \<lparr>pf_version = buffer ! 4, pf_type = type, pf_payload = take len (drop kHeaderSize buffer)\<rparr>,
                total, None))"

definition encodeMessage :: "MessageType \<Rightarrow> wr \<Rightarrow> wr" where
  "encodeMessage type body = (case body of Inl e \<Rightarrow> Inl e | Inr bs \<Rightarrow> encodeFrame type bs)"

section \<open>The header\<close>

text \<open>The header of a well-formed frame and the length it announces.\<close>

definition frame_header :: "bytes \<Rightarrow> bool" where
  "frame_header b \<longleftrightarrow> kHeaderSize \<le> length b \<and> take 4 b = kMagic \<and> b ! 4 = kProtocolVersion \<and>
     message_type_from_byte (b ! 5) \<noteq> None \<and> unat (load_le32 (drop 6 b)) \<le> kMaxFramePayload"

definition frame_total :: "bytes \<Rightarrow> nat" where
  "frame_total b = kHeaderSize + unat (load_le32 (drop 6 b)) + kCrcSize"

lemma decodeFrame_cases:
  "decodeFrame b out =
     (if length b < kHeaderSize then (NEED_MORE, out, 0, None)
      else if \<not> frame_header b then (MALFORMED, out, 0, snd (snd (snd (decodeFrame b out))))
      else if length b < frame_total b then (NEED_MORE, out, 0, None)
      else if \<not> sealed (take (frame_total b) b) then (MALFORMED, out, 0, Some ''crc mismatch'')
      else (OK, \<lparr>pf_version = kProtocolVersion, pf_type = the (message_type_from_byte (b ! 5)),
              pf_payload = take (unat (load_le32 (drop 6 b))) (drop kHeaderSize b)\<rparr>, frame_total b, None))"
proof -
  define n where "n = unat (load_le32 (drop 6 b))"
  have seal: "sealed (take (14 + n + 4) b) \<longleftrightarrow> load_le32 (drop (14 + n) b) = crc32 (take (14 + n) b)" if "14 + n + 4 \<le> length b"
  proof -
    have "load_le32 (drop (14 + n) (take (14 + n + 4) b)) = load_le32 (drop (14 + n) b)"
      using that by (simp add: drop_take load_le32_take)
    then show ?thesis
      using that by (simp add: sealed_def min_def)
  qed
  show ?thesis
    using seal
    by (auto simp: decodeFrame_def frame_header_def frame_total_def kHeaderSize_def kCrcSize_def Let_def
        simp flip: n_def split: option.splits)
qed

section \<open>Reading frames back\<close>

lemma frame_type_byte: "message_type_from_byte (word_of_int (MessageType_int t)) = Some t"
  unfolding message_type_from_byte_def by (rule message_type_enum.from_byte_to_byte)

lemma length_frame_bytes: "length (frame_bytes t p) = kHeaderSize + length p"
  by (simp add: frame_bytes_def kMagic_def kHeaderSize_def)

lemma frame_bytes_header:
  assumes "length p \<le> kMaxFramePayload"
  shows "frame_header (frame_bytes t p @ tail)" "frame_total (frame_bytes t p @ tail) = length (frame_bytes t p) + kCrcSize"
    "(frame_bytes t p @ tail) ! 5 = word_of_int (MessageType_int t)"
    "unat (load_le32 (drop 6 (frame_bytes t p @ tail))) = length p"
    "take (length p) (drop kHeaderSize (frame_bytes t p @ tail)) = p"
proof -
  have len: "unat (of_nat (length p) :: u32) = length p"
    using assms by (simp add: kMaxFramePayload_def unat_of_nat)
  have drop6: "drop 6 (frame_bytes t p @ tail) = store_le32 (of_nat (length p)) @ [0, 0, 0, 0] @ p @ tail"
    by (simp add: frame_bytes_def kMagic_def)
  show "unat (load_le32 (drop 6 (frame_bytes t p @ tail))) = length p"
    by (simp only: drop6 load_store_le32 len)
  then show "frame_header (frame_bytes t p @ tail)" "frame_total (frame_bytes t p @ tail) = length (frame_bytes t p) + kCrcSize"
    using assms by (simp_all add: frame_header_def frame_total_def length_frame_bytes)
      (simp_all add: frame_bytes_def kMagic_def kHeaderSize_def frame_type_byte)
  show "(frame_bytes t p @ tail) ! 5 = word_of_int (MessageType_int t)"
    by (simp add: frame_bytes_def kMagic_def)
  show "take (length p) (drop kHeaderSize (frame_bytes t p @ tail)) = p"
    by (simp add: frame_bytes_def kMagic_def kHeaderSize_def)
qed

lemma decode_sealed_frame:
  assumes "length p \<le> kMaxFramePayload"
  shows "decodeFrame (seal (frame_bytes t p) @ tail) out =
     (OK, \<lparr>pf_version = kProtocolVersion, pf_type = t, pf_payload = p\<rparr>, length (seal (frame_bytes t p)), None)"
proof -
  let ?f = "frame_bytes t p"
  have b: "seal ?f @ tail = ?f @ store_le32 (crc32 ?f) @ tail"
    by (simp add: seal_def)
  note h = frame_bytes_header [OF assms, of t "store_le32 (crc32 ?f) @ tail", folded b]
  have "length (seal ?f) = frame_total (seal ?f @ tail)"
    by (simp only: h(2)) (simp add: seal_def kCrcSize_def)
  then show ?thesis
    using h sealed_seal [of ?f] by (subst decodeFrame_cases) (simp add: frame_type_byte frame_header_def)
qed

text \<open>The header of a longer buffer is the header of its prefix.\<close>

lemma header_prefix:
  assumes "kHeaderSize \<le> length a"
  shows "frame_header (a @ b) = frame_header a" "frame_total (a @ b) = frame_total a"
proof -
  have "load_le32 (drop 6 (a @ b)) = load_le32 (drop 6 a)"
    using assms by (simp add: kHeaderSize_def load_le32_append)
  then show "frame_header (a @ b) = frame_header a" "frame_total (a @ b) = frame_total a"
    using assms by (simp_all add: frame_header_def frame_total_def kHeaderSize_def nth_append)
qed

lemma decode_incomplete:
  assumes "frame_header b" "n < frame_total b"
  shows "decodeFrame (take n b) out = (NEED_MORE, out, 0, None)"
proof (cases "length (take n b) < kHeaderSize")
  case True
  then show ?thesis by (simp add: decodeFrame_def)
next
  case False
  then have "kHeaderSize \<le> length (take n b)" by linarith
  from header_prefix [OF this, of "drop n b"] have "frame_header (take n b) = frame_header b" "frame_total (take n b) = frame_total b"
    by (simp_all only: append_take_drop_id)
  then show ?thesis
    using False assms by (subst decodeFrame_cases) (simp add: min_less_iff_disj)
qed

lemma encodeFrame_eq: "encodeFrame t p = Inr bs \<longleftrightarrow> length p \<le> kMaxFramePayload \<and> bs = seal (frame_bytes t p)"
  by (auto simp: encodeFrame_def seal_def Let_def)

text \<open>Frames are self-delimiting: the encoding of a message is decoded to the message whatever
  bytes follow it, and exactly its own bytes are consumed; every proper prefix of it asks for more
  input and consumes nothing.\<close>

theorem frame_roundtrip:
  assumes "encodeFrame t p = Inr bs"
  shows "decodeFrame (bs @ tail) out = (OK, \<lparr>pf_version = kProtocolVersion, pf_type = t, pf_payload = p\<rparr>, length bs, None) \<and>
     (\<forall>n < length bs. decodeFrame (take n bs) out = (NEED_MORE, out, 0, None))"
proof -
  have bs: "length p \<le> kMaxFramePayload" "bs = seal (frame_bytes t p)"
    using assms by (simp_all add: encodeFrame_eq)
  have "frame_header bs" "frame_total bs = length bs"
    using frame_bytes_header [OF bs(1), of t "store_le32 (crc32 (frame_bytes t p))"] by (simp_all add: bs(2) seal_def kCrcSize_def)
  then show ?thesis
    using decode_incomplete decode_sealed_frame [OF bs(1)] by (simp add: bs(2))
qed

theorem frame_roundtrip_witness:
  "\<exists>bs. encodeFrame MessageType.ACK [1, 2, 3] = Inr bs \<and>
     decodeFrame (bs @ [9]) default_Frame = (OK, \<lparr>pf_version = kProtocolVersion, pf_type = MessageType.ACK, pf_payload = [1, 2, 3]\<rparr>, length bs, None)"
proof -
  obtain bs where "encodeFrame MessageType.ACK [1, 2, 3] = Inr bs"
    by (simp add: encodeFrame_def kMaxFramePayload_def Let_def)
  from frame_roundtrip [OF this, of "[9]" default_Frame] this show ?thesis by blast
qed

section \<open>Damaged frames\<close>

definition whole_frame :: "bytes \<Rightarrow> bool" where
  "whole_frame b \<longleftrightarrow> frame_header b \<and> length b = frame_total b \<and> sealed b"

lemma whole_frame_iff: "whole_frame b \<longleftrightarrow> (\<exists>f. decodeFrame b out = (OK, f, length b, None))"
  by (subst decodeFrame_cases) (auto simp: whole_frame_def frame_header_def)

interpretation frame: sealed_format whole_frame
  by unfold_locales (simp add: whole_frame_def)

text \<open>A frame in which up to four consecutive bytes are altered is reported MALFORMED and nothing is
  consumed, wherever the bytes lie (magic, version, type, payload or checksum), as long as the length
  it announces is unchanged.\<close>

theorem damaged_frame_malformed:
  assumes "decodeFrame b out = (OK, f, length b, None)" "burst b b'" "load_le32 (drop 6 b') = load_le32 (drop 6 b)"
  shows "\<exists>msg. decodeFrame b' out' = (MALFORMED, out', 0, msg)"
proof -
  have "whole_frame b" using assms(1) whole_frame_iff by blast
  then have "\<not> whole_frame b'" "length b' = frame_total b'" "kHeaderSize \<le> length b'"
    using frame.burst_rejected assms(2,3) burst_length [OF assms(2)]
    by (auto simp: whole_frame_def frame_total_def frame_header_def)
  then show ?thesis
    by (subst decodeFrame_cases) (auto simp: whole_frame_def)
qed

theorem damaged_frame_malformed_witness:
  "\<exists>bs msg. encodeFrame MessageType.ACK [1, 2, 3] = Inr bs \<and>
     decodeFrame (bs[15 := 9]) default_Frame = (MALFORMED, default_Frame, 0, msg)"
proof -
  let ?f = "frame_bytes MessageType.ACK [1, 2, 3]"
  have enc: "encodeFrame MessageType.ACK [1, 2, 3] = Inr (seal ?f)"
    by (simp add: encodeFrame_eq kMaxFramePayload_def)
  have ok: "decodeFrame (seal ?f) default_Frame = (OK, \<lparr>pf_version = kProtocolVersion, pf_type = MessageType.ACK, pf_payload = [1, 2, 3]\<rparr>,
      length (seal ?f), None)"
    using decode_sealed_frame [of "[1, 2, 3]" MessageType.ACK "[]"] by (simp add: kMaxFramePayload_def)
  have "burst (seal ?f) ((seal ?f)[15 := 9])"
    by (rule burst_update) (simp_all add: seal_def frame_bytes_def kMagic_def store_le32_def)
  moreover have "load_le32 (drop 6 ((seal ?f)[15 := 9])) = load_le32 (drop 6 (seal ?f))"
    by (simp add: seal_def) (simp add: frame_bytes_def kMagic_def store_le32_def load_le32_def)
  ultimately show ?thesis
    using damaged_frame_malformed [OF ok] enc by blast
qed

end
