(* ===== verification/Net.thy ===== *)
theory Net
  imports Protocol
begin

text \<open>
  Model of the frame transport of \<open>Net.cpp\<close>.  The operating system is a parameter: a socket that is
  read is the sequence of what its \<open>recv\<close> calls will deliver (chunks of any size, an error, or the end
  of the connection), a socket that is written is the sequence of counts its \<open>send\<close> calls return.
  The loops around \<open>recv\<close> and \<open>send\<close> are modelled with their termination proofs.

  The lemmas show that framing does not depend on how the network cuts the stream into chunks.
\<close>

datatype recv_event = Chunk bytes | Closed | Failed

type_synonym inbound = "recv_event list"

text \<open>\<open>recv(fd, buf, n, 0)\<close>: at most \<open>n\<close> bytes of the next chunk; an exhausted socket is closed.\<close>

fun recv :: "nat \<Rightarrow> inbound \<Rightarrow> recv_event \<times> inbound" where
  "recv n [] = (Closed, [])"
| "recv n (Chunk bs # es) = (if length bs \<le> n then (Chunk bs, es) else (Chunk (take n bs), Chunk (drop n bs) # es))"
| "recv n (Closed # es) = (Closed, Closed # es)"
| "recv n (Failed # es) = (Failed, es)"

lemma recv_chunk_length: "recv n es = (Chunk bs, es') \<Longrightarrow> length bs \<le> n"
  by (cases "(n, es)" rule: recv.cases) (auto split: if_splits)

datatype recv_stop = PeerClosed | RecvFailed

text \<open>The loop \<open>while (got < n) { r = recv(...); ... }\<close>; a \<open>recv\<close> of 0 bytes is the end of the stream.\<close>

function recv_exact :: "nat \<Rightarrow> inbound \<Rightarrow> (recv_stop + bytes) \<times> inbound" where
  "recv_exact n es =
     (if n = 0 then (Inr [], es)
      else case recv n es of
        (Closed, es') \<Rightarrow> (Inl PeerClosed, es')
      | (Failed, es') \<Rightarrow> (Inl RecvFailed, es')
      | (Chunk [], es') \<Rightarrow> (Inl PeerClosed, es')
      | (Chunk (b # bs), es') \<Rightarrow>
          (case recv_exact (n - length (b # bs)) es' of
             (Inl x, es'') \<Rightarrow> (Inl x, es'')
           | (Inr cs, es'') \<Rightarrow> (Inr ((b # bs) @ cs), es'')))"
  by pat_completeness auto

termination
  by (relation "measure fst") (auto dest: recv_chunk_length)

declare recv_exact.simps [simp del]

text \<open>\<open>net::recvFrame(fd, ...)\<close>: the frame, or \<open>peerClosed\<close> and the message written to \<open>*err\<close>.\<close>

datatype recv_result = Received Frame | NotReceived bool "string option"

definition decode_received :: "bytes \<Rightarrow> recv_result" where
  "decode_received buf = (case decodeFrame buf default_Frame of
     (OK, f, _, _) \<Rightarrow> Received f
   | (_, _, _, err) \<Rightarrow> NotReceived False err)"

definition stop_result :: "recv_stop \<Rightarrow> recv_result" where
  "stop_result x = (case x of PeerClosed \<Rightarrow> NotReceived True None | RecvFailed \<Rightarrow> NotReceived True (Some ''recv failed''))"

definition recvFrame :: "inbound \<Rightarrow> recv_result \<times> inbound" where
  "recvFrame es =
     (case recv_exact kHeaderSize es of
        (Inl x, es1) \<Rightarrow> (stop_result x, es1)
      | (Inr header, es1) \<Rightarrow>
          let len = unat (load_le32 (drop 6 header)) in
          if len > kMaxFramePayload then (NotReceived False (Some ''oversized frame''), es1)
          else (case recv_exact (len + kCrcSize) es1 of
             (Inl x, es2) \<Rightarrow> (stop_result x, es2)
           | (Inr body, es2) \<Rightarrow> (decode_received (header @ body), es2)))"

text \<open>\<open>TcpClient::recvFrame\<close> on a connected client: any failure of \<open>recvBytes\<close> counts as a closed peer.\<close>

definition client_recvFrame :: "inbound \<Rightarrow> recv_result \<times> inbound" where
  "client_recvFrame es =
     (case recv_exact kHeaderSize es of
        (Inl x, es1) \<Rightarrow> (NotReceived True None, es1)
      | (Inr header, es1) \<Rightarrow>
          let len = unat (load_le32 (drop 6 header)) in
          if len > kMaxFramePayload then (NotReceived False (Some ''oversized frame''), es1)
          else (case recv_exact (len + kCrcSize) es1 of
             (Inl x, es2) \<Rightarrow> (NotReceived True None, es2)
           | (Inr body, es2) \<Rightarrow> (decode_received (header @ body), es2)))"

text \<open>
  \<open>net::sendFrame\<close>: the loop over \<open>send\<close>, whose results are given in advance (an exhausted list is a
  failing \<open>send\<close>, and \<open>send\<close> accepts no more than it was offered).  The bytes handed over so far are
  returned with the outcome.
\<close>

fun send_all :: "bytes \<Rightarrow> int list \<Rightarrow> bool \<times> bytes \<times> int list" where
  "send_all [] ns = (True, [], ns)"
| "send_all data [] = (False, [], [])"
| "send_all data (n # ns) =
     (if n \<le> 0 then (False, [], ns)
      else let k = min (nat n) (length data) in
        (case send_all (drop k data) ns of (ok, sent, ns') \<Rightarrow> (ok, take k data @ sent, ns')))"

definition sendFrame :: "Frame \<Rightarrow> int list \<Rightarrow> exn + (string option \<times> bytes \<times> int list)" where
  "sendFrame f ns = (case encodeFrame (pf_type f) (pf_payload f) of
     Inl e \<Rightarrow> Inl e
   | Inr bs \<Rightarrow> (case send_all bs ns of
       (True, sent, ns') \<Rightarrow> Inr (None, sent, ns')
     | (False, sent, ns') \<Rightarrow> Inr (Some ''send failed'', sent, ns')))"

section \<open>The byte stream behind the chunks\<close>

fun stream :: "inbound \<Rightarrow> bytes" where
  "stream (Chunk bs # es) = bs @ stream es"
| "stream es = []"

text \<open>No empty chunk before the end of the stream.\<close>

fun chunked :: "inbound \<Rightarrow> bool" where
  "chunked (Chunk bs # es) \<longleftrightarrow> bs \<noteq> [] \<and> chunked es"
| "chunked es \<longleftrightarrow> True"

lemma recv_chunk:
  assumes "chunked es" "0 < n" "stream es \<noteq> []"
  obtains b bs es' where "recv n es = (Chunk (b # bs), es')" "stream es = (b # bs) @ stream es'" "chunked es'"
    "length (b # bs) \<le> n"
proof -
  obtain cs es1 where es: "es = Chunk cs # es1" using assms(3) by (cases es rule: stream.cases) auto
  define es' where "es' = (if length cs \<le> n then es1 else Chunk (drop n cs) # es1)"
  have "take n cs \<noteq> []" using assms(1,2) by (auto simp: es)
  then obtain b bs where b: "take n cs = b # bs" by (cases "take n cs") auto
  have "recv n es = (Chunk (b # bs), es')" by (auto simp: es es'_def simp flip: b)
  moreover have "stream es = (b # bs) @ stream es'" by (auto simp: es es'_def simp flip: b)
  moreover have "chunked es'" using assms(1) by (auto simp: es es'_def)
  moreover have "length (b # bs) \<le> n" by (metis b length_take min.cobounded2)
  ultimately show thesis using that by blast
qed

lemma recv_exact_stream:
  assumes "chunked es" "n \<le> length (stream es)"
  shows "\<exists>es'. recv_exact n es = (Inr (take n (stream es)), es') \<and> stream es' = drop n (stream es) \<and> chunked es'"
  using assms
proof (induction n arbitrary: es rule: less_induct)
  case (less n)
  show ?case
  proof (cases "n = 0")
    case True
    then show ?thesis using less.prems by (simp add: recv_exact.simps)
  next
    case False
    then have "stream es \<noteq> []" using less.prems(2) by auto
    then obtain b bs es1 where r: "recv n es = (Chunk (b # bs), es1)" "stream es = (b # bs) @ stream es1" "chunked es1"
        "length (b # bs) \<le> n"
      using recv_chunk [of es n] less.prems False by blast
    let ?m = "n - length (b # bs)"
    have m: "?m < n" "?m \<le> length (stream es1)" using less.prems(2) r(2) False by simp_all
    obtain es' where IH: "recv_exact ?m es1 = (Inr (take ?m (stream es1)), es')" "stream es' = drop ?m (stream es1)" "chunked es'"
      using less.IH [OF m(1) r(3) m(2)] by blast
    have "recv_exact n es = (Inr (take n (stream es)), es')"
      using IH(1) r False by (subst recv_exact.simps) (simp add: take_Cons')
    then show ?thesis using IH(2,3) r(2,4) by (auto simp: drop_Cons')
  qed
qed

lemma recv_exact_end:
  assumes "chunked es" "length (stream es) < n" "Failed \<notin> set es"
  shows "fst (recv_exact n es) = Inl PeerClosed"
  using assms
proof (induction n arbitrary: es rule: less_induct)
  case (less n)
  have n: "n \<noteq> 0" using less.prems(2) by auto
  show ?case
  proof (cases "stream es = []")
    case True
    then have "es = [] \<or> (\<exists>es'. es = Closed # es')"
      using less.prems(1,3) by (cases es rule: stream.cases) auto
    then show ?thesis using n by (subst recv_exact.simps) auto
  next
    case False
    then obtain b bs es1 where r: "recv n es = (Chunk (b # bs), es1)" "stream es = (b # bs) @ stream es1" "chunked es1"
        "length (b # bs) \<le> n"
      using recv_chunk [of es n] less.prems n by blast
    have "Failed \<notin> set es1"
      using r(1) less.prems(3) by (cases "(n, es)" rule: recv.cases) (auto split: if_splits)
    then have "fst (recv_exact (n - length (b # bs)) es1) = Inl PeerClosed"
      using less.IH [OF _ r(3)] less.prems(2) r(2,4) n by simp
    then show ?thesis
      using n r(1) by (subst recv_exact.simps) (auto split: prod.splits)
  qed
qed

lemma recv_exact_no_failure: "Failed \<notin> set es \<Longrightarrow> Failed \<notin> set (snd (recv_exact n es))"
proof (induction n es rule: recv_exact.induct)
  case (1 n es)
  obtain ev es1 where r: "recv n es = (ev, es1)" by fastforce
  have "Failed \<notin> set es1"
    using 1(2) r by (cases "(n, es)" rule: recv.cases) (auto split: if_splits)
  then show ?case
  proof (cases "n = 0 \<or> (\<forall>b bs. ev \<noteq> Chunk (b # bs))")
    case True
    then show ?thesis
      using 1(2) r \<open>Failed \<notin> set es1\<close>
      by (subst recv_exact.simps) (auto split: recv_event.splits list.splits)
  next
    case False
    then obtain b bs where ev: "ev = Chunk (b # bs)" by blast
    then have "Failed \<notin> set (snd (recv_exact (n - length (b # bs)) es1))"
      by (intro 1(1) [OF _ r [symmetric]]) (use False \<open>Failed \<notin> set es1\<close> in auto)
    then show ?thesis
      using False r ev by (subst recv_exact.simps) (auto split: prod.splits sum.splits)
  qed
qed

section \<open>Frames over a stream\<close>

definition wire_frame :: "Frame \<Rightarrow> bytes" where
  "wire_frame f = seal (frame_bytes (pf_type f) (pf_payload f))"

definition delivered :: "Frame \<Rightarrow> Frame" where
  "delivered f = f\<lparr>pf_version := kProtocolVersion\<rparr>"

lemma recvFrame_stream:
  assumes "chunked es" "stream es = wire_frame f @ tail" "length (pf_payload f) \<le> kMaxFramePayload" "Failed \<notin> set es"
  shows "\<exists>es'. recvFrame es = (Received (delivered f), es') \<and> stream es' = tail \<and> chunked es' \<and> Failed \<notin> set es'"
proof -
  let ?w = "wire_frame f" and ?n = "length (pf_payload f)"
  have w: "length ?w = kHeaderSize + (?n + kCrcSize)"
    by (simp add: wire_frame_def seal_def length_frame_bytes kCrcSize_def)
  obtain es1 where e1: "recv_exact kHeaderSize es = (Inr (take kHeaderSize ?w), es1)"
      "stream es1 = drop kHeaderSize ?w @ tail" "chunked es1"
    using recv_exact_stream [OF assms(1), of kHeaderSize] assms(2) w by auto
  obtain es2 where e2: "recv_exact (?n + kCrcSize) es1 = (Inr (drop kHeaderSize ?w), es2)" "stream es2 = tail" "chunked es2"
    using recv_exact_stream [OF e1(3), of "?n + kCrcSize"] e1(2) w by auto
  have "Failed \<notin> set es2"
    using recv_exact_no_failure [OF assms(4), of kHeaderSize] recv_exact_no_failure [of es1 "?n + kCrcSize"] e1(1) e2(1) by simp
  moreover have "load_le32 (drop 6 (take kHeaderSize ?w)) = load_le32 (drop 6 ?w)"
    using w load_le32_append [of "take 8 (drop 6 ?w)" "drop 8 (drop 6 ?w)"]
    by (simp add: kHeaderSize_def drop_take del: drop_drop)
  then have "unat (load_le32 (drop 6 (take kHeaderSize ?w))) = ?n"
    using frame_bytes_header(4) [OF assms(3)] by (simp add: wire_frame_def seal_def)
  moreover have "decode_received ?w = Received (delivered f)"
    using decode_sealed_frame [OF assms(3), of "pf_type f" "[]"]
    by (cases f) (simp add: wire_frame_def decode_received_def delivered_def)
  ultimately show ?thesis
    using e1(1) e2 assms(3) by (simp add: recvFrame_def Let_def)
qed

lemma recvFrame_end:
  "chunked es \<Longrightarrow> stream es = [] \<Longrightarrow> Failed \<notin> set es \<Longrightarrow> fst (recvFrame es) = NotReceived True None"
  using recv_exact_end [of es kHeaderSize]
  by (auto simp: recvFrame_def kHeaderSize_def stop_result_def split: prod.splits sum.splits)

text \<open>The receiving side of a session: the first \<open>n\<close> calls of \<open>recvFrame\<close>.\<close>

primrec receive :: "nat \<Rightarrow> inbound \<Rightarrow> recv_result list \<times> inbound" where
  "receive 0 es = ([], es)"
| "receive (Suc n) es = (case recvFrame es of (r, es1) \<Rightarrow> case receive n es1 of (rs, es2) \<Rightarrow> (r # rs, es2))"

lemma receive_stream:
  assumes "chunked es" "stream es = concat (map wire_frame fs) @ tail" "Failed \<notin> set es"
    "\<And>f. f \<in> set fs \<Longrightarrow> length (pf_payload f) \<le> kMaxFramePayload"
  shows "\<exists>es'. receive (length fs) es = (map (\<lambda>f. Received (delivered f)) fs, es') \<and> stream es' = tail \<and>
     chunked es' \<and> Failed \<notin> set es'"
  using assms
proof (induction fs arbitrary: es)
  case (Cons f fs)
  obtain es1 where 1: "recvFrame es = (Received (delivered f), es1)" "stream es1 = concat (map wire_frame fs) @ tail"
      "chunked es1" "Failed \<notin> set es1"
    using recvFrame_stream [of es f "concat (map wire_frame fs) @ tail"] Cons.prems by auto
  from Cons.IH [OF 1(3,2,4)] Cons.prems(4) show ?case
    by (auto simp: 1(1))
qed simp

lemma send_all_prefix: "send_all data ns = (ok, sent, ns') \<Longrightarrow> prefix sent data \<and> (ok \<longrightarrow> sent = data)"
proof (induction data ns arbitrary: sent ns' rule: send_all.induct)
  case (3 b data n ns)
  then show ?case
    by (auto simp: Let_def split: if_splits prod.splits) (metis append_take_drop_id prefix_def prefix_append)+
qed auto

lemma sendFrame_sent:
  assumes "sendFrame f ns = Inr (None, bs, ns')"
  shows "bs = wire_frame f \<and> length (pf_payload f) \<le> kMaxFramePayload"
  using assms
  by (auto simp: sendFrame_def encodeFrame_eq wire_frame_def dest: send_all_prefix split: sum.splits prod.splits bool.splits)

text \<open>C29. Delivery: frames that were sent successfully, each through any sequence of partial \<open>send\<close>s,
  are received complete, in order and unaltered, however the network cuts the byte stream into chunks;
  then the receiver sees the end of the connection.\<close>

theorem frames_delivered:
  assumes "list_all2 (\<lambda>f bs. \<exists>ns ns'. sendFrame f ns = Inr (None, bs, ns')) fs parts"
    and "stream es = concat parts" "chunked es" "Failed \<notin> set es"
  shows "\<exists>es'. receive (length fs) es = (map (\<lambda>f. Received (f\<lparr>pf_version := kProtocolVersion\<rparr>)) fs, es') \<and>
     fst (recvFrame es') = NotReceived True None"
proof -
  have parts: "parts = map wire_frame fs" and len: "\<And>f. f \<in> set fs \<Longrightarrow> length (pf_payload f) \<le> kMaxFramePayload"
    using assms(1) by (induction rule: list_all2_induct) (auto dest: sendFrame_sent)
  obtain es' where "receive (length fs) es = (map (\<lambda>f. Received (delivered f)) fs, es')" "stream es' = []"
      "chunked es'" "Failed \<notin> set es'"
    using receive_stream [of es fs "[]"] assms(2-4) parts len by auto
  then show ?thesis
    using recvFrame_end by (auto simp: delivered_def)
qed

theorem frames_delivered_witness:
  "\<exists>bs es'. encodeFrame MessageType.ACK [1, 2, 3] = Inr bs \<and>
     receive 1 [Chunk (take 5 bs), Chunk (drop 5 bs), Closed] =
       ([Received \<lparr>pf_version = 1, pf_type = MessageType.ACK, pf_payload = [1, 2, 3]\<rparr>], es') \<and>
     fst (recvFrame es') = NotReceived True None"
proof -
  let ?f = "\<lparr>pf_version = 1, pf_type = MessageType.ACK, pf_payload = [1, 2, 3]\<rparr>"
  let ?bs = "seal (frame_bytes MessageType.ACK [1, 2, 3])"
  let ?es = "[Chunk (take 5 ?bs), Chunk (drop 5 ?bs), Closed]"
  have enc: "encodeFrame MessageType.ACK [1, 2, 3] = Inr ?bs"
    by (simp add: encodeFrame_eq kMaxFramePayload_def)
  have len: "length ?bs = 21"
    by (simp add: seal_def frame_bytes_def kMagic_def)
  have "send_all ?bs [21] = (True, ?bs, [])"
    using len by (cases ?bs) (simp_all add: Let_def)
  then have "sendFrame ?f [21] = Inr (None, ?bs, [])"
    by (simp add: sendFrame_def enc)
  then have "list_all2 (\<lambda>f bs. \<exists>ns ns'. sendFrame f ns = Inr (None, bs, ns')) [?f] [?bs]"
    by auto
  moreover have "stream ?es = concat [?bs]" "chunked ?es" "Failed \<notin> set ?es"
    using len by auto
  ultimately show ?thesis
    using frames_delivered [of "[?f]" "[?bs]" ?es] enc by (auto simp: kProtocolVersion_def)
qed

end
