(* ===== verification/Coordinator.thy ===== *)
theory Coordinator
  imports Messages Net Lifetime
begin

text \<open>
  Model of the coordinator application (\<open>apps/ah-coordinator.cpp\<close>).  A connection is served by one
  thread: it receives frames and handles each by calls on the shared store.  The context of a handler
  holds the store, the files of the process, the locals of the session (the worker that registered on
  it) and the frames sent back.  A handler returns the exception that leaves it, if any; the loop
  around it ends the session then.  When a session ends, the worker that registered on it is
  invalidated.

  \<open>session\<close> is a whole session on the bytes its socket will deliver.  \<open>coord_step\<close> interleaves any number
  of sessions; a handler that makes several calls on the store is cut at each of them, since only the
  single calls hold the mutex.
\<close>

section \<open>Sessions\<close>

record Session =
  ss_worker :: WorkerId
  ss_boot :: WorkerBootId
  ss_haveWorker :: bool

definition new_session :: Session where
  "new_session = \<lparr>ss_worker = StrongId 0, ss_boot = StrongId 0, ss_haveWorker = False\<rparr>"

record Conn =
  cn_store :: HealthStore
  cn_files :: files
  cn_session :: Session
  cn_sent :: "Frame list"

record Config =
  cf_stateFile :: string
  cf_load :: bool
  cf_saveOnSnapshot :: bool
  cf_io :: io_faults

text \<open>\<open>out.type = type; out.payload = body.data(); net::sendFrame(fd, out, &err)\<close>: a failing \<open>send\<close> is
  ignored, an oversized payload throws.\<close>

definition reply :: "MessageType \<Rightarrow> wr \<Rightarrow> Conn \<Rightarrow> exn option \<times> Conn" where
  "reply type body c = (case body of
     Inl e \<Rightarrow> (Some e, c)
   | Inr bs \<Rightarrow> (case encodeFrame type bs of
       Inl e \<Rightarrow> (Some e, c)
     | Inr _ \<Rightarrow> (None, c\<lparr>cn_sent := cn_sent c @ [default_Frame\<lparr>pf_type := type, pf_payload := bs\<rparr>]\<rparr>)))"

section \<open>Message handlers\<close>

definition read_device_identity :: "DeviceIdentity rd" where
  "read_device_identity = do {
     id' \<leftarrow> StrongId_read;
     uuid' \<leftarrow> StrongId_read;
     name' \<leftarrow> rd_string;
     major' \<leftarrow> rd_u8;
     minor' \<leftarrow> rd_u8;
     totalMemory' \<leftarrow> rd_u64;
     freeMemory' \<leftarrow> rd_u64;
     supported' \<leftarrow> rd_bool;
     State_Monad.return (default_DeviceIdentity\<lparr>di_id := id', di_uuid := uuid', di_name := name',
       di_computeCapabilityMajor := uint major', di_computeCapabilityMinor := uint minor',
       di_totalMemory := totalMemory', di_freeMemory := freeMemory', di_supported := supported'\<rparr>) }"

primrec register_loop :: "nat \<Rightarrow> NodeId \<Rightarrow> Reader \<Rightarrow> HealthStore \<Rightarrow> HealthStore" where
  "register_loop 0 node r s = s"
| "register_loop (Suc n) node r s =
     (case run_state read_device_identity r of (d, r') \<Rightarrow>
        register_loop n node r' (snd (registerDevice (di_uuid d) node s)))"

definition finish_register :: "Conn \<Rightarrow> exn option \<times> Conn" where
  "finish_register c = (case reassessAll (cn_store c) of
     (Some e, s) \<Rightarrow> (Some e, c\<lparr>cn_store := s\<rparr>)
   | (None, s) \<Rightarrow> reply MessageType.ACK (ackBody (MessageType.REGISTER, True, ''registered'')) (c\<lparr>cn_store := s\<rparr>))"

text \<open>The handler up to the loop over the announced devices: how many, on which node, and the reader
  they are read from; \<open>None\<close> where it breaks off.\<close>

definition start_register :: "bytes \<Rightarrow> Conn \<Rightarrow> (nat \<times> NodeId \<times> Reader) option \<times> Conn" where
  "start_register payload c =
     (case run_state HelloBody_read (mk_reader payload) of
        (None, r) \<Rightarrow> (None, c)
      | (Some hello, r) \<Rightarrow>
          let c1 = c\<lparr>cn_session := \<lparr>ss_worker = hb_worker hello, ss_boot = hb_boot hello, ss_haveWorker = True\<rparr>,
                     cn_store := registerWorker (hb_worker hello) (hb_boot hello) (cn_store c)\<rparr>;
              (n, r1) = run_state rd_u32 r
          in (if rd_fail r1 \<or> unat n > kMaxCount then None else Some (unat n, hb_node hello, r1), c1))"

definition handle_register :: "bytes \<Rightarrow> Conn \<Rightarrow> exn option \<times> Conn" where
  "handle_register payload c = (case start_register payload c of
     (None, c1) \<Rightarrow> (None, c1)
   | (Some (n, node, r), c1) \<Rightarrow> finish_register (c1\<lparr>cn_store := register_loop n node r (cn_store c1)\<rparr>))"

definition handle_observation :: "bytes \<Rightarrow> Conn \<Rightarrow> exn option \<times> Conn" where
  "handle_observation payload c =
     (case fst (run_state readObsBody (mk_reader payload)) of
        None \<Rightarrow> (None, c)
      | Some (env, obs) \<Rightarrow> (case acceptObservation obs env (cn_store c) of
          (Inl e, s) \<Rightarrow> (Some e, c\<lparr>cn_store := s\<rparr>)
        | (Inr res, s) \<Rightarrow> reply MessageType.ACK (ackBody (MessageType.OBSERVATION, res = ''accepted'', res)) (c\<lparr>cn_store := s\<rparr>)))"

definition handle_validation :: "bytes \<Rightarrow> Conn \<Rightarrow> exn option \<times> Conn" where
  "handle_validation payload c =
     (case fst (run_state readValBody (mk_reader payload)) of
        None \<Rightarrow> (None, c)
      | Some (env, v) \<Rightarrow> (case recordValidation v (cn_store c) of
          (Some e, s) \<Rightarrow> (Some e, c\<lparr>cn_store := s\<rparr>)
        | (None, s) \<Rightarrow> reply MessageType.ACK (ackBody (MessageType.VALIDATION_RESULT, True, ''recorded'')) (c\<lparr>cn_store := s\<rparr>)))"

definition handle_fault :: "bytes \<Rightarrow> Conn \<Rightarrow> exn option \<times> Conn" where
  "handle_fault payload c =
     (case fst (run_state readFaultBody (mk_reader payload)) of
        None \<Rightarrow> (None, c)
      | Some (env, f) \<Rightarrow> (case recordFault f (cn_store c) of
          (Some e, s) \<Rightarrow> (Some e, c\<lparr>cn_store := s\<rparr>)
        | (None, s) \<Rightarrow> reply MessageType.ACK (ackBody (MessageType.FAULT_REPORT, True, ''recorded'')) (c\<lparr>cn_store := s\<rparr>)))"

definition save_snapshot :: "Config \<Rightarrow> Conn \<Rightarrow> exn option \<times> Conn" where
  "save_snapshot cf c =
     (if cf_saveOnSnapshot cf \<and> cf_stateFile cf \<noteq> []
      then (case saveToFile (cf_stateFile cf) (cn_store c) (cf_io cf) (cn_files c) of
              (Some (Thrown e), fs) \<Rightarrow> (Some e, c\<lparr>cn_files := fs\<rparr>)
            | (_, fs) \<Rightarrow> (None, c\<lparr>cn_files := fs\<rparr>))
      else (None, c))"

definition answer_snapshot :: "Conn \<Rightarrow> exn option \<times> Conn" where
  "answer_snapshot c = reply MessageType.SNAPSHOT_RESPONSE (encodeState (cn_store c)) c"

definition handle_snapshot :: "Config \<Rightarrow> Conn \<Rightarrow> exn option \<times> Conn" where
  "handle_snapshot cf c = (case save_snapshot cf c of
     (Some e, c1) \<Rightarrow> (Some e, c1)
   | (None, c1) \<Rightarrow> answer_snapshot c1)"

definition handle_frame :: "Config \<Rightarrow> Frame \<Rightarrow> Conn \<Rightarrow> exn option \<times> Conn" where
  "handle_frame cf f c = (case pf_type f of
     MessageType.REGISTER \<Rightarrow> handle_register (pf_payload f) c
   | MessageType.OBSERVATION \<Rightarrow> handle_observation (pf_payload f) c
   | MessageType.VALIDATION_RESULT \<Rightarrow> handle_validation (pf_payload f) c
   | MessageType.FAULT_REPORT \<Rightarrow> handle_fault (pf_payload f) c
   | MessageType.SNAPSHOT_REQUEST \<Rightarrow> handle_snapshot cf c
   | _ \<Rightarrow> (None, c))"

text \<open>The end of a session; an exception here leaves the thread.\<close>

definition end_session :: "Conn \<Rightarrow> exn option \<times> Conn" where
  "end_session c = (let ss = cn_session c in
     if ss_haveWorker ss then
       (case invalidateWorker (ss_worker ss) (ss_boot ss) (snd (clock_now (cn_store c))) of
          (r, s) \<Rightarrow> (r, c\<lparr>cn_store := s\<rparr>))
     else (None, c))"

text \<open>The bytes a socket will still deliver; every frame received consumes some of them.\<close>

fun pending :: "inbound \<Rightarrow> nat" where
  "pending [] = 0"
| "pending (Chunk bs # es) = length bs + pending es"
| "pending (_ # es) = pending es"

lemma recv_pending: "recv n es = (Chunk bs, es') \<Longrightarrow> pending es = length bs + pending es'"
  by (cases "(n, es)" rule: recv.cases) (auto split: if_splits)

lemma recv_exact_pending: "recv_exact n es = (Inr bs, es') \<Longrightarrow> pending es = n + pending es'"
proof (induction n es arbitrary: bs rule: recv_exact.induct)
  case (1 n es)
  show ?case
  proof (cases "n = 0")
    case True
    then show ?thesis using 1(2) by (simp add: recv_exact.simps)
  next
    case False
    then obtain c cs es1 ds where r: "recv n es = (Chunk (c # cs), es1)" "recv_exact (n - length (c # cs)) es1 = (Inr ds, es')"
      using 1(2) by (subst (asm) recv_exact.simps)
        (auto split: prod.splits recv_event.splits list.splits sum.splits)
    then show ?thesis
      using 1(1) [OF False r(1) [symmetric] refl refl r(2)] recv_pending [OF r(1)] recv_chunk_length [OF r(1)] by simp
  qed
qed

lemma recvFrame_pending: "recvFrame es = (Received f, es') \<Longrightarrow> pending es' < pending es"
  using recv_exact_pending
  by (fastforce simp: recvFrame_def stop_result_def Let_def kHeaderSize_def split: prod.splits sum.splits if_splits recv_stop.splits)

text \<open>The whole session on the socket \<open>es\<close>: anything but a frame, and an exception of a handler, end it.\<close>

function session :: "Config \<Rightarrow> inbound \<Rightarrow> Conn \<Rightarrow> exn option \<times> Conn" where
  "session cf es c = (case recvFrame es of
     (NotReceived _ _, _) \<Rightarrow> end_session c
   | (Received f, es') \<Rightarrow> (case handle_frame cf f c of
       (Some e, c') \<Rightarrow> end_session c'
     | (None, c') \<Rightarrow> session cf es' c'))"
  by pat_completeness auto

termination
  by (relation "measure (\<lambda>(cf, es, c). pending es)") (auto dest!: recvFrame_pending [OF sym])

declare session.simps [simp del]

section \<open>The coordinator\<close>

text \<open>The start of \<open>main\<close>: a refused snapshot is only logged, the exception of a load ends the process.\<close>

definition coordinator_policy :: HealthPolicy where
  "coordinator_policy = default_HealthPolicy\<lparr>pol_id := StrongId 1\<rparr>"

definition start_store :: "Config \<Rightarrow> Clock \<Rightarrow> u64 \<Rightarrow> files \<Rightarrow> exn option \<times> HealthStore" where
  "start_store cf clock epoch fs =
     (let store = HealthStore_new clock coordinator_policy epoch in
      if cf_load cf \<and> cf_stateFile cf \<noteq> []
      then (case loadFromFile (cf_stateFile cf) store fs of
              (Some (Thrown e), s) \<Rightarrow> (Some e, s)
            | (_, s) \<Rightarrow> (None, s))
      else (None, store))"

text \<open>Where a thread stands between two calls on the store.\<close>

datatype task = Serving | Registering nat NodeId Reader | Answering | Leaving | Invalidating

definition settle :: "exn option \<times> Conn \<Rightarrow> task \<times> Conn" where
  "settle x = (case x of (None, c) \<Rightarrow> (Serving, c) | (Some e, c) \<Rightarrow> (Leaving, c))"

definition begin_frame :: "Config \<Rightarrow> Frame \<Rightarrow> Conn \<Rightarrow> task \<times> Conn" where
  "begin_frame cf f c = (case pf_type f of
     MessageType.REGISTER \<Rightarrow> (case start_register (pf_payload f) c of
         (None, c1) \<Rightarrow> (Serving, c1)
       | (Some (n, node, r), c1) \<Rightarrow> (Registering n node r, c1))
   | MessageType.SNAPSHOT_REQUEST \<Rightarrow> (case save_snapshot cf c of
         (Some e, c1) \<Rightarrow> (Leaving, c1)
       | (None, c1) \<Rightarrow> (Answering, c1))
   | _ \<Rightarrow> settle (handle_frame cf f c))"

fun resume :: "task \<Rightarrow> Conn \<Rightarrow> task \<times> Conn" where
  "resume (Registering 0 node r) c = settle (finish_register c)"
| "resume (Registering (Suc n) node r) c = (case run_state read_device_identity r of (d, r') \<Rightarrow>
     (Registering n node r', c\<lparr>cn_store := snd (registerDevice (di_uuid d) node (cn_store c))\<rparr>))"
| "resume Answering c = settle (answer_snapshot c)"
| "resume Leaving c = (Invalidating, c\<lparr>cn_store := snd (clock_now (cn_store c))\<rparr>)"
| "resume t c = (t, c)"

record CoordState =
  cd_store :: HealthStore
  cd_files :: files
  cd_threads :: "nat \<Rightarrow> (Session \<times> task) option"
  cd_sent :: "nat \<Rightarrow> Frame list"
  cd_up :: bool

definition conn_of :: "nat \<Rightarrow> CoordState \<Rightarrow> Session \<Rightarrow> Conn" where
  "conn_of i st ss = \<lparr>cn_store = cd_store st, cn_files = cd_files st, cn_session = ss, cn_sent = cd_sent st i\<rparr>"

definition put_conn :: "nat \<Rightarrow> task \<times> Conn \<Rightarrow> CoordState \<Rightarrow> CoordState" where
  "put_conn i x st = (case x of (t, c) \<Rightarrow> st\<lparr>cd_store := cn_store c, cd_files := cn_files c,
     cd_threads := (cd_threads st)(i \<mapsto> (cn_session c, t)), cd_sent := (cd_sent st)(i := cn_sent c)\<rparr>)"

definition drop_thread :: "nat \<Rightarrow> CoordState \<Rightarrow> CoordState" where
  "drop_thread i st = st\<lparr>cd_threads := (cd_threads st)(i := None)\<rparr>"

text \<open>An exception of \<open>invalidateWorker\<close> is outside the \<open>try\<close> block of the thread: it ends the process.\<close>

inductive coord_step :: "Config \<Rightarrow> CoordState \<Rightarrow> CoordState \<Rightarrow> bool" for cf where
  accept: "cd_up st \<Longrightarrow> cd_threads st i = None \<Longrightarrow>
    coord_step cf st (st\<lparr>cd_threads := (cd_threads st)(i \<mapsto> (new_session, Serving)), cd_sent := (cd_sent st)(i := [])\<rparr>)"
| frame: "cd_up st \<Longrightarrow> cd_threads st i = Some (ss, Serving) \<Longrightarrow>
    coord_step cf st (put_conn i (begin_frame (cf\<lparr>cf_io := io\<rparr>) f (conn_of i st ss)) st)"
| work: "cd_up st \<Longrightarrow> cd_threads st i = Some (ss, t) \<Longrightarrow> t = Answering \<or> (\<exists>n node r. t = Registering n node r) \<Longrightarrow>
    coord_step cf st (put_conn i (resume t (conn_of i st ss)) st)"
| hangup: "cd_up st \<Longrightarrow> cd_threads st i = Some (ss, Serving) \<Longrightarrow> coord_step cf st (put_conn i (Leaving, conn_of i st ss) st)"
| quit: "cd_up st \<Longrightarrow> cd_threads st i = Some (ss, Leaving) \<Longrightarrow> \<not> ss_haveWorker ss \<Longrightarrow> coord_step cf st (drop_thread i st)"
| leave: "cd_up st \<Longrightarrow> cd_threads st i = Some (ss, Leaving) \<Longrightarrow> ss_haveWorker ss \<Longrightarrow>
    coord_step cf st (put_conn i (resume Leaving (conn_of i st ss)) st)"
| invalidate: "cd_up st \<Longrightarrow> cd_threads st i = Some (ss, Invalidating) \<Longrightarrow>
    invalidateWorker (ss_worker ss) (ss_boot ss) (cd_store st) = (r, s) \<Longrightarrow>
    coord_step cf st ((drop_thread i st)\<lparr>cd_store := s, cd_up := r = None\<rparr>)"

definition coord_run :: "Config \<Rightarrow> CoordState \<Rightarrow> CoordState \<Rightarrow> bool" where
  "coord_run cf = (coord_step cf)\<^sup>*\<^sup>*"

end
