(* ===== verification/Worker.thy ===== *)
theory Worker
  imports Messages Net Persistence
begin

text \<open>
  Model of the worker application (\<open>apps/ah-worker.cpp\<close>): it registers a device with a coordinator and,
  depending on its mode, reports an observation and a validation, or asks for the snapshot.  The
  connected socket is a record of what its \<open>recv\<close> and \<open>send\<close> calls will return and of the bytes sent so
  far; what the program prints is a list of values; an exception ends it.
\<close>

section \<open>The connection\<close>

record Client =
  ck_in :: inbound
  ck_sends :: "int list"
  ck_out :: bytes

definition net_send :: "Frame \<Rightarrow> Client \<Rightarrow> exn + (string option \<times> Client)" where
  "net_send f k = (case sendFrame f (ck_sends k) of
     Inl e \<Rightarrow> Inl e
   | Inr (err, sent, ns) \<Rightarrow> Inr (err, k\<lparr>ck_sends := ns, ck_out := ck_out k @ sent\<rparr>))"

definition net_recv :: "Client \<Rightarrow> recv_result \<times> Client" where
  "net_recv k = (case recvFrame (ck_in k) of (r, es) \<Rightarrow> (r, k\<lparr>ck_in := es\<rparr>))"

text \<open>\<open>sendAndExpect\<close>: the result, the type of the answer (left as it was when none arrives) and the
  message (left as it was where the code does not assign it).\<close>

definition expect_answer :: "Frame \<Rightarrow> string \<Rightarrow> bool \<times> string" where
  "expect_answer f msg =
     (if pf_type f = MessageType.ACK then
        (case fst (run_state readAckBody (mk_reader (pf_payload f))) of
           None \<Rightarrow> (False, msg)
         | Some (t, ok, m) \<Rightarrow> (ok, m))
      else if pf_type f = MessageType.SNAPSHOT_RESPONSE then (True, msg)
      else (False, ''unexpected '' @ int_to_string (MessageType_int (pf_type f))))"

definition sendAndExpect ::
    "MessageType \<Rightarrow> bytes \<Rightarrow> MessageType option \<Rightarrow> string \<Rightarrow> Client \<Rightarrow> exn + ((bool \<times> MessageType option \<times> string) \<times> Client)" where
  "sendAndExpect type body resp msg k =
     (case net_send (default_Frame\<lparr>pf_type := type, pf_payload := body\<rparr>) k of
        Inl e \<Rightarrow> Inl e
      | Inr (Some err, k1) \<Rightarrow> Inr ((False, resp, ''send fail''), k1)
      | Inr (None, k1) \<Rightarrow> (case net_recv k1 of
          (NotReceived closed err, k2) \<Rightarrow>
            Inr ((False, resp, ''recv fail '' @ (case err of None \<Rightarrow> '''' | Some e \<Rightarrow> e)), k2)
        | (Received f, k2) \<Rightarrow> (case expect_answer f msg of (ok, m) \<Rightarrow> Inr ((ok, Some (pf_type f), m), k2))))"

section \<open>What the worker reports\<close>

definition makeObs :: "AcceleratorId \<Rightarrow> NodeId \<Rightarrow> WorkerId \<Rightarrow> WorkerBootId \<Rightarrow> Timestamp \<Rightarrow> DeviceGeneration \<Rightarrow>
    ObservationGeneration \<Rightarrow> AcceleratorObservation" where
  "makeObs i node w b ts gen og = \<lparr>obs_accelerator = i, obs_node = node, obs_worker = w, obs_workerBootId = b,
     obs_observationGeneration = og, obs_deviceGeneration = gen, obs_timestamp = ts,
     obs_dimensions = map (\<lambda>kind. nominal kind EvidenceClass.MEASURED ts Severity.INFO [])
       [DimensionKind.ENUMERATION, DimensionKind.RUNTIME_INIT, DimensionKind.TRANSFER, DimensionKind.EXECUTION,
        DimensionKind.MEMORY_INTEGRITY]\<rparr>"

record Options =
  op_worker :: u64
  op_boot :: u64
  op_node :: u64
  op_uuid :: u64
  op_epoch :: u64
  op_obsgen :: u64
  op_devicegen :: u64
  op_mode :: string

definition worker_hello :: "Options \<Rightarrow> HelloBody" where
  "worker_hello a = \<lparr>hb_version = kProtocolVersion, hb_node = StrongId (op_node a), hb_worker = StrongId (op_worker a),
     hb_boot = StrongId (op_boot a), hb_generation = Generation 1\<rparr>"

definition worker_device :: "Options \<Rightarrow> DeviceIdentity" where
  "worker_device a = default_DeviceIdentity\<lparr>di_id := StrongId (op_uuid a), di_uuid := StrongId (op_uuid a),
     di_name := ''synthetic-accelerator'', di_computeCapabilityMajor := 12, di_computeCapabilityMinor := 0,
     di_totalMemory := 2 ^ 30, di_freeMemory := 2 ^ 30, di_supported := True\<rparr>"

definition worker_envelope :: "Options \<Rightarrow> AuthorityEnvelope" where
  "worker_envelope a =
     \<lparr>env_coordinatorEpoch = (if op_mode a = ''stale-epoch'' then op_epoch a - 1 else op_epoch a),
      env_workerId = StrongId (op_worker a),
      env_workerBootId = StrongId (if op_mode a = ''stale-boot'' then op_boot a + 1000 else op_boot a),
      env_observationGeneration = Generation (op_obsgen a), env_healthGeneration = Generation 0,
      env_validationGeneration = Generation 0,
      env_deviceGeneration = Generation (if op_mode a = ''stale-devgen'' then 0 else op_devicegen a)\<rparr>"

definition worker_observation :: "Options \<Rightarrow> Timestamp \<Rightarrow> AcceleratorObservation" where
  "worker_observation a now = makeObs (StrongId (op_uuid a)) (StrongId (op_node a)) (StrongId (op_worker a))
     (StrongId (op_boot a)) now (Generation (op_devicegen a)) (Generation (op_obsgen a))"

definition worker_validation :: "Options \<Rightarrow> Timestamp \<Rightarrow> ValidationRecord" where
  "worker_validation a now = \<lparr>v_id = StrongId (op_boot a), v_accelerator = StrongId (op_uuid a), v_timestamp = now,
     v_profile = ValidationProfile.FULL, v_depth = ValidationDepth.FULL, v_passed = True, v_maxError = 0, v_detail = [],
     v_worker = StrongId (op_worker a), v_workerBootId = StrongId (op_boot a), v_validationGeneration = Generation 1,
     v_deviceGeneration = Generation 0\<rparr>"

section \<open>The program\<close>

text \<open>What is printed, and the exit code with it.\<close>

datatype line =
    RegisteredLine
  | QueryLine HealthState ReadinessState string nat
  | QueryError
  | DecodeError string
  | StaleObsgenLine bool bool string
  | ObservationLine bool string
  | ValidationLine bool string
  | LiveLine
  | ResultLine string bool string

type_synonym run_result = "exn + (int \<times> line list \<times> Client)"

text \<open>The REGISTER exchange, whose outcome is ignored.\<close>

definition worker_register :: "Options \<Rightarrow> Client \<Rightarrow> exn + Client" where
  "worker_register a k = (case regBody (worker_hello a) [worker_device a] of
     Inl e \<Rightarrow> Inl e
   | Inr reg \<Rightarrow> (case net_send (default_Frame\<lparr>pf_type := MessageType.REGISTER, pf_payload := reg\<rparr>) k of
       Inl e \<Rightarrow> Inl e
     | Inr (_, k1) \<Rightarrow> Inr (snd (net_recv k1))))"

definition worker_query :: "Options \<Rightarrow> Client \<Rightarrow> run_result" where
  "worker_query a k = (case net_send (default_Frame\<lparr>pf_type := MessageType.SNAPSHOT_REQUEST, pf_payload := []\<rparr>) k of
     Inl e \<Rightarrow> Inl e
   | Inr (_, k1) \<Rightarrow> (case net_recv k1 of
       (NotReceived _ _, k2) \<Rightarrow> Inr (1, [QueryError], k2)
     | (Received f, k2) \<Rightarrow> (case store_decode (pf_payload f) (HealthStore_new (FakeClock 0) default_HealthPolicy 1) of
         (Some (Thrown e), s) \<Rightarrow> Inl e
       | (Some (Refused msg), s) \<Rightarrow> Inr (1, [DecodeError msg], k2)
       | (None, s) \<Rightarrow> Inr (0, map (\<lambda>snap. QueryLine (sn_state snap) (sn_readiness snap)
             (a_digest (sn_latestAssessment snap)) (length (deviceIds s)))
           (filter (\<lambda>snap. sn_uuid snap = StrongId (op_uuid a)) (allSnapshots s)), k2))))"

definition worker_twice :: "bytes \<Rightarrow> Client \<Rightarrow> run_result" where
  "worker_twice ob k = (case sendAndExpect MessageType.OBSERVATION ob None [] k of
     Inl e \<Rightarrow> Inl e
   | Inr ((a1, _, _), k1) \<Rightarrow> (case sendAndExpect MessageType.OBSERVATION ob None [] k1 of
       Inl e \<Rightarrow> Inl e
     | Inr ((a2, _, m2), k2) \<Rightarrow> Inr (0, [StaleObsgenLine a1 a2 m2], k2)))"

definition worker_validate :: "Options \<Rightarrow> Timestamp \<Rightarrow> bytes \<Rightarrow> Client \<Rightarrow> run_result" where
  "worker_validate a now ob k = (case sendAndExpect MessageType.OBSERVATION ob None [] k of
     Inl e \<Rightarrow> Inl e
   | Inr ((accepted, rt, m), k1) \<Rightarrow> (case valBody (worker_envelope a, worker_validation a now) of
       Inl e \<Rightarrow> Inl e
     | Inr vb \<Rightarrow> (case sendAndExpect MessageType.VALIDATION_RESULT vb rt m k1 of
         Inl e \<Rightarrow> Inl e
       | Inr ((vac, _, m'), k2) \<Rightarrow> Inr (0,
           (if op_mode a = ''live'' then [LiveLine]
            else [ObservationLine accepted m, ValidationLine vac m', ResultLine (op_mode a) accepted m']), k2))))"

definition worker_observe :: "Options \<Rightarrow> bytes \<Rightarrow> Client \<Rightarrow> run_result" where
  "worker_observe a ob k = (case sendAndExpect MessageType.OBSERVATION ob None [] k of
     Inl e \<Rightarrow> Inl e
   | Inr ((accepted, _, m), k1) \<Rightarrow> Inr (0, [ResultLine (op_mode a) accepted m], k1))"

definition worker_main :: "Options \<Rightarrow> Timestamp \<Rightarrow> Client \<Rightarrow> run_result" where
  "worker_main a now k = (case worker_register a k of
     Inl e \<Rightarrow> Inl e
   | Inr k1 \<Rightarrow>
       if op_mode a = ''register'' then Inr (0, [RegisteredLine], k1)
       else if op_mode a = ''query'' then worker_query a k1
       else (case obsBody (worker_envelope a, worker_observation a now) of
         Inl e \<Rightarrow> Inl e
       | Inr ob \<Rightarrow>
           if op_mode a = ''stale-obsgen'' then worker_twice ob k1
           else if op_mode a \<in> {''validate'', ''revalidate'', ''combine'', ''live''} then worker_validate a now ob k1
           else worker_observe a ob k1))"

end
