(* ===== verification/Arguments.thy ===== *)
theory Arguments
  imports Numbers Coordinator Worker
begin

text \<open>
  The command lines of the coordinator and of the worker: the loops over \<open>argv\<close> at the start of both
  \<open>main\<close> functions.  An option with a value takes the next argument, one at the very end of the line is
  ignored, and so is everything else that is not recognised.  The theorems show that the programs read
  exactly the settings a command line spells out.
\<close>

section \<open>The loop over the arguments\<close>

text \<open>\<open>valued\<close> gives the effect of an option that takes a value, \<open>flag\<close> the effect of any other argument.\<close>

fun parse_args :: "(string \<Rightarrow> (string \<Rightarrow> 'a \<Rightarrow> 'a) option) \<Rightarrow> (string \<Rightarrow> 'a \<Rightarrow> 'a) \<Rightarrow> string list \<Rightarrow> 'a \<Rightarrow> 'a" where
  "parse_args valued flag [] x = x"
| "parse_args valued flag [a] x = flag a x"
| "parse_args valued flag (a # v # as) x = (case valued a of
     Some put \<Rightarrow> parse_args valued flag as (put v x)
   | None \<Rightarrow> parse_args valued flag (v # as) (flag a x))"

lemma parse_valued: "valued a = Some put \<Longrightarrow> parse_args valued flag (a # v # as) x = parse_args valued flag as (put v x)"
  by simp

lemma parse_flag: "valued a = None \<Longrightarrow> parse_args valued flag (a # as) x = parse_args valued flag as (flag a x)"
  by (cases as) simp_all

section \<open>The coordinator\<close>

record CoordOptions =
  co_port :: u16
  co_epoch :: u64
  co_stateFile :: string
  co_load :: bool
  co_saveOnSnapshot :: bool

definition default_CoordOptions :: CoordOptions where
  "default_CoordOptions = \<lparr>co_port = 7000, co_epoch = 1, co_stateFile = '''', co_load = False, co_saveOnSnapshot = True\<rparr>"

definition coord_valued :: "string \<Rightarrow> (string \<Rightarrow> CoordOptions \<Rightarrow> CoordOptions) option" where
  "coord_valued a =
     (if a = ''--port'' then Some (\<lambda>v x. x\<lparr>co_port := word_of_int (atoi v)\<rparr>)
      else if a = ''--epoch'' then Some (\<lambda>v x. x\<lparr>co_epoch := strtoull v\<rparr>)
      else if a = ''--state'' then Some (\<lambda>v x. x\<lparr>co_stateFile := v\<rparr>)
      else None)"

definition coord_flag :: "string \<Rightarrow> CoordOptions \<Rightarrow> CoordOptions" where
  "coord_flag a x =
     (if a = ''--load'' then x\<lparr>co_load := True\<rparr>
      else if a = ''--no-save-on-snapshot'' then x\<lparr>co_saveOnSnapshot := False\<rparr>
      else x)"

definition coordinator_options :: "string list \<Rightarrow> CoordOptions" where
  "coordinator_options args = parse_args coord_valued coord_flag args default_CoordOptions"

text \<open>A command line for given settings.\<close>

definition coordinator_line :: "CoordOptions \<Rightarrow> string list" where
  "coordinator_line x =
     [''--port'', int_to_string (uint (co_port x)), ''--epoch'', nat_to_string (unat (co_epoch x)), ''--state'', co_stateFile x] @
     (if co_load x then [''--load''] else []) @ (if co_saveOnSnapshot x then [] else [''--no-save-on-snapshot''])"

section \<open>The worker\<close>

record WorkerArgs =
  wa_host :: string
  wa_port :: u16
  wa_options :: Options
  wa_hold :: int

definition default_WorkerArgs :: WorkerArgs where
  "default_WorkerArgs = \<lparr>wa_host = ''127.0.0.1'', wa_port = 7000,
     wa_options = \<lparr>op_worker = 1, op_boot = 1, op_node = 1, op_uuid = 1, op_epoch = 1, op_obsgen = 1, op_devicegen = 1,
       op_mode = ''register''\<rparr>, wa_hold = 8\<rparr>"

text \<open>The options that fill a 64-bit field.\<close>

definition worker_numbers :: "(string \<times> (u64 \<Rightarrow> Options \<Rightarrow> Options)) list" where
  "worker_numbers =
     [(''--worker-id'', \<lambda>n p. p\<lparr>op_worker := n\<rparr>), (''--boot-id'', \<lambda>n p. p\<lparr>op_boot := n\<rparr>), (''--node'', \<lambda>n p. p\<lparr>op_node := n\<rparr>),
      (''--device'', \<lambda>n p. p\<lparr>op_uuid := n\<rparr>), (''--epoch'', \<lambda>n p. p\<lparr>op_epoch := n\<rparr>), (''--obsgen'', \<lambda>n p. p\<lparr>op_obsgen := n\<rparr>),
      (''--devicegen'', \<lambda>n p. p\<lparr>op_devicegen := n\<rparr>)]"

definition worker_valued :: "string \<Rightarrow> (string \<Rightarrow> WorkerArgs \<Rightarrow> WorkerArgs) option" where
  "worker_valued a =
     (if a = ''--host'' then Some (\<lambda>v x. x\<lparr>wa_host := v\<rparr>)
      else if a = ''--port'' then Some (\<lambda>v x. x\<lparr>wa_port := word_of_int (atoi v)\<rparr>)
      else if a = ''--mode'' then Some (\<lambda>v x. x\<lparr>wa_options := (wa_options x)\<lparr>op_mode := v\<rparr>\<rparr>)
      else if a = ''--hold'' then Some (\<lambda>v x. x\<lparr>wa_hold := atoi v\<rparr>)
      else map_option (\<lambda>f v x. x\<lparr>wa_options := f (strtoull v) (wa_options x)\<rparr>) (map_of worker_numbers a))"

definition worker_arguments :: "string list \<Rightarrow> WorkerArgs" where
  "worker_arguments args = parse_args worker_valued (\<lambda>a x. x) args default_WorkerArgs"

definition worker_line :: "WorkerArgs \<Rightarrow> string list" where
  "worker_line x = (let p = wa_options x; num = (\<lambda>n. nat_to_string (unat n)) in
     [''--host'', wa_host x, ''--port'', int_to_string (uint (wa_port x)), ''--worker-id'', num (op_worker p),
      ''--boot-id'', num (op_boot p), ''--node'', num (op_node p), ''--device'', num (op_uuid p), ''--epoch'', num (op_epoch p),
      ''--obsgen'', num (op_obsgen p), ''--devicegen'', num (op_devicegen p), ''--mode'', op_mode p,
      ''--hold'', int_to_string (wa_hold x)])"

section \<open>What a command line says is what the program does\<close>

lemma coordinator_reads: "coordinator_options (coordinator_line x) = x"
  by (simp add: coordinator_options_def coordinator_line_def coord_valued_def coord_flag_def default_CoordOptions_def
      parse_valued parse_flag atoi_printed strtoull_printed)

lemma worker_reads: "worker_arguments (worker_line x) = x"
  by (simp add: worker_arguments_def worker_line_def worker_valued_def worker_numbers_def default_WorkerArgs_def
      parse_valued atoi_printed strtoull_printed Let_def)


end
