(* ===== verification/Sockets.thy ===== *)
theory Sockets
  imports Net
begin

text \<open>
  Model of the socket classes of \<open>Net.cpp\<close>/\<open>Net.hpp\<close>, \<open>TcpClient\<close> and \<open>TcpServer\<close>, on the table of open
  descriptors of the process.  What the operating system answers to a call is an argument of the
  method: the descriptor \<open>socket\<close> or \<open>accept\<close> returns, and whether \<open>connect\<close>, \<open>bind\<close>, \<open>listen\<close> succeed.  The
  POSIX build is modelled (\<open>initWinsock\<close> always succeeds there).

  The lemmas account for the descriptors: the classes close what they opened, except when \<open>connect\<close> or
  \<open>listen\<close> is called on an object that already holds a socket.
\<close>

section \<open>Descriptors\<close>

type_synonym fd_table = "int set"

text \<open>A call that creates a descriptor; a negative answer is a failure.\<close>

definition sys_open :: "int \<Rightarrow> fd_table \<Rightarrow> fd_table" where
  "sys_open n fds = (if n < 0 then fds else insert n fds)"

definition closeFd :: "int \<Rightarrow> fd_table \<Rightarrow> bool \<times> fd_table" where
  "closeFd n fds = (n \<in> fds, fds - {n})"

text \<open>The operating system hands out descriptors that are not in use.\<close>

definition fresh :: "int \<Rightarrow> fd_table \<Rightarrow> bool" where
  "fresh n fds \<longleftrightarrow> n < 0 \<or> n \<notin> fds"

section \<open>TcpClient\<close>

record TcpClient =
  tc_sock :: int

definition TcpClient_new :: TcpClient where
  "TcpClient_new = \<lparr>tc_sock = - 1\<rparr>"

definition TcpClient_close :: "TcpClient \<Rightarrow> fd_table \<Rightarrow> TcpClient \<times> fd_table" where
  "TcpClient_close c fds =
     (if 0 \<le> tc_sock c then (c\<lparr>tc_sock := - 1\<rparr>, snd (closeFd (tc_sock c) fds)) else (c, fds))"

text \<open>The answers to one \<open>connect\<close>: \<open>inet_pton\<close> leaves the zero address in place when it fails.\<close>

record ConnectAnswers =
  an_socket :: int
  an_pton :: "string \<Rightarrow> u32 option"
  an_connect :: "u32 \<Rightarrow> u16 \<Rightarrow> bool"

definition peer_address :: "ConnectAnswers \<Rightarrow> string \<Rightarrow> u32" where
  "peer_address an host = (case an_pton an host of Some a \<Rightarrow> a | None \<Rightarrow> 0)"

definition TcpClient_connect ::
    "string \<Rightarrow> u16 \<Rightarrow> ConnectAnswers \<Rightarrow> TcpClient \<Rightarrow> fd_table \<Rightarrow> string option \<times> TcpClient \<times> fd_table" where
  "TcpClient_connect host port an c fds =
     (let c1 = c\<lparr>tc_sock := an_socket an\<rparr>; fds1 = sys_open (an_socket an) fds in
      if an_socket an < 0 then (Some ''socket failed'', c1, fds1)
      else if \<not> an_connect an (peer_address an host) port then (Some ''connect failed'', TcpClient_close c1 fds1)
      else (None, c1, fds1))"

definition TcpClient_sendBytes :: "bytes \<Rightarrow> TcpClient \<Rightarrow> int list \<Rightarrow> bool \<times> bytes \<times> int list" where
  "TcpClient_sendBytes data c ns = (if tc_sock c < 0 then (False, [], ns) else send_all data ns)"

definition TcpClient_recvBytes :: "nat \<Rightarrow> inbound \<Rightarrow> bytes option \<times> inbound" where
  "TcpClient_recvBytes n es = (case recv_exact n es of (Inl x, es') \<Rightarrow> (None, es') | (Inr bs, es') \<Rightarrow> (Some bs, es'))"

definition TcpClient_recvFrame :: "TcpClient \<Rightarrow> inbound \<Rightarrow> recv_result \<times> inbound" where
  "TcpClient_recvFrame c es = (if tc_sock c < 0 then (NotReceived False (Some ''not connected''), es) else client_recvFrame es)"

section \<open>TcpServer\<close>

record TcpServer =
  ts_listener :: int

definition TcpServer_new :: TcpServer where
  "TcpServer_new = \<lparr>ts_listener = - 1\<rparr>"

definition TcpServer_close :: "TcpServer \<Rightarrow> fd_table \<Rightarrow> TcpServer \<times> fd_table" where
  "TcpServer_close c fds =
     (if 0 \<le> ts_listener c then (c\<lparr>ts_listener := - 1\<rparr>, snd (closeFd (ts_listener c) fds)) else (c, fds))"

record ListenAnswers =
  la_socket :: int
  la_bind :: "u16 \<Rightarrow> bool"
  la_listen :: bool

definition TcpServer_listen :: "u16 \<Rightarrow> ListenAnswers \<Rightarrow> TcpServer \<Rightarrow> fd_table \<Rightarrow> string option \<times> TcpServer \<times> fd_table" where
  "TcpServer_listen port an c fds =
     (let c1 = c\<lparr>ts_listener := la_socket an\<rparr>; fds1 = sys_open (la_socket an) fds in
      if la_socket an < 0 then (Some ''socket failed'', c1, fds1)
      else if \<not> la_bind an port then (Some ''bind failed'', TcpServer_close c1 fds1)
      else if \<not> la_listen an then (Some ''listen failed'', TcpServer_close c1 fds1)
      else (None, c1, fds1))"

definition TcpServer_acceptClient :: "int \<Rightarrow> TcpServer \<Rightarrow> fd_table \<Rightarrow> int \<times> fd_table" where
  "TcpServer_acceptClient n c fds = (if ts_listener c < 0 then (- 1, fds) else (n, sys_open n fds))"

section \<open>Owners of a descriptor\<close>

text \<open>The calls an object sees: \<open>Some a\<close> is \<open>connect\<close> or \<open>listen\<close> with the answers \<open>a\<close>, \<open>None\<close> is \<open>close\<close>.\<close>

fun run_calls ::
    "('a \<Rightarrow> 'o \<Rightarrow> fd_table \<Rightarrow> 'o \<times> fd_table) \<Rightarrow> ('o \<Rightarrow> fd_table \<Rightarrow> 'o \<times> fd_table) \<Rightarrow> 'a option list \<Rightarrow> 'o \<Rightarrow> fd_table \<Rightarrow> 'o \<times> fd_table" where
  "run_calls acquire release [] x fds = (x, fds)"
| "run_calls acquire release (m # ms) x fds =
     (case (case m of Some a \<Rightarrow> acquire a x fds | None \<Rightarrow> release x fds) of (x', fds') \<Rightarrow> run_calls acquire release ms x' fds')"

text \<open>Every descriptor handed out on the way is fresh; and the descriptors that were overwritten.\<close>

fun answers_fresh ::
    "('a \<Rightarrow> 'o \<Rightarrow> fd_table \<Rightarrow> 'o \<times> fd_table) \<Rightarrow> ('o \<Rightarrow> fd_table \<Rightarrow> 'o \<times> fd_table) \<Rightarrow> ('a \<Rightarrow> int) \<Rightarrow> 'a option list \<Rightarrow> 'o \<Rightarrow> fd_table \<Rightarrow> bool" where
  "answers_fresh acquire release offered [] x fds \<longleftrightarrow> True"
| "answers_fresh acquire release offered (m # ms) x fds \<longleftrightarrow>
     (case m of Some a \<Rightarrow> fresh (offered a) fds | None \<Rightarrow> True) \<and>
     (case (case m of Some a \<Rightarrow> acquire a x fds | None \<Rightarrow> release x fds) of (x', fds') \<Rightarrow>
        answers_fresh acquire release offered ms x' fds')"

fun overwritten ::
    "('a \<Rightarrow> 'o \<Rightarrow> fd_table \<Rightarrow> 'o \<times> fd_table) \<Rightarrow> ('o \<Rightarrow> fd_table \<Rightarrow> 'o \<times> fd_table) \<Rightarrow> ('o \<Rightarrow> fd_table) \<Rightarrow> 'a option list \<Rightarrow> 'o \<Rightarrow> fd_table \<Rightarrow> fd_table" where
  "overwritten acquire release held [] x fds = {}"
| "overwritten acquire release held (m # ms) x fds = (if m = None then {} else held x) \<union>
     (case (case m of Some a \<Rightarrow> acquire a x fds | None \<Rightarrow> release x fds) of (x', fds') \<Rightarrow>
        overwritten acquire release held ms x' fds')"

text \<open>
  The contract of a class that owns one descriptor: \<open>release\<close> closes what the object holds, \<open>acquire\<close> ends
  with the object holding the descriptor it was offered, or holding nothing and that descriptor closed.
\<close>

locale descriptor_owner =
  fixes held :: "'o \<Rightarrow> fd_table"
    and acquire :: "'a \<Rightarrow> 'o \<Rightarrow> fd_table \<Rightarrow> 'o \<times> fd_table"
    and release :: "'o \<Rightarrow> fd_table \<Rightarrow> 'o \<times> fd_table"
    and offered :: "'a \<Rightarrow> int"
  assumes release_held: "held (fst (release x fds)) = {}"
    and release_fds: "snd (release x fds) = fds - held x"
    and acquire_effect: "fresh (offered a) fds \<Longrightarrow>
        held (fst (acquire a x fds)) \<subseteq> {offered a} - {n. n < 0} \<and> snd (acquire a x fds) = fds \<union> held (fst (acquire a x fds))"
begin

lemma accounted_run:
  assumes "answers_fresh acquire release offered ms x fds" "held x \<inter> base = {}" "fds = base \<union> held x"
    and "run_calls acquire release ms x fds = (x', fds')"
  shows "held x' \<inter> (base \<union> overwritten acquire release held ms x fds) = {} \<and>
    fds' = base \<union> overwritten acquire release held ms x fds \<union> held x'"
  using assms
proof (induction ms arbitrary: x fds base)
  case Nil
  then show ?case by auto
next
  case (Cons m ms)
  show ?case
  proof (cases m)
    case None
    obtain y gs where y: "release x fds = (y, gs)" by (cases "release x fds")
    then have "held y = {}" "gs = base"
      using release_held [of x fds] release_fds [of x fds] Cons.prems(2,3) by auto
    then show ?thesis
      using Cons.IH [of y gs base] Cons.prems None y by simp
  next
    case (Some a)
    obtain y gs where y: "acquire a x fds = (y, gs)" by (cases "acquire a x fds")
    have fresh: "fresh (offered a) fds" using Cons.prems(1) Some by simp
    have eff: "held y \<subseteq> {offered a} - {n. n < 0}" "gs = fds \<union> held y"
      using acquire_effect [OF fresh, of x] y by simp_all
    have "held y \<inter> fds = {}" using eff(1) fresh by (auto simp: fresh_def)
    then show ?thesis
      using Cons.IH [of y gs "base \<union> held x"] Cons.prems Some y eff(2) by (simp add: Un_assoc)
  qed
qed

lemma accounted:
  assumes "answers_fresh acquire release offered ms x fds" "held x = {}" "run_calls acquire release ms x fds = (x', fds')"
  shows "snd (release x' fds') = fds \<union> overwritten acquire release held ms x fds"
  using accounted_run [OF assms(1) _ _ assms(3), of fds] assms(2) by (auto simp: release_fds)

end

text \<open>Both classes keep the contract.\<close>

definition client_held :: "TcpClient \<Rightarrow> fd_table" where
  "client_held c = (if 0 \<le> tc_sock c then {tc_sock c} else {})"

definition client_acquire :: "string \<times> u16 \<times> ConnectAnswers \<Rightarrow> TcpClient \<Rightarrow> fd_table \<Rightarrow> TcpClient \<times> fd_table" where
  "client_acquire a c fds = (case a of (host, port, an) \<Rightarrow> snd (TcpClient_connect host port an c fds))"

definition client_offered :: "string \<times> u16 \<times> ConnectAnswers \<Rightarrow> int" where
  "client_offered a = an_socket (snd (snd a))"

interpretation tcp_client: descriptor_owner client_held client_acquire TcpClient_close client_offered
  by unfold_locales
    (auto simp: client_held_def client_acquire_def client_offered_def TcpClient_connect_def TcpClient_close_def closeFd_def
      sys_open_def fresh_def Let_def split: prod.splits)

definition server_held :: "TcpServer \<Rightarrow> fd_table" where
  "server_held c = (if 0 \<le> ts_listener c then {ts_listener c} else {})"

definition server_acquire :: "u16 \<times> ListenAnswers \<Rightarrow> TcpServer \<Rightarrow> fd_table \<Rightarrow> TcpServer \<times> fd_table" where
  "server_acquire a c fds = (case a of (port, an) \<Rightarrow> snd (TcpServer_listen port an c fds))"

definition server_offered :: "u16 \<times> ListenAnswers \<Rightarrow> int" where
  "server_offered a = la_socket (snd a)"

interpretation tcp_server: descriptor_owner server_held server_acquire TcpServer_close server_offered
  by unfold_locales
    (auto simp: server_held_def server_acquire_def server_offered_def TcpServer_listen_def TcpServer_close_def closeFd_def
      sys_open_def fresh_def Let_def split: prod.splits)

section \<open>The account of the descriptors\<close>

text \<open>C30. The client and the server account for their descriptors: whatever sequence of \<open>connect\<close> (\<open>listen\<close>)
  and \<open>close\<close> calls an object sees, once its destructor has run the process has exactly the descriptors
  it had before and those that a \<open>connect\<close> (\<open>listen\<close>) found in the object and overwrote.  An object that is
  closed before it is used again leaks nothing, and no descriptor of another owner is ever closed.\<close>

theorem descriptors_accounted:
  assumes "answers_fresh client_acquire TcpClient_close client_offered calls TcpClient_new fds"
    and "run_calls client_acquire TcpClient_close calls TcpClient_new fds = (c, fds1)"
    and "answers_fresh server_acquire TcpServer_close server_offered calls' TcpServer_new fds"
    and "run_calls server_acquire TcpServer_close calls' TcpServer_new fds = (c', fds2)"
  shows "snd (TcpClient_close c fds1) = fds \<union> overwritten client_acquire TcpClient_close client_held calls TcpClient_new fds \<and>
    snd (TcpServer_close c' fds2) = fds \<union> overwritten server_acquire TcpServer_close server_held calls' TcpServer_new fds"
  using tcp_client.accounted [OF assms(1) _ assms(2)] tcp_server.accounted [OF assms(3) _ assms(4)]
  by (simp add: client_held_def server_held_def TcpClient_new_def TcpServer_new_def)

definition demo_answers :: "int \<Rightarrow> ConnectAnswers" where
  "demo_answers n = \<lparr>an_socket = n, an_pton = (\<lambda>_. None), an_connect = (\<lambda>_ _. True)\<rparr>"

text \<open>A client that connects twice leaks its first socket; a server that cannot bind leaks nothing.\<close>

theorem descriptors_accounted_witness:
  "\<exists>c fds' c' fds''. run_calls client_acquire TcpClient_close [Some (''a'', 1, demo_answers 3), Some (''b'', 1, demo_answers 4)]
       TcpClient_new {0} = (c, fds') \<and> snd (TcpClient_close c fds') = {0, 3} \<and>
     run_calls server_acquire TcpServer_close [Some (1, \<lparr>la_socket = 3, la_bind = (\<lambda>_. False), la_listen = True\<rparr>)]
       TcpServer_new {0} = (c', fds'') \<and> snd (TcpServer_close c' fds'') = {0}"
proof -
  let ?calls = "[Some (''a'', 1, demo_answers 3), Some (''b'', 1, demo_answers 4)]"
  let ?calls' = "[Some (1, \<lparr>la_socket = 3, la_bind = (\<lambda>_. False), la_listen = True\<rparr>)]"
  note defs = demo_answers_def fresh_def TcpClient_new_def TcpClient_connect_def sys_open_def Let_def client_acquire_def
    client_offered_def client_held_def TcpServer_new_def TcpServer_listen_def server_acquire_def server_offered_def
    server_held_def TcpServer_close_def closeFd_def
  have ok: "answers_fresh client_acquire TcpClient_close client_offered ?calls TcpClient_new {0}"
    and ok': "answers_fresh server_acquire TcpServer_close server_offered ?calls' TcpServer_new {0}"
    by (simp_all add: defs)
  have lost: "overwritten client_acquire TcpClient_close client_held ?calls TcpClient_new {0} = {3}"
    and none: "overwritten server_acquire TcpServer_close server_held ?calls' TcpServer_new {0} = {}"
    by (simp_all add: defs)
  obtain c f c' f' where r: "run_calls client_acquire TcpClient_close ?calls TcpClient_new {0} = (c, f)"
    "run_calls server_acquire TcpServer_close ?calls' TcpServer_new {0} = (c', f')" by fastforce
  show ?thesis
    using r descriptors_accounted [OF ok r(1) ok' r(2)] lost none by auto
qed

end
