(* ===== verification/CoordinatorRuns.thy ===== *)
theory CoordinatorRuns
  imports Coordinator
begin

text \<open>
  The coordinator refines the store: whatever its threads do and however they interleave, the shared
  store takes only steps of \<open>store_step\<close>, so that the properties of reachable stores and of restarts
  hold of it.  The sequential handlers and \<open>session\<close> are schedules of the interleaved model.
\<close>

section \<open>What a handler leaves alone\<close>

lemma reply_simps [simp]:
  "cn_store (snd (reply t b c)) = cn_store c" "cn_session (snd (reply t b c)) = cn_session c"
  "cn_files (snd (reply t b c)) = cn_files c"
  by (simp_all add: reply_def split: sum.splits)

lemma save_snapshot_store [simp]: "cn_store (snd (save_snapshot cf c)) = cn_store c"
  by (auto simp: save_snapshot_def split: prod.splits option.splits dec_exit.splits)

lemma answer_snapshot_store [simp]: "cn_store (snd (answer_snapshot c)) = cn_store c"
  by (simp add: answer_snapshot_def)

lemma settle_conn [simp]: "snd (settle x) = snd x"
  by (simp add: settle_def split: prod.splits option.splits)

lemma conn_of_simps [simp]:
  "cn_store (conn_of i st ss) = cd_store st" "cn_files (conn_of i st ss) = cd_files st" "cn_session (conn_of i st ss) = ss" "cn_sent (conn_of i st ss) = cd_sent st i"
  by (simp_all add: conn_of_def)

lemma put_conn_simps [simp]:
  "cd_store (put_conn i x st) = cn_store (snd x)" "cd_up (put_conn i x st) = cd_up st"
  "cd_files (put_conn i x st) = cn_files (snd x)"
  "cd_threads (put_conn i x st) = (cd_threads st)(i \<mapsto> (cn_session (snd x), fst x))"
  "cd_store (drop_thread i st) = cd_store st"
  by (simp_all add: put_conn_def drop_thread_def split: prod.splits)

section \<open>The simulation\<close>

text \<open>
  The calls the coordinator makes on its store: a preorder that each of them keeps is kept by every
  handler, every step and every run.
\<close>

locale service_relation =
  fixes T :: "HealthStore \<Rightarrow> HealthStore \<Rightarrow> bool"
  assumes refl: "T s s" and trans: "T s s' \<Longrightarrow> T s' s'' \<Longrightarrow> T s s''"
    and worker: "T s (registerWorker w b s)"
    and device: "T s (snd (registerDevice uuid node s))"
    and refresh: "T s (snd (reassessAll s))"
    and observation: "T s (snd (acceptObservation obs env s))"
    and validation: "T s (snd (recordValidation v s))"
    and fault: "T s (snd (recordFault f s))"
    and invalidation: "T s (snd (invalidateWorker w b s))"
    and clock: "T s (snd (clock_now s))"
begin

lemma register_loop_keeps: "T s (register_loop n node r s)"
proof (induction n arbitrary: r s)
  case (Suc n)
  show ?case
    using trans [OF device Suc.IH] by (simp split: prod.splits)
qed (simp add: refl)

lemma finish_register_keeps: "T (cn_store c) (cn_store (snd (finish_register c)))"
  using refresh [of "cn_store c"] by (auto simp: finish_register_def split: prod.splits option.splits)

lemma start_register_keeps: "T (cn_store c) (cn_store (snd (start_register payload c)))"
  using worker refl by (auto simp: start_register_def Let_def split: prod.splits option.splits)

lemma handle_observation_keeps: "T (cn_store c) (cn_store (snd (handle_observation p c)))"
  using observation [of "cn_store c"] refl
  by (auto simp: handle_observation_def split: prod.splits option.splits sum.splits) (metis snd_conv)+

lemma handle_validation_keeps: "T (cn_store c) (cn_store (snd (handle_validation p c)))"
  using validation [of "cn_store c"] refl
  by (auto simp: handle_validation_def split: prod.splits option.splits) (metis snd_conv)+

lemma handle_fault_keeps: "T (cn_store c) (cn_store (snd (handle_fault p c)))"
  using fault [of "cn_store c"] refl
  by (auto simp: handle_fault_def split: prod.splits option.splits) (metis snd_conv)+

lemmas handlers_keep = handle_observation_keeps handle_validation_keeps handle_fault_keeps

lemma begin_frame_keeps: "T (cn_store c) (cn_store (snd (begin_frame cf f c)))"
proof (cases "pf_type f = MessageType.REGISTER")
  case True
  then show ?thesis
    using start_register_keeps [of c "pf_payload f"]
    by (auto simp: begin_frame_def split: prod.splits option.splits)
next
  case False
  moreover have "cn_store (snd (case save_snapshot cf c of (None, c1) \<Rightarrow> (Answering, c1) | (Some e, c1) \<Rightarrow> (Leaving, c1))) = cn_store c"
    by (auto split: prod.splits option.splits) (metis save_snapshot_store snd_conv)+
  ultimately show ?thesis
    by (cases "pf_type f") (simp_all add: begin_frame_def handle_frame_def handlers_keep refl)
qed

lemma resume_keeps: "T (cn_store c) (cn_store (snd (resume t c)))"
  by (cases "(t, c)" rule: resume.cases) (auto simp: finish_register_keeps device clock refl split: prod.splits)

lemma coord_step_keeps: "coord_step cf st st' \<Longrightarrow> T (cd_store st) (cd_store st')"
proof (induction rule: coord_step.induct)
  case (frame st i ss io f)
  show ?case using begin_frame_keeps [of "conn_of i st ss"] by simp
next
  case (work st i ss t)
  show ?case using resume_keeps [of "conn_of i st ss"] by simp
next
  case (leave st i ss)
  show ?case using resume_keeps [of "conn_of i st ss" Leaving] by simp
next
  case (invalidate st i ss r s)
  then show ?case
    using invalidation [of "cd_store st" "ss_worker ss" "ss_boot ss"] by simp
qed (simp_all add: refl)

lemma coord_run_keeps: "coord_run cf st st' \<Longrightarrow> T (cd_store st) (cd_store st')"
  unfolding coord_run_def
  by (induction rule: rtranclp_induct) (auto intro: refl trans coord_step_keeps)

end

lemma run_step: "store_step any_uuid s s' \<Longrightarrow> store_run any_uuid s s'"
  by (simp add: store_run_def r_into_rtranclp)

lemma run_trans: "store_run ok s s' \<Longrightarrow> store_run ok s' s'' \<Longrightarrow> store_run ok s s''"
  unfolding store_run_def by (rule rtranclp_trans)

interpretation runs: service_relation "store_run any_uuid"
  by (unfold_locales; (erule (1) run_trans | rule run_step, rule store_step.intros | simp add: store_run_def)?)
    (simp_all add: any_uuid_def)

lemma coord_run_store: "coord_run cf st st' \<Longrightarrow> store_run any_uuid (cd_store st) (cd_store st')"
  by (rule runs.coord_run_keeps)

section \<open>Handlers and sessions are schedules\<close>

lemma conn_of_put [simp]: "conn_of i (put_conn i (t, c) st) (cn_session c) = c"
  by (simp add: conn_of_def put_conn_def)

lemma put_conn_put [simp]: "put_conn i x (put_conn i y st) = put_conn i x st"
  by (simp add: put_conn_def split: prod.splits)

lemma coord_run_step: "coord_step cf st st' \<Longrightarrow> coord_run cf st' st'' \<Longrightarrow> coord_run cf st st''"
  unfolding coord_run_def by (rule converse_rtranclp_into_rtranclp)

lemma coord_run_one: "coord_step cf st st' \<Longrightarrow> coord_run cf st st'"
  by (simp add: coord_run_def r_into_rtranclp)

lemma work_run:
  assumes "cd_up st" "cd_threads st i = Some (ss, t)" "t = Answering \<or> (\<exists>n node r. t = Registering n node r)"
    "coord_run cf (put_conn i (resume t (conn_of i st ss)) st) st'"
  shows "coord_run cf st st'"
  by (rule coord_run_step [OF coord_step.work [OF assms(1-3)] assms(4)])

lemma registering_run:
  assumes "cd_up st" "cd_threads st i = Some (ss, Registering n node r)"
  shows "coord_run cf st (put_conn i (settle (finish_register
     ((conn_of i st ss)\<lparr>cn_store := register_loop n node r (cd_store st)\<rparr>))) st)"
  using assms
proof (induction n arbitrary: st r)
  case 0
  then show ?case
    using coord_run_one [OF coord_step.work [OF 0]] by (simp add: conn_of_def)
next
  case (Suc n)
  obtain d r' where d: "run_state read_device_identity r = (d, r')" by fastforce
  let ?c = "(conn_of i st ss)\<lparr>cn_store := snd (registerDevice (di_uuid d) node (cd_store st))\<rparr>"
  let ?st = "put_conn i (Registering n node r', ?c) st"
  have "coord_run cf ?st (put_conn i (settle (finish_register
      ((conn_of i ?st ss)\<lparr>cn_store := register_loop n node r' (cd_store ?st)\<rparr>))) ?st)"
    by (rule Suc.IH) (use Suc.prems in simp_all)
  moreover have "conn_of i ?st ss = ?c" using conn_of_put [of i "Registering n node r'" ?c st] by simp
  ultimately show ?case
    by (intro work_run [OF Suc.prems]) (simp_all add: d)
qed

lemma handler_schedule:
  assumes "cd_up st" "cd_threads st i = Some (ss, Serving)"
  shows "coord_run cf st (put_conn i (settle (handle_frame (cf\<lparr>cf_io := io\<rparr>) f (conn_of i st ss))) st)"
proof -
  let ?c = "conn_of i st ss" and ?cf = "cf\<lparr>cf_io := io\<rparr>"
  note first = coord_step.frame [OF assms, of cf io f]
  consider "pf_type f = MessageType.REGISTER" | "pf_type f = MessageType.SNAPSHOT_REQUEST"
    | "begin_frame ?cf f ?c = settle (handle_frame ?cf f ?c)"
    by (cases "pf_type f") (simp_all add: begin_frame_def)
  then show ?thesis
  proof cases
    case 1
    obtain x c1 where s: "start_register (pf_payload f) ?c = (x, c1)" by fastforce
    show ?thesis
    proof (cases x)
      case None
      then show ?thesis
        using coord_run_one [OF first] 1 s by (simp add: begin_frame_def handle_frame_def handle_register_def settle_def)
    next
      case (Some y)
      obtain n node r where y: "y = (n, node, r)" by (cases y)
      have b: "begin_frame ?cf f ?c = (Registering n node r, c1)"
        using 1 s Some y by (simp add: begin_frame_def)
      from first have "coord_step cf st (put_conn i (Registering n node r, c1) st)" by (simp add: b)
      moreover have "coord_run cf (put_conn i (Registering n node r, c1) st)
          (put_conn i (settle (finish_register (c1\<lparr>cn_store := register_loop n node r (cn_store c1)\<rparr>))) st)"
        using registering_run [of "put_conn i (Registering n node r, c1) st" i "cn_session c1" n node r cf] assms(1) by simp
      ultimately show ?thesis
        using 1 s Some y coord_run_step by (simp add: handle_frame_def handle_register_def)
    qed
  next
    case 2
    obtain x c1 where s: "save_snapshot ?cf ?c = (x, c1)" by fastforce
    show ?thesis
    proof (cases x)
      case None
      then have b: "begin_frame ?cf f ?c = (Answering, c1)" using 2 s by (simp add: begin_frame_def)
      from first have "coord_step cf st (put_conn i (Answering, c1) st)" by (simp add: b)
      moreover have "coord_run cf (put_conn i (Answering, c1) st) (put_conn i (settle (answer_snapshot c1)) st)"
        using coord_run_one [OF coord_step.work, of "put_conn i (Answering, c1) st" i "cn_session c1" Answering cf] assms(1) by simp
      ultimately show ?thesis
        using 2 s None coord_run_step by (simp add: handle_frame_def handle_snapshot_def)
    next
      case (Some e)
      then show ?thesis
        using coord_run_one [OF first] 2 s by (simp add: begin_frame_def handle_frame_def handle_snapshot_def settle_def)
    qed
  next
    case 3
    then show ?thesis using coord_run_one [OF first] by simp
  qed
qed

definition ended :: "nat \<Rightarrow> exn option \<times> Conn \<Rightarrow> CoordState \<Rightarrow> CoordState" where
  "ended i x st = (drop_thread i (put_conn i (Leaving, snd x) st))\<lparr>cd_up := fst x = None\<rparr>"

lemma end_schedule:
  assumes "cd_up st" "cd_threads st i = Some (ss, Leaving)"
  shows "coord_run cf st (ended i (end_session (conn_of i st ss)) st)"
proof (cases "ss_haveWorker ss")
  case False
  then have "ended i (end_session (conn_of i st ss)) st = drop_thread i st"
    using assms by (simp add: ended_def end_session_def Let_def drop_thread_def put_conn_def conn_of_def)
  then show ?thesis
    using coord_run_one [OF coord_step.quit [OF assms False]] by simp
next
  case True
  let ?c = "(conn_of i st ss)\<lparr>cn_store := snd (clock_now (cd_store st))\<rparr>"
  let ?st = "put_conn i (Invalidating, ?c) st"
  obtain r s where inv: "invalidateWorker (ss_worker ss) (ss_boot ss) (snd (clock_now (cd_store st))) = (r, s)" by fastforce
  have "coord_step cf st ?st" using coord_step.leave [OF assms True, of cf] by simp
  moreover have "coord_step cf ?st ((drop_thread i ?st)\<lparr>cd_store := s, cd_up := r = None\<rparr>)"
    by (rule coord_step.invalidate [where ss = ss]) (use assms(1) inv in simp_all)
  moreover have "(drop_thread i ?st)\<lparr>cd_store := s, cd_up := r = None\<rparr> = ended i (end_session (conn_of i st ss)) st"
    using True inv by (simp add: ended_def end_session_def Let_def drop_thread_def put_conn_def)
  ultimately show ?thesis
    using coord_run_step coord_run_one by metis
qed

lemma coord_run_trans: "coord_run cf st st' \<Longrightarrow> coord_run cf st' st'' \<Longrightarrow> coord_run cf st st''"
  unfolding coord_run_def by (rule rtranclp_trans)

lemma ended_put: "ended i x (put_conn i y st) = ended i x st"
  by (simp add: ended_def drop_thread_def put_conn_def split: prod.splits)

lemma session_schedule:
  assumes "cd_up st" "cd_threads st i = Some (ss, Serving)"
  shows "coord_run cf st (ended i (session cf es (conn_of i st ss)) st)"
  using assms
proof (induction cf es "conn_of i st ss" arbitrary: st ss rule: session.induct)
  case (1 cf es)
  let ?c = "conn_of i st ss"
  obtain res es' where res: "recvFrame es = (res, es')" by fastforce
  have leave: "coord_run cf (put_conn i (Leaving, c) st) (ended i (end_session c) st)" for c
    using end_schedule [of "put_conn i (Leaving, c) st" i "cn_session c" cf] 1(2) by (simp add: ended_put)
  show ?case
  proof (cases res)
    case (NotReceived a b)
    then show ?thesis
      using coord_run_step [OF coord_step.hangup [OF 1(2,3)] leave [of ?c]] res by (simp add: session.simps)
  next
    case (Received f)
    obtain r c where h: "handle_frame cf f ?c = (r, c)" by fastforce
    have run: "coord_run cf st (put_conn i (settle (r, c)) st)"
      using handler_schedule [OF 1(2,3), of cf "cf_io cf" f] h by simp
    show ?thesis
    proof (cases r)
      case None
      let ?st = "put_conn i (Serving, c) st"
      have "coord_run cf ?st (ended i (session cf es' (conn_of i ?st (cn_session c))) ?st)"
        by (rule 1(1) [where st = ?st and ss = "cn_session c", OF res [symmetric] Received _ None])
          (use 1(2) h in simp_all)
      then show ?thesis
        using run res Received h None by (subst session.simps) (simp add: settle_def ended_put coord_run_trans)
    next
      case (Some e)
      then show ?thesis
        using run leave [of c] res Received h by (subst session.simps) (simp add: settle_def coord_run_trans)
    qed
  qed
qed

end
