(* ===== verification/Dialogue.thy ===== *)
theory Dialogue
  imports CoordinatorRuns
begin

text \<open>
  What a session does, seen from the messages: \<open>report\<close> is a message a client composes, \<open>apply_report\<close>
  its intended effect, stated without bytes.  The bytes of any sequence of reports, cut into chunks
  in any way, make the coordinator perform exactly these effects in order and then invalidate the
  worker of the session.
\<close>

section \<open>Registrations are read back\<close>

definition received_identity :: "DeviceIdentity \<Rightarrow> DeviceIdentity" where
  "received_identity d = d\<lparr>di_generation := Generation 0,
     di_computeCapabilityMajor := di_computeCapabilityMajor d mod 256,
     di_computeCapabilityMinor := di_computeCapabilityMinor d mod 256\<rparr>"

lemma device_fields_received: "device_fields (received_identity d) = device_fields d"
proof -
  have "(word_of_int (i mod 256) :: u8) = word_of_int i" for i :: int
    using word_of_int_2p_len [where 'a = 8] by (simp add: word_of_int_eq_iff take_bit_eq_mod)
  then show ?thesis by (simp add: device_fields_def received_identity_def)
qed

lemma device_identity_reads: "reads read_device_identity (wr_all (device_fields d)) (received_identity d)"
proof -
  have "reads read_device_identity (wr_all (device_fields d))
    (default_DeviceIdentity\<lparr>di_id := di_id d, di_uuid := di_uuid d, di_name := di_name d,
       di_computeCapabilityMajor := uint (word_of_int (di_computeCapabilityMajor d) :: u8),
       di_computeCapabilityMinor := uint (word_of_int (di_computeCapabilityMinor d) :: u8),
       di_totalMemory := di_totalMemory d, di_freeMemory := di_freeMemory d, di_supported := di_supported d\<rparr>)"
    unfolding read_device_identity_def device_fields_def by (rule reads_intros)+
  then show ?thesis
    by (cases d) (simp add: received_identity_def default_DeviceIdentity_def uint_word_of_int del: wr_all.simps)
qed

lemma wr_all_concat: "wr_all (concat (map g ds)) = wr_all (map (\<lambda>d. wr_all (g d)) ds)"
proof (induction ds)
  case (Cons d ds)
  have "wr_all (xs @ ys) = wr_all [wr_all xs, wr_all ys]" for xs ys
    by (induction xs) (auto split: sum.splits)
  then show ?case using Cons by (auto split: sum.splits)
qed simp

definition register_all :: "NodeId \<Rightarrow> DeviceIdentity list \<Rightarrow> HealthStore \<Rightarrow> HealthStore" where
  "register_all node ds s = foldl (\<lambda>s d. snd (registerDevice (di_uuid d) node s)) s ds"

lemma register_loop_fold:
  "register_loop n node r s = register_all node (fst (run_state (rd_times_plain n read_device_identity) r)) s"
  by (induction n arbitrary: r s)
    (simp_all add: register_all_def run_bind State_Monad.return_def split: prod.splits)

lemma register_received [simp]: "register_all node (map received_identity ds) s = register_all node ds s"
  by (induction ds arbitrary: s) (simp_all add: register_all_def received_identity_def)

lemma devices_read: "reads (rd_times_plain (length ds) read_device_identity)
    (wr_all (concat (map device_fields ds))) (map received_identity ds)"
proof -
  let ?enc = "\<lambda>d. wr_all (device_fields d)"
  have "reads (rd_times_plain (length (map received_identity ds)) read_device_identity)
     (wr_all (map ?enc (map received_identity ds))) (map received_identity ds)"
  proof (rule reads_times_plain)
    fix y assume "y \<in> set (map received_identity ds)"
    then have "received_identity y = y" by (auto simp: received_identity_def)
    then show "reads read_device_identity (?enc y) y" using device_identity_reads [of y] by simp
  qed
  then show ?thesis
    by (simp add: wr_all_concat comp_def device_fields_received)
qed

lemma handle_regBody:
  assumes "regBody hello ds = Inr bs" "length ds \<le> kMaxCount"
  shows "handle_register bs c = finish_register (c\<lparr>
     cn_session := \<lparr>ss_worker = hb_worker hello, ss_boot = hb_boot hello, ss_haveWorker = True\<rparr>,
     cn_store := register_all (hb_node hello) ds (registerWorker (hb_worker hello) (hb_boot hello) (cn_store c))\<rparr>)"
proof -
  obtain b1 b2 b3 where b: "HelloBody_write hello = Inr b1" "wr_u32 (of_nat (length ds)) = Inr b2"
      "wr_all (concat (map device_fields ds)) = Inr b3" "bs = b1 @ b2 @ b3"
    using assms(1) unfolding regBody_def wr_all_Inr by blast
  note at = reads_def [THEN iffD1, rule_format]
  have 1: "run_state HelloBody_read (mk_reader bs) = (Some hello, \<lparr>rd_data = bs, rd_pos = length b1, rd_fail = False\<rparr>)"
    using hello_codec.decode_encode [of hello b1 "b2 @ b3"] b by simp
  have 2: "run_state rd_u32 \<lparr>rd_data = bs, rd_pos = length b1, rd_fail = False\<rparr> =
      (of_nat (length ds), \<lparr>rd_data = bs, rd_pos = length b1 + length b2, rd_fail = False\<rparr>)"
    using at [OF reads_u32 b(2), of b1 b3] b(4) by simp
  have 3: "fst (run_state (rd_times_plain (length ds) read_device_identity)
      \<lparr>rd_data = bs, rd_pos = length b1 + length b2, rd_fail = False\<rparr>) = map received_identity ds"
    using at [OF devices_read b(3), of "b1 @ b2" "[]"] b(4) by simp
  show ?thesis
    using assms(2) unat_count [of "length ds"]
    by (simp add: handle_register_def start_register_def 1 2 register_loop_fold 3)
qed

section \<open>Reports and their effects\<close>

datatype report =
    Register HelloBody "DeviceIdentity list"
  | Observe AuthorityEnvelope AcceleratorObservation
  | Validate AuthorityEnvelope ValidationRecord
  | ReportFault AuthorityEnvelope Fault

fun report_type :: "report \<Rightarrow> MessageType" where
  "report_type (Register hello ds) = MessageType.REGISTER"
| "report_type (Observe env obs) = MessageType.OBSERVATION"
| "report_type (Validate env v) = MessageType.VALIDATION_RESULT"
| "report_type (ReportFault env f) = MessageType.FAULT_REPORT"

fun report_body :: "report \<Rightarrow> wr" where
  "report_body (Register hello ds) = regBody hello ds"
| "report_body (Observe env obs) = obsBody (env, obs)"
| "report_body (Validate env v) = valBody (env, v)"
| "report_body (ReportFault env f) = faultBody (env, f)"

text \<open>The counts a reader accepts.\<close>

fun readable :: "report \<Rightarrow> bool" where
  "readable (Register hello ds) \<longleftrightarrow> length ds \<le> kMaxCount"
| "readable (Observe env obs) \<longleftrightarrow> length (obs_dimensions obs) \<le> kMaxCount"
| "readable _ \<longleftrightarrow> True"

definition report_frame :: "report \<Rightarrow> bytes \<Rightarrow> Frame" where
  "report_frame m bs = default_Frame\<lparr>pf_type := report_type m, pf_payload := bs\<rparr>"

text \<open>The call on the store, and the acknowledgement of its outcome.\<close>

definition acknowledge :: "MessageType \<Rightarrow> (exn + string) \<times> HealthStore \<Rightarrow> (string \<Rightarrow> bool) \<Rightarrow> Conn \<Rightarrow> exn option \<times> Conn" where
  "acknowledge t x flag c = (case x of
     (Inl e, s) \<Rightarrow> (Some e, c\<lparr>cn_store := s\<rparr>)
   | (Inr msg, s) \<Rightarrow> reply MessageType.ACK (ackBody (t, flag msg, msg)) (c\<lparr>cn_store := s\<rparr>))"

definition outcome :: "string \<Rightarrow> exn option \<times> HealthStore \<Rightarrow> (exn + string) \<times> HealthStore" where
  "outcome msg x = (case x of (None, s) \<Rightarrow> (Inr msg, s) | (Some e, s) \<Rightarrow> (Inl e, s))"

fun apply_report :: "report \<Rightarrow> Conn \<Rightarrow> exn option \<times> Conn" where
  "apply_report (Register hello ds) c =
     (let c1 = c\<lparr>cn_session := \<lparr>ss_worker = hb_worker hello, ss_boot = hb_boot hello, ss_haveWorker = True\<rparr>\<rparr>;
          s = register_all (hb_node hello) ds (registerWorker (hb_worker hello) (hb_boot hello) (cn_store c))
      in acknowledge MessageType.REGISTER (outcome ''registered'' (reassessAll s)) (\<lambda>_. True) c1)"
| "apply_report (Observe env obs) c =
     acknowledge MessageType.OBSERVATION (acceptObservation obs env (cn_store c)) (\<lambda>msg. msg = ''accepted'') c"
| "apply_report (Validate env v) c =
     acknowledge MessageType.VALIDATION_RESULT (outcome ''recorded'' (recordValidation v (cn_store c))) (\<lambda>_. True) c"
| "apply_report (ReportFault env f) c =
     acknowledge MessageType.FAULT_REPORT (outcome ''recorded'' (recordFault f (cn_store c))) (\<lambda>_. True) c"

fun apply_reports :: "report list \<Rightarrow> Conn \<Rightarrow> Conn" where
  "apply_reports [] c = c"
| "apply_reports (m # ms) c = (case apply_report m c of (None, c') \<Rightarrow> apply_reports ms c' | (Some e, c') \<Rightarrow> c')"

lemma read_whole:
  assumes "reads m w (Some x)" "w = Inr bs"
  shows "fst (run_state m (mk_reader bs)) = Some x"
  using assms(1) [unfolded reads_def, rule_format, OF assms(2), of "[]" "[]"] by (simp add: mk_reader_def)

lemma handle_report:
  assumes "report_body m = Inr bs" "readable m"
  shows "handle_frame cf (report_frame m bs) c = apply_report m c"
proof (cases m)
  case (Register hello ds)
  then show ?thesis
    using handle_regBody [of hello ds bs c] assms
    by (simp add: handle_frame_def report_frame_def finish_register_def acknowledge_def outcome_def
        split: prod.splits option.splits)
next
  case (Observe env obs)
  then have "fst (run_state readObsBody (mk_reader bs)) = Some (env, obs)"
    using assms read_whole [OF obsBody_reads] by simp
  then show ?thesis
    using Observe by (auto simp: handle_frame_def report_frame_def handle_observation_def acknowledge_def
        split: prod.splits sum.splits)
next
  case (Validate env v)
  then have "fst (run_state readValBody (mk_reader bs)) = Some (env, v)"
    using assms read_whole [OF valBody_reads] by simp
  then show ?thesis
    using Validate by (auto simp: handle_frame_def report_frame_def handle_validation_def acknowledge_def outcome_def
        split: prod.splits option.splits)
next
  case (ReportFault env f)
  then have "fst (run_state readFaultBody (mk_reader bs)) = Some (env, f)"
    using assms read_whole [OF faultBody_reads] by simp
  then show ?thesis
    using ReportFault by (auto simp: handle_frame_def report_frame_def handle_fault_def acknowledge_def outcome_def
        split: prod.splits option.splits)
qed

section \<open>From bytes to effects\<close>

text \<open>The bytes a client sends for a report.\<close>

definition sent_as :: "report \<Rightarrow> bytes \<Rightarrow> bool" where
  "sent_as m bs \<longleftrightarrow> readable m \<and> (\<exists>body ns ns'. report_body m = Inr body \<and>
     sendFrame (report_frame m body) ns = Inr (None, bs, ns'))"

lemma sent_as_frame:
  assumes "sent_as m bs"
  obtains body where "report_body m = Inr body" "bs = wire_frame (report_frame m body)"
    "length body \<le> kMaxFramePayload" "readable m" "delivered (report_frame m body) = report_frame m body"
  using assms by (auto simp: sent_as_def report_frame_def delivered_def default_Frame_def dest!: sendFrame_sent)

text \<open>C11. A session, from bytes to effects: for any reports a client sends (registrations, observations,
  validation results, faults) and however the network cuts their bytes into chunks, the coordinator
  performs exactly the calls on the store these reports stand for, in order, acknowledges each with
  its outcome, stops at the first one that throws, and then ends the session by invalidating the
  worker that registered on it.\<close>

theorem session_effects:
  assumes "list_all2 sent_as ms parts" "stream es = concat parts" "chunked es" "Failed \<notin> set es"
  shows "session cf es c = end_session (apply_reports ms c)"
  using assms
proof (induction ms parts arbitrary: es c rule: list_all2_induct)
  case Nil
  then have "fst (recvFrame es) = NotReceived True None" by (simp add: recvFrame_end)
  then show ?case by (subst session.simps) (auto split: prod.splits)
next
  case (Cons m ms bs parts)
  obtain body where m: "report_body m = Inr body" "bs = wire_frame (report_frame m body)"
    "length body \<le> kMaxFramePayload" "readable m" "delivered (report_frame m body) = report_frame m body"
    using sent_as_frame [OF Cons(1)] by blast
  have len: "length (pf_payload (report_frame m body)) \<le> kMaxFramePayload" using m(3) by (simp add: report_frame_def)
  have str: "stream es = wire_frame (report_frame m body) @ concat parts" using Cons.prems(1) m(2) by simp
  obtain es' where es': "recvFrame es = (Received (report_frame m body), es')" "stream es' = concat parts"
      "chunked es'" "Failed \<notin> set es'"
    using recvFrame_stream [OF Cons.prems(2) str len Cons.prems(3)] m(5) by auto
  show ?case
    by (subst session.simps)
      (auto simp: es'(1) handle_report [OF m(1,4)] Cons.IH [OF es'(2-4)] split: prod.splits option.splits)
qed

definition demo_config :: Config where
  "demo_config = \<lparr>cf_stateFile = ''state.bin'', cf_load = True, cf_saveOnSnapshot = True,
     cf_io = \<lparr>io_open = False, io_short = None, io_rename = False, io_remove = False\<rparr>\<rparr>"

definition demo_conn :: "HealthStore \<Rightarrow> Conn" where
  "demo_conn s = \<lparr>cn_store = s, cn_files = Map.empty,
     cn_session = \<lparr>ss_worker = StrongId 3, ss_boot = StrongId 4, ss_haveWorker = True\<rparr>, cn_sent = []\<rparr>"

lemma sent_as_exists:
  assumes "fits (report_body m) n" "readable m" "n \<le> kMaxFramePayload" "0 < n"
  shows "\<exists>bs. sent_as m bs \<and> 14 < length bs"
proof -
  obtain body where body: "report_body m = Inr body" "length body \<le> kMaxFramePayload"
    using assms(1,3) by (auto simp: fits_def)
  let ?w = "wire_frame (report_frame m body)"
  have len: "length ?w = kHeaderSize + length body + kCrcSize"
    by (simp add: wire_frame_def seal_def length_frame_bytes kCrcSize_def report_frame_def)
  then have ne: "?w \<noteq> []" "14 < length ?w" by (auto simp: kHeaderSize_def kCrcSize_def)
  have "send_all ?w [int (length ?w)] = (True, ?w, [])"
    using ne by (cases ?w) (simp_all add: Let_def nat_add_distrib)
  moreover have "encodeFrame (pf_type (report_frame m body)) (pf_payload (report_frame m body)) = Inr ?w"
    using body(2) by (simp add: encodeFrame_eq wire_frame_def report_frame_def)
  ultimately have "sendFrame (report_frame m body) [int (length ?w)] = Inr (None, ?w, [])"
    by (simp add: sendFrame_def)
  then show ?thesis
    using body(1) assms(2) ne by (auto simp: sent_as_def)
qed

lemma fits_envelope: "fits (AuthorityEnvelope_write env) 56"
  unfolding AuthorityEnvelope_write_def by (rule fits_mono, (rule fits_intros)+) simp

lemma demo_report: "\<exists>bs. sent_as (Observe demo_env demo_obs) bs \<and> 14 < length bs"
proof (rule sent_as_exists)
  have "fits (AcceleratorObservation_write demo_obs) 64"
    unfolding AcceleratorObservation_write_def demo_obs_def AcceleratorObservation.simps
    by (rule fits_mono, (rule fits_vec fits_intros | simp only: list.map)+)
  then have "fits (report_body (Observe demo_env demo_obs)) (56 + (64 + 0))"
    unfolding report_body.simps obsBody_def fst_conv snd_conv by (intro fits_Cons fits_Nil fits_envelope)
  then show "fits (report_body (Observe demo_env demo_obs)) 120" by simp
qed (simp_all add: demo_obs_def kMaxFramePayload_def)

theorem session_effects_witness:
  "\<exists>bs. sent_as (Observe demo_env demo_obs) bs \<and>
     session demo_config [Chunk (take 7 bs), Chunk (drop 7 bs), Closed] (demo_conn demo1) =
       end_session (apply_reports [Observe demo_env demo_obs] (demo_conn demo1))"
proof -
  obtain bs where bs: "sent_as (Observe demo_env demo_obs) bs" "14 < length bs" using demo_report by blast
  let ?es = "[Chunk (take 7 bs), Chunk (drop 7 bs), Closed]"
  have "list_all2 sent_as [Observe demo_env demo_obs] [bs]" using bs(1) by simp
  moreover have "stream ?es = concat [bs]" by simp
  moreover have "chunked ?es" using bs(2) by auto
  ultimately show ?thesis
    using session_effects [of "[Observe demo_env demo_obs]" "[bs]" ?es demo_config "demo_conn demo1"] bs(1) by auto
qed

end
