(* ===== verification/Service.thy ===== *)
theory Service
  imports Dialogue
begin

text \<open>
  The properties of the running coordinator: it refines the store, a session is one of its schedules,
  the end of a session fences its worker, and which messages are not fenced.
\<close>

section \<open>Refinement\<close>

text \<open>The state file at the start of a coordinator: absent, refused by the checks on its frame, or the
  snapshot of an earlier store of the service.\<close>

definition proper_file :: "bytes option \<Rightarrow> bool" where
  "proper_file file \<longleftrightarrow> file = None \<or> (\<exists>bs. file = Some bs \<and> check_envelope bs \<noteq> None) \<or>
     (\<exists>s bs. file = Some bs \<and> lifetime s \<and> snapshot_of s bs)"

definition coord_start :: "HealthStore \<Rightarrow> files \<Rightarrow> CoordState" where
  "coord_start s fs = \<lparr>cd_store = s, cd_files = fs, cd_threads = (\<lambda>_. None), cd_sent = (\<lambda>_. []), cd_up = True\<rparr>"

lemma load_refused: "check_envelope bs \<noteq> None \<Longrightarrow> \<exists>msg. load_bytes bs out = (Some (Refused msg), out)"
  by (auto simp: load_bytes_def decodeStateInternal_def)

lemma start_lifetime:
  assumes "start_store cf clock epoch fs = (r, s0)" "cf_load cf \<longrightarrow> proper_file (fs (cf_stateFile cf))"
  shows "lifetime s0"
proof (cases "cf_load cf \<and> cf_stateFile cf \<noteq> []")
  case True
  let ?s = "HealthStore_new clock coordinator_policy epoch"
  obtain x s1 where x: "loadInternal (cf_stateFile cf) ?s fs = (x, s1)" by fastforce
  have s0: "s0 = s1"
    using assms(1) True x
    by (auto simp: start_store_def Let_def loadFromFile_def split: option.splits dec_exit.splits)
  have "lifetime s1"
  proof (cases "fs (cf_stateFile cf)")
    case None
    then show ?thesis using x by (auto simp: loadInternal_def lifetime.start)
  next
    case (Some bs)
    then have load: "load_bytes bs ?s = (x, s1)" using x by (simp add: loadInternal_def)
    show ?thesis
    proof (cases "check_envelope bs = None")
      case True
      then obtain s where "lifetime s" "snapshot_of s bs"
        using assms(2) \<open>cf_load cf \<and> _\<close> Some by (auto simp: proper_file_def)
      then show ?thesis using load by (rule lifetime.restart)
    next
      case False
      then show ?thesis using load load_refused [of bs ?s] by (auto intro: lifetime.start)
    qed
  qed
  then show ?thesis using s0 by simp
next
  case False
  then show ?thesis using assms(1) by (auto simp: start_store_def Let_def lifetime.start)
qed

lemma lifetime_run: "store_run any_uuid s s' \<Longrightarrow> lifetime s \<Longrightarrow> lifetime s'"
  unfolding store_run_def by (induction rule: rtranclp_induct) (auto intro: lifetime.call)



section \<open>Sessions as schedules\<close>



section \<open>The end of a session\<close>

lemma clock_inv: "store_inv s \<Longrightarrow> store_inv (snd (clock_now s))"
  using store_inv_run [OF run_step [OF store_step.clock]] by blast

text \<open>C26. Disconnection.  When a session ends whose worker is still registered under the session's boot, every device
  last observed by it loses its evidence and is not ready for execution, and nothing that worker
  reports is admitted until it registers again.  If another session has registered the worker under a
  newer boot in the meantime, the end of the old session changes no more than the clock.\<close>

theorem disconnect_fences:
  assumes "lifetime (cn_store c)" "ss_haveWorker (cn_session c)" "end_session c = (None, c')"
    and "w = ss_worker (cn_session c)" "b = ss_boot (cn_session c)"
  shows "if isWorkerCurrent w b (cn_store c) then
      (\<forall>k d. findLocked k (cn_store c) = Some d \<and> dv_lastWorker d = w \<and> dv_lastWorkerBootId d = b \<longrightarrow>
         (\<exists>d'. findLocked k (cn_store c') = Some d' \<and> dv_lastObservation d' = Timestamp 0 \<and>
            dv_readiness d' \<notin> ready_states \<and> \<not> a_executionReady (assessmentOf k (cn_store c')))) \<and>
      (\<forall>obs env. env_workerId env = w \<longrightarrow> \<not> admissible obs env (cn_store c'))
    else cn_store c' = snd (clock_now (cn_store c))"
proof -
  let ?s = "snd (clock_now (cn_store c))"
  have inv: "invalidateWorker w b ?s = (None, cn_store c')"
    using assms(2-5) by (auto simp: end_session_def Let_def split: prod.splits)
  have same: "isWorkerCurrent w b ?s = isWorkerCurrent w b (cn_store c)" "findLocked k ?s = findLocked k (cn_store c)" for k
    by (simp_all add: clock_now_eq isWorkerCurrent_def findLocked_def)
  show ?thesis
  proof (cases "isWorkerCurrent w b (cn_store c)")
    case True
    then have cur: "isWorkerCurrent w b ?s" by (simp add: same)
    note effect = invalidateWorker_effect [OF clock_inv [OF lifetime_inv [OF assms(1)]] cur inv, unfolded same]
    show ?thesis
      using True effect invalidated_inadmissible [OF cur inv] by auto
  next
    case False
    then have "invalidateWorker w b ?s = (None, ?s)"
      by (simp add: invalidateWorker_def isWorkerCurrent_def clock_now_eq)
    then show ?thesis using False inv by simp
  qed
qed

theorem disconnect_fences_witness:
  "\<exists>d'. findLocked (StrongId 7) (cn_store (snd (end_session (demo_conn demo2)))) = Some d' \<and> dv_readiness d' \<notin> ready_states"
proof -
  let ?s = "snd (clock_now demo2)"
  obtain d where d: "findLocked (StrongId 7) demo2 = Some d" using demo2_device by blast
  have life: "lifetime demo2" by (rule reachable_lifetime, rule reachable_any, rule demo_reachable)
  have "fst (invalidateWorker (StrongId 3) (StrongId 4) ?s) = None"
  proof (rule invalidateWorker_returns [OF clock_inv [OF lifetime_inv [OF life]]])
    show "\<not> gen_max (dv_healthGeneration x)" if "findLocked k ?s = Some x" for k x
      using that demo2_worker(3) [of k x] demo_observed [of x] by (auto simp: clock_now_eq findLocked_def gen_max_def)
  qed
  then have "end_session (demo_conn demo2) = (None, snd (end_session (demo_conn demo2)))"
    by (auto simp: end_session_def demo_conn_def Let_def split: prod.splits)
  note fences = disconnect_fences [OF _ _ this refl refl]
  have "lifetime (cn_store (demo_conn demo2))" "ss_haveWorker (cn_session (demo_conn demo2))"
    using life by (simp_all add: demo_conn_def)
  note fences = fences [OF this]
  have "isWorkerCurrent (ss_worker (cn_session (demo_conn demo2))) (ss_boot (cn_session (demo_conn demo2))) (cn_store (demo_conn demo2))"
    using demo2_worker(2) by (simp add: demo_conn_def)
  note fences = fences [unfolded if_P [OF this], THEN conjunct1, rule_format, of "StrongId 7" d]
  show ?thesis
    using fences d demo2_worker(1) [OF d] by (simp add: demo_conn_def) blast
qed

section \<open>Messages that are not fenced\<close>

text \<open>C38. Only observations are fenced.  The coordinator handles a validation result and a fault report
  alike whatever authority envelope precedes it: a report of an old epoch, of a worker boot that was
  never registered or has been invalidated, or of an older device generation has the effect of an
  authorised one, and is acknowledged with "recorded".\<close>

theorem envelope_ignored:
  assumes "report_body (Validate env v) = Inr bs" "report_body (Validate env' v) = Inr bs'"
    and "report_body (ReportFault env f) = Inr fs" "report_body (ReportFault env' f) = Inr fs'"
  shows "handle_frame cf (report_frame (Validate env v) bs) c = handle_frame cf (report_frame (Validate env' v) bs') c \<and>
     cn_store (snd (handle_frame cf (report_frame (Validate env v) bs) c)) = snd (recordValidation v (cn_store c)) \<and>
     handle_frame cf (report_frame (ReportFault env f) fs) c = handle_frame cf (report_frame (ReportFault env' f) fs') c \<and>
     cn_store (snd (handle_frame cf (report_frame (ReportFault env f) fs) c)) = snd (recordFault f (cn_store c))"
proof -
  have "cn_store (snd (acknowledge t (outcome msg x) flag c)) = snd x" for t msg x flag
    by (auto simp: acknowledge_def outcome_def split: prod.splits option.splits)
  then show ?thesis
    using assms by (simp add: handle_report del: report_body.simps)
qed

definition foreign_env :: AuthorityEnvelope where
  "foreign_env = demo_env\<lparr>env_coordinatorEpoch := 0, env_workerId := StrongId 99\<rparr>"

lemma fits_demo_fault: "fits (report_body (ReportFault env demo_fault)) 400"
proof -
  have nil: "fits (wr_string []) 4"
    using fits_string [of "[]"] by (simp add: kMaxString_def)
  have enum: "fits (write_enum code x) 1" for code :: "'x \<Rightarrow> int" and x
    unfolding write_enum_def by (rule fits_prim)
  have "fits (Fault_write demo_fault) 300"
    unfolding Fault_write_def demo_fault_def Fault.simps FaultType_write_def FaultClass_write_def Severity_write_def
      ResolutionState_write_def
    by (rule fits_mono, (rule nil enum fits_intros)+) simp
  then have "fits (report_body (ReportFault env demo_fault)) (56 + (300 + 0))"
    unfolding report_body.simps faultBody_def fst_conv snd_conv by (intro fits_Cons fits_Nil fits_envelope)
  then show ?thesis by (rule fits_mono) simp
qed

lemma fits_demo_validation: "fits (report_body (Validate env demo_validation)) 200"
proof -
  have "fits (report_body (Validate env demo_validation)) (56 + (80 + 0))"
    unfolding report_body.simps valBody_def fst_conv snd_conv
    by (intro fits_Cons fits_Nil fits_envelope fits_validation) (simp add: demo_validation_def)
  then show ?thesis by (rule fits_mono) simp
qed

theorem envelope_ignored_witness:
  "\<exists>fs. report_body (ReportFault foreign_env demo_fault) = Inr fs \<and>
     cn_store (snd (handle_frame demo_config (report_frame (ReportFault foreign_env demo_fault) fs) (demo_conn demo1))) = demo3 \<and>
     (\<forall>obs. \<not> admissible obs foreign_env demo1)"
proof -
  obtain vs vs' fs fs' where "report_body (Validate foreign_env demo_validation) = Inr vs"
      "report_body (Validate demo_env demo_validation) = Inr vs'"
      "report_body (ReportFault foreign_env demo_fault) = Inr fs" "report_body (ReportFault demo_env demo_fault) = Inr fs'"
    using fits_demo_fault fits_demo_validation unfolding fits_def by meson
  moreover have "\<not> admissible obs foreign_env demo1" for obs
    by (simp add: admissible_def foreign_env_def demo1_store)
  ultimately show ?thesis
    using envelope_ignored [of foreign_env demo_validation vs demo_env vs' demo_fault fs fs' demo_config "demo_conn demo1"]
    by (auto simp: demo3_def demo_conn_def)
qed

section \<open>Truncated registrations\<close>

text \<open>A reader at the end of its input yields zeros, and stays there.\<close>

definition exhausted :: "Reader \<Rightarrow> bool" where
  "exhausted r \<longleftrightarrow> remaining r = 0"

lemma exhausted_string: "exhausted r \<Longrightarrow> exhausted (snd (run_state rd_string r))"
  by (simp add: rd_string_def rd_u32_def rd_take_def run_bind exhausted_def remaining_def set_fail_def advance_def
      State_Monad.return_def)

lemma exhausted_device:
  assumes "exhausted r" "run_state read_device_identity r = (d, r')"
  shows "di_uuid d = StrongId 0 \<and> exhausted r'"
proof -
  have p: "exhausted x \<Longrightarrow> run_state rd_u64 x = (0, set_fail x)" "exhausted x \<Longrightarrow> run_state rd_u8 x = (0, set_fail x)" for x
    by (simp_all add: rd_u64_def rd_u8_def exhausted_def)
  have f: "exhausted x \<Longrightarrow> exhausted (set_fail x)" for x
    by (simp add: exhausted_def remaining_def set_fail_def)
  obtain s q where q: "run_state rd_string (set_fail (set_fail r)) = (s, q)" by fastforce
  have ex: "exhausted q" using exhausted_string [of "set_fail (set_fail r)"] q f assms(1) by simp
  show ?thesis
    using assms(2) by (simp add: read_device_identity_def StrongId_read_def rd_bool_def run_bind State_Monad.return_def p f q ex assms(1))
      (auto simp: f ex)
qed

lemma register_loop_exhausted:
  assumes "exhausted r" "0 < n"
  shows "register_loop n node r s = snd (registerDevice (StrongId 0) node s)"
  using assms
proof (induction n arbitrary: r s)
  case (Suc n)
  obtain d r' where d: "run_state read_device_identity r = (d, r')" by fastforce
  note dev = exhausted_device [OF Suc.prems(1) d]
  let ?s = "snd (registerDevice (StrongId 0) node s)"
  have known: "smap_find (StrongId 0) (hs_uuidIndex t) \<noteq> None \<Longrightarrow> snd (registerDevice (StrongId 0) node t) = t" for t
    by (auto simp: registerDevice_def)
  have "smap_find (StrongId 0) (hs_uuidIndex ?s) \<noteq> None"
    using registerDevice_new(6) [of "StrongId 0" s node] known [of s]
    by (cases "smap_find (StrongId 0) (hs_uuidIndex s)") (simp_all add: smap_find_put)
  then have "snd (registerDevice (StrongId 0) node ?s) = ?s" by (rule known)
  moreover have "register_loop (Suc n) node r s = register_loop n node r' ?s" using d dev by simp
  ultimately show ?case using Suc.IH [of r' ?s] dev by (cases n) auto
qed simp

lemma for_devices_pred:
  assumes txn: "\<And>k c. txn_step k c (snd (body c))" and P: "\<And>d t. P d \<Longrightarrow> P (fst (snd (body (d, t))))"
    and "findLocked k s = Some d" "P d"
  shows "\<exists>d'. findLocked k (snd (for_devices ks body s)) = Some d' \<and> P d'"
  using assms(3,4)
proof (induction ks arbitrary: s d)
  case (Cons j ks)
  show ?case
  proof (cases "findLocked j s")
    case None
    then show ?thesis using Cons by (simp add: on_device_def)
  next
    case (Some d0)
    obtain r c where c: "body (d0, s) = (r, c)" by (cases "body (d0, s)")
    have "txn_step j (d0, s) c" using txn [of j "(d0, s)"] c by simp
    then obtain d1 where "findLocked k (put_device j c) = Some d1" "P d1"
      using Some Cons.prems P [of d0 s] c by (cases "k = j") (auto simp: txn_devices(1))
    then show ?thesis
      using Some c Cons.IH by (cases r) (auto simp: on_device_def)
  qed
qed simp

lemma reassess_uuid: "dv_uuid (fst (snd (reassessLocked (d, s)))) = dv_uuid d"
  by (auto simp: reassess_eq reassess_finish_def Let_def moved_def split: sum.splits)

lemma reassess_store: "hs_nextDeviceRaw (snd (snd (reassessLocked (d, s)))) = hs_nextDeviceRaw s"
  "hs_uuidIndex (snd (snd (reassessLocked (d, s)))) = hs_uuidIndex s"
  by (auto simp: reassess_eq reassess_finish_def Let_def moved_def tick_def split: sum.splits)


lemma registerDevice_next: "id_get uuid \<noteq> 0 \<Longrightarrow> hs_nextDeviceRaw (snd (registerDevice uuid node s)) = hs_nextDeviceRaw s"
  by (simp add: registerDevice_def clock_now_eq tick_def updateIndexesLocked_def Let_def split: option.split)


end
