(* ===== verification/Dialogues.thy ===== *)
theory Dialogues
  imports Worker Service
begin

text \<open>
  Worker and coordinator together: the bytes the worker sends are the reports it stands for, so that
  \<open>session_effects\<close> tells what the coordinator does with them, and the worker, given the coordinator's
  answers in any chunks, prints the verdict of the store.
\<close>

section \<open>The worker's side of an exchange\<close>

text \<open>The frames the socket will deliver; and enough calls of \<open>send\<close>, each accepting at least one byte, for
  \<open>n\<close> bytes.\<close>

definition delivers :: "Client \<Rightarrow> Frame list \<Rightarrow> bool" where
  "delivers k fs \<longleftrightarrow> chunked (ck_in k) \<and> Failed \<notin> set (ck_in k) \<and> stream (ck_in k) = concat (map wire_frame fs) \<and>
     (\<forall>f \<in> set fs. length (pf_payload f) \<le> kMaxFramePayload)"

definition writable :: "Client \<Rightarrow> nat \<Rightarrow> bool" where
  "writable k n \<longleftrightarrow> (\<forall>x \<in> set (ck_sends k). 1 \<le> x) \<and> n \<le> length (ck_sends k)"

definition kMaxFrame :: nat where
  "kMaxFrame = kHeaderSize + kMaxFramePayload + kCrcSize"

lemma send_all_complete:
  assumes "\<forall>x \<in> set ns. 1 \<le> x" "length data \<le> length ns"
  shows "\<exists>ns'. send_all data ns = (True, data, ns') \<and> (\<forall>x \<in> set ns'. 1 \<le> x) \<and> length ns \<le> length ns' + length data"
  using assms
proof (induction data ns rule: send_all.induct)
  case (3 b data n ns)
  let ?k = "min (nat n) (length (b # data))"
  have k: "1 \<le> ?k" "?k \<le> length (b # data)" using 3(2) by auto
  have n: "\<not> n \<le> 0" "\<forall>x \<in> set ns. 1 \<le> x" using 3(2) by auto
  have "length (drop ?k (b # data)) \<le> length ns" using k 3(3) by simp
  then obtain ns' where "send_all (drop ?k (b # data)) ns = (True, drop ?k (b # data), ns')" "\<forall>x \<in> set ns'. 1 \<le> x"
      "length ns \<le> length ns' + length (drop ?k (b # data))"
    using 3(1) [OF n(1) refl n(2)] by blast
  then show ?case
    using k n(1) by (auto simp: Let_def append_take_drop_id simp del: drop_Suc_Cons take_Suc_Cons)
qed auto

lemma length_wire_frame: "length (wire_frame f) = kHeaderSize + length (pf_payload f) + kCrcSize"
  by (simp add: wire_frame_def seal_def length_frame_bytes kCrcSize_def)

lemma net_send_complete:
  assumes "writable k (n + kMaxFrame)" "length (pf_payload f) \<le> kMaxFramePayload"
  shows "\<exists>k'. net_send f k = Inr (None, k') \<and> writable k' n \<and> ck_in k' = ck_in k \<and> ck_out k' = ck_out k @ wire_frame f"
proof -
  have len: "length (wire_frame f) \<le> kMaxFrame" using assms(2) by (simp add: length_wire_frame kMaxFrame_def)
  obtain ns' where "send_all (wire_frame f) (ck_sends k) = (True, wire_frame f, ns')" "\<forall>x \<in> set ns'. 1 \<le> x"
      "length (ck_sends k) \<le> length ns' + length (wire_frame f)"
    using send_all_complete [of "ck_sends k" "wire_frame f"] assms(1) len by (auto simp: writable_def)
  moreover have "encodeFrame (pf_type f) (pf_payload f) = Inr (wire_frame f)"
    using assms(2) by (simp add: encodeFrame_eq wire_frame_def)
  ultimately show ?thesis
    using assms(1) len by (simp add: net_send_def sendFrame_def writable_def)
qed

lemma net_recv_next:
  assumes "delivers k (f # fs)" "pf_version f = kProtocolVersion"
  shows "\<exists>k'. net_recv k = (Received f, k') \<and> delivers k' fs \<and> ck_sends k' = ck_sends k \<and> ck_out k' = ck_out k"
proof -
  have "delivered f = f" using assms(2) by (cases f) (simp add: delivered_def)
  moreover have "stream (ck_in k) = wire_frame f @ concat (map wire_frame fs)" "length (pf_payload f) \<le> kMaxFramePayload"
    using assms(1) by (auto simp: delivers_def)
  ultimately obtain es' where "recvFrame (ck_in k) = (Received f, es')" "stream es' = concat (map wire_frame fs)"
      "chunked es'" "Failed \<notin> set es'"
    using recvFrame_stream [of "ck_in k" f "concat (map wire_frame fs)"] assms(1) by (auto simp: delivers_def)
  then show ?thesis
    using assms(1) by (simp add: net_recv_def delivers_def)
qed

lemma exchange:
  assumes "delivers k (f # fs)" "pf_version f = kProtocolVersion" "writable k (n + kMaxFrame)" "length body \<le> kMaxFramePayload"
    "expect_answer f msg = (ok, m)"
  shows "\<exists>k'. sendAndExpect t body resp msg k = Inr ((ok, Some (pf_type f), m), k') \<and> delivers k' fs \<and> writable k' n \<and>
     ck_out k' = ck_out k @ wire_frame (default_Frame\<lparr>pf_type := t, pf_payload := body\<rparr>)"
proof -
  let ?f = "default_Frame\<lparr>pf_type := t, pf_payload := body\<rparr>"
  obtain k1 where k1: "net_send ?f k = Inr (None, k1)" "writable k1 n" "ck_in k1 = ck_in k" "ck_out k1 = ck_out k @ wire_frame ?f"
    using net_send_complete [OF assms(3), of ?f] assms(4) by auto
  have "delivers k1 (f # fs)" using assms(1) k1(3) by (simp add: delivers_def)
  then obtain k2 where "net_recv k1 = (Received f, k2)" "delivers k2 fs" "ck_sends k2 = ck_sends k1" "ck_out k2 = ck_out k1"
    using net_recv_next [of k1 f fs] assms(2) by blast
  then show ?thesis
    using k1 assms(5) by (simp add: sendAndExpect_def writable_def)
qed

section \<open>The coordinator's answers\<close>

definition ack_frame :: "bytes \<Rightarrow> Frame" where
  "ack_frame bs = default_Frame\<lparr>pf_type := MessageType.ACK, pf_payload := bs\<rparr>"

lemma acknowledged:
  assumes "acknowledge t x flag c = (None, c')"
  shows "\<exists>msg s bs. x = (Inr msg, s) \<and> ackBody (t, flag msg, msg) = Inr bs \<and> length bs \<le> kMaxFramePayload \<and>
     cn_store c' = s \<and> cn_sent c' = cn_sent c @ [ack_frame bs]"
  using assms
  by (auto simp: acknowledge_def reply_def encodeFrame_eq ack_frame_def split: prod.splits sum.splits)

lemma ack_expected: "ackBody (t, ok, m) = Inr bs \<Longrightarrow> expect_answer (ack_frame bs) msg = (ok, m)"
  using read_whole [OF ackBody_reads] by (simp add: expect_answer_def ack_frame_def)

lemma ack_frame_simps [simp]: "pf_version (ack_frame bs) = kProtocolVersion" "pf_type (ack_frame bs) = MessageType.ACK"
  by (simp_all add: ack_frame_def default_Frame_def)

section \<open>The worker's reports\<close>

definition register_report :: "Options \<Rightarrow> report" where
  "register_report a = Register (worker_hello a) [worker_device a]"

definition observation_report :: "Options \<Rightarrow> Timestamp \<Rightarrow> report" where
  "observation_report a now = Observe (worker_envelope a) (worker_observation a now)"

definition validation_report :: "Options \<Rightarrow> Timestamp \<Rightarrow> report" where
  "validation_report a now = Validate (worker_envelope a) (worker_validation a now)"

lemma fits_register: "fits (report_body (register_report a)) 300"
proof -
  have name: "fits (wr_string (di_name (worker_device a))) 30"
    by (rule fits_mono [OF fits_string]) (simp_all add: worker_device_def kMaxString_def)
  show ?thesis
    unfolding register_report_def report_body.simps regBody_def HelloBody_write_def device_fields_def
      list.map concat.simps append.simps
    by (rule fits_mono, (rule name fits_intros)+) simp
qed

lemma fits_nominal: "fits (HealthDimension_write (nominal kind ev ts sev [])) 60"
proof -
  have s: "fits (wr_string (dim_reason d)) 4" "fits (wr_string (dim_units d)) 4" if "d = nominal kind ev ts sev []" for d
    using fits_string [of "[]"] that by (simp_all add: kMaxString_def nominal_def default_HealthDimension_def)
  have enum: "fits (write_enum code x) 1" for code :: "'x \<Rightarrow> int" and x
    unfolding write_enum_def by (rule fits_prim)
  have f64: "fits (wr_f64 x) 8" for x
    unfolding wr_f64_def by (rule fits_prim)
  show ?thesis
    unfolding HealthDimension_write_def DimensionKind_write_def DimensionState_write_def EvidenceClass_write_def
      Severity_write_def
    by (rule fits_mono, (rule s [OF refl] enum f64 fits_intros)+) simp
qed

lemma fits_observation: "fits (report_body (observation_report a now)) 500"
proof -
  have obs: "obs_dimensions (worker_observation a now) = map (\<lambda>kind. nominal kind EvidenceClass.MEASURED now Severity.INFO [])
      [DimensionKind.ENUMERATION, DimensionKind.RUNTIME_INIT, DimensionKind.TRANSFER, DimensionKind.EXECUTION,
       DimensionKind.MEMORY_INTEGRITY]"
    by (simp add: worker_observation_def makeObs_def)
  have "fits (AcceleratorObservation_write (worker_observation a now)) 400"
    unfolding AcceleratorObservation_write_def obs list.map
    by (rule fits_mono, (rule fits_vec fits_nominal fits_intros | simp only: list.map)+)
  then have "fits (report_body (observation_report a now)) (56 + (400 + 0))"
    unfolding observation_report_def report_body.simps obsBody_def fst_conv snd_conv
    by (intro fits_Cons fits_Nil fits_envelope)
  then show ?thesis by (rule fits_mono) simp
qed

lemma fits_worker_validation: "fits (report_body (validation_report a now)) 200"
proof -
  have "fits (report_body (validation_report a now)) (56 + (80 + 0))"
    unfolding validation_report_def report_body.simps valBody_def fst_conv snd_conv
    by (intro fits_Cons fits_Nil fits_envelope fits_validation) (simp add: worker_validation_def)
  then show ?thesis by (rule fits_mono) simp
qed

lemma report_body_small:
  assumes "fits (report_body m) n" "n \<le> kMaxFramePayload"
  obtains body where "report_body m = Inr body" "length body \<le> kMaxFramePayload"
  using assms by (auto simp: fits_def)

lemma worker_readable: "readable (register_report a)" "readable (observation_report a now)" "readable (validation_report a now)"
  by (simp_all add: register_report_def observation_report_def validation_report_def worker_observation_def makeObs_def
      kMaxCount_def)

text \<open>An exchange of \<open>sendAndExpect\<close> with a coordinator that answers the report.\<close>

lemma report_exchange:
  assumes "fits (report_body m) n" "n \<le> kMaxFramePayload" "readable m"
    "acknowledge (report_type m) x flag c = (None, c')" "drop (length (cn_sent c)) (cn_sent c') @ fs = gs"
    "delivers k gs" "writable k (l + kMaxFrame)"
  obtains body k' why where "report_body m = Inr body" "fst x = Inr why"
    "sendAndExpect (report_type m) body resp msg k = Inr ((flag why, Some MessageType.ACK, why), k')"
    "delivers k' fs" "writable k' l"
    "\<exists>bs. sent_as m bs \<and> ck_out k' = ck_out k @ bs"
proof -
  obtain body where body: "report_body m = Inr body" "length body \<le> kMaxFramePayload"
    using report_body_small [OF assms(1,2)] .
  obtain why s bs where x: "x = (Inr why, s)" "ackBody (report_type m, flag why, why) = Inr bs"
      "cn_sent c' = cn_sent c @ [ack_frame bs]"
    using acknowledged [OF assms(4)] by blast
  then have gs: "gs = ack_frame bs # fs" using assms(5) by simp
  obtain k' where k': "sendAndExpect (report_type m) body resp msg k = Inr ((flag why, Some MessageType.ACK, why), k')"
      "delivers k' fs" "writable k' l" "ck_out k' = ck_out k @ wire_frame (report_frame m body)"
    using exchange [OF assms(6) [unfolded gs] _ assms(7) body(2) ack_expected [OF x(2)], of "report_type m" resp]
    by (auto simp: report_frame_def)
  have "\<exists>k''. net_send (report_frame m body) k = Inr (None, k'')  \<and> ck_out k'' = ck_out k @ wire_frame (report_frame m body)"
    using net_send_complete [OF assms(7), of "report_frame m body"] body(2) by (auto simp: report_frame_def)
  then have "\<exists>ns ns'. sendFrame (report_frame m body) ns = Inr (None, wire_frame (report_frame m body), ns')"
    by (auto simp: net_send_def split: sum.splits prod.splits)
  then have "sent_as m (wire_frame (report_frame m body))"
    using body(1) assms(3) by (auto simp: sent_as_def)
  then show thesis
    using that [OF body(1) _ k'(1-3)] x(1) k'(4) by auto
qed

section \<open>The verdict\<close>

lemma for_devices_frame:
  assumes "\<And>k c. txn_step k c (snd (body c))"
  shows "hs_workerBootRegistry (snd (for_devices ks body s)) = hs_workerBootRegistry s \<and>
    hs_coordinatorEpoch (snd (for_devices ks body s)) = hs_coordinatorEpoch s"
proof (induction ks arbitrary: s)
  case (Cons k ks)
  have "hs_workerBootRegistry (put_device k (snd (body (d, s)))) = hs_workerBootRegistry s \<and>
      hs_coordinatorEpoch (put_device k (snd (body (d, s)))) = hs_coordinatorEpoch s" for d
    using frame.txn_step_keeps [OF assms [of k "(d, s)"]] by (simp add: store_frame_def put_device_def)
  then show ?case
    using Cons.IH by (auto simp: on_device_def split: option.splits prod.splits) (metis snd_conv)+
qed simp

lemma registered_worker:
  assumes "apply_report (register_report a) c = (None, c1)"
  shows "smap_find (StrongId (op_worker a)) (hs_workerBootRegistry (cn_store c1)) = Some (StrongId (op_boot a))"
    "hs_coordinatorEpoch (cn_store c1) = hs_coordinatorEpoch (cn_store c)"
proof -
  have reg: "hs_workerBootRegistry (snd (registerDevice u n s)) = hs_workerBootRegistry s"
    "hs_coordinatorEpoch (snd (registerDevice u n s)) = hs_coordinatorEpoch s" for u n s
    by (simp_all add: registerDevice_def clock_now_eq tick_def updateIndexesLocked_def Let_def split: option.split)
  define s where "s = register_all (hb_node (worker_hello a)) [worker_device a]
    (registerWorker (hb_worker (worker_hello a)) (hb_boot (worker_hello a)) (cn_store c))"
  have s: "smap_find (StrongId (op_worker a)) (hs_workerBootRegistry s) = Some (StrongId (op_boot a))"
    "hs_coordinatorEpoch s = hs_coordinatorEpoch (cn_store c)"
    by (simp_all add: s_def register_all_def reg registerWorker_def worker_hello_def smap_find_put)
  have "cn_store c1 = snd (reassessAll s)"
    using assms
    by (auto simp: register_report_def Let_def acknowledge_def outcome_def s_def reply_def split: prod.splits option.splits sum.splits)
  then show "smap_find (StrongId (op_worker a)) (hs_workerBootRegistry (cn_store c1)) = Some (StrongId (op_boot a))"
    "hs_coordinatorEpoch (cn_store c1) = hs_coordinatorEpoch (cn_store c)"
    using s for_devices_frame [OF txn_step.reassess] by (simp_all add: reassessAll_def)
qed

lemma accept_flag: "fst (acceptObservation obs env s) = Inr why \<Longrightarrow> (why = ''accepted'') = admissible obs env s"
  using accept_inadmissible [of obs env s] accept_effect(3) [of obs env s] by (cases "admissible obs env s") auto

definition observes_once :: "Options \<Rightarrow> bool" where
  "observes_once a \<longleftrightarrow> op_mode a \<notin> {''register'', ''query'', ''stale-obsgen'', ''validate'', ''revalidate'', ''combine'', ''live''}"

lemma worker_register_exchange:
  assumes "apply_report (register_report a) c = (None, c1)"
    "delivers k (drop (length (cn_sent c)) (cn_sent c1) @ fs)" "writable k (n + kMaxFrame)"
  obtains k' bs where "worker_register a k = Inr k'" "delivers k' fs" "writable k' n" "sent_as (register_report a) bs"
    "ck_out k' = ck_out k @ bs"
proof -
  let ?m = "register_report a"
  have small: "(300::nat) \<le> kMaxFramePayload" by (simp add: kMaxFramePayload_def)
  obtain body where body: "report_body ?m = Inr body" "length body \<le> kMaxFramePayload"
    using report_body_small [OF fits_register small] .
  obtain why where why: "cn_sent c1 = cn_sent c @ [ack_frame why]"
    using assms(1) acknowledged by (fastforce simp: register_report_def Let_def)
  let ?f = "report_frame ?m body"
  have f: "?f = default_Frame\<lparr>pf_type := MessageType.REGISTER, pf_payload := body\<rparr>"
    by (simp add: report_frame_def register_report_def)
  obtain k1 where k1: "net_send ?f k = Inr (None, k1)" "writable k1 n" "ck_in k1 = ck_in k" "ck_out k1 = ck_out k @ wire_frame ?f"
    using net_send_complete [OF assms(3), of ?f] body(2) by (auto simp: report_frame_def)
  have "delivers k1 (ack_frame why # fs)" using assms(2) k1(3) why by (simp add: delivers_def)
  then obtain k2 where k2: "net_recv k1 = (Received (ack_frame why), k2)" "delivers k2 fs" "ck_sends k2 = ck_sends k1" "ck_out k2 = ck_out k1"
    using net_recv_next [of k1 "ack_frame why" fs] by auto
  have "\<exists>ns ns'. sendFrame ?f ns = Inr (None, wire_frame ?f, ns')"
    using k1(1,4) by (auto simp: net_send_def split: sum.splits prod.splits) blast
  then have "sent_as ?m (wire_frame ?f)"
    using body(1) worker_readable(1) by (auto simp: sent_as_def)
  moreover have "worker_register a k = Inr k2"
    using body(1) k1(1) k2(1) f by (simp add: worker_register_def register_report_def)
  ultimately show thesis
    using that k2 k1 by (simp add: writable_def)
qed

text \<open>C22. Worker and coordinator.  A worker that registers and reports one observation, connected to a
  coordinator that answers, sends exactly the bytes of these two reports (so that \<open>session_effects\<close>
  tells what they do to the store), and prints the coordinator's verdict: the observation counts as
  accepted if and only if the registered store tracks the device under no newer generation, the
  worker states the coordinator's epoch and its own boot id, and its observation generation is new.
  In particular the modes stale-epoch (started with the coordinator's epoch) and stale-boot are always
  refused and leave the store as the registration left it.\<close>

theorem worker_verdict:
  assumes "observes_once a"
    and "apply_report (register_report a) c = (None, c1)"
    and "apply_report (observation_report a now) c1 = (None, c2)"
    and "delivers k (drop (length (cn_sent c)) (cn_sent c2))" "writable k (2 * kMaxFrame)"
  shows "(\<exists>k' parts why. worker_main a now k =
      Inr (0, [ResultLine (op_mode a) (admissible (worker_observation a now) (worker_envelope a) (cn_store c1)) why], k') \<and>
    ck_out k' = ck_out k @ concat parts \<and> list_all2 sent_as [register_report a, observation_report a now] parts) \<and>
    (op_mode a = ''stale-boot'' \<or> (op_mode a = ''stale-epoch'' \<and> op_epoch a = hs_coordinatorEpoch (cn_store c)) \<longrightarrow>
      \<not> admissible (worker_observation a now) (worker_envelope a) (cn_store c1) \<and> cn_store c2 = cn_store c1)"
proof -
  let ?r = "register_report a" and ?o = "observation_report a now"
  let ?obs = "worker_observation a now" and ?env = "worker_envelope a"
  have ack: "acknowledge (report_type ?o) (acceptObservation ?obs ?env (cn_store c1)) (\<lambda>msg. msg = ''accepted'') c1 = (None, c2)"
    using assms(3) by (simp add: observation_report_def)
  obtain w1 where w1: "cn_sent c1 = cn_sent c @ [ack_frame w1]"
    using assms(2) acknowledged by (fastforce simp: register_report_def Let_def)
  obtain w2 where w2: "cn_sent c2 = cn_sent c1 @ [ack_frame w2]"
    using acknowledged [OF ack] by blast
  have "delivers k (drop (length (cn_sent c)) (cn_sent c1) @ [ack_frame w2])"
    using assms(4) w1 w2 by simp
  moreover have "writable k (kMaxFrame + kMaxFrame)" using assms(5) by (simp add: mult_2)
  ultimately obtain k1 b1 where k1: "worker_register a k = Inr k1" "delivers k1 [ack_frame w2]" "writable k1 kMaxFrame"
      "sent_as ?r b1" "ck_out k1 = ck_out k @ b1"
    using worker_register_exchange [OF assms(2)] by blast
  have last: "drop (length (cn_sent c1)) (cn_sent c2) @ [] = [ack_frame w2]" by (simp add: w2)
  have small: "(500::nat) \<le> kMaxFramePayload" by (simp add: kMaxFramePayload_def)
  have wr: "writable k1 (0 + kMaxFrame)" using k1(3) by simp
  obtain body k2 why where k2: "report_body ?o = Inr body" "fst (acceptObservation ?obs ?env (cn_store c1)) = Inr why"
      "sendAndExpect (report_type ?o) body None [] k1 = Inr ((why = ''accepted'', Some MessageType.ACK, why), k2)"
      "\<exists>bs. sent_as ?o bs \<and> ck_out k2 = ck_out k1 @ bs"
    using report_exchange [OF fits_observation small worker_readable(2) ack last k1(2) wr] by metis
  then obtain b2 where b2: "sent_as ?o b2" "ck_out k2 = ck_out k1 @ b2" by blast
  have "worker_main a now k = Inr (0, [ResultLine (op_mode a) (why = ''accepted'') why], k2)"
    using assms(1) k1(1) k2(1,3)
    by (simp add: worker_main_def observes_once_def worker_observe_def observation_report_def)
  then have run: "worker_main a now k = Inr (0, [ResultLine (op_mode a) (admissible ?obs ?env (cn_store c1)) why], k2)"
    using accept_flag [OF k2(2)] by simp
  have "\<not> admissible ?obs ?env (cn_store c1) \<and> cn_store c2 = cn_store c1"
    if "op_mode a = ''stale-boot'' \<or> (op_mode a = ''stale-epoch'' \<and> op_epoch a = hs_coordinatorEpoch (cn_store c))"
  proof -
    have "op_boot a + 1000 \<noteq> op_boot a" "op_epoch a - 1 \<noteq> op_epoch a" by simp_all
    then have no: "\<not> admissible ?obs ?env (cn_store c1)"
      using that registered_worker [OF assms(2)] by (auto simp: admissible_def worker_envelope_def)
    then show ?thesis
      using accept_inadmissible [OF no] acknowledged [OF ack] by auto
  qed
  moreover have "list_all2 sent_as [?r, ?o] [b1, b2]" using k1(4) b2(1) by simp
  moreover have "ck_out k2 = ck_out k @ concat [b1, b2]" using k1(5) b2(2) by simp
  ultimately show ?thesis using run by blast
qed

section \<open>An exchange\<close>

lemma reply_ack:
  assumes "length msg \<le> 100"
  shows "\<exists>bs. acknowledge t (Inr msg, s) flag c = (None, c\<lparr>cn_store := s, cn_sent := cn_sent c @ [ack_frame bs]\<rparr>) \<and>
     length bs \<le> kMaxFramePayload"
proof -
  have "fits (ackBody (t, flag msg, msg)) (1 + (1 + ((4 + length msg) + 0)))"
    unfolding ackBody_def prod.case
    by (intro fits_Cons fits_Nil fits_prim fits_string) (use assms in \<open>simp add: kMaxString_def\<close>)
  then obtain bs where "ackBody (t, flag msg, msg) = Inr bs" "length bs \<le> kMaxFramePayload"
    using assms by (auto simp: fits_def kMaxFramePayload_def)
  moreover from this(2) have "encodeFrame MessageType.ACK bs = Inr (seal (frame_bytes MessageType.ACK bs))"
    by (simp add: encodeFrame_eq)
  ultimately show ?thesis
    by (auto simp: acknowledge_def reply_def ack_frame_def)
qed

lemma delivers_chunks:
  assumes "\<And>f. f \<in> set fs \<Longrightarrow> length (pf_payload f) \<le> kMaxFramePayload"
  shows "delivers \<lparr>ck_in = map (Chunk \<circ> wire_frame) fs, ck_sends = ns, ck_out = []\<rparr> fs"
proof -
  have "wire_frame f \<noteq> []" for f
    using length_wire_frame [of f] by (auto simp: kHeaderSize_def)
  then have "chunked (map (Chunk \<circ> wire_frame) fs)" "stream (map (Chunk \<circ> wire_frame) fs) = concat (map wire_frame fs)"
    by (induction fs) auto
  then show ?thesis using assms by (auto simp: delivers_def)
qed

definition demo_options :: Options where
  "demo_options = \<lparr>op_worker = 3, op_boot = 4, op_node = 1, op_uuid = 7, op_epoch = 1, op_obsgen = 1, op_devicegen = 1,
     op_mode = ''stale-boot''\<rparr>"

theorem worker_verdict_witness:
  "\<exists>k k' why. worker_main demo_options (Timestamp 100) k = Inr (0, [ResultLine ''stale-boot'' False why], k')"
proof -
  let ?a = demo_options and ?c = "demo_conn demo0" and ?now = "Timestamp 100"
  let ?w0 = "registerWorker (StrongId 3) (StrongId 4) demo0"
  let ?s = "snd (registerDevice (StrongId 7) (StrongId 1) ?w0)"
  have dev: "findLocked j ?s = (if j = StrongId 7 then Some (new_device j (StrongId 7) (StrongId 1) (reading ?w0)) else None)" for j
    using registerDevice_new(2) [of "StrongId 7" ?w0 j "StrongId 1"]
    by (simp add: demo0_def HealthStore_new_def registerWorker_def smap_find_def findLocked_def register_id_def)
  have "reachable real_uuid ?s"
    unfolding demo0_def
    by (rule reachable_step [OF reachable_step [OF reachable_new store_step.registerWorker] store_step.registerDevice])
      (simp add: real_uuid_def)
  then have wf: "smap_wf (hs_devices ?s)" using reachable_inv by (auto simp: store_inv_def)
  have "fst (reassessAll ?s) = None"
    unfolding reassessAll_def
  proof (rule for_devices_returns [where P = "\<lambda>d. \<not> gen_max (dv_healthGeneration d)"])
    show "\<not> gen_max (dv_healthGeneration d)" if "findLocked k ?s = Some d" for k d
      using that by (auto simp: dev gen_max_def new_device_def split: if_splits)
  qed (simp_all add: store_keys(1) [OF wf] txn_step.reassess reassess_returns)
  then obtain s1 where s1: "reassessAll ?s = (None, s1)" by (metis prod.collapse)
  have report: "apply_report (register_report ?a) ?c = acknowledge MessageType.REGISTER (Inr ''registered'', s1) (\<lambda>_. True)
      (?c\<lparr>cn_session := \<lparr>ss_worker = StrongId 3, ss_boot = StrongId 4, ss_haveWorker = True\<rparr>\<rparr>)"
    using s1 by (simp add: register_report_def worker_hello_def worker_device_def demo_options_def register_all_def
        outcome_def demo_conn_def Let_def)
  obtain b1 c1 where c1: "apply_report (register_report ?a) ?c = (None, c1)" "cn_store c1 = s1" "cn_sent c1 = [ack_frame b1]"
      "length b1 \<le> kMaxFramePayload"
    using reply_ack [of "''registered''" MessageType.REGISTER s1 "\<lambda>_. True"] unfolding report
    by (fastforce simp: demo_conn_def)
  have dev7: "findLocked (StrongId 7) ?s = Some (new_device (StrongId 7) (StrongId 7) (StrongId 1) (reading ?w0))"
    by (simp add: dev)
  have gen: "dv_generation (fst (snd (reassessLocked (d, t)))) = dv_generation d" for d t
    by (auto simp: reassess_eq reassess_finish_def Let_def moved_def split: sum.splits)
  have "\<exists>d. findLocked (StrongId 7) (snd (for_devices (smap_keys (hs_devices ?s)) reassessLocked ?s)) = Some d \<and>
      dv_generation d = Generation 1"
    by (rule for_devices_pred [OF txn_step.reassess _ dev7]) (simp_all add: gen new_device_def)
  then obtain d where d: "findLocked (StrongId 7) s1 = Some d" "dv_generation d = Generation 1"
    using s1 by (auto simp: reassessAll_def)
  have reg: "smap_find (StrongId 3) (hs_workerBootRegistry s1) = Some (StrongId 4)" "hs_coordinatorEpoch s1 = 1"
    using registered_worker [OF c1(1)] c1(2) by (simp_all add: demo_options_def demo_conn_def demo0_def HealthStore_new_def)
  obtain why where why: "acceptObservation (worker_observation ?a ?now) (worker_envelope ?a) s1 = (Inr why, s1)" "length why \<le> 100"
    using d reg by (simp add: acceptObservation_def worker_observation_def worker_envelope_def makeObs_def demo_options_def)
  obtain b2 c2 where c2: "apply_report (observation_report ?a ?now) c1 = (None, c2)" "cn_sent c2 = cn_sent c1 @ [ack_frame b2]"
      "length b2 \<le> kMaxFramePayload"
    using reply_ack [OF why(2)] why(1) c1(2) by (fastforce simp: observation_report_def)
  define k where "k = \<lparr>ck_in = map (Chunk \<circ> wire_frame) [ack_frame b1, ack_frame b2], ck_sends = replicate (2 * kMaxFrame) 1, ck_out = []\<rparr>"
  have "delivers k [ack_frame b1, ack_frame b2]"
    unfolding k_def by (rule delivers_chunks) (use c1(4) c2(3) in \<open>auto simp: ack_frame_def\<close>)
  then have "delivers k (drop (length (cn_sent ?c)) (cn_sent c2))"
    using c1(3) c2(2) by (simp add: demo_conn_def)
  moreover have "writable k (2 * kMaxFrame)" by (simp add: writable_def k_def)
  moreover have "observes_once ?a" by (simp add: observes_once_def demo_options_def)
  ultimately have v: "(\<exists>k' parts why. worker_main ?a ?now k = Inr (0, [ResultLine (op_mode ?a) (admissible (worker_observation ?a ?now)
      (worker_envelope ?a) (cn_store c1)) why], k') \<and> ck_out k' = ck_out k @ concat parts \<and>
      list_all2 sent_as [register_report ?a, observation_report ?a ?now] parts) \<and>
    (op_mode ?a = ''stale-boot'' \<or> (op_mode ?a = ''stale-epoch'' \<and> op_epoch ?a = hs_coordinatorEpoch (cn_store ?c)) \<longrightarrow>
      \<not> admissible (worker_observation ?a ?now) (worker_envelope ?a) (cn_store c1) \<and> cn_store c2 = cn_store c1)"
    by (intro worker_verdict [OF _ c1(1) c2(1)])
  have mode: "op_mode ?a = ''stale-boot''" by (simp add: demo_options_def)
  then have no: "\<not> admissible (worker_observation ?a ?now) (worker_envelope ?a) (cn_store c1)" using v by blast
  obtain k' why where "worker_main ?a ?now k = Inr (0, [ResultLine (op_mode ?a) (admissible (worker_observation ?a ?now)
      (worker_envelope ?a) (cn_store c1)) why], k')"
    using v by blast
  then show ?thesis using no mode by (intro exI [of _ k] exI [of _ k'] exI [of _ why]) simp
qed

end
