(* ===== verification/Processes.thy ===== *)
theory Processes
  imports Arguments Sockets Dialogues
begin

text \<open>
  The processes as they are started: the coordinator from its command line to the loop that accepts
  connections (\<open>main\<close> of \<open>apps/ah-coordinator.cpp\<close>), the worker from its command line to the connected
  socket (\<open>main\<close> of \<open>apps/ah-worker.cpp\<close>).  What the sessions do then is in \<open>Coordinator\<close> and \<open>Worker\<close>.
\<close>

section \<open>The coordinator\<close>

datatype log_line = LoadErrorLine string | ListenErrorLine string | UpLine u16 u64

text \<open>The process still waits for connections, or it has ended: with an exit code, or by an exception.\<close>

datatype process_state = Serving_clients | Exited int | Aborted exn

definition coordinator_config :: "CoordOptions \<Rightarrow> io_faults \<Rightarrow> Config" where
  "coordinator_config x io = \<lparr>cf_stateFile = co_stateFile x, cf_load = co_load x, cf_saveOnSnapshot = co_saveOnSnapshot x, cf_io = io\<rparr>"

definition load_log :: "Config \<Rightarrow> Clock \<Rightarrow> u64 \<Rightarrow> files \<Rightarrow> log_line list" where
  "load_log cf clock epoch fs =
     (if cf_load cf \<and> cf_stateFile cf \<noteq> []
      then (case fst (loadFromFile (cf_stateFile cf) (HealthStore_new clock coordinator_policy epoch) fs) of
              Some (Refused msg) \<Rightarrow> [LoadErrorLine msg] | _ \<Rightarrow> [])
      else [])"

text \<open>\<open>while (!g_stop)\<close> (nothing sets \<open>g_stop\<close>): every accepted descriptor is handed to a thread of its own, a
  negative answer of \<open>accept\<close> leaves the loop; the answers are given in advance.\<close>

fun accept_loop :: "int list \<Rightarrow> TcpServer \<Rightarrow> fd_table \<Rightarrow> bool \<times> int list \<times> fd_table" where
  "accept_loop [] srv fds = (False, [], fds)"
| "accept_loop (n # ns) srv fds = (case TcpServer_acceptClient n srv fds of (fd, fds1) \<Rightarrow>
     if fd < 0 then (True, [], fds1)
     else (case accept_loop ns srv fds1 of (over, clients, fds2) \<Rightarrow> (over, fd # clients, fds2)))"

record CoordProcess =
  cp_state :: process_state
  cp_log :: "log_line list"
  cp_store :: HealthStore
  cp_clients :: "int list"
  cp_fds :: fd_table

definition coordinator_main ::
    "string list \<Rightarrow> Clock \<Rightarrow> io_faults \<Rightarrow> files \<Rightarrow> ListenAnswers \<Rightarrow> int list \<Rightarrow> fd_table \<Rightarrow> CoordProcess" where
  "coordinator_main args clock io fs la accepts fds =
     (let x = coordinator_options args; cf = coordinator_config x io;
          (r, store) = start_store cf clock (co_epoch x) fs;
          loaded = load_log cf clock (co_epoch x) fs in
      case r of
        Some e \<Rightarrow> \<lparr>cp_state = Aborted e, cp_log = loaded, cp_store = store, cp_clients = [], cp_fds = fds\<rparr>
      | None \<Rightarrow> (case TcpServer_listen (co_port x) la TcpServer_new fds of
          (Some err, srv, fds1) \<Rightarrow> \<lparr>cp_state = Exited 1, cp_log = loaded @ [ListenErrorLine err], cp_store = store,
             cp_clients = [], cp_fds = snd (TcpServer_close srv fds1)\<rparr>
        | (None, srv, fds1) \<Rightarrow> (case accept_loop accepts srv fds1 of (over, clients, fds2) \<Rightarrow>
            \<lparr>cp_state = (if over then Exited 0 else Serving_clients), cp_log = loaded @ [UpLine (co_port x) (co_epoch x)],
             cp_store = store, cp_clients = clients, cp_fds = (if over then snd (TcpServer_close srv fds2) else fds2)\<rparr>)))"

section \<open>The worker\<close>

text \<open>What is printed: the line of a failed \<open>connect\<close>, or the lines of the session.\<close>

datatype worker_result = ConnectErrorLine string | Session run_result

definition worker_process ::
    "string list \<Rightarrow> ConnectAnswers \<Rightarrow> Timestamp \<Rightarrow> Client \<Rightarrow> fd_table \<Rightarrow> worker_result \<times> fd_table" where
  "worker_process args an now k fds =
     (let x = worker_arguments args in
      case TcpClient_connect (wa_host x) (wa_port x) an TcpClient_new fds of
        (Some err, c, fds1) \<Rightarrow> (ConnectErrorLine err, snd (TcpClient_close c fds1))
      | (None, c, fds1) \<Rightarrow> (Session (worker_main (wa_options x) now k), snd (TcpClient_close c fds1)))"

section \<open>What the processes do with their command lines\<close>

lemma accept_serving:
  assumes "0 \<le> ts_listener srv" "\<forall>n \<in> set ns. 0 \<le> n"
  shows "accept_loop ns srv fds = (False, ns, fds \<union> set ns)"
    and "m < 0 \<Longrightarrow> accept_loop (ns @ m # ms) srv fds = (True, ns, fds \<union> set ns)"
  using assms
  by (induction ns arbitrary: fds) (auto simp: TcpServer_acceptClient_def sys_open_def)

lemma connect_closes:
  assumes "fresh (an_socket an) fds" "TcpClient_connect host port an TcpClient_new fds = (r, c, fds1)"
  shows "snd (TcpClient_close c fds1) = fds"
  using assms
  by (auto simp: TcpClient_connect_def TcpClient_close_def TcpClient_new_def closeFd_def sys_open_def fresh_def Let_def
      split: if_splits)



text \<open>A worker whose command line spells out the settings \<open>y\<close> leaves the descriptors of its process as they
  were, and does what \<open>worker_main\<close> does with these settings if it can connect, and nothing but report the
  failure otherwise.  The host is taken as a numeric address only: any other name stands for the
  address 0.0.0.0, so that a worker pointed at a host by name talks to its own machine.\<close>

theorem worker_connects:
  assumes "fresh (an_socket an) fds" "args = worker_line y"
  shows "snd (worker_process args an now k fds) = fds \<and>
    fst (worker_process args an now k fds) =
      (if an_socket an < 0 then ConnectErrorLine ''socket failed''
       else if an_connect an (case an_pton an (wa_host y) of Some a \<Rightarrow> a | None \<Rightarrow> 0) (wa_port y)
       then Session (worker_main (wa_options y) now k)
       else ConnectErrorLine ''connect failed'')"
proof -
  obtain r c fds1 where c: "TcpClient_connect (wa_host y) (wa_port y) an TcpClient_new fds = (r, c, fds1)"
    by (cases "TcpClient_connect (wa_host y) (wa_port y) an TcpClient_new fds") auto
  have "snd (worker_process args an now k fds) = fds"
    using connect_closes [OF assms(1) c] by (cases r) (simp_all add: worker_process_def assms(2) worker_reads c)
  then show ?thesis
    by (simp add: worker_process_def assms(2) worker_reads TcpClient_connect_def peer_address_def Let_def split: prod.splits)
qed

text \<open>A worker started with the default settings, whose host the parameter does not resolve.\<close>

theorem worker_connects_witness:
  "fst (worker_process (worker_line default_WorkerArgs) (demo_answers 3) (Timestamp 5) \<lparr>ck_in = [], ck_sends = [], ck_out = []\<rparr> {0}) =
     Session (worker_main (wa_options default_WorkerArgs) (Timestamp 5) \<lparr>ck_in = [], ck_sends = [], ck_out = []\<rparr>)"
  using worker_connects [of "demo_answers 3" "{0}" _ default_WorkerArgs "Timestamp 5" "\<lparr>ck_in = [], ck_sends = [], ck_out = []\<rparr>"]
  by (simp add: fresh_def demo_answers_def)

end
