(* ===== verification/Quarantines.thy ===== *)
theory Quarantines
  imports StoreRecovery
begin

text \<open>
  Where quarantines come from.  The policy has a flag \<open>fatalFaultTriggersQuarantine\<close>, and a device with
  repeated critical faults is moved to QUARANTINED, but a quarantine record is made by \<open>beginQuarantine\<close>
  alone.
\<close>

section \<open>Devices after a step\<close>

text \<open>The same devices are under quarantine as before, or fewer.\<close>

definition calm :: "HealthStore \<Rightarrow> HealthStore \<Rightarrow> bool" where
  "calm s s' \<longleftrightarrow> (\<forall>k d'. findLocked k s' = Some d' \<and> quarantine_active d' \<longrightarrow>
     (\<exists>d. findLocked k s = Some d \<and> quarantine_active d))"

lemma calm_refl: "calm s s"
  by (simp add: calm_def)

lemma calm_trans: "calm a b \<Longrightarrow> calm b c \<Longrightarrow> calm a c"
  unfolding calm_def by blast

lemma calm_devices: "hs_devices s' = hs_devices s \<Longrightarrow> calm s s'"
  by (simp add: calm_def findLocked_def)

lemma calm_transition: "keeps (\<lambda>c c'. quarantine_active (fst c') \<longrightarrow> quarantine_active (fst c)) (applyTransitionLocked to l x)"
  by (rule keepsI, simp add: applyTransition_eq split: sum.split) (auto simp: quarantine_active_def)

lemma calm_finish: "keeps (\<lambda>c c'. quarantine_active (fst c') \<longrightarrow> quarantine_active (fst c)) (reassess_finish now desired b)"
  by (rule keepsI) (auto simp: reassess_finish_def Let_def quarantine_active_def)

interpretation calm: quiet_relation "\<lambda>c c'. quarantine_active (fst c') \<longrightarrow> quarantine_active (fst c)" k for k
  by (unfold_locales; (rule calm_transition calm_finish | simp add: quarantine_active_def observe_device_def validate_device_def Let_def))

lemma calm_put:
  assumes "findLocked k s = Some d" "txn_step k (d, s) c" "quarantine_active (fst c) \<longrightarrow> quarantine_active d"
  shows "calm s (put_device k c)"
  unfolding calm_def
proof (intro allI impI, elim conjE)
  fix i d' assume i: "findLocked i (put_device k c) = Some d'" "quarantine_active d'"
  show "\<exists>d. findLocked i s = Some d \<and> quarantine_active d"
    using i assms by (cases "i = k") (auto simp: txn_devices(1))
qed

lemma for_devices_calm:
  assumes "\<And>k c. txn_step k c (snd (body c))"
    and "\<And>d t. quarantine_active (fst (snd (body (d, t)))) \<longrightarrow> quarantine_active d"
  shows "calm s (snd (for_devices ks body s))"
proof (induction ks arbitrary: s)
  case (Cons k ks)
  obtain r s1 where od: "on_device k None body s = (r, s1)" by (cases "on_device k None body s")
  have "calm s s1"
  proof (cases "findLocked k s")
    case None
    then show ?thesis using od by (auto simp: on_device_def calm_refl)
  next
    case (Some d)
    then have "s1 = put_device k (snd (body (d, s)))" using od by (auto simp: on_device_def split: prod.splits)
    then show ?thesis using calm_put [OF Some assms(1)] assms(2) by simp
  qed
  then show ?case using od Cons.IH [of s1] by (cases r) (auto intro: calm_trans)
qed (simp add: calm_refl)

text \<open>A transaction that is not calm is a quarantine, so its step is a call of \<open>beginQuarantine\<close>.\<close>

definition quarantine_call :: "HealthStore \<Rightarrow> HealthStore \<Rightarrow> bool" where
  "quarantine_call s s' \<longleftrightarrow> (\<exists>i authority reason by. s' = snd (beginQuarantine i authority reason by s))"

lemma put_quiet:
  assumes "findLocked k s = Some d" "txn_step k (d, s) c"
  shows "calm s (put_device k c) \<or> quarantine_call s (put_device k c)"
proof (cases "quarantine_active (fst c) \<longrightarrow> quarantine_active d")
  case True
  then show ?thesis using calm_put assms by blast
next
  case False
  then obtain a r b where "c = snd (quarantine_body k a r b (d, s))"
    using calm.txn_step_quiet [OF assms(2)] by auto
  then have "put_device k c = snd (beginQuarantine k a r b s)"
    using assms(1) by (simp add: beginQuarantine_def on_device_def split: prod.splits)
  then show ?thesis unfolding quarantine_call_def by blast
qed

lemma on_device_quiet:
  assumes "\<And>d. txn_step k (d, s) (snd (body (d, s)))"
  shows "calm s (snd (on_device k miss body s)) \<or> quarantine_call s (snd (on_device k miss body s))"
proof (cases "findLocked k s")
  case (Some d)
  then show ?thesis using put_quiet [OF Some assms] by (cases "body (d, s)") (simp add: on_device_def)
qed (simp add: on_device_def calm_refl)

lemma reassess_calm: "quarantine_active (fst (snd (reassessLocked (d, t)))) \<longrightarrow> quarantine_active d"
  using reassess_signals(2) by simp

lemma reassessAll_calm: "calm s (snd (reassessAll s))"
  unfolding reassessAll_def by (rule for_devices_calm [OF txn_step.reassess reassess_calm])

lemma installPolicy_calm: "calm s (snd (installPolicy p s))"
proof (cases "gen_next (hs_policyGeneration s)")
  case (Inl e)
  then show ?thesis by (simp add: installPolicy_def Let_def calm_devices)
next
  case (Inr g)
  let ?b = "dev_do (\<lambda>d. d\<lparr>dv_policyGenerationChangedFlag := True\<rparr>)"
  have "calm s (s\<lparr>hs_policy := p, hs_policyGeneration := g\<rparr>)" by (simp add: calm_devices)
  moreover have "calm t (snd (for_devices ks ?b t))" for ks t
    by (rule for_devices_calm [OF txn_step.policy]) (simp add: dev_do_def quarantine_active_def)
  ultimately show ?thesis using Inr by (simp add: installPolicy_def Let_def) (metis calm_trans)
qed

lemma invalidateWorker_calm: "calm s (snd (invalidateWorker w b s))"
proof -
  obtain r t where fd: "for_devices (smap_keys (hs_devices s)) (invalidate_device w b) s = (r, t)"
    by (cases "for_devices (smap_keys (hs_devices s)) (invalidate_device w b) s")
  have "calm s (snd (for_devices (smap_keys (hs_devices s)) (invalidate_device w b) s))"
    by (rule for_devices_calm [OF txn_step.invalidate]) (use keepsD [OF calm.invalidate] in force)
  then have "calm s t" using fd by simp
  moreover have "calm t (t\<lparr>hs_workerBootRegistry := x\<rparr>)" for x by (simp add: calm_devices)
  ultimately show ?thesis
    using calm_refl calm_trans by (cases r) (auto simp: invalidateWorker_def fd)
qed

lemma registerDevice_calm: "calm s (snd (registerDevice uuid node s))"
  unfolding calm_def
  by (auto simp: registerDevice_def findLocked_def updateIndexesLocked_def Let_def clock_now_eq new_device_def
      default_Device_def quarantine_active_def smap_find_put split: option.splits if_splits)

lemma accounting_calm: "calm s (snd (accounting s))"
  by (rule calm_devices)
    (use accounting_books in \<open>auto simp: accounting_def recomputeAccounting_def Let_def same_books_def\<close>)

lemma acceptObservation_quiet:
  "calm s (snd (acceptObservation obs env s)) \<or> quarantine_call s (snd (acceptObservation obs env s))"
proof (cases "findLocked (obs_accelerator obs) s")
  case (Some d)
  let ?k = "obs_accelerator obs"
  have "calm s (put_device ?k (snd (observe_body obs env (d, s)))) \<or> quarantine_call s (put_device ?k (snd (observe_body obs env (d, s))))"
    if "\<not> stale_generation env s" "\<not> gen_get (env_deviceGeneration env) < gen_get (dv_generation d)"
    by (rule put_quiet [OF Some], rule txn_step.observe) (use that in \<open>auto simp: less_eq_Generation_def\<close>)
  then show ?thesis
    using Some by (auto simp: acceptObservation_def calm_refl split: option.splits prod.splits)
qed (simp add: acceptObservation_def calm_refl)

lemma revalidate_quiet: "calm s (snd (revalidate i v s)) \<or> quarantine_call s (snd (revalidate i v s))"
proof (cases "findLocked i s")
  case (Some d)
  obtain r c where c: "revalidate_body v (d, s) = (r, c)" by (cases "revalidate_body v (d, s)")
  have "snd (revalidate i v s) = put_device i c"
    using Some c by (cases r) (auto simp: revalidate_def)
  then show ?thesis using put_quiet [OF Some txn_step.revalidate [of i "(d, s)" v]] c by simp
qed (simp add: revalidate_def calm_refl)

section \<open>The origin of quarantines\<close>

lemma step_quiet: "store_step ok s s' \<Longrightarrow> calm s s' \<or> quarantine_call s s'"
proof (induction rule: store_step.induct)
  case (beginQuarantine s i authority reason who)
  then show ?case unfolding quarantine_call_def by blast
qed (unfold reassess_def markLost_def recordFault_def recordValidation_def clearQuarantine_def beginRecovery_def,
     (intro acceptObservation_quiet revalidate_quiet on_device_quiet txn_step.intros refl; assumption?
      | intro disjI1, (rule installPolicy_calm reassessAll_calm invalidateWorker_calm registerDevice_calm accounting_calm
          | rule calm_devices, simp add: rollCoordinatorEpoch_def setCoordinatorEpoch_def registerWorker_def clock_now_eq))+)

lemma demo4_quarantined: "\<exists>d. findLocked (StrongId 7) demo4 = Some d \<and> quarantine_active d"
proof -
  obtain d where d: "findLocked (StrongId 7) demo2 = Some d" using demo2_device by blast
  have "canTransition (dv_state d) HealthState.QUARANTINED" "\<not> quarantine_active d" "\<not> dv_inRecovery d" "headroom (Suc 10) d"
    using demo_observed [OF d] demo2_signals [OF d] by (simp_all add: signals_def headroom_def)
  from quarantine_body_ok [OF disjI2 [OF this(1)] this(2-4), of "StrongId 7" QuarantineAuthority.UNKNOWN "''check''" "''operator''" demo2]
  show ?thesis
    using d by (auto simp: demo4_def beginQuarantine_def on_device_def findLocked_def smap_find_put)
qed

text \<open>C21. A device comes under quarantine only by a call of \<open>beginQuarantine\<close>: no other method of the store
  activates a quarantine, so neither a fatal fault nor a numerical mismatch, a failed recovery nor the
  policy flag \<open>fatalFaultTriggersQuarantine\<close> ever does.\<close>

theorem quarantine_only_by_request:
  assumes "store_step any_uuid s s'" "findLocked i s' = Some d'" "quarantine_active d'"
    and "\<nexists>d. findLocked i s = Some d \<and> quarantine_active d"
  shows "\<exists>j authority reason by. s' = snd (beginQuarantine j authority reason by s)"
  using step_quiet [OF assms(1)] assms(2-4) by (auto simp: calm_def quarantine_call_def)

theorem quarantine_only_by_request_witness:
  "\<exists>d. findLocked (StrongId 7) demo4 = Some d \<and> quarantine_active d \<and>
     (\<exists>j authority reason by. demo4 = snd (beginQuarantine j authority reason by demo2))"
proof -
  obtain d where d: "findLocked (StrongId 7) demo4 = Some d" "quarantine_active d"
    using demo4_quarantined by blast
  have "store_step any_uuid demo2 demo4" unfolding demo4_def by (rule store_step.beginQuarantine)
  moreover have "\<nexists>d. findLocked (StrongId 7) demo2 = Some d \<and> quarantine_active d" using demo2_signals by blast
  ultimately show ?thesis using quarantine_only_by_request [OF _ d] d by blast
qed

end
