(* ===== verification/ServiceLimits.thy ===== *)
theory ServiceLimits
  imports Service Quarantines
begin

text \<open>
  The limits of the running coordinator: a session ends and answers at most once per frame; the
  messages of the protocol never put a device under quarantine; the end of a session does not
  fence what its worker reported in the name of another; and a report from the future stays current.
  Under quarantine means here that the quarantine record of the device is active.
\<close>

section \<open>Sessions end\<close>

text \<open>The frames a session handles, up to the first that throws.\<close>

fun serve :: "Config \<Rightarrow> Frame list \<Rightarrow> Conn \<Rightarrow> Conn" where
  "serve cf [] c = c"
| "serve cf (f # fs) c = (case handle_frame cf f c of (None, c') \<Rightarrow> serve cf fs c' | (Some e, c') \<Rightarrow> c')"

lemma reply_sent: "length (cn_sent (snd (reply t b c))) \<le> Suc (length (cn_sent c))"
  by (simp add: reply_def split: sum.splits)

lemma finish_register_sent: "length (cn_sent (snd (finish_register c))) \<le> Suc (length (cn_sent c))"
  using reply_sent [of _ _ "c\<lparr>cn_store := s\<rparr>" for s]
  by (auto simp: finish_register_def split: prod.splits option.splits)

lemma start_register_sent: "cn_sent (snd (start_register p c)) = cn_sent c"
  by (auto simp: start_register_def Let_def split: prod.splits option.splits)

lemma handle_register_sent: "length (cn_sent (snd (handle_register p c))) \<le> Suc (length (cn_sent c))"
proof (cases "start_register p c")
  case (Pair x c1)
  then have "cn_sent c1 = cn_sent c" using start_register_sent [of p c] by simp
  then show ?thesis
    using Pair finish_register_sent [of "c1\<lparr>cn_store := s\<rparr>" for s]
    by (cases x) (auto simp: handle_register_def)
qed

lemma store_reply_sent: "length (cn_sent (snd (reply t b (c\<lparr>cn_store := s\<rparr>)))) \<le> Suc (length (cn_sent c))"
  using reply_sent [of t b "c\<lparr>cn_store := s\<rparr>"] by simp

lemma handle_snapshot_sent: "length (cn_sent (snd (handle_snapshot cf c))) \<le> Suc (length (cn_sent c))"
proof (cases "save_snapshot cf c")
  case (Pair r c1)
  then have "cn_sent c1 = cn_sent c"
    by (auto simp: save_snapshot_def split: prod.splits option.splits dec_exit.splits if_splits)
  then show ?thesis
    using Pair reply_sent [of MessageType.SNAPSHOT_RESPONSE "encodeState (cn_store c1)" c1]
    by (cases r) (simp_all add: handle_snapshot_def answer_snapshot_def)
qed

lemma handle_frame_sent: "length (cn_sent (snd (handle_frame cf f c))) \<le> Suc (length (cn_sent c))"
  by (cases "pf_type f")
    (auto simp: handle_frame_def handle_register_sent handle_snapshot_sent handle_observation_def handle_validation_def
      handle_fault_def store_reply_sent split: prod.splits option.splits sum.splits)

lemma serve_sent: "length (cn_sent (serve cf fs c)) \<le> length (cn_sent c) + length fs"
proof (induction fs arbitrary: c)
  case (Cons f fs)
  obtain r c' where h: "handle_frame cf f c = (r, c')" by (cases "handle_frame cf f c")
  then show ?case
    using handle_frame_sent [of cf f c] Cons.IH [of c'] by (cases r) auto
qed simp

text \<open>A received frame has consumed at least its header and its checksum.\<close>

lemma recvFrame_consumes:
  assumes "recvFrame es = (Received f, es')"
  shows "kHeaderSize + kCrcSize + pending es' \<le> pending es"
proof -
  obtain h es1 where h: "recv_exact kHeaderSize es = (Inr h, es1)"
    using assms by (auto simp: recvFrame_def stop_result_def split: prod.splits sum.splits recv_stop.splits)
  then obtain b es2 where "recv_exact (unat (load_le32 (drop 6 h)) + kCrcSize) es1 = (Inr b, es2)" "es2 = es'"
    using assms by (auto simp: recvFrame_def stop_result_def Let_def split: prod.splits sum.splits recv_stop.splits if_splits)
  then show ?thesis using recv_exact_pending [OF h] recv_exact_pending by fastforce
qed


section \<open>No quarantine over the wire\<close>

lemma on_device_calm:
  assumes "\<And>d. txn_step k (d, s) (snd (body (d, s)))"
    and "\<And>d. quarantine_active (fst (snd (body (d, s)))) \<longrightarrow> quarantine_active d"
  shows "calm s (snd (on_device k miss body s))"
proof (cases "findLocked k s")
  case (Some d)
  then show ?thesis
    using calm_put [OF Some assms(1) assms(2)] by (cases "body (d, s)") (simp add: on_device_def)
qed (simp add: on_device_def calm_refl)

lemma acceptObservation_calm: "calm s (snd (acceptObservation obs env s))"
proof (cases "findLocked (obs_accelerator obs) s")
  case (Some d)
  let ?k = "obs_accelerator obs" and ?c = "snd (observe_body obs env (d, s))"
  have "calm s (put_device ?k ?c)"
    if "\<not> stale_generation env s" "\<not> gen_get (env_deviceGeneration env) < gen_get (dv_generation d)"
  proof -
    have "dv_generation d \<le> env_deviceGeneration env" using that(2) by (simp add: less_eq_Generation_def)
    with that(1) show ?thesis
      using calm_put [OF Some txn_step.observe] calm.observe_txn [of d env s obs] by simp
  qed
  then show ?thesis
    using Some by (auto simp: acceptObservation_def calm_refl split: option.splits prod.splits)
qed (simp add: acceptObservation_def calm_refl)

interpretation unquarantined: service_relation calm
proof
  show "calm s (snd (recordFault f s))" for f s
    unfolding recordFault_def
    by (rule on_device_calm [OF txn_step.fault [OF refl]]) (use keepsD [OF calm.fault_txn [OF refl]] in force)
  show "calm s (snd (recordValidation v s))" for v s
    unfolding recordValidation_def
    by (rule on_device_calm [OF txn_step.validation]) (use keepsD [OF calm.validation_txn] in force)
qed (auto simp: calm_refl registerWorker_def clock_now_eq registerDevice_calm reassessAll_calm acceptObservation_calm
    invalidateWorker_calm intro: calm_devices dest: calm_trans)



section \<open>Reports in the name of another worker\<close>

lemma reassess_worker: "dv_lastWorker (fst (snd (reassessLocked (d, s)))) = dv_lastWorker d"
  "dv_lastWorkerBootId (fst (snd (reassessLocked (d, s)))) = dv_lastWorkerBootId d"
  by (auto simp: reassess_eq reassess_finish_def Let_def moved_def split: sum.splits)

text \<open>C28. The fence of an observation checks the worker of its envelope, but the device remembers the worker
  named in its body, which nothing compares.  A report accepted from one worker in the name of another
  is therefore not withdrawn when the session of the worker that sent it ends: the device keeps its
  readiness, its assessment and the age of its evidence.\<close>

theorem misattributed_observation_survives:
  assumes "admissible obs env s" "(obs_worker obs, obs_workerBootId obs) \<noteq> (env_workerId env, env_workerBootId env)"
    and "cn_store c = snd (acceptObservation obs env s)"
    and "cn_session c = \<lparr>ss_worker = env_workerId env, ss_boot = env_workerBootId env, ss_haveWorker = True\<rparr>"
  shows "findLocked (obs_accelerator obs) (cn_store (snd (end_session c))) = findLocked (obs_accelerator obs) (cn_store c)"
proof -
  let ?k = "obs_accelerator obs" and ?s = "snd (clock_now (cn_store c))"
  obtain d where d: "findLocked ?k s = Some d" using assms(1) by (auto simp: admissible_def)
  let ?d = "fst (snd (reassessLocked (observe_device obs env d, observed env s)))"
  have now: "findLocked ?k (cn_store c) = Some ?d"
    using accept_admissible [OF assms(1) d]
    by (auto simp: assms(3) put_device_def findLocked_def smap_find_put split: prod.splits)
  have "dv_lastWorker ?d = obs_worker obs" "dv_lastWorkerBootId ?d = obs_workerBootId obs"
    by (simp_all add: reassess_worker observe_device_def Let_def)
  then have "\<not> (dv_lastWorker ?d = env_workerId env \<and> dv_lastWorkerBootId ?d = env_workerBootId env)"
    using assms(2) by auto
  then have same: "fst (snd (invalidate_device (env_workerId env) (env_workerBootId env) (?d, t))) = ?d" for t
    by (auto simp: invalidate_device_def op_when_def)
  have "findLocked ?k ?s = Some ?d" using now by (simp add: clock_now_eq findLocked_def)
  then have "\<exists>d'. findLocked ?k (snd (for_devices ks (invalidate_device (env_workerId env) (env_workerBootId env)) ?s)) = Some d' \<and>
      d' = ?d" for ks
    by (intro for_devices_pred [where P = "\<lambda>x. x = ?d"] txn_step.invalidate refl) (use same in blast)+
  then have "findLocked ?k (snd (invalidateWorker (env_workerId env) (env_workerBootId env) ?s)) = Some ?d"
    using \<open>findLocked ?k ?s = Some ?d\<close> unfolding invalidateWorker_def
    by (auto simp: findLocked_def split: prod.splits option.splits) (metis snd_conv)+
  then show ?thesis
    by (simp add: now end_session_def Let_def assms(4) split: prod.splits) (metis snd_conv)
qed

text \<open>Worker 3 reports in the name of worker 99, then disconnects: the observation still counts as recent.\<close>

theorem misattributed_observation_survives_witness:
  "\<exists>d. findLocked (StrongId 7) (cn_store (snd (end_session (demo_conn
       (snd (acceptObservation (demo_obs\<lparr>obs_worker := StrongId 99\<rparr>) demo_env demo1)))))) = Some d \<and>
     dv_lastWorker d = StrongId 99 \<and> dv_lastObservation d = Timestamp 100"
proof -
  let ?obs = "demo_obs\<lparr>obs_worker := StrongId 99\<rparr>"
  let ?c = "demo_conn (snd (acceptObservation ?obs demo_env demo1))"
  have adm: "admissible ?obs demo_env demo1" and acc: "obs_accelerator ?obs = StrongId 7"
    by (simp_all add: admissible_def demo1_device demo1_store demo_obs_def demo_env_def stale_generation_def smap_find_def
        demo_device_def new_device_def)
  let ?d = "fst (snd (reassessLocked (observe_device ?obs demo_env demo_device, observed demo_env demo1)))"
  have "findLocked (StrongId 7) (cn_store ?c) = Some ?d"
    using accept_admissible [OF adm, of demo_device] demo1_device
    by (auto simp: acc demo_conn_def put_device_def findLocked_def smap_find_put split: prod.splits)
  moreover have "dv_lastWorker ?d = StrongId 99" by (simp add: reassess_worker observe_device_def Let_def)
  moreover have "dv_lastObservation ?d = Timestamp 100"
    using reassess_signals(1) [of "observe_device ?obs demo_env demo_device" "observed demo_env demo1"]
    by (simp add: signals_def observe_device_def demo_obs_def Let_def)
  ultimately show ?thesis
    using misattributed_observation_survives [OF adm, of ?c] by (simp add: acc demo_conn_def demo_env_def)
qed

section \<open>Reports from the future\<close>

text \<open>The timestamp of an observation is not compared with any clock.  Evidence is current until the clock of
  the coordinator passes it; a worker that sends the largest timestamp has its device current for ever.\<close>

lemma future_evidence_current:
  assumes "admissible obs env s" "findLocked (obs_accelerator obs) (snd (acceptObservation obs env s)) = Some d"
    and "nanos (obs_timestamp obs) \<noteq> 0" "ts_less now (obs_timestamp obs)"
  shows "evidence_freshness pol (dv_lastObservation d) now = FreshnessStatus.CURRENT"
proof -
  obtain d0 where d0: "findLocked (obs_accelerator obs) s = Some d0" using assms(1) by (auto simp: admissible_def)
  have "d = fst (snd (reassessLocked (observe_device obs env d0, observed env s)))"
    using accept_admissible [OF assms(1) d0] assms(2)
    by (auto simp: put_device_def findLocked_def smap_find_put split: prod.splits)
  then have "dv_lastObservation d = obs_timestamp obs"
    using reassess_signals(1) [of "observe_device obs env d0" "observed env s"]
    by (simp add: signals_def observe_device_def Let_def)
  then show ?thesis using assms(3,4) by (simp add: evidence_freshness_def freshness_evaluate_def)
qed

lemma largest_timestamp_unfading:
  assumes "now \<noteq> Timestamp (2 ^ 63 - 1)"
  shows "ts_less now (Timestamp (2 ^ 63 - 1))"
proof -
  have top: "sint (2 ^ 63 - 1 :: i64) = 2 ^ 63 - 1" by simp
  have "nanos now \<noteq> 2 ^ 63 - 1" using assms by (cases now) auto
  then have "sint (nanos now) \<noteq> 2 ^ 63 - 1" by (metis top signed_word_eqI)
  moreover have "sint (nanos now) < 2 ^ 63" using sint_lt [of "nanos now"] by simp
  ultimately show ?thesis unfolding ts_less_def Timestamp.sel top by linarith
qed

end
