(* ===== verification/FloatOps.thy ===== *)
theory FloatOps
  imports Float32
begin

text \<open>
  The remaining binary32 operations the program computes with: conversion of natural numbers, sums,
  differences, quotients and absolute values, rounded to nearest, ties to even, and the fixed-point
  printing of \<open>std::to_string\<close>.  The lemmas give what the validation of a device relies on: the
  difference of a finite number with itself is zero, and small results are finite.
\<close>

section \<open>Operations\<close>

definition f32_finite :: "f32 \<Rightarrow> bool" where
  "f32_finite x \<longleftrightarrow> f32_mag x < 255 * 2 ^ 23"

definition f32_pack :: "bool \<Rightarrow> nat \<Rightarrow> int \<Rightarrow> f32" where
  "f32_pack neg m e = f32_make neg (if m = 0 then 0 else round_mag m e)"

definition f32_of_nat :: "nat \<Rightarrow> f32" where
  "f32_of_nat n = f32_pack False n 0"

definition f32_neg :: "f32 \<Rightarrow> f32" where
  "f32_neg x = f32_make (\<not> f32_sign x) (f32_mag x)"

definition f32_abs :: "f32 \<Rightarrow> f32" where
  "f32_abs x = f32_make False (f32_mag x)"

text \<open>A finite pattern as an integer multiple of \<open>2 ^ e\<close>, for an exponent not above its own.\<close>

definition f32_scaled :: "f32 \<Rightarrow> int \<Rightarrow> int" where
  "f32_scaled x e = (if f32_sign x then - 1 else 1) * int (f32_sig x) * 2 ^ nat (f32_exp x - e)"

definition f32_add :: "f32 \<Rightarrow> f32 \<Rightarrow> f32" where
  "f32_add a b =
     (if f32_nan a \<or> f32_nan b then f32_qnan
      else if f32_inf a then (if f32_inf b \<and> f32_sign a \<noteq> f32_sign b then f32_qnan else a)
      else if f32_inf b then b
      else let e = min (f32_exp a) (f32_exp b); s = f32_scaled a e + f32_scaled b e in
        if s = 0 then f32_make (f32_sign a \<and> f32_sign b) 0
        else f32_pack (s < 0) (nat \<bar>s\<bar>) e)"

definition f32_sub :: "f32 \<Rightarrow> f32 \<Rightarrow> f32" where
  "f32_sub a b = f32_add a (f32_neg b)"

text \<open>The quotient to 64 bits and more, with a sticky bit for the remainder.\<close>

definition f32_div :: "f32 \<Rightarrow> f32 \<Rightarrow> f32" where
  "f32_div a b =
     (let neg = (f32_sign a \<noteq> f32_sign b) in
      if f32_nan a \<or> f32_nan b \<or> (f32_inf a \<and> f32_inf b) \<or> (f32_mag a = 0 \<and> f32_mag b = 0) then f32_qnan
      else if f32_inf a \<or> f32_mag b = 0 then f32_make neg (255 * 2 ^ 23)
      else if f32_inf b then f32_make neg 0
      else let n = f32_sig a * 2 ^ 64; q = n div f32_sig b in
        f32_pack neg (2 * q + (if n mod f32_sig b = 0 then 0 else 1)) (f32_exp a - f32_exp b - 65))"

section \<open>Printing\<close>

text \<open>\<open>std::to_string(float)\<close>, that is \<open>%f\<close>: six decimals of the exact value, ties to even.\<close>

definition pad6 :: "nat \<Rightarrow> string" where
  "pad6 n = (let s = nat_to_string n in replicate (6 - length s) (CHR ''0'') @ s)"

definition f32_to_string :: "f32 \<Rightarrow> string" where
  "f32_to_string x = (if f32_sign x then ''-'' else '''') @
     (if f32_nan x then ''nan'' else if f32_inf x then ''inf''
      else let m = f32_sig x * 10 ^ 6;
               n = (if 0 \<le> f32_exp x then m * 2 ^ nat (f32_exp x) else round_even m (nat (- f32_exp x)))
           in nat_to_string (n div 10 ^ 6) @ ''.'' @ pad6 (n mod 10 ^ 6))"

section \<open>Lemmas\<close>

lemma f32_make_mag:
  assumes "mag < 2 ^ 31"
  shows "f32_mag (f32_make s mag) = mag" "f32_sign (f32_make s mag) = s"
proof -
  have "unat (f32_make s mag) = mag + (if s then 2 ^ 31 else 0)"
    using assms unfolding f32_make_def by (simp add: unat_of_nat del: of_nat_add)
  then show "f32_mag (f32_make s mag) = mag" "f32_sign (f32_make s mag) = s"
    using assms by (simp_all add: f32_mag_def f32_sign_def)
qed

lemma f32_mag_less: "f32_mag x < 2 ^ 31"
  by (simp add: f32_mag_def)

lemma f32_neg_simps [simp]:
  "f32_mag (f32_neg x) = f32_mag x" "f32_sign (f32_neg x) = (\<not> f32_sign x)" "f32_sig (f32_neg x) = f32_sig x"
  "f32_exp (f32_neg x) = f32_exp x" "f32_nan (f32_neg x) = f32_nan x" "f32_inf (f32_neg x) = f32_inf x"
proof -
  show mag: "f32_mag (f32_neg x) = f32_mag x" and "f32_sign (f32_neg x) = (\<not> f32_sign x)"
    unfolding f32_neg_def by (rule f32_make_mag [OF f32_mag_less])+
  then show "f32_sig (f32_neg x) = f32_sig x" "f32_exp (f32_neg x) = f32_exp x" "f32_nan (f32_neg x) = f32_nan x"
    "f32_inf (f32_neg x) = f32_inf x"
    by (simp_all add: f32_sig_def f32_exp_def f32_nan_def f32_inf_def)
qed

lemma f32_finite_not: "f32_finite x \<Longrightarrow> \<not> f32_nan x \<and> \<not> f32_inf x"
  by (simp add: f32_finite_def f32_nan_def f32_inf_def)

lemma f32_sub_self: "f32_finite x \<Longrightarrow> f32_sub x x = 0"
  using f32_finite_not [of x]
  by (simp add: f32_sub_def f32_add_def Let_def f32_scaled_def f32_make_def)

lemma f32_sub_nan: "f32_nan a \<Longrightarrow> f32_sub a b = f32_qnan"
  by (simp add: f32_sub_def f32_add_def)

lemma f32_qnan_nan: "f32_nan f32_qnan"
  by (simp add: f32_nan_def f32_qnan_def f32_mag_def)

lemma f32_less_nan: "f32_nan a \<Longrightarrow> \<not> f32_less a b" "f32_nan b \<Longrightarrow> \<not> f32_less a b"
  by (simp_all add: f32_less_def)

lemma f32_less_irrefl: "\<not> f32_less a a"
  by (simp add: f32_less_def)

lemma f32_less_trans: "f32_less a b \<Longrightarrow> f32_less b c \<Longrightarrow> f32_less a c"
  by (simp add: f32_less_def)

lemma round_mag_bound:
  assumes "0 < m" "int (bitlen m) + e \<le> B" "- 125 \<le> B" "B \<le> 127"
  shows "round_mag m e \<le> nat (B + 127) * 2 ^ 23"
proof -
  define L where "L = bitlen m"
  define shift where "shift = max (int L - 24) (- 149 - e)"
  define m1 where "m1 = (if shift \<le> 0 then m * 2 ^ nat (- shift) else round_even m (nat shift))"
  have bl: "m < 2 ^ L" using bitlen_bounds [OF assms(1)] by (simp add: L_def)
  have m1: "m1 \<le> 2 ^ 24"
  proof (cases "shift \<le> 0")
    case True
    then have "L + nat (- shift) \<le> 24" by (simp add: shift_def max_def split: if_splits)
    then have "(2::nat) ^ (L + nat (- shift)) \<le> 2 ^ 24" by (rule power_increasing) simp
    moreover have "m * 2 ^ nat (- shift) \<le> 2 ^ L * 2 ^ nat (- shift)" using bl by simp
    ultimately show ?thesis using True by (simp only: m1_def power_add if_True)
  next
    case False
    then have "L \<le> 24 + nat shift" by (simp add: shift_def max_def split: if_splits)
    then have "(2::nat) ^ L \<le> 2 ^ (24 + nat shift)" by (rule power_increasing) simp
    then have "m \<le> 2 ^ 24 * 2 ^ nat shift" using bl by (simp only: power_add)
    then show ?thesis using False by (simp add: m1_def round_even_le)
  qed
  define m2 where "m2 = (if m1 = 2 ^ 24 then 2 ^ 23 else m1)"
  define e2 where "e2 = (if m1 = 2 ^ 24 then e + shift + 1 else e + shift)"
  have e1: "e + shift \<le> B - 24" using assms(2,3) by (simp add: shift_def L_def max_def)
  have rm: "round_mag m e = (if m2 < 2 ^ 23 then m2
       else if e2 + 150 \<ge> 255 then 255 * 2 ^ 23 else nat (e2 + 150) * 2 ^ 23 + (m2 - 2 ^ 23))"
    unfolding round_mag_def Let_def m2_def e2_def m1_def shift_def L_def by simp
  have low: "(2::nat) ^ 23 \<le> nat (B + 127) * 2 ^ 23"
    using assms(3) by simp
  show ?thesis
  proof (cases "m1 = 2 ^ 24")
    case True
    then have "nat (e2 + 150) \<le> nat (B + 127)" using e1 by (simp add: e2_def)
    then have "nat (e2 + 150) * 2 ^ 23 \<le> nat (B + 127) * 2 ^ 23" by (rule mult_le_mono1)
    then show ?thesis using True e1 assms(4) low by (simp add: rm m2_def e2_def)
  next
    case False
    then have "nat (e2 + 150) + 1 \<le> nat (B + 127)" using e1 assms(3) by (simp add: e2_def le_nat_iff nat_le_iff)
    then have "(nat (e2 + 150) + 1) * 2 ^ 23 \<le> nat (B + 127) * 2 ^ 23" by (rule mult_le_mono1)
    moreover have "m2 < 2 ^ 24" using False m1 by (simp add: m2_def)
    ultimately show ?thesis using low e1 assms(4) False by (auto simp: rm e2_def)
  qed
qed

lemma bitlen_le: "n < 2 ^ k \<Longrightarrow> bitlen n \<le> k"
proof (cases "n = 0")
  case False
  assume "n < 2 ^ k"
  then have "(2::nat) ^ (bitlen n - 1) < 2 ^ k" using bitlen_bounds [of n] False by linarith
  then show ?thesis by (simp add: power_strict_increasing_iff)
qed (simp add: bitlen.simps)

text \<open>Numbers with a biased exponent of at most \<open>k\<close>, or \<open>2 ^ (k - 127)\<close> itself.\<close>

definition f32_small :: "nat \<Rightarrow> f32 \<Rightarrow> bool" where
  "f32_small k x \<longleftrightarrow> f32_mag x \<le> k * 2 ^ 23"

lemma f32_small_finite: "f32_small k x \<Longrightarrow> k < 255 \<Longrightarrow> f32_finite x"
  by (simp add: f32_small_def f32_finite_def)

lemma f32_small_facts:
  assumes "f32_small k x" "1 \<le> k"
  shows "f32_sig x < 2 ^ 24" "f32_exp x \<le> int k - 150"
proof -
  have "f32_mag x div 2 ^ 23 \<le> k"
    using assms(1) div_le_mono [of "f32_mag x" "k * 2 ^ 23" "2 ^ 23"] by (simp add: f32_small_def)
  then show "f32_exp x \<le> int k - 150" using assms(2) by (simp add: f32_exp_def Let_def)
  have "f32_mag x mod 2 ^ 23 < 2 ^ 23" by simp
  then show "f32_sig x < 2 ^ 24" by (simp add: f32_sig_def Let_def split: if_split, linarith)
qed

lemma f32_pack_small:
  assumes "int (bitlen m) + e \<le> B" "- 125 \<le> B" "B \<le> 127"
  shows "f32_small (nat (B + 127)) (f32_pack s m e)"
proof (cases "m = 0")
  case True
  then show ?thesis by (simp add: f32_small_def f32_pack_def f32_make_mag)
next
  case False
  then have le: "round_mag m e \<le> nat (B + 127) * 2 ^ 23" using round_mag_bound [OF _ assms] by simp
  also have "\<dots> \<le> 254 * 2 ^ 23" using assms(3) by (intro mult_le_mono1) simp
  finally have "round_mag m e < 2 ^ 31" by simp
  then show ?thesis using le False by (simp add: f32_small_def f32_pack_def f32_make_mag)
qed

lemma f32_of_nat_small: "n < 2 ^ k \<Longrightarrow> k \<le> 100 \<Longrightarrow> f32_small (k + 127) (f32_of_nat n)"
  using f32_pack_small [of n 0 "int k" False] bitlen_le [of n k] by (simp add: f32_of_nat_def nat_add_distrib)

end
