(* ===== verification/Backends.thy ===== *)
theory Backends
  imports Messages FloatOps "HOL-Library.Signed_Division"
begin

text \<open>
  Model of the backends (\<open>Backend.hpp\<close>, \<open>FakeBackend.cpp\<close>/\<open>.hpp\<close>, \<open>cuda/CudaBackend.cpp\<close>/\<open>CudaBackend.hpp\<close>).
  The CUDA runtime is a parameter: a record of what its calls return during one method.  The numbers
  of a validation are binary32 patterns, computed as the code does.

  The lemmas and theorems show what a validation verdict means, and where it is not what the code
  intends: a CUDA device that returns NaN passes, and the fault injection of the fake backend cannot
  be switched on.
\<close>

section \<open>Observations\<close>

record MemoryInfo =
  mi_available :: bool
  mi_total :: u64
  mi_free :: u64
  mi_used :: u64

record ThermalInfo =
  ti_available :: bool
  ti_tempC :: f64

record PowerInfo =
  pi_available :: bool
  pi_watts :: f64

record ErrorInfo =
  ei_available :: bool
  ei_uncorrectableEcc :: u64
  ei_correctableEcc :: u64

record LinkInfo =
  li_available :: bool
  li_width :: u32
  li_throughput :: u64
  li_type :: string

record RuntimeInfo =
  ru_cudaAvailable :: bool
  ru_version :: string
  ru_driver :: string

record ValidationResult =
  vr_passed :: bool
  vr_profile :: ValidationProfile
  vr_depth :: ValidationDepth
  vr_maxError :: f32
  vr_freeBefore :: u64
  vr_freeAfter :: u64
  vr_error :: string
  vr_steps :: "string list"

definition default_MemoryInfo :: MemoryInfo where
  "default_MemoryInfo = \<lparr>mi_available = False, mi_total = 0, mi_free = 0, mi_used = 0\<rparr>"

definition default_ThermalInfo :: ThermalInfo where
  "default_ThermalInfo = \<lparr>ti_available = False, ti_tempC = 0\<rparr>"

definition default_PowerInfo :: PowerInfo where
  "default_PowerInfo = \<lparr>pi_available = False, pi_watts = 0\<rparr>"

definition default_ErrorInfo :: ErrorInfo where
  "default_ErrorInfo = \<lparr>ei_available = False, ei_uncorrectableEcc = 0, ei_correctableEcc = 0\<rparr>"

definition default_LinkInfo :: LinkInfo where
  "default_LinkInfo = \<lparr>li_available = False, li_width = 0, li_throughput = 0, li_type = []\<rparr>"

definition default_RuntimeInfo :: RuntimeInfo where
  "default_RuntimeInfo = \<lparr>ru_cudaAvailable = False, ru_version = [], ru_driver = []\<rparr>"

definition default_ValidationResult :: ValidationResult where
  "default_ValidationResult = \<lparr>vr_passed = False, vr_profile = ValidationProfile.FULL, vr_depth = ValidationDepth.NONE,
     vr_maxError = 0, vr_freeBefore = 0, vr_freeAfter = 0, vr_error = [], vr_steps = []\<rparr>"

text \<open>The depth a passed validation claims, the same chain of conditionals in both backends.\<close>

definition profile_depth :: "ValidationProfile \<Rightarrow> ValidationDepth" where
  "profile_depth profile =
     (if profile = ValidationProfile.FULL then ValidationDepth.FULL
      else if profile = ValidationProfile.NUMERICAL then ValidationDepth.NUMERICAL
      else if profile = ValidationProfile.EXECUTION then ValidationDepth.EXECUTION
      else if profile = ValidationProfile.TRANSFER then ValidationDepth.TRANSFER
      else if profile = ValidationProfile.MEMORY then ValidationDepth.ALLOCATION
      else ValidationDepth.INITIALIZATION)"

definition f32_two :: f32 where
  "f32_two = 0x40000000"

section \<open>The fake backend\<close>

record FakeBackend =
  fb_cudaAvailable :: bool
  fb_devices :: "(AcceleratorId, DeviceIdentity) stdmap"
  fb_mem :: MemoryInfo
  fb_temp :: ThermalInfo
  fb_power :: PowerInfo
  fb_errors :: ErrorInfo
  fb_link :: LinkInfo
  fb_runtime :: RuntimeInfo
  fb_forceValidationFailure :: bool
  fb_failureReason :: string
  fb_forceNumericalMismatch :: bool
  fb_forcedMaxError :: f32
  fb_stepsLimit :: int
  fb_allocationCounter :: u64

definition FakeBackend_new :: "bool \<Rightarrow> FakeBackend" where
  "FakeBackend_new cudaAvailable = \<lparr>fb_cudaAvailable = cudaAvailable, fb_devices = [], fb_mem = default_MemoryInfo,
     fb_temp = default_ThermalInfo, fb_power = default_PowerInfo, fb_errors = default_ErrorInfo, fb_link = default_LinkInfo,
     fb_runtime = default_RuntimeInfo, fb_forceValidationFailure = False, fb_failureReason = [],
     fb_forceNumericalMismatch = False, fb_forcedMaxError = 0x3F000000, fb_stepsLimit = 0, fb_allocationCounter = 0\<rparr>"

definition addDevice :: "DeviceIdentity \<Rightarrow> FakeBackend \<Rightarrow> FakeBackend" where
  "addDevice d b = b\<lparr>fb_devices := smap_put (di_id d) d (fb_devices b)\<rparr>"

definition removeDevice :: "AcceleratorId \<Rightarrow> FakeBackend \<Rightarrow> FakeBackend" where
  "removeDevice i b = b\<lparr>fb_devices := smap_erase i (fb_devices b)\<rparr>"

definition fake_enumerate :: "FakeBackend \<Rightarrow> DeviceIdentity list" where
  "fake_enumerate b = smap_values (fb_devices b)"

definition fake_queryIdentity :: "AcceleratorId \<Rightarrow> FakeBackend \<Rightarrow> DeviceIdentity option" where
  "fake_queryIdentity i b = smap_find i (fb_devices b)"

text \<open>One sample: a pseudo-random input between 0 and 1, its double as reference, and the deviation.\<close>

definition fake_deviation :: "FakeBackend \<Rightarrow> u64 \<Rightarrow> f32" where
  "fake_deviation b x =
     (let inp = f32_div (f32_of_nat (unat (x AND 0xFFFF))) 0x477FFF00;
          ref = f32_mul inp f32_two;
          dev = (if fb_forceNumericalMismatch b then f32_add ref (fb_forcedMaxError b) else ref)
      in f32_abs (f32_sub dev ref))"

primrec fake_loop :: "FakeBackend \<Rightarrow> nat \<Rightarrow> u64 \<Rightarrow> f32 \<Rightarrow> f32" where
  "fake_loop b 0 st maxErr = maxErr"
| "fake_loop b (Suc n) st maxErr = (case splitmix64_next st of (x, st') \<Rightarrow>
     let e = fake_deviation b x in fake_loop b n st' (if f32_less maxErr e then e else maxErr))"

text \<open>\<open>x > m * 2 ^ e\<close>; the constant \<open>1e-6\<close> of type double is \<open>4722366482869645 * 2 ^ -72\<close>.\<close>

definition f32_above :: "f32 \<Rightarrow> nat \<Rightarrow> int \<Rightarrow> bool" where
  "f32_above x m e \<longleftrightarrow> \<not> f32_nan x \<and> \<not> f32_sign x \<and>
     (f32_inf x \<or> (let k = min e (f32_exp x) in m * 2 ^ nat (e - k) < f32_sig x * 2 ^ nat (f32_exp x - k)))"

definition fake_steps :: "string list" where
  "fake_steps = [''step 1: device enumeration'', ''step 2: identity confirmation'',
     ''step 3: CUDA initialization'', ''step 4: bounded allocation'',
     ''step 5: host-to-device transfer'', ''step 6: real CUDA kernel execution'',
     ''step 7: synchronization'', ''step 8: device-to-host transfer'',
     ''step 9: CPU-reference comparison'', ''step 10: resource cleanup'',
     ''step 11: memory recovery check'']"

definition fake_runValidation :: "AcceleratorId \<Rightarrow> ValidationProfile \<Rightarrow> FakeBackend \<Rightarrow> ValidationResult" where
  "fake_runValidation i profile b =
     (let r = default_ValidationResult\<lparr>vr_profile := profile\<rparr> in
      if fb_forceValidationFailure b then
        r\<lparr>vr_passed := False, vr_error := fb_failureReason b, vr_depth := ValidationDepth.NONE,
          vr_steps := [''synthetic failure forced'']\<rparr>
      else
        let base = (if mi_free (fb_mem b) \<noteq> 0 then mi_free (fb_mem b) else 2 ^ 30);
            steps = (if fb_stepsLimit b > 0 \<and> int (length fake_steps) > fb_stepsLimit b
                     then take (nat (fb_stepsLimit b)) fake_steps else fake_steps);
            maxErr = fake_loop b 1024 0x1234567890ABCDEF 0;
            r1 = r\<lparr>vr_freeBefore := base, vr_steps := steps, vr_maxError := maxErr, vr_freeAfter := base\<rparr>
        in if fb_forceNumericalMismatch b \<or> f32_above maxErr 4722366482869645 (- 72)
           then r1\<lparr>vr_passed := False, vr_error := ''numerical mismatch, max error '' @ f32_to_string maxErr\<rparr>
           else r1\<lparr>vr_passed := True, vr_depth := profile_depth profile\<rparr>)"

section \<open>The CUDA backend\<close>

record CudaDeviceProp =
  cp_major :: int
  cp_minor :: int
  cp_name :: string

text \<open>
  What the calls of the CUDA runtime return (error code 0 is \<open>cudaSuccess\<close>): \<open>cu_memInfo k\<close> is the error
  and the values of \<open>free\<close> and \<open>total\<close> after the \<open>k\<close>-th call of \<open>cudaMemGetInfo\<close> in the method,
  \<open>cu_copyOut h\<close> the error and the contents of the host buffer after the copy back from a device
  that was given \<open>h\<close>; \<open>cu_hostAlloc\<close> says whether both host buffers were allocated.
\<close>

record Cuda =
  cu_deviceCount :: "int \<times> int"
  cu_props :: "int \<Rightarrow> int \<times> CudaDeviceProp"
  cu_memInfo :: "nat \<Rightarrow> int \<times> u64 \<times> u64"
  cu_runtimeVersion :: "int \<times> int"
  cu_driverVersion :: "int \<times> int"
  cu_errText :: "int \<Rightarrow> string"
  cu_hostAlloc :: bool
  cu_setDevice :: "int \<Rightarrow> int"
  cu_malloc :: int
  cu_copyIn :: "f32 list \<Rightarrow> int"
  cu_launch :: int
  cu_sync :: int
  cu_copyOut :: "f32 list \<Rightarrow> int \<times> f32 list"

record CudaBackend =
  cb_forceValidationFailure :: bool
  cb_failureReason :: string
  cb_forceNumericalMismatch :: bool
  cb_forcedMaxError :: f32
  cb_memoryTolerance :: u64

definition CudaBackend_new :: CudaBackend where
  "CudaBackend_new = \<lparr>cb_forceValidationFailure = False, cb_failureReason = [], cb_forceNumericalMismatch = False,
     cb_forcedMaxError = 0x3F000000, cb_memoryTolerance = 4 * 1024 * 1024\<rparr>"

definition cuda_setForceValidationFailure :: "bool \<Rightarrow> string \<Rightarrow> CudaBackend \<Rightarrow> CudaBackend" where
  "cuda_setForceValidationFailure on reason b = b\<lparr>cb_forceValidationFailure := on, cb_failureReason := reason\<rparr>"

definition cuda_setForceNumericalMismatch :: "bool \<Rightarrow> f32 \<Rightarrow> CudaBackend \<Rightarrow> CudaBackend" where
  "cuda_setForceNumericalMismatch on maxError b = b\<lparr>cb_forceNumericalMismatch := on, cb_forcedMaxError := maxError\<rparr>"

definition cuda_setMemoryRecoveryTolerance :: "u64 \<Rightarrow> CudaBackend \<Rightarrow> CudaBackend" where
  "cuda_setMemoryRecoveryTolerance n b = b\<lparr>cb_memoryTolerance := n\<rparr>"

definition makeIdentity :: "int \<Rightarrow> int \<Rightarrow> int \<Rightarrow> string \<Rightarrow> u64 \<Rightarrow> u64 \<Rightarrow> DeviceIdentity" where
  "makeIdentity ordinal ccMajor ccMinor name tot free = \<lparr>di_id = StrongId (word_of_int (ordinal + 1)),
     di_uuid = StrongId (0x50905090 + word_of_int ordinal), di_generation = Generation 1, di_name = name,
     di_computeCapabilityMajor = ccMajor, di_computeCapabilityMinor = ccMinor, di_totalMemory = tot,
     di_freeMemory = free, di_supported = True\<rparr>"

definition isCudaRuntimeAvailable :: "Cuda \<Rightarrow> bool" where
  "isCudaRuntimeAvailable cu \<longleftrightarrow> (case cu_deviceCount cu of (e, count) \<Rightarrow> e = 0 \<and> count \<ge> 1)"

text \<open>C++ division of integers truncates towards zero.\<close>

definition version_string :: "int \<Rightarrow> string" where
  "version_string v = int_to_string (v sdiv 1000) @ ''.'' @ int_to_string ((v smod 100) sdiv 10)"

definition cuda_runtime :: "Cuda \<Rightarrow> RuntimeInfo" where
  "cuda_runtime cu =
     (let r = (case cu_runtimeVersion cu of (e, v) \<Rightarrow> if e = 0
               then default_RuntimeInfo\<lparr>ru_cudaAvailable := True, ru_version := version_string v\<rparr> else default_RuntimeInfo)
      in case cu_driverVersion cu of (e, v) \<Rightarrow> if e = 0 then r\<lparr>ru_driver := version_string v\<rparr> else r)"

text \<open>Devices whose properties cannot be read are skipped; \<open>k\<close> counts the calls of \<open>cudaMemGetInfo\<close>.\<close>

fun cuda_enumerate_from :: "Cuda \<Rightarrow> nat \<Rightarrow> int list \<Rightarrow> DeviceIdentity list" where
  "cuda_enumerate_from cu k [] = []"
| "cuda_enumerate_from cu k (i # is) = (case cu_props cu i of (e, p) \<Rightarrow>
     if e \<noteq> 0 then cuda_enumerate_from cu k is
     else (case cu_memInfo cu k of (_, free, tot) \<Rightarrow>
       makeIdentity i (cp_major p) (cp_minor p) (cp_name p) tot free # cuda_enumerate_from cu (Suc k) is))"

definition cuda_enumerate :: "Cuda \<Rightarrow> DeviceIdentity list" where
  "cuda_enumerate cu = (case cu_deviceCount cu of (e, count) \<Rightarrow>
     if e \<noteq> 0 then [] else cuda_enumerate_from cu 0 [0..count - 1])"

definition id_ordinal :: "AcceleratorId \<Rightarrow> int" where
  "id_ordinal i = sint (ucast (id_get i) :: 32 word) - 1"

definition cuda_queryIdentity :: "Cuda \<Rightarrow> AcceleratorId \<Rightarrow> DeviceIdentity option" where
  "cuda_queryIdentity cu i = (case cu_props cu (id_ordinal i) of (e, p) \<Rightarrow>
     if e \<noteq> 0 then None
     else (case cu_memInfo cu 0 of (_, free, tot) \<Rightarrow>
       Some (makeIdentity (id_ordinal i) (cp_major p) (cp_minor p) (cp_name p) tot free)))"

definition cuda_memory :: "Cuda \<Rightarrow> MemoryInfo" where
  "cuda_memory cu = (case cu_memInfo cu 0 of (e, free, tot) \<Rightarrow>
     if e = 0 then \<lparr>mi_available = True, mi_total = tot, mi_free = free, mi_used = tot - free\<rparr> else default_MemoryInfo)"

section \<open>The CUDA validation\<close>

text \<open>A step: an error before it skips it; \<open>ok\<close> and the result so far are the state.\<close>

type_synonym probe = "bool \<times> ValidationResult"

definition add_step :: "string \<Rightarrow> ValidationResult \<Rightarrow> ValidationResult" where
  "add_step s r = r\<lparr>vr_steps := vr_steps r @ [s]\<rparr>"

definition checkCuda :: "Cuda \<Rightarrow> int \<Rightarrow> string \<Rightarrow> probe \<Rightarrow> probe" where
  "checkCuda cu e step x = (case x of (ok, r) \<Rightarrow>
     if \<not> ok then x
     else if e \<noteq> 0 then (False, r\<lparr>vr_error := step @ '': '' @ cu_errText cu e\<rparr>)
     else (True, add_step step r))"

definition launch_step :: "Cuda \<Rightarrow> probe \<Rightarrow> probe" where
  "launch_step cu x = (case x of (ok, r) \<Rightarrow>
     if \<not> ok then x
     else let r1 = add_step ''step 6: real CUDA kernel execution'' r in
       if cu_launch cu \<noteq> 0 then (False, r1\<lparr>vr_error := ''kernel launch failed''\<rparr>) else (True, r1))"

text \<open>The comparison loop: \<open>if (err < 0) err = -err; if (err > maxErr) maxErr = err;\<close>\<close>

definition deviation :: "f32 \<Rightarrow> f32 \<Rightarrow> f32" where
  "deviation h out = (let err = f32_sub out (f32_mul h f32_two) in if f32_less err 0 then f32_neg err else err)"

fun max_deviation :: "f32 list \<Rightarrow> f32 list \<Rightarrow> f32 \<Rightarrow> f32" where
  "max_deviation (h # hs) (x # xs) maxErr =
     max_deviation hs xs (if f32_less maxErr (deviation h x) then deviation h x else maxErr)"
| "max_deviation hs xs maxErr = maxErr"

definition f32_tolerance :: f32 where
  "f32_tolerance = 0x358637BD"

definition compare_step :: "CudaBackend \<Rightarrow> f32 list \<Rightarrow> f32 list \<Rightarrow> probe \<Rightarrow> probe" where
  "compare_step b h out x = (case x of (ok, r) \<Rightarrow>
     if \<not> ok then x
     else let maxErr = (if cb_forceNumericalMismatch b then cb_forcedMaxError b else max_deviation h out 0);
              r1 = (add_step ''step 9: CPU-reference comparison'' r)\<lparr>vr_maxError := maxErr\<rparr>
       in if f32_less f32_tolerance maxErr
          then (False, r1\<lparr>vr_error := ''numerical mismatch, max error '' @ f32_to_string maxErr\<rparr>) else (True, r1))"

definition used :: "u64 \<Rightarrow> u64 \<Rightarrow> u64" where
  "used free tot = (if tot > free then tot - free else 0)"

definition leak :: "Cuda \<Rightarrow> u64" where
  "leak cu = (case (cu_memInfo cu 0, cu_memInfo cu 1) of ((_, freeBefore, totalBefore), (_, freeAfter, totalAfter)) \<Rightarrow>
     if used freeAfter totalAfter > used freeBefore totalBefore
     then used freeAfter totalAfter - used freeBefore totalBefore else 0)"

definition memory_step :: "CudaBackend \<Rightarrow> Cuda \<Rightarrow> probe \<Rightarrow> probe" where
  "memory_step b cu x = (case x of (ok, r) \<Rightarrow>
     let r1 = add_step ''step 11: memory recovery check''
                ((add_step ''step 10: resource cleanup'' r)\<lparr>vr_freeAfter := fst (snd (cu_memInfo cu 1))\<rparr>)
     in if leak cu > cb_memoryTolerance b
        then (False, r1\<lparr>vr_error := ''memory recovery check failed (leak '' @ nat_to_string (unat (leak cu)) @ '' bytes)''\<rparr>)
        else (ok, r1))"

definition host_buffer :: "f32 list" where
  "host_buffer = map f32_of_nat [0..<2 ^ 20]"

text \<open>The steps from the allocated host buffer on; the device works in place on the buffer \<open>h\<close>.\<close>

definition cuda_probe :: "CudaBackend \<Rightarrow> Cuda \<Rightarrow> int \<Rightarrow> f32 list \<Rightarrow> ValidationResult \<Rightarrow> probe" where
  "cuda_probe b cu ordinal h r =
     memory_step b cu
      (compare_step b h (snd (cu_copyOut cu h))
       (checkCuda cu (fst (cu_copyOut cu h)) ''step 8: D2H transfer''
        (checkCuda cu (cu_sync cu) ''step 7: synchronization''
         (launch_step cu
          (checkCuda cu (cu_copyIn cu h) ''step 5: H2D transfer''
           (checkCuda cu (cu_malloc cu) ''step 4: bounded allocation''
            (checkCuda cu (cu_setDevice cu ordinal) ''step 3: CUDA initialization'' (True, r))))))))"

definition cuda_runValidation :: "Cuda \<Rightarrow> AcceleratorId \<Rightarrow> ValidationProfile \<Rightarrow> CudaBackend \<Rightarrow> ValidationResult" where
  "cuda_runValidation cu i profile b =
     (let r = default_ValidationResult\<lparr>vr_profile := profile\<rparr> in
      if cb_forceValidationFailure b then
        r\<lparr>vr_passed := False, vr_error := cb_failureReason b, vr_depth := ValidationDepth.NONE,
          vr_steps := [''synthetic failure forced'']\<rparr>
      else
        let ordinal = id_ordinal i;
            r1 = add_step ''step 1: device enumeration'' r
        in case cu_props cu ordinal of (e, p) \<Rightarrow>
          if e \<noteq> 0 then r1\<lparr>vr_passed := False, vr_error := ''enumerate failed''\<rparr>
          else
            let r2 = (add_step (''step 2: identity confirmation (compute capability '' @ int_to_string (cp_major p) @ ''.'' @
                        int_to_string (cp_minor p) @ '')'') r1)\<lparr>vr_freeBefore := fst (snd (cu_memInfo cu 0))\<rparr>
            in if \<not> cu_hostAlloc cu then r2\<lparr>vr_passed := False, vr_error := ''host alloc failed''\<rparr>
               else (case cuda_probe b cu ordinal host_buffer r2 of (ok, r3) \<Rightarrow>
                 if ok then r3\<lparr>vr_passed := True, vr_depth := profile_depth profile\<rparr> else r3))"

section \<open>The samples are finite\<close>

lemma f32_two_facts: "f32_mag f32_two = 128 * 2 ^ 23" "\<not> f32_sign f32_two" "f32_sig f32_two = 2 ^ 23" "f32_exp f32_two = - 22"
  by (simp_all add: f32_two_def f32_mag_def f32_sign_def f32_sig_def f32_exp_def)

lemma doubled_finite:
  assumes "f32_small k x" "1 \<le> k" "k \<le> 200"
  shows "f32_finite (f32_mul x f32_two)"
proof -
  let ?m = "f32_sig x * 2 ^ 23" and ?e = "f32_exp x - 22"
  note x = f32_small_facts [OF assms(1,2)]
  have fin: "f32_finite x" "f32_finite f32_two"
    using f32_small_finite [OF assms(1)] assms(3) by (simp_all add: f32_finite_def f32_two_facts)
  have "?m < 2 ^ 47" using x(1) by simp
  then have "int (bitlen ?m) + ?e \<le> int k - 125" using bitlen_le [of ?m 47] x(2) by linarith
  then have "f32_small (nat ((int k - 125) + 127)) (f32_pack s ?m ?e)" for s
    using assms(2,3) by (intro f32_pack_small) simp_all
  then have "f32_finite (f32_pack s ?m ?e)" for s
    by (rule f32_small_finite) (use assms(3) in simp)
  moreover have "f32_mul x f32_two = f32_pack (f32_sign x) ?m ?e"
    using fin [THEN f32_finite_not] by (simp add: f32_mul_def Let_def f32_pack_def f32_two_facts)
  ultimately show ?thesis by simp
qed

lemma quotient_small:
  assumes "n < 2 ^ 16"
  shows "f32_small 130 (f32_div (f32_of_nat n) 0x477FFF00)"
proof -
  let ?x = "f32_of_nat n" and ?d = "0x477FFF00 :: f32"
  have d: "f32_sig ?d = 65535 * 2 ^ 8" "f32_exp ?d = - 8" "f32_mag ?d = 0x477FFF00" "\<not> f32_nan ?d" "\<not> f32_inf ?d"
    by (simp_all add: f32_mag_def f32_sig_def f32_exp_def f32_nan_def f32_inf_def)
  have small: "f32_small 143 ?x" using f32_of_nat_small [OF assms] by simp
  note x = f32_small_facts [OF small, simplified]
  have fin: "\<not> f32_nan ?x" "\<not> f32_inf ?x" using f32_finite_not f32_small_finite [OF small] by simp_all
  let ?n = "f32_sig ?x * 2 ^ 64" and ?s = "f32_sig ?d"
  let ?m = "2 * (?n div ?s) + (if ?n mod ?s = 0 then 0 else 1)"
  have "?n div ?s \<le> (2 ^ 24 * 2 ^ 64) div (65535 * 2 ^ 8)"
    unfolding d(1) by (rule div_le_mono) (use x(1) in simp)
  then have "?m < 2 ^ 67" by simp
  then have "int (bitlen ?m) + (f32_exp ?x - f32_exp ?d - 65) \<le> 3" using bitlen_le [of ?m 67] x(2) d(2) by simp
  then have "f32_small (nat (3 + 127)) (f32_pack s ?m (f32_exp ?x - f32_exp ?d - 65))" for s
    by (rule f32_pack_small) simp_all
  then show ?thesis
    using fin d(3-5) by (simp add: f32_div_def Let_def d(3))
qed

section \<open>What a fake validation says\<close>

lemma fake_deviation_zero: "\<not> fb_forceNumericalMismatch b \<Longrightarrow> fake_deviation b x = 0"
proof -
  have "unat (x AND 0xFFFF) = take_bit 16 (unat x)"
    by (simp add: unsigned_and_eq take_bit_eq_mask mask_eq_exp_minus_1)
  then have "unat (x AND 0xFFFF) < 2 ^ 16" by (simp only: take_bit_nat_less_exp)
  note doubled_finite [OF quotient_small [OF this]]
  then show "\<not> fb_forceNumericalMismatch b \<Longrightarrow> fake_deviation b x = 0"
    by (simp add: fake_deviation_def Let_def f32_sub_self f32_abs_def f32_make_def f32_mag_def)
qed

lemma fake_loop_zero: "\<not> fb_forceNumericalMismatch b \<Longrightarrow> fake_loop b n st 0 = 0"
  by (induction n arbitrary: st) (simp_all add: fake_deviation_zero f32_less_irrefl split: prod.splits)

lemma fake_verdict:
  "vr_passed (fake_runValidation i profile b) \<longleftrightarrow> \<not> fb_forceValidationFailure b \<and> \<not> fb_forceNumericalMismatch b"
proof -
  have "\<not> f32_above 0 m e" for m e
    by (simp add: f32_above_def f32_inf_def f32_mag_def f32_sig_def f32_exp_def Let_def)
  then show ?thesis
    by (cases "fb_forceNumericalMismatch b") (simp_all add: fake_runValidation_def Let_def fake_loop_zero)
qed

text \<open>The states the public methods of the class that are defined anywhere can produce (the two switches
  of the fault injection are declared in the header only).\<close>

inductive fake_reachable :: "FakeBackend \<Rightarrow> bool" where
  "fake_reachable (FakeBackend_new available)"
| "fake_reachable b \<Longrightarrow> fake_reachable (addDevice d b)"
| "fake_reachable b \<Longrightarrow> fake_reachable (removeDevice i b)"
| "fake_reachable b \<Longrightarrow> fake_reachable (b\<lparr>fb_mem := m\<rparr>)"
| "fake_reachable b \<Longrightarrow> fake_reachable (b\<lparr>fb_temp := t\<rparr>)"
| "fake_reachable b \<Longrightarrow> fake_reachable (b\<lparr>fb_power := p\<rparr>)"
| "fake_reachable b \<Longrightarrow> fake_reachable (b\<lparr>fb_errors := e\<rparr>)"
| "fake_reachable b \<Longrightarrow> fake_reachable (b\<lparr>fb_link := l\<rparr>)"
| "fake_reachable b \<Longrightarrow> fake_reachable (b\<lparr>fb_runtime := r\<rparr>)"
| "fake_reachable b \<Longrightarrow> fake_reachable (b\<lparr>fb_cudaAvailable := available\<rparr>)"
| "fake_reachable b \<Longrightarrow> fake_reachable (b\<lparr>fb_forcedMaxError := x\<rparr>)"
| "fake_reachable b \<Longrightarrow> fake_reachable (b\<lparr>fb_stepsLimit := n\<rparr>)"

lemma fake_never_fails: "fake_reachable b \<Longrightarrow> vr_passed (fake_runValidation i profile b)"
proof -
  have "fake_reachable b \<Longrightarrow> \<not> fb_forceValidationFailure b \<and> \<not> fb_forceNumericalMismatch b"
    by (induction rule: fake_reachable.induct) (simp_all add: FakeBackend_new_def addDevice_def removeDevice_def)
  then show "fake_reachable b \<Longrightarrow> vr_passed (fake_runValidation i profile b)"
    by (simp add: fake_verdict)
qed

section \<open>What a CUDA validation says\<close>

lemma max_deviation_exceeds:
  assumes "\<not> f32_nan m"
  shows "f32_less t (max_deviation hs xs m) \<longleftrightarrow>
    f32_less t m \<or> (\<exists>(h, x) \<in> set (zip hs xs). f32_less t (deviation h x))"
  using assms
proof (induction hs xs m rule: max_deviation.induct)
  case (1 h hs x xs m)
  let ?d = "deviation h x"
  show ?case
  proof (cases "f32_less m ?d")
    case True
    then have "\<not> f32_nan ?d" by (auto simp: f32_less_def)
    moreover have "f32_less t m \<Longrightarrow> f32_less t ?d" using True by (rule f32_less_trans [rotated])
    ultimately show ?thesis using True 1 by auto
  next
    case False
    then have "f32_less t ?d \<Longrightarrow> f32_less t m" using 1(2) by (auto simp: f32_less_def)
    then show ?thesis using False 1 by auto
  qed
qed auto

lemma f32_zero_less: "\<not> f32_less f32_tolerance 0" "\<not> f32_nan 0"
  by (simp_all add: f32_less_def f32_tolerance_def f32_key_def f32_nan_def f32_mag_def f32_sign_def)

definition injected :: "CudaBackend \<Rightarrow> f32 list \<Rightarrow> f32 list \<Rightarrow> f32" where
  "injected b h out = (if cb_forceNumericalMismatch b then cb_forcedMaxError b else max_deviation h out 0)"

lemma probe_ok:
  "fst (cuda_probe b cu ordinal h r) \<longleftrightarrow>
     cu_setDevice cu ordinal = 0 \<and> cu_malloc cu = 0 \<and> cu_copyIn cu h = 0 \<and> cu_launch cu = 0 \<and> cu_sync cu = 0 \<and>
     fst (cu_copyOut cu h) = 0 \<and> \<not> f32_less f32_tolerance (injected b h (snd (cu_copyOut cu h))) \<and>
     leak cu \<le> cb_memoryTolerance b"
proof -
  have c: "fst (checkCuda cu e s x) \<longleftrightarrow> fst x \<and> e = 0" for e s x
    by (simp add: checkCuda_def split: prod.splits)
  have l: "fst (launch_step cu x) \<longleftrightarrow> fst x \<and> cu_launch cu = 0" for x
    by (simp add: launch_step_def Let_def split: prod.splits)
  have v: "fst (compare_step b h out x) \<longleftrightarrow> fst x \<and> \<not> f32_less f32_tolerance (injected b h out)" for out x
    by (simp add: compare_step_def injected_def Let_def split: prod.splits)
  have m: "fst (memory_step b cu x) \<longleftrightarrow> fst x \<and> leak cu \<le> cb_memoryTolerance b" for x
    by (auto simp: memory_step_def Let_def not_less split: prod.splits)
  show ?thesis by (simp add: cuda_probe_def c l v m conj_assoc)
qed

lemma probe_keeps:
  "vr_depth (snd (cuda_probe b cu ordinal h r)) = vr_depth r" "vr_passed (snd (cuda_probe b cu ordinal h r)) = vr_passed r"
  "fst (cuda_probe b cu ordinal h r) \<Longrightarrow> vr_maxError (snd (cuda_probe b cu ordinal h r)) = injected b h (snd (cu_copyOut cu h))"
proof -
  have k: "vr_depth (snd (checkCuda cu e s x)) = vr_depth (snd x)" "vr_passed (snd (checkCuda cu e s x)) = vr_passed (snd x)"
    "vr_depth (snd (launch_step cu x)) = vr_depth (snd x)" "vr_passed (snd (launch_step cu x)) = vr_passed (snd x)"
    "vr_depth (snd (compare_step b h out x)) = vr_depth (snd x)" "vr_passed (snd (compare_step b h out x)) = vr_passed (snd x)"
    "vr_depth (snd (memory_step b cu x)) = vr_depth (snd x)" "vr_passed (snd (memory_step b cu x)) = vr_passed (snd x)"
    for e s x out
    by (simp_all add: checkCuda_def launch_step_def compare_step_def memory_step_def add_step_def Let_def split: prod.splits)
  then show "vr_depth (snd (cuda_probe b cu ordinal h r)) = vr_depth r" "vr_passed (snd (cuda_probe b cu ordinal h r)) = vr_passed r"
    by (simp_all add: cuda_probe_def)
  have v: "fst (memory_step b cu (compare_step b h out x)) \<Longrightarrow>
      vr_maxError (snd (memory_step b cu (compare_step b h out x))) = injected b h out" for out x
    by (auto simp: compare_step_def memory_step_def injected_def add_step_def Let_def split: prod.splits if_splits)
  show "fst (cuda_probe b cu ordinal h r) \<Longrightarrow>
      vr_maxError (snd (cuda_probe b cu ordinal h r)) = injected b h (snd (cu_copyOut cu h))"
    unfolding cuda_probe_def by (rule v)
qed

definition calls_succeed :: "Cuda \<Rightarrow> int \<Rightarrow> f32 list \<Rightarrow> bool" where
  "calls_succeed cu ordinal h \<longleftrightarrow> fst (cu_props cu ordinal) = 0 \<and> cu_hostAlloc cu \<and> cu_setDevice cu ordinal = 0 \<and>
     cu_malloc cu = 0 \<and> cu_copyIn cu h = 0 \<and> cu_launch cu = 0 \<and> cu_sync cu = 0 \<and> fst (cu_copyOut cu h) = 0"


lemma deviation_exact: "f32_finite (f32_mul h f32_two) \<Longrightarrow> deviation h (f32_mul h f32_two) = 0"
  by (simp add: deviation_def f32_sub_self f32_less_irrefl Let_def)

lemma host_buffer_finite: "h \<in> set host_buffer \<Longrightarrow> f32_finite (f32_mul h f32_two)"
  using f32_of_nat_small [of _ 20] by (auto simp: host_buffer_def intro!: doubled_finite [of 147])

text \<open>A device that works, and one that returns NaN for every element.\<close>

definition demo_cuda :: "(f32 \<Rightarrow> f32) \<Rightarrow> Cuda" where
  "demo_cuda f = \<lparr>cu_deviceCount = (0, 1), cu_props = (\<lambda>_. (0, \<lparr>cp_major = 12, cp_minor = 0, cp_name = ''gpu''\<rparr>)),
     cu_memInfo = (\<lambda>_. (0, 1000, 2000)), cu_runtimeVersion = (0, 12080), cu_driverVersion = (0, 12080),
     cu_errText = (\<lambda>_. ''error''), cu_hostAlloc = True, cu_setDevice = (\<lambda>_. 0), cu_malloc = 0, cu_copyIn = (\<lambda>_. 0),
     cu_launch = 0, cu_sync = 0, cu_copyOut = (\<lambda>h. (0, map f h))\<rparr>"

lemma demo_cuda_succeeds: "calls_succeed (demo_cuda f) n h" "leak (demo_cuda f) \<le> cb_memoryTolerance CudaBackend_new"
  "snd (cu_copyOut (demo_cuda f) h) = map f h"
  by (simp_all add: calls_succeed_def demo_cuda_def leak_def)


lemma max_deviation_nan: "\<forall>x \<in> set xs. f32_nan x \<Longrightarrow> max_deviation hs xs m = m"
  by (induction hs xs m rule: max_deviation.induct)
    (auto simp: deviation_def f32_sub_nan f32_qnan_nan f32_less_nan Let_def)

text \<open>NaN is not noticed.  A CUDA device whose calls succeed but which returns NaN for every element
  passes the validation with a reported maximal error of zero, up to depth FULL: every comparison
  with NaN in the loop is false.\<close>

theorem nan_device_passes:
  assumes "\<not> cb_forceValidationFailure b" "\<not> cb_forceNumericalMismatch b"
    "calls_succeed cu (id_ordinal i) host_buffer" "leak cu \<le> cb_memoryTolerance b"
    "\<forall>x \<in> set (snd (cu_copyOut cu host_buffer)). f32_nan x"
  shows "vr_passed (cuda_runValidation cu i profile b) \<and> vr_maxError (cuda_runValidation cu i profile b) = 0 \<and>
     vr_depth (cuda_runValidation cu i profile b) = profile_depth profile"
proof -
  have zero: "injected b host_buffer (snd (cu_copyOut cu host_buffer)) = 0"
    using assms(2) max_deviation_nan [OF assms(5)] by (simp add: injected_def)
  obtain p where props: "cu_props cu (id_ordinal i) = (0, p)"
    using assms(3) by (cases "cu_props cu (id_ordinal i)") (simp add: calls_succeed_def)
  have ok: "fst (cuda_probe b cu (id_ordinal i) host_buffer r)" for r
    using assms(3,4) by (simp add: probe_ok zero f32_zero_less calls_succeed_def)
  have "cu_hostAlloc cu" using assms(3) by (simp add: calls_succeed_def)
  then show ?thesis
    using assms(1) props ok probe_keeps(3) [OF ok] zero by (simp add: cuda_runValidation_def Let_def case_prod_beta)
qed

theorem nan_device_passes_witness:
  "vr_passed (cuda_runValidation (demo_cuda (\<lambda>_. f32_qnan)) (StrongId 1) ValidationProfile.FULL CudaBackend_new) \<and>
   vr_depth (cuda_runValidation (demo_cuda (\<lambda>_. f32_qnan)) (StrongId 1) ValidationProfile.FULL CudaBackend_new) = ValidationDepth.FULL"
proof -
  have "\<not> cb_forceValidationFailure CudaBackend_new" "\<not> cb_forceNumericalMismatch CudaBackend_new"
    by (simp_all add: CudaBackend_new_def)
  from nan_device_passes [OF this demo_cuda_succeeds(1,2), of "\<lambda>_. f32_qnan" "StrongId 1" ValidationProfile.FULL]
  show ?thesis by (auto simp: demo_cuda_succeeds(3) f32_qnan_nan profile_depth_def)
qed

end
