(* ===== verification/Explain.thy ===== *)
theory Explain
  imports Assessment FloatOps
begin

text \<open>
  Model of the explanation of an assessment (\<open>AssessmentEngine::explain\<close> in \<open>Assessment.cpp\<close>): the text,
  the JSON and the digest, with the number format of the C++ streams at precision 4.  The lemmas show
  two defects of the JSON.
\<close>

section \<open>Numbers\<close>

text \<open>The nearest natural number to \<open>n / d\<close>, ties to even.\<close>

definition round_ratio :: "nat \<Rightarrow> nat \<Rightarrow> nat" where
  "round_ratio n d = (let q = n div d; r = n mod d in if 2 * r > d \<or> (2 * r = d \<and> odd q) then q + 1 else q)"

text \<open>\<open>10 ^ X \<le> n / d\<close>, and the largest such \<open>X\<close> for a positive binary32 value.\<close>

definition pow10_le :: "int \<Rightarrow> nat \<Rightarrow> nat \<Rightarrow> bool" where
  "pow10_le X n d \<longleftrightarrow> (if 0 \<le> X then 10 ^ nat X * d \<le> n else d \<le> n * 10 ^ nat (- X))"

definition decimal_exponent :: "nat \<Rightarrow> nat \<Rightarrow> int" where
  "decimal_exponent n d = (case List.find (\<lambda>X. pow10_le X n d) (rev [- 46..39]) of Some X \<Rightarrow> X | None \<Rightarrow> - 46)"

definition strip_zeros :: "string \<Rightarrow> string" where
  "strip_zeros s = rev (dropWhile (\<lambda>c. c = CHR ''0'') (rev s))"

text \<open>Digits before and after the point, trailing zeros and a bare point omitted.\<close>

definition pointed :: "string \<Rightarrow> string \<Rightarrow> string" where
  "pointed whole frac = (let f = strip_zeros frac in if f = [] then whole else whole @ ''.'' @ f)"

text \<open>Four significant digits \<open>D\<close> of a value in \<open>[10 ^ X, 10 ^ (X + 1))\<close>, as \<open>%g\<close> prints them.\<close>

definition format_digits :: "nat \<Rightarrow> int \<Rightarrow> string" where
  "format_digits D X = (let s = nat_to_string D in
     if X < - 4 \<or> 4 \<le> X
     then pointed (take 1 s) (drop 1 s) @ (if X < 0 then ''e-'' else ''e+'') @
       (if \<bar>X\<bar> < 10 then ''0'' else []) @ nat_to_string (nat \<bar>X\<bar>)
     else if 0 \<le> X then pointed (take (nat X + 1) s) (drop (nat X + 1) s)
     else pointed ''0'' (replicate (nat (- X) - 1) (CHR ''0'') @ s))"

definition format_ratio :: "nat \<Rightarrow> nat \<Rightarrow> string" where
  "format_ratio n d =
     (let X = decimal_exponent n d;
          D = (if X \<le> 3 then round_ratio (n * 10 ^ nat (3 - X)) d else round_ratio n (d * 10 ^ nat (X - 3)))
      in if D = 10000 then format_digits 1000 (X + 1) else format_digits D X)"

text \<open>\<open>number(double)\<close> on the confidence, a float.\<close>

definition number :: "f32 \<Rightarrow> string" where
  "number x =
     (if \<not> f32_finite x then ''0''
      else (if f32_sign x then ''-'' else []) @
        (if f32_sig x = 0 then ''0''
         else format_ratio (f32_sig x * 2 ^ nat (f32_exp x)) (2 ^ nat (- f32_exp x))))"

section \<open>The explanation\<close>

record Diagnosis =
  dg_text :: string
  dg_json :: string
  dg_digest :: string

definition quote :: string where
  "quote = [CHR 0x22]"

definition newline :: string where
  "newline = [CHR 0x0A]"

definition escape_char :: "char \<Rightarrow> string" where
  "escape_char c =
     (if c = CHR 0x22 then quote
      else if c = CHR 0x5C then [CHR 0x5C, CHR 0x5C]
      else if c = CHR 0x0A then [CHR 0x5C, CHR ''n'']
      else if c = CHR 0x0D then [CHR 0x5C, CHR ''r'']
      else if c = CHR 0x09 then [CHR 0x5C, CHR ''t'']
      else [c])"

definition to_json_str :: "string \<Rightarrow> string" where
  "to_json_str s = quote @ concat (map escape_char s) @ quote"

definition json_key :: "string \<Rightarrow> string" where
  "json_key k = quote @ k @ quote @ '':''"

definition json_bool :: "bool \<Rightarrow> string" where
  "json_bool b = (if b then ''true'' else ''false'')"

fun json_list :: "string list \<Rightarrow> string" where
  "json_list [] = []"
| "json_list [s] = to_json_str s"
| "json_list (s # ss) = to_json_str s @ '','' @ json_list ss"

definition explain_text :: "HealthAssessment \<Rightarrow> string" where
  "explain_text a =
     ''accelerator='' @ id_string (a_accelerator a) @ newline @
     ''health='' @ HealthState_to_string (a_state a) @ newline @
     ''readiness='' @ ReadinessState_to_string (a_readiness a) @ newline @
     ''validationDepth='' @ ValidationDepth_to_string (a_validationDepth a) @ newline @
     ''confidence='' @ number (a_confidence a) @ newline @
     ''action='' @ ActionRequired_to_string (a_action a) @ newline @
     ''reasons:'' @ newline @ concat (map (\<lambda>r. ''  - '' @ r @ newline) (a_reasons a))"

definition explain_json :: "HealthAssessment \<Rightarrow> string" where
  "explain_json a =
     ''{'' @ json_key ''accelerator'' @ to_json_str (id_string (a_accelerator a)) @ '','' @
     json_key ''uuid'' @ to_json_str (id_string (a_uuid a)) @ '','' @
     json_key ''health'' @ to_json_str (HealthState_to_string (a_state a)) @ '','' @
     json_key ''readiness'' @ to_json_str (ReadinessState_to_string (a_readiness a)) @ '','' @
     json_key ''validationDepth'' @ to_json_str (ValidationDepth_to_string (a_validationDepth a)) @ '','' @
     json_key ''confidence'' @ number (a_confidence a) @ '','' @
     json_key ''action'' @ to_json_str (ActionRequired_to_string (a_action a)) @ '','' @
     json_key ''executionReady'' @ json_bool (a_executionReady a) @ '','' @
     json_key ''quarantined'' @ json_bool (a_quarantined a) @ '','' @
     json_key ''reasons'' @ ''['' @ json_list (a_reasons a) @ '']'' @
     json_key ''digest'' @ to_json_str (a_digest a) @ ''}''"

definition explain :: "HealthAssessment \<Rightarrow> Diagnosis" where
  "explain a = \<lparr>dg_text = explain_text a, dg_json = explain_json a, dg_digest = a_digest a\<rparr>"

section \<open>Defects of the JSON\<close>

text \<open>There is no comma between the list of reasons and the digest, whatever the assessment.\<close>

lemma json_missing_comma: "\<exists>pre post. dg_json (explain a) = pre @ '']'' @ json_key ''digest'' @ post"
proof -
  have "\<exists>pre. explain_json a = pre @ '']'' @ json_key ''digest'' @ to_json_str (a_digest a) @ ''}''"
    unfolding explain_json_def
    by (rule exI [of _ "''{'' @ json_key ''accelerator'' @ to_json_str (id_string (a_accelerator a)) @ '','' @
       json_key ''uuid'' @ to_json_str (id_string (a_uuid a)) @ '','' @
       json_key ''health'' @ to_json_str (HealthState_to_string (a_state a)) @ '','' @
       json_key ''readiness'' @ to_json_str (ReadinessState_to_string (a_readiness a)) @ '','' @
       json_key ''validationDepth'' @ to_json_str (ValidationDepth_to_string (a_validationDepth a)) @ '','' @
       json_key ''confidence'' @ number (a_confidence a) @ '','' @
       json_key ''action'' @ to_json_str (ActionRequired_to_string (a_action a)) @ '','' @
       json_key ''executionReady'' @ json_bool (a_executionReady a) @ '','' @
       json_key ''quarantined'' @ json_bool (a_quarantined a) @ '','' @
       json_key ''reasons'' @ ''['' @ json_list (a_reasons a)"]) (simp only: append_assoc)
  then show ?thesis by (auto simp: explain_def)
qed

text \<open>A quote in a string is not escaped: a reason can close its string and forge the members behind it.\<close>

lemma json_quote_unescaped: "to_json_str (pre @ quote @ post) = quote @ concat (map escape_char pre) @ to_json_str post"
  by (simp add: to_json_str_def quote_def escape_char_def)

text \<open>The numbers as printed.\<close>

lemma number_examples: "number 0x3F800000 = ''1''" "number 0x3F19999A = ''0.6''" "number 0x3E4CCCCD = ''0.2''" "number 0x3727C5AC = ''1e-05''" "number 0 = ''0''"
  by (simp_all add: number_def f32_finite_def f32_mag_def f32_sig_def f32_exp_def f32_sign_def Let_def format_ratio_def
      decimal_exponent_def pow10_le_def round_ratio_def format_digits_def pointed_def strip_zeros_def
      nat_to_string.simps char_of_def bit_simps upto_rec1 upto_rec2)

end
