(* ===== verification/Client.thy ===== *)
theory Client
  imports Backends Explain Persistence Numbers
begin

text \<open>
  Model of the command-line client (\<open>apps/ahc.cpp\<close>): each invocation builds a fresh store, registers the
  devices of its backend and runs one command.  Printed lines are values, an exception ends the
  process.  The lemma \<open>client_stateless\<close> shows what that means for the commands that change a device.
\<close>

section \<open>Context\<close>

text \<open>The backends; a CUDA backend with what its runtime returns during \<open>enumerate\<close> and \<open>runValidation\<close>.\<close>

datatype AnyBackend = Fake FakeBackend | OnCuda Cuda Cuda CudaBackend

fun enumerate_backend :: "AnyBackend \<Rightarrow> DeviceIdentity list" where
  "enumerate_backend (Fake b) = fake_enumerate b"
| "enumerate_backend (OnCuda cu _ b) = cuda_enumerate cu"

fun validate_backend :: "AcceleratorId \<Rightarrow> ValidationProfile \<Rightarrow> AnyBackend \<Rightarrow> ValidationResult" where
  "validate_backend i p (Fake b) = fake_runValidation i p b"
| "validate_backend i p (OnCuda _ cu b) = cuda_runValidation cu i p b"

record Ctx =
  cx_store :: HealthStore
  cx_backend :: AnyBackend
  cx_devices :: "DeviceIdentity list"

definition synthetic_device :: DeviceIdentity where
  "synthetic_device = default_DeviceIdentity\<lparr>di_id := StrongId 1, di_uuid := StrongId 1, di_name := ''synthetic-accelerator'',
     di_computeCapabilityMajor := 12, di_computeCapabilityMinor := 0, di_totalMemory := 2 ^ 30, di_freeMemory := 2 ^ 30,
     di_supported := True\<rparr>"

fun register_devices :: "DeviceIdentity list \<Rightarrow> HealthStore \<Rightarrow> DeviceIdentity list \<times> HealthStore" where
  "register_devices [] s = ([], s)"
| "register_devices (d # ds) s = (case registerDevice (di_uuid d) (StrongId 1) s of (i, s1) \<Rightarrow>
     case register_devices ds s1 of (ds', s2) \<Rightarrow> (d\<lparr>di_id := i\<rparr> # ds', s2))"

definition registerBackendDevices :: "Ctx \<Rightarrow> Ctx" where
  "registerBackendDevices ctx =
     (let ds = enumerate_backend (cx_backend ctx);
          (backend, ds1) = (case (ds, cx_backend ctx) of
             ([], Fake b) \<Rightarrow> (let b1 = addDevice synthetic_device b in (Fake b1, fake_enumerate b1))
           | _ \<Rightarrow> (cx_backend ctx, ds));
          (ds2, s) = register_devices ds1 (cx_store ctx)
      in ctx\<lparr>cx_backend := backend, cx_devices := ds2, cx_store := s\<rparr>)"

section \<open>Naming devices\<close>

definition resolveId :: "Ctx \<Rightarrow> string \<Rightarrow> AcceleratorId" where
  "resolveId ctx s =
     (let by_name = (case List.find (\<lambda>d. id_string (di_uuid d) = s) (cx_devices ctx) of
            Some d \<Rightarrow> di_id d
          | None \<Rightarrow> (case List.find (\<lambda>i. id_string i = s) (deviceIds (cx_store ctx)) of
              Some i \<Rightarrow> i | None \<Rightarrow> StrongId 0))
      in case stoull s of
        Some (v, pos) \<Rightarrow> (if pos = length s then StrongId v else by_name)
      | None \<Rightarrow> by_name)"

section \<open>Commands\<close>

datatype cli_line =
    Help
  | DeviceLine AcceleratorId DeviceUuid string int int HealthState ReadinessState
  | SnapshotLine AcceleratorId HealthState ReadinessState ValidationDepth u32 string
  | SavedLine string
  | RecoveredLine string
  | ErrorLine string
  | BenchmarkLine int i64
  | UnknownLine string
  | InspectLine AcceleratorId DeviceUuid NodeId HealthState ReadinessState ValidationDepth bool
  | AssessmentLine HealthAssessment
  | ExplanationLine string
  | FaultLine Fault
  | ChangeLine HealthChange
  | ValidateLine AcceleratorId bool ValidationDepth f32
  | QuarantinedLine AcceleratorId
  | ClearedLine AcceleratorId
  | RecoveryLine AcceleratorId
  | RevalidateLine AcceleratorId HealthState ReadinessState

type_synonym cli_result = "exn + (int \<times> cli_line list)"

fun list_lines :: "DeviceIdentity list \<Rightarrow> HealthStore \<Rightarrow> cli_line list" where
  "list_lines [] s = []"
| "list_lines (d # ds) s = (case registerDevice (di_uuid d) (StrongId 1) s of (i, s1) \<Rightarrow>
     let snap = snapshot i s1 in
     DeviceLine i (di_uuid d) (di_name d) (di_computeCapabilityMajor d) (di_computeCapabilityMinor d)
       (sn_state snap) (sn_readiness snap) # list_lines ds s1)"

definition cli_list :: "Ctx \<Rightarrow> cli_result" where
  "cli_list ctx = Inr (0, list_lines (cx_devices ctx) (cx_store ctx))"

definition cli_snapshot :: "Ctx \<Rightarrow> cli_result" where
  "cli_snapshot ctx = Inr (0, map (\<lambda>i. let snap = snapshot i (cx_store ctx) in SnapshotLine i (sn_state snap)
     (sn_readiness snap) (sn_highestValidation snap) (sn_faultCount snap) (a_digest (sn_latestAssessment snap)))
     (deviceIds (cx_store ctx)))"

definition cli_save :: "string \<Rightarrow> Ctx \<Rightarrow> io_faults \<Rightarrow> files \<Rightarrow> cli_result \<times> files" where
  "cli_save path ctx io fs = (case saveToFile path (cx_store ctx) io fs of
     (None, fs') \<Rightarrow> (Inr (0, [SavedLine path]), fs')
   | (Some (Refused msg), fs') \<Rightarrow> (Inr (1, [ErrorLine msg]), fs')
   | (Some (Thrown e), fs') \<Rightarrow> (Inl e, fs'))"

definition cli_recover :: "string \<Rightarrow> Ctx \<Rightarrow> files \<Rightarrow> cli_result" where
  "cli_recover path ctx fs = (case loadFromFile path (cx_store ctx) fs of
     (None, s) \<Rightarrow> Inr (0, [RecoveredLine path])
   | (Some (Refused msg), s) \<Rightarrow> Inr (1, [ErrorLine msg])
   | (Some (Thrown e), s) \<Rightarrow> Inl e)"

definition cli_validate :: "AcceleratorId \<Rightarrow> ValidationProfile \<Rightarrow> Ctx \<Rightarrow> cli_result" where
  "cli_validate i prof ctx =
     (let result = validate_backend i prof (cx_backend ctx);
          (now, s) = clock_now (cx_store ctx);
          v = \<lparr>v_id = StrongId 1, v_accelerator = i, v_timestamp = now, v_profile = prof, v_depth = vr_depth result,
               v_passed = vr_passed result, v_maxError = vr_maxError result, v_detail = [], v_worker = StrongId 0,
               v_workerBootId = StrongId 0, v_validationGeneration = Generation 0, v_deviceGeneration = Generation 0\<rparr>
      in case recordValidation v s of
        (Some e, _) \<Rightarrow> Inl e
      | (None, _) \<Rightarrow> Inr (if vr_passed result then 0 else 1,
          [ValidateLine i (vr_passed result) (vr_depth result) (vr_maxError result)]))"

definition cli_revalidate :: "AcceleratorId \<Rightarrow> Ctx \<Rightarrow> cli_result" where
  "cli_revalidate i ctx =
     (let (now, s) = clock_now (cx_store ctx);
          v = \<lparr>v_id = StrongId 2, v_accelerator = i, v_timestamp = now, v_profile = ValidationProfile.FULL,
               v_depth = ValidationDepth.FULL, v_passed = True, v_maxError = 0, v_detail = [], v_worker = StrongId 0,
               v_workerBootId = StrongId 0, v_validationGeneration = Generation 0, v_deviceGeneration = Generation 0\<rparr>
      in case revalidate i v s of
        (Inl e, _) \<Rightarrow> Inl e
      | (Inr _, s') \<Rightarrow> let snap = snapshot i s' in Inr (0, [RevalidateLine i (sn_state snap) (sn_readiness snap)]))"

text \<open>A call that may throw, then a line.\<close>

definition cli_do :: "exn option \<times> HealthStore \<Rightarrow> cli_line \<Rightarrow> cli_result" where
  "cli_do x out = (case fst x of Some e \<Rightarrow> Inl e | None \<Rightarrow> Inr (0, [out]))"

text \<open>The commands on one device, with the argument behind it, if any.\<close>

definition device_command :: "string \<Rightarrow> AcceleratorId \<Rightarrow> string option \<Rightarrow> Ctx \<Rightarrow> cli_result" where
  "device_command cmd i arg ctx = (let s = cx_store ctx in
     if cmd = ''inspect'' then
       (let snap = snapshot i s in Inr (0, [InspectLine i (sn_uuid snap) (sn_node snap) (sn_state snap) (sn_readiness snap)
          (sn_highestValidation snap) (sn_deviceGenerationChanged snap)]))
     else if cmd \<in> {''health'', ''readiness'', ''explain''} then
       Inr (0, AssessmentLine (assessmentOf i s) #
         (if cmd = ''explain'' then [ExplanationLine (dg_text (explain (assessmentOf i s)))] else []))
     else if cmd = ''faults'' then Inr (0, map FaultLine (faultsOf i s))
     else if cmd = ''history'' \<or> cmd = ''changes'' then Inr (0, map ChangeLine (changesOf i s))
     else if cmd = ''validate'' then
       cli_validate i (case arg of None \<Rightarrow> ValidationProfile.FULL
         | Some a \<Rightarrow> (case parse_validation_profile a of None \<Rightarrow> ValidationProfile.FULL | Some p \<Rightarrow> p)) ctx
     else if cmd = ''quarantine'' then
       cli_do (beginQuarantine i QuarantineAuthority.OPERATOR (case arg of None \<Rightarrow> ''operator'' | Some a \<Rightarrow> a) ''operator'' s)
         (QuarantinedLine i)
     else if cmd = ''clear-quarantine'' then cli_do (clearQuarantine i s) (ClearedLine i)
     else if cmd = ''begin-recovery'' then cli_do (beginRecovery i s) (RecoveryLine i)
     else if cmd = ''revalidate'' then cli_revalidate i ctx
     else Inr (1, [Help]))"

definition cli_benchmark :: "int \<Rightarrow> Ctx \<Rightarrow> cli_result" where
  "cli_benchmark n ctx = (let (t0, s) = clock_now (cx_store ctx); (t1, s') = clock_now s in
     Inr (0, [BenchmarkLine n (nanos t1 - nanos t0)]))"

text \<open>\<open>main\<close> on the arguments behind the program name; \<open>cuda\<close> is the CUDA runtime of a build that has it.\<close>

definition start_ctx :: "(Cuda \<times> Cuda) option \<Rightarrow> Clock \<Rightarrow> string list \<Rightarrow> Ctx" where
  "start_ctx cuda clock args = registerBackendDevices
     \<lparr>cx_store = HealthStore_new clock default_HealthPolicy 1,
      cx_backend = (case cuda of
         Some (c1, c2) \<Rightarrow> if ''--cuda'' \<in> set (tl args) then OnCuda c1 c2 CudaBackend_new else Fake (FakeBackend_new False)
       | None \<Rightarrow> Fake (FakeBackend_new False)),
      cx_devices = []\<rparr>"

definition cli_main :: "(Cuda \<times> Cuda) option \<Rightarrow> Clock \<Rightarrow> io_faults \<Rightarrow> string list \<Rightarrow> files \<Rightarrow> cli_result \<times> files" where
  "cli_main cuda clock io args fs = (case args of
     [] \<Rightarrow> (Inr (1, [Help]), fs)
   | cmd # ps \<Rightarrow>
       let ctx = start_ctx cuda clock args in
       if cmd = ''list'' then (cli_list ctx, fs)
       else if cmd = ''help'' then (Inr (0, [Help]), fs)
       else if cmd = ''snapshot'' then (cli_snapshot ctx, fs)
       else if cmd = ''save'' \<and> ps \<noteq> [] then cli_save (hd ps) ctx io fs
       else if cmd = ''recover'' \<and> ps \<noteq> [] then (cli_recover (hd ps) ctx fs, fs)
       else if cmd = ''benchmark'' then (cli_benchmark (if ps \<noteq> [] then atoi (hd ps) else 10000) ctx, fs)
       else if ps = [] then (Inr (1, [Help]), fs)
       else let i = resolveId ctx (hd ps) in
         if id_is_null i then (Inr (1, [UnknownLine (hd ps)]), fs)
         else (device_command cmd i (if 2 \<le> length ps then Some (ps ! 1) else None) ctx, fs))"

section \<open>What an invocation leaves behind\<close>

lemma cli_files: "snd (cli_main cuda clock io args fs) =
    (if 2 \<le> length args \<and> hd args = ''save'' then snd (cli_save (args ! 1) (start_ctx cuda clock args) io fs) else fs)"
  by (cases args) (auto simp: cli_main_def Let_def hd_conv_nth Suc_le_eq)

lemma client_stateless:
  assumes "hd args \<notin> {''save'', ''recover''}"
  shows "cli_main cuda clock io args fs = (fst (cli_main cuda clock io args fs'), fs)"
  using assms by (cases args) (simp_all add: cli_main_def Let_def)

end
