(* ===== verification/ClientText.thy ===== *)
theory ClientText
  imports Client
begin

text \<open>
  What the command-line client (\<open>apps/ahc.cpp\<close>) prints: the help text, and the text of every line with its
  \<open>printf\<close> format.  A string argument ends at its first NUL.  The line of \<open>benchmark\<close> has no text here: it
  prints a quotient of doubles.
\<close>

definition c_str :: "string \<Rightarrow> string" where
  "c_str s = takeWhile (\<lambda>c. c \<noteq> CHR 0x00) s"

definition flag_text :: "bool \<Rightarrow> string" where
  "flag_text b = (if b then ''1'' else ''0'')"

text \<open>\<open>%.3f\<close> of a float: three decimals of the exact value, ties to even.\<close>

definition fixed3 :: "f32 \<Rightarrow> string" where
  "fixed3 x = (if f32_sign x then ''-'' else '''') @
     (if f32_nan x then ''nan'' else if f32_inf x then ''inf''
      else let m = f32_sig x * 10 ^ 3;
               n = (if 0 \<le> f32_exp x then m * 2 ^ nat (f32_exp x) else round_even m (nat (- f32_exp x)));
               d = nat_to_string (n mod 10 ^ 3)
           in nat_to_string (n div 10 ^ 3) @ ''.'' @ replicate (3 - length d) (CHR ''0'') @ d)"

definition help_text :: string where
  "help_text = concat (map (\<lambda>l. l @ newline)
     [''ahc <command> [args]'', ''  list'', ''  inspect <id|uuid>'', ''  health <id|uuid>'', ''  readiness <id|uuid>'',
      ''  faults <id|uuid>'', ''  history <id|uuid>'', ''  validate <id|uuid> [profile]'', ''  quarantine <id|uuid> [reason]'',
      ''  clear-quarantine <id|uuid>'', ''  begin-recovery <id|uuid>'', ''  revalidate <id|uuid>'', ''  explain <id|uuid>'',
      ''  changes <id|uuid>'', ''  snapshot'', ''  save <file>'', ''  recover <file>'', ''  benchmark [n]''])"

definition printAssessment :: "HealthAssessment \<Rightarrow> string" where
  "printAssessment a =
     ''  state='' @ HealthState_to_string (a_state a) @ '' readiness='' @ ReadinessState_to_string (a_readiness a) @
     '' confidence='' @ fixed3 (a_confidence a) @ '' validation='' @ ValidationDepth_to_string (a_validationDepth a) @
     '' action='' @ ActionRequired_to_string (a_action a) @ '' execReady='' @ flag_text (a_executionReady a) @
     '' digest='' @ c_str (a_digest a) @ newline @
     concat (map (\<lambda>r. ''    - '' @ c_str r @ newline) (a_reasons a))"

fun line_text :: "cli_line \<Rightarrow> string option" where
  "line_text Help = Some help_text"
| "line_text (DeviceLine i uuid name major minor st rd) = Some (''device='' @ id_string i @ '' uuid='' @ id_string uuid @
     '' name='' @ c_str name @ '' cc='' @ int_to_string major @ ''.'' @ int_to_string minor @ '' state='' @ HealthState_to_string st @
     '' readiness='' @ ReadinessState_to_string rd @ newline)"
| "line_text (SnapshotLine i st rd depth faults digest) = Some (''device='' @ id_string i @ '' state='' @ HealthState_to_string st @
     '' readiness='' @ ReadinessState_to_string rd @ '' validation='' @ ValidationDepth_to_string depth @
     '' faults='' @ nat_to_string (unat faults) @ '' digest='' @ c_str digest @ newline)"
| "line_text (SavedLine path) = Some (''saved '' @ path @ newline)"
| "line_text (RecoveredLine path) = Some (''recovered '' @ path @ newline)"
| "line_text (ErrorLine msg) = Some (''ERROR '' @ c_str msg @ newline)"
| "line_text (BenchmarkLine n t) = None"
| "line_text (UnknownLine s) = Some (''unknown device '' @ s @ newline)"
| "line_text (InspectLine i uuid node st rd depth changed) = Some (''device='' @ id_string i @ '' uuid='' @ id_string uuid @
     '' node='' @ id_string node @ '' state='' @ HealthState_to_string st @ '' readiness='' @ ReadinessState_to_string rd @
     '' validation='' @ ValidationDepth_to_string depth @ '' changed='' @ flag_text changed @ newline)"
| "line_text (AssessmentLine a) = Some (printAssessment a)"
| "line_text (ExplanationLine s) = Some (c_str s @ newline)"
| "line_text (FaultLine f) = Some (''fault='' @ id_string (f_id f) @ '' type='' @ FaultType_to_string (f_type f) @
     '' severity='' @ Severity_to_string (f_severity f) @ '' class='' @ FaultClass_to_string (f_faultClass f) @
     '' open='' @ flag_text (f_resolution f = ResolutionState.OPEN) @ '' ts='' @ int_to_string (sint (nanos (f_timestamp f))) @ newline)"
| "line_text (ChangeLine c) = Some (int_to_string (sint (nanos (hc_timestamp c))) @ '' '' @ HealthState_to_string (hc_from c) @
     '' -> '' @ HealthState_to_string (hc_to c) @ '' ['' @ c_str (hc_label c) @ ''] '' @ c_str (hc_detail c) @ newline)"
| "line_text (ValidateLine i passed depth err) = Some (''validate device='' @ id_string i @ '' passed='' @ flag_text passed @
     '' depth='' @ ValidationDepth_to_string depth @ '' maxError='' @ f32_to_string err @ newline)"
| "line_text (QuarantinedLine i) = Some (''quarantined '' @ id_string i @ newline)"
| "line_text (ClearedLine i) = Some (''cleared '' @ id_string i @ newline)"
| "line_text (RecoveryLine i) = Some (''recovery '' @ id_string i @ newline)"
| "line_text (RevalidateLine i st rd) = Some (''revalidate device='' @ id_string i @ '' state='' @ HealthState_to_string st @
     '' readiness='' @ ReadinessState_to_string rd @ newline)"

text \<open>The text a command prints; the help of a wrong command line goes to the standard error, which is not
  told apart here.\<close>

definition output_text :: "cli_line list \<Rightarrow> string option" where
  "output_text ls = map_option concat (those (map line_text ls))"

section \<open>Forged lines\<close>

text \<open>Details are printed as they are: one with a line break in it prints a second line of its own making.\<close>

lemma change_line_forged:
  assumes "hc_detail c = d @ newline @ forged" "CHR 0x00 \<notin> set (hc_detail c)"
  shows "\<exists>pre. line_text (ChangeLine c) = Some (pre @ newline @ forged @ newline)"
proof -
  have "c_str (hc_detail c) = d @ newline @ forged"
    using assms by (auto simp: c_str_def takeWhile_eq_all_conv)
  then show ?thesis
    by (intro exI [of _ "int_to_string (sint (nanos (hc_timestamp c))) @ '' '' @ HealthState_to_string (hc_from c) @
     '' -> '' @ HealthState_to_string (hc_to c) @ '' ['' @ c_str (hc_label c) @ ''] '' @ d"]) (simp only: line_text.simps append_assoc)
qed

lemma fixed3_examples: "fixed3 0x3F800000 = ''1.000''" "fixed3 0x3F19999A = ''0.600''"
proof -
  note numbers = fixed3_def f32_nan_def f32_inf_def f32_sig_def f32_exp_def f32_sign_def f32_mag_def round_even_def Let_def
  have "fixed3 0x3F800000 = nat_to_string 1 @ ''.'' @ replicate (3 - length (nat_to_string 0)) (CHR ''0'') @ nat_to_string 0"
    and "fixed3 0x3F19999A = nat_to_string 0 @ ''.'' @ replicate (3 - length (nat_to_string 600)) (CHR ''0'') @ nat_to_string 600"
    by (simp_all add: numbers)
  moreover have "replicate 2 c = [c, c]" for c :: char by (simp add: numeral_2_eq_2)
  ultimately show "fixed3 0x3F800000 = ''1.000''" "fixed3 0x3F19999A = ''0.600''"
    by (simp_all add: nat_to_string.simps char_of_def bit_simps)
qed

end
