(* ===== verification/Json.thy ===== *)
theory Json
  imports Explain
begin

text \<open>
  Whether the JSON of an explanation (\<open>AssessmentEngine::explain\<close> in \<open>Assessment.cpp\<close>) is JSON.  The grammar
  of RFC 8259 is given as an inductive predicate; the proof scans a text from left to right with an
  automaton that accepts every JSON text, and that no explanation survives.
\<close>

section \<open>The grammar\<close>

definition json_ws :: "string \<Rightarrow> bool" where
  "json_ws s \<longleftrightarrow> set s \<subseteq> {CHR '' '', CHR 0x09, CHR 0x0A, CHR 0x0D}"

definition json_digits :: "string \<Rightarrow> bool" where
  "json_digits s \<longleftrightarrow> s \<noteq> [] \<and> set s \<subseteq> set ''0123456789''"

definition json_number :: "string \<Rightarrow> bool" where
  "json_number s \<longleftrightarrow> (\<exists>sign whole frac ex. s = sign @ whole @ frac @ ex \<and> sign \<in> {'''', ''-''} \<and>
     json_digits whole \<and> (hd whole = CHR ''0'' \<longrightarrow> length whole = 1) \<and>
     (frac = [] \<or> (\<exists>ds. frac = ''.'' @ ds \<and> json_digits ds)) \<and>
     (ex = [] \<or> (\<exists>e sg ds. ex = e @ sg @ ds \<and> e \<in> {''e'', ''E''} \<and> sg \<in> {'''', ''+'', ''-''} \<and> json_digits ds)))"

inductive json_chars :: "string \<Rightarrow> bool" where
  none: "json_chars []"
| plain: "c \<noteq> CHR 0x22 \<Longrightarrow> c \<noteq> CHR 0x5C \<Longrightarrow> 32 \<le> (of_char c :: nat) \<Longrightarrow> json_chars s \<Longrightarrow> json_chars (c # s)"
| escaped: "c \<in> insert (CHR 0x22) (insert (CHR 0x5C) (set ''/bfnrt'')) \<Longrightarrow> json_chars s \<Longrightarrow> json_chars (CHR 0x5C # c # s)"
| unicode: "set h \<subseteq> set ''0123456789abcdefABCDEF'' \<Longrightarrow> length h = 4 \<Longrightarrow> json_chars s \<Longrightarrow>
    json_chars (CHR 0x5C # CHR ''u'' # h @ s)"

definition json_string :: "string \<Rightarrow> bool" where
  "json_string s \<longleftrightarrow> (\<exists>cs. s = quote @ cs @ quote \<and> json_chars cs)"

inductive json_value :: "string \<Rightarrow> bool"
  and json_element :: "string \<Rightarrow> bool"
  and json_elements :: "string \<Rightarrow> bool"
  and json_members :: "string \<Rightarrow> bool"
where
  str: "json_string s \<Longrightarrow> json_value s"
| num: "json_number s \<Longrightarrow> json_value s"
| literal: "s \<in> {''true'', ''false'', ''null''} \<Longrightarrow> json_value s"
| empty_array: "json_ws w \<Longrightarrow> json_value (''['' @ w @ '']'')"
| array: "json_elements s \<Longrightarrow> json_value (''['' @ s @ '']'')"
| empty_object: "json_ws w \<Longrightarrow> json_value (''{'' @ w @ ''}'')"
| object: "json_members s \<Longrightarrow> json_value (''{'' @ s @ ''}'')"
| element: "json_ws w \<Longrightarrow> json_value v \<Longrightarrow> json_ws w' \<Longrightarrow> json_element (w @ v @ w')"
| last_element: "json_element v \<Longrightarrow> json_elements v"
| next_element: "json_element v \<Longrightarrow> json_elements vs \<Longrightarrow> json_elements (v @ '','' @ vs)"
| last_member: "json_ws w \<Longrightarrow> json_string k \<Longrightarrow> json_ws w' \<Longrightarrow> json_element v \<Longrightarrow> json_members (w @ k @ w' @ '':'' @ v)"
| next_member: "json_ws w \<Longrightarrow> json_string k \<Longrightarrow> json_ws w' \<Longrightarrow> json_element v \<Longrightarrow> json_members ms \<Longrightarrow>
    json_members (w @ k @ w' @ '':'' @ v @ '','' @ ms)"

text \<open>A JSON text is one element.\<close>

definition is_json :: "string \<Rightarrow> bool" where
  "is_json s \<longleftrightarrow> json_element s"

text \<open>The grammar is not empty: an object with a list of strings.\<close>

lemma clean_string: "list_all (\<lambda>c. c \<noteq> CHR 0x22 \<and> c \<noteq> CHR 0x5C \<and> 32 \<le> (of_char c :: nat)) s \<Longrightarrow> json_string (quote @ s @ quote)"
proof -
  assume "list_all (\<lambda>c. c \<noteq> CHR 0x22 \<and> c \<noteq> CHR 0x5C \<and> 32 \<le> (of_char c :: nat)) s"
  then have "json_chars s" by (induction s) (auto intro: json_chars.intros)
  then show ?thesis unfolding json_string_def by blast
qed

lemma bare_element: "json_value v \<Longrightarrow> json_element v"
  using json_value_json_element_json_elements_json_members.element [of "[]" v "[]"] by (simp add: json_ws_def)

lemma json_example: "is_json (''{'' @ json_key ''reasons'' @ ''['' @ to_json_str ''ok'' @ '']'' @ ''}'')"
proof -
  note intros = json_value_json_element_json_elements_json_members.intros
  have "json_string (quote @ ''ok'' @ quote)" "json_string (quote @ ''reasons'' @ quote)" by (rule clean_string, simp)+
  then have "json_value (''['' @ (quote @ ''ok'' @ quote) @ '']'')" "json_string (quote @ ''reasons'' @ quote)"
    by (intro intros(5) intros(9) bare_element intros(1), simp_all)
  then have "json_members ([] @ (quote @ ''reasons'' @ quote) @ [] @ '':'' @ (''['' @ (quote @ ''ok'' @ quote) @ '']''))"
    by (intro intros(11) bare_element) (simp_all add: json_ws_def)
  from bare_element [OF intros(7) [OF this]] show ?thesis
    by (simp add: is_json_def json_key_def to_json_str_def escape_char_def)
qed

section \<open>The scanner\<close>

text \<open>Outside of strings with the last character that is no white space, inside, behind a backslash, or failed.\<close>

datatype scan = Out char | In | Esc | Bad

definition openers :: "char set" where
  "openers = {CHR '','', CHR ''['', CHR ''{'', CHR '':''}"

fun scan1 :: "scan \<Rightarrow> char \<Rightarrow> scan" where
  "scan1 Bad c = Bad"
| "scan1 In c = (if c = CHR 0x22 then Out c else if c = CHR 0x5C then Esc else In)"
| "scan1 Esc c = In"
| "scan1 (Out l) c =
     (if c = CHR 0x22 then (if l \<in> openers then In else Bad)
      else if c \<in> {CHR '' '', CHR 0x09, CHR 0x0A, CHR 0x0D} then Out l
      else if c \<in> set ''{}[],:0123456789+-.eEtrufalsn'' then Out c else Bad)"

definition scans :: "scan \<Rightarrow> string \<Rightarrow> scan" where
  "scans q s = foldl scan1 q s"

lemma scans_simps [simp]:
  "scans q [] = q" "scans q (c # s) = scans (scan1 q c) s" "scans q (s @ t) = scans (scans q s) t"
  by (simp_all add: scans_def)

lemma scans_bad [simp]: "scans Bad s = Bad"
  by (induction s) simp_all

lemma scans_ws [simp]: "json_ws w \<Longrightarrow> scans (Out l) w = Out l"
  by (induction w) (auto simp: json_ws_def)

text \<open>Characters that stay outside, whatever came before.\<close>

lemma scans_plain: "set s \<subseteq> set ''{}[],:0123456789+-.eEtrufalsn'' \<Longrightarrow> \<exists>l'. scans (Out l) s = Out l'"
  by (induction s arbitrary: l) auto

lemma scans_number: "json_number s \<Longrightarrow> \<exists>l'. scans (Out l) s = Out l'"
  by (rule scans_plain) (fastforce simp: json_number_def json_digits_def)

lemma scans_hex: "set h \<subseteq> set ''0123456789abcdefABCDEF'' \<Longrightarrow> scans In h = In"
  by (induction h) auto

lemma scans_chars: "json_chars s \<Longrightarrow> scans In s = In"
  by (induction rule: json_chars.induct) (auto simp: scans_hex)

lemma scans_string: "json_string s \<Longrightarrow> l \<in> openers \<Longrightarrow> scans (Out l) s = Out (CHR 0x22)"
  by (auto simp: json_string_def quote_def scans_chars)

lemma scan_comma [simp]: "scan1 (Out l) (CHR '','') = Out (CHR '','')" "scan1 (Out l) (CHR '':'') = Out (CHR '':'')"
  by simp_all

lemma openers [simp]: "CHR '','' \<in> openers" "CHR '':'' \<in> openers" "CHR ''['' \<in> openers" "CHR ''{'' \<in> openers"
  by (simp_all add: openers_def)

definition passes :: "string \<Rightarrow> bool" where
  "passes s \<longleftrightarrow> (\<forall>l \<in> openers. \<exists>l'. scans (Out l) s = Out l')"

lemma passesI: "(\<And>l. l \<in> openers \<Longrightarrow> \<exists>l'. scans (Out l) s = Out l') \<Longrightarrow> passes s"
  by (simp add: passes_def)

lemma passesD: "passes s \<Longrightarrow> l \<in> openers \<Longrightarrow> \<exists>l'. scans (Out l) s = Out l'"
  by (simp add: passes_def)

lemma json_passes:
  shows "json_value s \<Longrightarrow> passes s" and "json_element s \<Longrightarrow> passes s"
    and "json_elements s \<Longrightarrow> passes s" and "json_members s \<Longrightarrow> passes s"
proof (induction rule: json_value_json_element_json_elements_json_members.inducts)
  case (str s)
  then show ?case by (auto intro: passesI simp: scans_string)
next
  case (num s)
  then show ?case by (auto intro: passesI scans_number)
next
  case (literal s)
  then show ?case by (auto intro!: passesI scans_plain)
next
  case (array s)
  then show ?case using passesD [of s "CHR ''[''"] by (auto intro!: passesI)
next
  case (object s)
  then show ?case using passesD [of s "CHR ''{''"] by (auto intro!: passesI)
next
  case (element w v w')
  then show ?case by (intro passesI) (use passesD [of v] in fastforce)
next
  case (next_element v vs)
  then show ?case by (intro passesI) (use passesD [of v] passesD [of vs "CHR '',''"] in fastforce)
next
  case (last_member w k w' v)
  then show ?case by (intro passesI) (use passesD [of v "CHR '':''"] in \<open>fastforce simp: scans_string\<close>)
next
  case (next_member w k w' v ms)
  then show ?case
    by (intro passesI) (use passesD [of v "CHR '':''"] passesD [of ms "CHR '',''"] in \<open>fastforce simp: scans_string\<close>)
qed (auto intro: passesI)

section \<open>No explanation is JSON\<close>

text \<open>Wherever a scan stands, a closing bracket followed by a quoted word with a letter that no literal
  has makes it fail.\<close>

lemma scans_digest: "scans q ('']'' @ json_key ''digest'' @ post) = Bad"
  by (cases q) (simp_all add: json_key_def quote_def openers_def)

text \<open>C25. The JSON of an explanation is never JSON, whatever the assessment: by the grammar of RFC 8259 a comma
  is missing between the reasons and the digest, and no content of the strings before it can repair
  this, although quotes in them are not escaped.\<close>

theorem explain_json_malformed: "\<not> is_json (dg_json (explain a))"
proof
  assume "is_json (dg_json (explain a))"
  then have "passes (dg_json (explain a))" unfolding is_json_def by (rule json_passes)
  then obtain l where l: "scans (Out (CHR '','')) (dg_json (explain a)) = Out l" using passesD [of _ "CHR '',''"] by auto
  obtain pre post where "dg_json (explain a) = pre @ '']'' @ json_key ''digest'' @ post" using json_missing_comma by blast
  with l have "scans (scans (Out (CHR '','')) pre) ('']'' @ json_key ''digest'' @ post) = Out l" by (simp only: scans_simps)
  then show False unfolding scans_digest by simp
qed

end
