(* ===== verification/Aging.thy ===== *)
theory Aging
  imports Persistence StoreBehaviour
begin

text \<open>
  Time and readiness.  The store looks at its clock when it reassesses a device and at no other time:
  a query, a snapshot and a state file report the readiness of the last reassessment, however long
  ago that was.
\<close>

section \<open>Reassessing stale evidence\<close>

lemma reassess_stale:
  assumes "stale_or_expired (evidence_freshness (hs_policy s) (dv_lastObservation d) (reading s))"
    "reassessLocked (d, s) = (None, (d', s'))"
  shows "dv_readiness d' \<notin> ready_states"
proof -
  have "\<not> rr_executionReady (readiness_evaluate (device_readiness_input x (hs_policy s) (reading s)))"
    if "dv_lastObservation x = dv_lastObservation d" for x
    using that assms(1) by (auto simp: readiness_ready_iff fully_qualified_def)
  then have "fst (device_readiness x (hs_policy s) (reading s) b) \<notin> ready_states"
    if "dv_lastObservation x = dv_lastObservation d" for x b
    using that readiness_state_ready by (auto simp: device_readiness_simps ready_states_def)
  then show ?thesis
    using assms(2) by (auto simp: reassess_eq reassess_finish_def Let_def split: sum.splits if_splits)
qed

section \<open>Reports do not age\<close>



end
