(* ===== verification/Accessors.thy ===== *)
theory Accessors
  imports Store
begin

text \<open>
  Members of the modelled classes that the rest of the program does not call, or only reads: the 32-bit
  signed and raw serialisers of \<open>Wire.hpp\<close>, the read-only members of \<open>ChangeLog.hpp\<close> and \<open>Store.cpp\<close>, the
  overloads of \<open>Util.hpp\<close> on strings, and the version of \<open>Version.hpp\<close>.
\<close>

section \<open>Wire.hpp\<close>

type_synonym i32 = "32 word"

definition wr_i32 :: "i32 \<Rightarrow> wr" where
  "wr_i32 v = wr_u32 v"

definition wr_raw :: "bytes \<Rightarrow> wr" where
  "wr_raw s = Inr s"

definition rd_i32 :: "i32 rd" where
  "rd_i32 = rd_u32"

text \<open>\<open>bytes(out, cap, &actual)\<close>: the bytes copied, if it returns true.\<close>

definition rd_bytes :: "nat \<Rightarrow> bytes option rd" where
  "rd_bytes cap = do { len \<leftarrow> rd_u32; State (\<lambda>r.
     if rd_fail r \<or> unat len > cap \<or> unat len > remaining r then (None, set_fail r)
     else (Some (take (unat len) (rest r)), advance (unat len) r)) }"

lemma reads_i32 [reads_intros]: "reads rd_i32 (wr_i32 v) v"
  unfolding rd_i32_def wr_i32_def by (rule reads_u32)

lemma reads_bytes:
  assumes "length bs \<le> cap" "length bs \<le> kMaxCount"
  shows "reads (rd_bytes cap) (wr_all [wr_u32 (of_nat (length bs)), wr_raw bs]) (Some bs)"
  unfolding rd_bytes_def
  by (rule reads_bind [OF reads_u32], rule reads_single [OF reads_cong [rotated]], rule refl)
    (use assms in \<open>simp add: reads_def wr_raw_def unat_count remaining_def rest_def advance_def\<close>)

lemma rd_bytes_bound: "fst (run_state (rd_bytes cap) r) = Some bs \<Longrightarrow> length bs \<le> cap"
  by (auto simp: rd_bytes_def run_bind split: prod.splits if_splits)

section \<open>ChangeLog.hpp\<close>

definition changelog_size :: "HealthChange list \<Rightarrow> nat" where
  "changelog_size log = length log"

definition changelog_empty :: "HealthChange list \<Rightarrow> bool" where
  "changelog_empty log \<longleftrightarrow> log = []"

definition changelog_recent :: "nat \<Rightarrow> HealthChange list \<Rightarrow> HealthChange list" where
  "changelog_recent limit log = (if length log \<le> limit then log else drop (length log - limit) log)"

lemma recent_suffix: "\<exists>older. log = older @ changelog_recent limit log \<and> length (changelog_recent limit log) = min limit (length log)"
  by (rule exI [of _ "take (length log - limit) log"]) (auto simp: changelog_recent_def)

lemma recent_append: "0 < limit \<Longrightarrow> last (changelog_recent limit (changelog_append c log)) = c"
  by (auto simp: changelog_recent_def changelog_append_def)

section \<open>Store.cpp\<close>

definition store_policy :: "HealthStore \<Rightarrow> HealthPolicy" where
  "store_policy s = hs_policy s"

definition store_policyGeneration :: "HealthStore \<Rightarrow> PolicyGeneration" where
  "store_policyGeneration s = hs_policyGeneration s"

definition store_coordinatorEpoch :: "HealthStore \<Rightarrow> u64" where
  "store_coordinatorEpoch s = hs_coordinatorEpoch s"

definition bumpGeneration :: "HealthGeneration \<Rightarrow> exn + HealthGeneration" where
  "bumpGeneration g = gen_next g"

lemma epoch_accessors:
  "store_coordinatorEpoch (setCoordinatorEpoch e s) = e"
  "store_coordinatorEpoch (rollCoordinatorEpoch s) = store_coordinatorEpoch s + 1"
  by (simp_all add: store_coordinatorEpoch_def setCoordinatorEpoch_def rollCoordinatorEpoch_def)

section \<open>Util.hpp\<close>

definition crc32_string :: "string \<Rightarrow> u32" where
  "crc32_string s = crc32 (map byte_of_char s)"

definition to_hex_string :: "string \<Rightarrow> string" where
  "to_hex_string s = to_hex (map byte_of_char s)"

section \<open>Version.hpp\<close>

definition version_major :: int where "version_major = 1"
definition version_minor :: int where "version_minor = 0"
definition version_patch :: int where "version_patch = 0"

text \<open>The string the preprocessor makes of the three macros.\<close>

definition version_text :: string where
  "version_text = ''1'' @ ''.'' @ ''0'' @ ''.'' @ ''0''"

lemma version_agrees:
  "version_text = int_to_string version_major @ ''.'' @ int_to_string version_minor @ ''.'' @ int_to_string version_patch"
  by (simp add: version_text_def version_major_def version_minor_def version_patch_def int_to_string_def nat_to_string.simps
      char_of_def bit_simps)

end
