(* ===== verification/NoReturn.thy ===== *)
theory NoReturn
  imports ServiceLimits Aging
begin

text \<open>
  There is no way back to HEALTHY in the running coordinator.  The transition table lets a DEGRADED,
  UNHEALTHY, FAILED or QUARANTINED device become HEALTHY only by way of a recovery, and no message of
  the protocol begins one; so one late report is enough to degrade a device for good.
\<close>

section \<open>Predicates on a device that reports keep\<close>

lemma run_single: "snd (run_ops [a] c) = snd (a c)"
  by (cases "a c"; cases "fst (a c)") auto

lemma run_plain: "run_ops (dev_do f # as) (d, s) = run_ops as (f d, s)" "run_ops (sto_do g # as) (d, s) = run_ops as (d, g s)"
  by (simp_all add: dev_do_def sto_do_def)

text \<open>
  The contract of a predicate that looks at the state, the recovery, the quarantine and the identity of
  a device only, and that a reassessment keeps.  The coordinator cannot falsify it.
\<close>

locale report_predicate =
  fixes P :: "Device \<Rightarrow> bool"
  assumes reassess: "P d \<Longrightarrow> P (fst (snd (reassessLocked (d, s))))"
    and fields: "P d \<Longrightarrow> dv_state d' = dv_state d \<Longrightarrow> dv_inRecovery d' = dv_inRecovery d \<Longrightarrow>
      dv_quarantine d' = dv_quarantine d \<Longrightarrow> dv_uuid d' = dv_uuid d \<Longrightarrow> P d'"
begin

lemma then_reassess: "P (f d) \<Longrightarrow> P (fst (snd (run_ops [dev_do f, reassessLocked] (d, s))))"
  using reassess [of "f d" s] by (simp only: run_plain run_single)

lemma invalidated: "P d \<Longrightarrow> P (fst (snd (invalidate_device w b (d, s))))"
  using then_reassess fields [of d "d\<lparr>dv_lastObservation := Timestamp 0, dv_deviceGenerationChangedFlag := False\<rparr>"]
  by (auto simp: invalidate_device_def op_when_def simp del: run_ops.simps)

lemma validated: "P d \<Longrightarrow> P (fst (snd (validation_body v (d, s))))"
  using then_reassess [of "validate_device v" d s] fields [of d "validate_device v d"]
  by (simp add: validation_body_def validate_device_def Let_def del: run_ops.simps)

lemma observed_device: "P d \<Longrightarrow> P (observe_device obs env d)"
  by (rule fields [of d]) (simp_all add: observe_device_def Let_def)

lemma observing: "P d \<Longrightarrow> P (fst (snd (observe_body obs env (d, s))))"
  using reassess [OF observed_device [of d obs env]]
  by (simp only: observe_body_def run_plain run_single)

lemma faulted: "P d \<Longrightarrow> P (fst (snd (fault_body f (d, s))))"
proof (cases "history_record f (dv_faults d)")
  case (Inr h)
  assume "P d"
  then have "P (d\<lparr>dv_faults := h\<rparr>)" by (rule fields) simp_all
  moreover have "snd (fault_body f (d, s)) = snd (reassessLocked (d\<lparr>dv_faults := h\<rparr>,
      s\<lparr>hs_faultIndex := idx_insert (f_type f) (f_accelerator f) (hs_faultIndex s), hs_globalFaults := hs_globalFaults s @ [f]\<rparr>))"
    using Inr by (simp add: fault_body_def sto_do_def run_single del: run_ops.simps(1)) (simp split: prod.splits option.splits)
  ultimately show ?thesis using reassess by simp
qed (simp add: fault_body_def)

lemma on_device_keeps:
  assumes "\<And>d. txn_step j (d, s) (snd (body (d, s)))" "\<And>d. P d \<Longrightarrow> P (fst (snd (body (d, s))))"
    and "findLocked k s = Some d" "P d"
  shows "\<exists>d'. findLocked k (snd (on_device j miss body s)) = Some d' \<and> P d'"
proof (cases "findLocked j s")
  case (Some d0)
  have "snd (on_device j miss body s) = put_device j (snd (body (d0, s)))"
    using Some by (cases "body (d0, s)") (simp add: on_device_def)
  then show ?thesis
    using assms Some txn_devices(1) [OF assms(1) [of d0]] by (cases "j = k") auto
qed (use assms(3,4) in \<open>auto simp: on_device_def\<close>)

lemma accepting:
  assumes "findLocked k s = Some d" "P d"
  shows "\<exists>d'. findLocked k (snd (acceptObservation obs env s)) = Some d' \<and> P d'"
proof (cases "admissible obs env s")
  case True
  then obtain d0 where d0: "findLocked (obs_accelerator obs) s = Some d0" by (auto simp: admissible_def)
  let ?c = "snd (reassessLocked (observe_device obs env d0, observed env s))"
  have "snd (acceptObservation obs env s) = put_device (obs_accelerator obs) ?c"
    using accept_admissible [OF True d0] by (simp split: prod.splits option.splits)
  moreover have "hs_devices (snd ?c) = hs_devices s"
    using frame.txn_step_keeps [OF txn_step.reassess [of _ "(observe_device obs env d0, observed env s)"]]
    by (simp add: store_frame_def observed_def)
  ultimately show ?thesis
    using assms d0 reassess [OF observed_device, of d0 obs env "observed env s"]
    by (cases "obs_accelerator obs = k") (auto simp: findLocked_def put_device_def smap_find_put)
next
  case False
  then show ?thesis using accept_inadmissible [OF False] assms by fastforce
qed

end

section \<open>Impaired devices\<close>

definition fallen_states :: "HealthState set" where
  "fallen_states = {HealthState.DEGRADED, HealthState.UNHEALTHY, HealthState.FAILED, HealthState.QUARANTINED, HealthState.LOST}"

text \<open>Impaired and not in recovery; or the empty device that a registration without uuid has put in its place.\<close>

definition stuck :: "Device \<Rightarrow> bool" where
  "stuck d \<longleftrightarrow> (dv_state d \<in> fallen_states \<and> \<not> dv_inRecovery d) \<or> id_get (dv_uuid d) = 0"

lemma fallen_target:
  assumes "dv_state d \<in> fallen_states" "\<not> dv_inRecovery d" "canTransition (dv_state d) (target_of d s)"
  shows "target_of d s \<in> fallen_states"
proof -
  have "target_of d s \<in> insert (dv_state d) (store_targets - recovery_states)" using target_cases(1) [OF assms(2), of s] by auto
  moreover have "\<not> canTransition (dv_state d) HealthState.HEALTHY" using assms(1) by (auto simp: fallen_states_def canTransition_def legalTransitions_def)
  ultimately show ?thesis
    using assms by (auto simp: fallen_states_def store_targets_def recovery_states_def)
qed

lemma stuck_reassess: "stuck d \<Longrightarrow> stuck (fst (snd (reassessLocked (d, s))))"
proof -
  assume "stuck d"
  moreover have "dv_state (fst (snd (reassessLocked (d, s)))) \<in> fallen_states \<and> \<not> dv_inRecovery (fst (snd (reassessLocked (d, s))))"
    if "dv_state d \<in> fallen_states" "\<not> dv_inRecovery d"
    using that fallen_target [OF that, of s]
    by (auto simp: reassess_eq reassess_finish_def Let_def split: sum.splits)
  ultimately show ?thesis by (auto simp: stuck_def reassess_uuid)
qed

interpretation stuck: report_predicate stuck
  by unfold_locales (rule stuck_reassess, assumption, simp add: stuck_def)

text \<open>
  What is left is draining: a device could leave DEGRADED or UNHEALTHY for DRAINING, DRAINED and RECOVERING, as
  \<open>recoverySequenceFromUnhealthy\<close> has it.  But no method of the store ever drains a device, so recovery begins
  from FAILED or QUARANTINED only.
\<close>

lemma reachable_active:
  assumes "reachable ok s" "findLocked k s = Some d" "\<not> gen_max (dv_healthGeneration d)"
  shows "dv_state d \<in> active_states"
  using reachable_inv [OF assms(1)] assms(2,3) by (auto simp: store_inv_def device_ok_def settled_def)

lemma never_drained:
  assumes "reachable ok s" "findLocked k s = Some d" "\<not> gen_max (dv_healthGeneration d)"
  shows "dv_state d \<notin> {HealthState.UNKNOWN, HealthState.DRAINING, HealthState.DRAINED, HealthState.OFFLINE}"
  using reachable_active [OF assms] by (auto simp: active_states_def store_targets_def)

lemma recovery_starts_from:
  assumes "reachable ok s" "findLocked k s = Some d" "\<not> gen_max (dv_healthGeneration d)" "\<not> dv_inRecovery d"
    and "dv_state d \<notin> {HealthState.FAILED, HealthState.QUARANTINED}"
  shows "fst (beginRecovery k s) = Some (InvalidTransition (dv_state d) HealthState.RECOVERING)"
proof -
  have "\<not> canTransition (dv_state d) HealthState.RECOVERING"
    using never_drained [OF assms(1-3)] assms(5) by (auto simp: canTransition_def legalTransitions_def)
  then show ?thesis using assms(2,4) by (simp add: beginRecovery_def on_device_def recovery_body_def)
qed

section \<open>The running coordinator\<close>

text \<open>The device with a uuid is filed under the same number.\<close>

definition indexed :: "AcceleratorId \<Rightarrow> HealthStore \<Rightarrow> bool" where
  "indexed k s \<longleftrightarrow> smap_find (StrongId (id_get k)) (hs_uuidIndex s) = Some k"

definition keeps_stuck :: "HealthStore \<Rightarrow> HealthStore \<Rightarrow> bool" where
  "keeps_stuck s s' \<longleftrightarrow> (\<forall>k. indexed k s \<longrightarrow> indexed k s' \<and>
     (\<forall>d. findLocked k s = Some d \<and> stuck d \<longrightarrow> (\<exists>d'. findLocked k s' = Some d' \<and> stuck d')))"

lemma keeps_stuck_same: "hs_devices s' = hs_devices s \<Longrightarrow> hs_uuidIndex s' = hs_uuidIndex s \<Longrightarrow> keeps_stuck s s'"
  by (simp add: keeps_stuck_def indexed_def findLocked_def)

lemma on_device_index:
  assumes "\<And>d. txn_step j (d, s) (snd (body (d, s)))"
  shows "hs_uuidIndex (snd (on_device j miss body s)) = hs_uuidIndex s"
proof (cases "findLocked j s")
  case (Some d)
  then show ?thesis
    using frame.txn_step_keeps [OF assms [of d]] by (cases "body (d, s)") (simp add: on_device_def store_frame_def put_device_def)
qed (simp add: on_device_def)

lemma for_devices_index:
  assumes "\<And>k c. txn_step k c (snd (body c))"
  shows "hs_uuidIndex (snd (for_devices ks body s)) = hs_uuidIndex s"
proof (induction ks arbitrary: s)
  case (Cons k ks)
  obtain r s1 where od: "on_device k None body s = (r, s1)" by (cases "on_device k None body s")
  have "hs_uuidIndex (snd (on_device k None body s)) = hs_uuidIndex s" by (rule on_device_index) (rule assms)
  then show ?case using od Cons.IH [of s1] by (cases r) simp_all
qed simp

lemma register_keeps_stuck: "keeps_stuck s (snd (registerDevice uuid node s))"
proof (cases "smap_find uuid (hs_uuidIndex s)")
  case None
  define i where "i = (if id_get uuid \<noteq> 0 then StrongId (id_get uuid) else StrongId (hs_nextDeviceRaw s) :: AcceleratorId)"
  have "\<exists>d. hs_devices (snd (registerDevice uuid node s)) = smap_put i d (hs_devices s) \<and>
      hs_uuidIndex (snd (registerDevice uuid node s)) = smap_put uuid i (hs_uuidIndex s) \<and> dv_uuid d = uuid"
    by (cases "id_get uuid = 0"; intro exI [of _ "new_device i uuid node (reading s)"])
      (simp_all add: None registerDevice_def i_def updateIndexesLocked_def clock_now_eq new_device_def reading_def tick_def Let_def)
  then obtain d where d: "hs_devices (snd (registerDevice uuid node s)) = smap_put i d (hs_devices s)"
      "hs_uuidIndex (snd (registerDevice uuid node s)) = smap_put uuid i (hs_uuidIndex s)" "dv_uuid d = uuid" by blast
  show ?thesis
    unfolding keeps_stuck_def
  proof (intro allI impI)
    fix k assume k: "indexed k s"
    then have other: "uuid \<noteq> StrongId (id_get k)" using None by (auto simp: indexed_def)
    have husk: "id_get uuid = 0" if "i = k"
    proof (rule ccontr)
      assume "id_get uuid \<noteq> 0"
      then have "k = StrongId (id_get uuid)" using that by (simp add: i_def)
      then show False using other by (cases uuid) simp
    qed
    show "indexed k (snd (registerDevice uuid node s)) \<and> (\<forall>e. findLocked k s = Some e \<and> stuck e \<longrightarrow>
        (\<exists>d'. findLocked k (snd (registerDevice uuid node s)) = Some d' \<and> stuck d'))"
      using k other husk d by (auto simp: indexed_def findLocked_def smap_find_put stuck_def)
  qed
qed (simp add: registerDevice_def keeps_stuck_same)

lemma on_device_keeps_stuck:
  assumes "\<And>d. txn_step j (d, s) (snd (body (d, s)))" "\<And>d. stuck d \<Longrightarrow> stuck (fst (snd (body (d, s))))"
  shows "keeps_stuck s (snd (on_device j miss body s))"
  using on_device_index [OF assms(1)] stuck.on_device_keeps [OF assms] by (simp add: keeps_stuck_def indexed_def)

lemma for_devices_keeps_stuck:
  assumes "\<And>k c. txn_step k c (snd (body c))" "\<And>d t. stuck d \<Longrightarrow> stuck (fst (snd (body (d, t))))"
  shows "keeps_stuck s (snd (for_devices ks body s))"
  using for_devices_index [OF assms(1)] for_devices_pred [where P = stuck, OF assms] by (simp add: keeps_stuck_def indexed_def)

lemma accept_keeps_stuck: "keeps_stuck s (snd (acceptObservation obs env s))"
proof -
  have "hs_uuidIndex (snd (acceptObservation obs env s)) = hs_uuidIndex s"
  proof (cases "admissible obs env s")
    case True
    then obtain d where d: "findLocked (obs_accelerator obs) s = Some d" by (auto simp: admissible_def)
    let ?c = "snd (reassessLocked (observe_device obs env d, observed env s))"
    have "hs_uuidIndex (snd ?c) = hs_uuidIndex s"
      using frame.txn_step_keeps [OF txn_step.reassess [of _ "(observe_device obs env d, observed env s)"]]
      by (simp add: store_frame_def observed_def)
    moreover have "snd (acceptObservation obs env s) = put_device (obs_accelerator obs) ?c"
      using accept_admissible [OF True d] by (simp split: prod.splits option.splits)
    ultimately show ?thesis by (simp add: put_device_def)
  next
    case False
    then show ?thesis using accept_inadmissible [OF False] by fastforce
  qed
  then show ?thesis using stuck.accepting by (simp add: keeps_stuck_def indexed_def)
qed

lemma invalidate_keeps_stuck: "keeps_stuck s (snd (invalidateWorker w b s))"
proof -
  obtain r t where fd: "for_devices (smap_keys (hs_devices s)) (invalidate_device w b) s = (r, t)"
    by (cases "for_devices (smap_keys (hs_devices s)) (invalidate_device w b) s")
  have "keeps_stuck s (snd (for_devices (smap_keys (hs_devices s)) (invalidate_device w b) s))"
    by (rule for_devices_keeps_stuck) (rule txn_step.invalidate, rule stuck.invalidated)
  then have "keeps_stuck s t" using fd by simp
  moreover have "keeps_stuck s (t\<lparr>hs_workerBootRegistry := x\<rparr>)" if "keeps_stuck s t" for x
    using that by (simp add: keeps_stuck_def indexed_def findLocked_def)
  ultimately show ?thesis
    using keeps_stuck_same [of s s] by (cases r) (auto simp: invalidateWorker_def fd)
qed

interpretation unreturned: service_relation keeps_stuck
proof
  show "keeps_stuck s s'' " if "keeps_stuck s s'" "keeps_stuck s' s''" for s s' s''
    using that unfolding keeps_stuck_def by meson
  show "keeps_stuck s (snd (recordFault f s))" for f s
    unfolding recordFault_def
    by (rule on_device_keeps_stuck [OF txn_step.fault [OF refl]]) (rule stuck.faulted)
  show "keeps_stuck s (snd (recordValidation v s))" for v s
    unfolding recordValidation_def by (rule on_device_keeps_stuck [OF txn_step.validation]) (rule stuck.validated)
  show "keeps_stuck s (snd (reassessAll s))" for s
    unfolding reassessAll_def by (rule for_devices_keeps_stuck [OF txn_step.reassess]) (rule stuck_reassess)
qed (auto simp: register_keeps_stuck accept_keeps_stuck invalidate_keeps_stuck registerWorker_def clock_now_eq
    intro: keeps_stuck_same)


text \<open>An hour without reports, one reassessment: the healthy device of the demonstration is DEGRADED.\<close>

definition late :: HealthStore where
  "late = demo2\<lparr>hs_clock := FakeClock (3600 * kSec)\<rparr>"

definition demo6 :: HealthStore where
  "demo6 = snd (reassess (StrongId 7) late)"

lemma demo2_policy: "hs_policy demo2 = demo_policy"
  using frame.txn_step_keeps [OF txn_step.reassess]
  by (simp add: demo2_eq store_frame_def observed_def put_device_def demo1_store)

lemma demo6_device: "\<exists>d. findLocked (StrongId 7) demo6 = Some d \<and> dv_state d = HealthState.DEGRADED \<and> \<not> dv_inRecovery d"
proof -
  obtain d where d: "findLocked (StrongId 7) demo2 = Some d" using demo2_device by blast
  have sig: "dv_faults d = []" "dv_dimensions d = []" "dv_lastObservation d = Timestamp 100" "\<not> dv_inRecovery d" "\<not> quarantine_active d"
    using demo2_signals [OF d] by (simp_all add: signals_def)
  have st: "dv_state d = HealthState.HEALTHY" "dv_healthGeneration d = Generation 2" using demo_observed [OF d] by simp_all
  have now: "reading late = Timestamp (3600 * kSec)" "hs_policy late = demo_policy"
    by (simp_all add: late_def reading_def FakeClock_def demo2_policy)
  have t: "target_of d late = HealthState.DEGRADED"
    using sig st
    by (simp add: target_of_def now assess_target_def device_input_def consecutive_failures_def
        assess_freshness_def evidence_freshness_def freshness_evaluate_def demo_policy_def default_HealthPolicy_def
        default_FreshnessThresholds_def kSec_def ts_less_def smap_values_def Let_def)
  let ?d = "fst (snd (reassessLocked (d, late)))"
  have "canTransition HealthState.HEALTHY HealthState.DEGRADED" by (simp add: canTransition_def legalTransitions_def)
  then have "dv_state ?d = HealthState.DEGRADED" "\<not> dv_inRecovery ?d"
    using t st sig by (simp_all add: reassess_eq gen_next_def reassess_finish_def Let_def)
  moreover have "findLocked (StrongId 7) demo6 = Some ?d"
    using d by (auto simp: demo6_def late_def reassess_def on_device_def findLocked_def put_device_def smap_find_put split: prod.splits)
  ultimately show ?thesis by blast
qed

lemma demo6_indexed: "indexed (StrongId 7) demo6"
proof -
  have "hs_uuidIndex demo1 = [(StrongId 7, StrongId 7)]"
    by (simp add: demo1_def demo0_def registerWorker_def HealthStore_new_def registerDevice_def clock_now_eq tick_def
        updateIndexesLocked_def smap_find_def Let_def)
  then have "hs_uuidIndex demo2 = [(StrongId 7, StrongId 7)]"
    using frame.txn_step_keeps [OF txn_step.reassess] by (simp add: demo2_eq store_frame_def observed_def put_device_def)
  moreover have "hs_uuidIndex (snd (reassess (StrongId 7) late)) = hs_uuidIndex late"
    unfolding reassess_def by (rule on_device_index) (rule txn_step.reassess)
  ultimately show ?thesis by (simp add: indexed_def demo6_def late_def smap_find_def)
qed


end
