(* ===== verification/Spec2Isabelle.thy ===== *)
theory Spec2Isabelle
  imports Unloadable Processes ServiceLimits ClientText Json Aging Accessors NoReturn
begin

text \<open>
  Verification of the accelerator health service: a coordinator that keeps the health, readiness,
  quarantine and recovery state of accelerators, the workers that report to it, and a command-line
  client.  This theory imports the whole development; every other theory opens with its own summary.

  \<^bold>\<open>How the program hangs together.\<close>  A worker (\<open>apps/ah-worker.cpp\<close>) validates a device through a backend
  (\<open>FakeBackend.cpp\<close>, \<open>cuda/CudaBackend.cpp\<close>) and sends reports as framed messages (\<open>Messages.hpp\<close>,
  \<open>Protocol.cpp\<close>, \<open>Net.cpp\<close>) to the coordinator (\<open>apps/ah-coordinator.cpp\<close>), which runs one thread per connection
  on one shared \<open>HealthStore\<close> (\<open>Store.cpp\<close>).  The store fences reports by epoch, worker boot and generation,
  records faults and validations (\<open>History.cpp\<close>, \<open>ChangeLog.hpp\<close>), derives a \<open>HealthAssessment\<close>
  (\<open>Assessment.cpp\<close>) and a readiness (\<open>Readiness.cpp\<close>), moves the device along the table of legal transitions
  (\<open>StateMachine.cpp\<close>) and keeps indexes.  Snapshots (\<open>Persistence.cpp\<close>) carry the store across restarts.

  \<^bold>\<open>Data.\<close>  \<open>Prelude\<close>: machine integers as words of their C++ width, \<open>std::map\<close>/\<open>std::set\<close> as sorted lists
  (locale \<open>ordered_map\<close>).  \<open>Util\<close>: \<open>Util.hpp\<close>.  \<open>Enums\<close>, \<open>EnumsWire\<close>: every \<open>enum class\<close> with its name table (locale
  \<open>wire_enum\<close>).  \<open>Wire\<close>: \<open>Wire.hpp\<close>; writers are byte lists or an exception, readers are computations of the
  state monad; a type with \<open>write\<close> and \<open>read\<close> is an interpretation of the locale \<open>codec\<close>.  \<open>Identity\<close>:
  \<open>StrongIdentity.hpp\<close>, \<open>Time.hpp\<close>, \<open>Freshness.hpp\<close>, \<open>Clock.cpp\<close>.  \<open>Records\<close>: the records of \<open>Dimension.hpp\<close>,
  \<open>Evidence.hpp\<close>, \<open>Fault.hpp\<close>, \<open>ChangeLog.hpp\<close>, \<open>Policy.hpp\<close> and \<open>Store.hpp\<close>.  \<open>Float32\<close>, \<open>FloatOps\<close>: binary32
  arithmetic on bit patterns, rounded to nearest even.  \<open>Numbers\<close>: how the C++ library reads and prints
  numbers.  \<open>Accessors\<close>: the members of these files that the rest of the program does not call, and \<open>Version.hpp\<close>.

  \<^bold>\<open>Decision.\<close>  \<open>StateMachine\<close>, \<open>Readiness\<close>, \<open>Assessment\<close>, \<open>Explain\<close>: the files of the same names, \<open>Explain\<close> being
  \<open>AssessmentEngine::explain\<close>; \<open>Json\<close> compares its output with the grammar of RFC 8259.  Their theorems: no accepted sequence of transitions returns an impaired
  device to HEALTHY behind the back of a revalidation; execution readiness is characterised exactly; a
  fatal condition is never overruled; the confidence stays in \<open>[0, 1]\<close>.

  \<^bold>\<open>Store.\<close>  \<open>Store\<close> has one definition per method of \<open>HealthStore\<close>; a method that may throw keeps the
  mutations made before.  A method holds the mutex, so it is one step; \<open>setPolicy\<close>, which takes it twice,
  is two.  \<open>Transactions\<close> lifts a preorder on device and store through the statements of every method
  body (locales \<open>ctx_relation\<close>, \<open>txn_relation\<close>); \<open>DeviceLife\<close> and \<open>Settled\<close> interpret it for the life of a device, its
  audit trail, the indexes, and what holds between calls; \<open>StoreRuns\<close> defines \<open>store_step\<close> and \<open>store_run\<close>
  over all methods and proves the invariants.  \<open>StoreProperties\<close>, \<open>StoreBehaviour\<close> and \<open>StoreRecovery\<close> draw the
  properties: readiness implies fitness, the change log replays to the state, replays and stale reports
  are rejected, queries agree with the devices, histories only grow, quarantine, recovery (it completes
  after the required validations), loss, policy changes, accounting.  \<open>Quarantines\<close>: only \<open>beginQuarantine\<close>
  quarantines; its proof uses the locale \<open>quiet_relation\<close>, the part of \<open>txn_relation\<close> without that call.  \<open>Aging\<close>: the store does not look at its clock between
  reassessments, so readiness does not age.

  \<^bold>\<open>Snapshots.\<close>  \<open>Framing\<close>: bytes sealed by a CRC-32 (locale \<open>sealed_format\<close>, interpreted for snapshots and for
  frames).  \<open>Persistence\<close> is \<open>Persistence.cpp\<close>, every error exit included; files are a map from paths to
  contents, what the operating system refuses is the record \<open>io_faults\<close>.  \<open>Restore\<close>, \<open>SnapshotSize\<close>, \<open>Restart\<close>,
  \<open>Lifetime\<close>, \<open>Unloadable\<close>: round trip, refusal of damaged files, consistency of whatever is accepted, what a
  restart trusts, atomic saving, the invariant across any sequence of restarts, and the snapshots that
  are written but cannot be loaded.

  \<^bold>\<open>Protocol and processes.\<close>  \<open>Protocol\<close>, \<open>Net\<close>, \<open>Messages\<close>: frames, the \<open>recv\<close> and \<open>send\<close> loops on sockets given by
  what their calls return, message bodies; frames arrive complete and in order whatever the chunks.
  \<open>Coordinator\<close>: \<open>start_store\<close>, the handlers, \<open>session\<close> (one connection, sequentially) and \<open>coord_step\<close> (all threads
  interleaved, cut at each call on the store).  \<open>CoordinatorRuns\<close> is the simulation: the locale \<open>service_relation\<close> lists the calls
  the coordinator makes and lifts every preorder they keep to runs; hence the shared store takes only steps
  of \<open>lifetime\<close>, and \<open>session\<close> is one schedule.  \<open>Dialogue\<close> (what the bytes of reports do),
  \<open>Service\<close> (the properties of the running coordinator), \<open>ServiceLimits\<close> (sessions end, no quarantine over
  the wire, reports in the name of another worker or from the future), \<open>NoReturn\<close> (no message brings an impaired device
  back to HEALTHY; locale \<open>report_predicate\<close>), \<open>Worker\<close> and \<open>Dialogues\<close> (worker and coordinator together).
  \<open>Arguments\<close> reads the command lines of both programs, \<open>Sockets\<close> has \<open>TcpClient\<close> and \<open>TcpServer\<close> on the table of open
  descriptors (locale \<open>descriptor_owner\<close>, interpreted for both classes), and \<open>Processes\<close> puts the programs together from
  the command line to the accept loop and to the connected socket.  \<open>Backends\<close>: both backends, and what a validation verdict means.  \<open>Client\<close>: every command of
  \<open>apps/ahc.cpp\<close>; only \<open>save\<close> has an effect that survives the process.  \<open>ClientText\<close>: the text of the lines it prints.

  \<^bold>\<open>Loops and bounds.\<close>  There is no fuel.  Loops are structural recursion or \<open>function\<close>s with a measure: \<open>recv_exact\<close> by
  the bytes still wanted, \<open>session\<close> by the bytes the socket will deliver (a frame consumes at least its
  header), \<open>send_all\<close> by the results still to come.  Counts, string lengths and frame sizes carry the limits of the
  source (\<open>kMaxCount\<close>, \<open>kMaxString\<close>, \<open>kMaxFramePayload\<close>); generations are 64 bits and refuse to wrap, and
  theorems that need a free generation say so.

  \<^bold>\<open>Parameters.\<close>  The clock (any sequence of readings), the answers of \<open>socket\<close>, \<open>connect\<close>, \<open>bind\<close>, \<open>listen\<close>,
  \<open>accept\<close>, \<open>recv\<close> and \<open>send\<close>, the contents and refusals of the file system, the CUDA runtime with the kernel (a record
  of what its calls return).  No hypothesis about them is assumed beyond what a theorem states.

  \<^bold>\<open>Not modelled.\<close>  The log lines of the sessions, the line of \<open>benchmark\<close> (a quotient of measured doubles), addresses
  and ports (whom a socket is connected to is the answer of the operating system), the Windows branches,
  sleeping, signals (\<open>send\<close> on a broken connection returns an error here), the stop flag of the coordinator,
  which nothing sets, and two data races: \<open>encodeState\<close> reads the store without the mutex, and
  \<open>policy()\<close> hands out a reference that outlives its lock; the model takes both reads as atomic.  Undefined
  behaviour (signed overflow of timestamps, \<open>atoi\<close> out of range) is given the wrapped or mathematical value.
  Declarations without code, \<open>#include\<close>s, and comments make up most lines that no
  definition models.
\<close>

end
